(* ===== verification/Prelude.thy ===== *)
theory Prelude
  imports Complex_Main "HOL-Library.Multiset"
begin

text \<open>
  Shared vocabulary of the Floating Sandbox development: the types that name the
  simulation's quantities, the two-dimensional vector operations of
  \<^verbatim>\<open>GameCore/Vectors.h\<close> on pairs of reals, the collections of facts the
  component theories share, and generic lemmas on lists that the structure-of-arrays
  buffers of the particle store need.  Single-precision floats are modelled as
  \<^typ>\<open>real\<close>: rounding is not modelled, every other step of the arithmetic is.
\<close>

section \<open>Names of the model's types\<close>

type_synonym element_index = nat
type_synonym plane_id = nat
type_synonym vec2 = "real \<times> real"
type_synonym vec4 = "real \<times> real \<times> real \<times> real"

text \<open>\<^verbatim>\<open>ElementIndex\<close> and \<^verbatim>\<open>PlaneId\<close> are 32-bit unsigned integers whose
  largest value is the "none" sentinel.\<close>

definition none_element_index :: nat where
  "none_element_index = 2 ^ 32 - 1"

definition none_plane_id :: nat where
  "none_plane_id = 2 ^ 32 - 1"

section \<open>Vectors\<close>

definition vzero :: vec2 where
  "vzero = (0, 0)"

definition vadd :: "vec2 \<Rightarrow> vec2 \<Rightarrow> vec2" where
  "vadd a b = (fst a + fst b, snd a + snd b)"

definition vsub :: "vec2 \<Rightarrow> vec2 \<Rightarrow> vec2" where
  "vsub a b = (fst a - fst b, snd a - snd b)"

definition vscale :: "real \<Rightarrow> vec2 \<Rightarrow> vec2" where
  "vscale k a = (k * fst a, k * snd a)"

definition vdot :: "vec2 \<Rightarrow> vec2 \<Rightarrow> real" where
  "vdot a b = fst a * fst b + snd a * snd b"

definition vlength :: "vec2 \<Rightarrow> real" where
  "vlength a = sqrt (vdot a a)"

definition vnormalise :: "vec2 \<Rightarrow> vec2" where
  "vnormalise a = (let l = vlength a in if l = 0 then vzero else vscale (1 / l) a)"

section \<open>Collections\<close>

named_theorems buffer_simps \<open>lengths and reads of updated structure-of-arrays buffers\<close>
named_theorems state_machine_simps \<open>unfolding rules of the per-point state machines\<close>

section \<open>Machine conversions\<close>

text \<open>\<^verbatim>\<open>FastTruncateInt32\<close>/\<^verbatim>\<open>FastTruncateInt64\<close> (\<^verbatim>\<open>GameMath.h\<close>): truncation
  toward zero, as also \<^verbatim>\<open>static_cast<int>\<close> of a floating-point value.\<close>

definition truncate_int :: "real \<Rightarrow> int" where
  "truncate_int x = (if 0 \<le> x then \<lfloor>x\<rfloor> else - \<lfloor>- x\<rfloor>)"

text \<open>\<^verbatim>\<open>static_cast<size_t>\<close> of a signed integer: modulo \<open>2 ^ 64\<close>.\<close>

definition size_t_of_int :: "int \<Rightarrow> nat" where
  "size_t_of_int n = nat (n mod 2 ^ 64)"

section \<open>Generic list lemmas\<close>

text \<open>\<^verbatim>\<open>std::vector::erase\<close> at position \<open>j\<close>, as the list without its \<open>j\<close>-th element.\<close>

definition erase_at :: "nat \<Rightarrow> 'a list \<Rightarrow> 'a list" where
  "erase_at j xs = take j xs @ drop (Suc j) xs"

lemma length_erase_at [buffer_simps, simp]:
  "j < length xs \<Longrightarrow> length (erase_at j xs) = length xs - 1"
  by (simp add: erase_at_def)

lemma mset_erase_at:
  "j < length xs \<Longrightarrow> mset (erase_at j xs) = mset xs - {# xs ! j #}"
proof -
  assume j: "j < length xs"
  have e: "mset xs = mset (take j xs) + {# xs ! j #} + mset (drop (Suc j) xs)"
    using j by (subst id_take_nth_drop [OF j]) simp
  show ?thesis by (simp add: e erase_at_def)
qed

lemma distinct_erase_at:
  "distinct xs \<Longrightarrow> distinct (erase_at j xs)"
  by (simp add: erase_at_def set_take_disj_set_drop_if_distinct)

lemma set_erase_at_distinct:
  assumes d: "distinct xs" and j: "j < length xs"
  shows "set (erase_at j xs) = set xs - {xs ! j}"
proof -
  have e: "xs = take j xs @ xs ! j # drop (Suc j) xs"
    using j by (simp add: id_take_nth_drop)
  have "distinct (take j xs @ xs ! j # drop (Suc j) xs)"
    using d e by simp
  then show ?thesis
    by (subst (2) e) (auto simp: erase_at_def)
qed

text \<open>A loop that writes \<open>xs[i]\<close> for each \<open>i\<close> of a list of indices, each write
  computed from the array as it stands.\<close>

lemma length_fold_update [buffer_simps, simp]:
  "length (fold (\<lambda>i xs. xs[i := f i xs]) ks xs) = length xs"
  by (induction ks arbitrary: xs) simp_all

lemma nth_fold_update_notin [buffer_simps]:
  "j \<notin> set ks \<Longrightarrow> fold (\<lambda>i xs. xs[i := f i xs]) ks xs ! j = xs ! j"
  by (induction ks arbitrary: xs) simp_all

lemma nth_fold_update_distinct:
  assumes "distinct ks" "j \<in> set ks" "\<forall>k\<in>set ks. k < length xs"
    and "\<And>i ys. i \<in> set ks \<Longrightarrow> f i ys = g i (ys ! i)"
  shows "fold (\<lambda>i xs. xs[i := f i xs]) ks xs ! j = g j (xs ! j)"
  using assms
proof (induction ks arbitrary: xs)
  case Nil
  then show ?case by simp
next
  case (Cons i ks)
  show ?case
  proof (cases "j = i")
    case True
    then have "j \<notin> set ks" using Cons.prems(1) by simp
    then show ?thesis
      using True Cons.prems(3,4) by (simp add: nth_fold_update_notin)
  next
    case False
    then have "fold (\<lambda>i xs. xs[i := f i xs]) ks (xs[i := f i xs]) ! j = g j (xs[i := f i xs] ! j)"
      using Cons.prems by (intro Cons.IH) auto
    then show ?thesis using False by simp
  qed
qed

lemma list_update_same_length [buffer_simps]:
  "length (xs[i := v]) = length xs"
  by simp

lemma nth_list_update_other [buffer_simps]:
  "j \<noteq> i \<Longrightarrow> xs[i := v] ! j = xs ! j"
  by simp

text \<open>A loop that writes the same value at each index \<open>f k\<close>.\<close>

lemma nth_fold_update_const:
  "i < length xs \<Longrightarrow> fold (\<lambda>k d. d[f k := v]) ks xs ! i = (if i \<in> f ` set ks then v else xs ! i)"
  by (induction ks arbitrary: xs) (auto simp: nth_list_update)

lemma length_fold_update_const [buffer_simps, simp]:
  "length (fold (\<lambda>k d. d[f k := v]) ks xs) = length xs"
  by (induction ks arbitrary: xs) simp_all

text \<open>A 32-bit \<^verbatim>\<open>int\<close> compared with a size after its conversion to \<^verbatim>\<open>size_t\<close>:
  a negative value wraps to a huge one.\<close>

lemma size_t_of_int_less_iff:
  assumes "- (2 ^ 31) \<le> i" and "i < 2 ^ 31" and "n < 2 ^ 63"
  shows "size_t_of_int i < n \<longleftrightarrow> 0 \<le> i \<and> nat i < n"
proof (cases "0 \<le> i")
  case True
  then have "i mod 2 ^ 64 = i" using assms(2) by (simp add: mod_pos_pos_trivial)
  then show ?thesis using True by (simp add: size_t_of_int_def)
next
  case False
  have "i mod 2 ^ 64 = (i + 2 ^ 64) mod 2 ^ 64" by simp
  also have "\<dots> = i + 2 ^ 64" using assms(1) False by (intro mod_pos_pos_trivial) simp_all
  finally have "size_t_of_int i = nat (i + 2 ^ 64)" by (simp add: size_t_of_int_def)
  moreover have "nat (i + 2 ^ 64) \<ge> 2 ^ 63" using assms(1) by (simp add: le_nat_iff)
  ultimately show ?thesis using False assms(3) by simp
qed

end
