(* ===== verification/PointStore.thy ===== *)
theory PointStore
  imports Prelude
begin

text \<open>
  The particle store of \<^verbatim>\<open>src/Game/Points.cpp\<close> (class \<^verbatim>\<open>Physics::Points\<close>):
  the structure-of-arrays record \<open>points\<close> with one list per buffer, the material and
  game-parameter records it reads, the combustion and ephemeral per-point data, and the
  store's own operations: \<^verbatim>\<open>Add\<close>, \<^verbatim>\<open>Detach\<close>, \<^verbatim>\<open>OnOrphaned\<close>,
  \<^verbatim>\<open>UpdateForGameParameters\<close>, \<^verbatim>\<open>AugmentMaterialMass\<close> and \<^verbatim>\<open>UpdateMasses\<close>.
  Random draws of \<^verbatim>\<open>GameRandomEngine\<close> are explicit arguments; callbacks that other
  classes install (the detach handler, \<^verbatim>\<open>Springs::UpdateForMass\<close>) are arguments over
  a type variable.
\<close>

section \<open>Materials and game parameters\<close>

text \<open>\<^verbatim>\<open>StructuralMaterial\<close> (declared outside \<^verbatim>\<open>src/\<close>): the attributes the
  particle store copies into its buffers.\<close>

record structural_material =
  sm_mass :: real
  sm_is_hull :: bool
  sm_water_volume_fill :: real
  sm_water_intake :: real
  sm_water_retention :: real
  sm_water_diffusion_speed :: real
  sm_heat_capacity :: real
  sm_ignition_temperature :: real
  sm_wind_receptivity :: real
  sm_rust_receptivity :: real
  sm_render_color :: vec4

type_synonym electrical_material = nat

text \<open>\<^verbatim>\<open>GameParameters\<close>: the user-tunable values and the static constants the
  particle store reads.  The constants are fields, so that every theorem holds for any
  of their values.\<close>

record game_parameters =
  gp_num_mechanical_dynamics_iterations :: real
  gp_cumulated_intaken_water_threshold_for_air_bubbles :: real
  gp_combustion_speed_adjustment :: real
  gp_ignition_temperature_adjustment :: real
  gp_combustion_heat_adjustment :: real
  gp_max_burning_particles :: nat
  gp_water_density_adjustment :: real
  gp_initial_temperature :: real
  gp_ignition_temperature_high_watermark :: real
  gp_ignition_temperature_low_watermark :: real
  gp_smothering_water_low_watermark :: real
  gp_smothering_water_high_watermark :: real
  gp_smothering_decay_low_watermark :: real
  gp_smothering_decay_high_watermark :: real
  gp_water_mass :: real
  gp_gravity_normalized :: vec2
  gp_integration_time_coefficient :: "real \<Rightarrow> real"

section \<open>Per-point combustion and ephemeral data\<close>

datatype combustion_state_type =
    NotBurning
  | Developing_1
  | Developing_2
  | Burning
  | Extinguishing_Consumed
  | Extinguishing_Smothered

record combustion_state =
  cs_state :: combustion_state_type
  cs_flame_development :: real
  cs_max_flame_development :: real
  cs_personality :: real

definition default_combustion_state :: combustion_state where
  "default_combustion_state =
     \<lparr>cs_state = NotBurning, cs_flame_development = 0,
      cs_max_flame_development = 0, cs_personality = 0\<rparr>"

datatype ephemeral_type = EphemeralNone | AirBubble | Debris | Sparkle

text \<open>\<^verbatim>\<open>EphemeralState\<close>: the union of the per-kind states.  The air bubble keeps
  its frame, initial size, vortex amplitude, normalized vortex angular velocity,
  current depth, progress and last vortex value; the sparkle its frame and progress.\<close>

datatype ephemeral_state =
    DebrisState
  | AirBubbleState nat real real real real real real
  | SparkleState nat real

definition air_bubble_state :: "nat \<Rightarrow> real \<Rightarrow> real \<Rightarrow> real \<Rightarrow> ephemeral_state" where
  "air_bubble_state frame initial_size vortex_amplitude vortex_period =
     AirBubbleState frame initial_size vortex_amplitude (1 / vortex_period) 0 0 0"

definition sparkle_state :: "nat \<Rightarrow> ephemeral_state" where
  "sparkle_state frame = SparkleState frame 0"

datatype connected_spring = ConnectedSpring (spring_index: nat) (other_endpoint_index: nat)

text \<open>Events the store sends to \<^verbatim>\<open>IGameEventHandler\<close>; the model appends them to
  the store's \<open>events\<close> list in the order the code calls the handler.\<close>

datatype game_event =
    PointCombustionBegin
  | PointCombustionEnd
  | DestroyEvent structural_material bool nat

section \<open>The structure-of-arrays store\<close>

record points =
  ship_point_count :: nat
  all_point_count :: nat
  materials_buf :: "(structural_material \<times> electrical_material option) list"
  is_rope_buf :: "bool list"
  position_buf :: "vec2 list"
  velocity_buf :: "vec2 list"
  force_buf :: "vec2 list"
  augmented_material_mass_buf :: "real list"
  mass_buf :: "real list"
  decay_buf :: "real list"
  integration_factor_time_coefficient_buf :: "real list"
  integration_factor_buf :: "vec2 list"
  force_render_buf :: "vec2 list"
  material_is_hull_buf :: "bool list"
  material_water_volume_fill_buf :: "real list"
  material_water_intake_buf :: "real list"
  material_water_restitution_buf :: "real list"
  material_water_diffusion_speed_buf :: "real list"
  water_buf :: "real list"
  water_velocity_buf :: "vec2 list"
  water_momentum_buf :: "vec2 list"
  cumulated_intaken_water_buf :: "real list"
  is_leaking_buf :: "bool list"
  factory_is_leaking_buf :: "bool list"
  temperature_buf :: "real list"
  material_heat_capacity_buf :: "real list"
  material_ignition_temperature_buf :: "real list"
  combustion_state_buf :: "combustion_state list"
  electrical_element_buf :: "nat option list"
  light_buf :: "real list"
  material_wind_receptivity_buf :: "real list"
  material_rust_receptivity_buf :: "real list"
  ephemeral_type_buf :: "ephemeral_type list"
  ephemeral_start_time_buf :: "real list"
  ephemeral_max_lifetime_buf :: "real list"
  ephemeral_state_buf :: "ephemeral_state list"
  connected_springs_buf :: "connected_spring list list"
  factory_connected_springs_buf :: "connected_spring list list"
  connected_triangles_buf :: "nat list list"
  factory_connected_triangles_buf :: "nat list list"
  connected_component_id_buf :: "nat option list"
  plane_id_buf :: "plane_id list"
  plane_id_float_buf :: "real list"
  is_pinned_buf :: "bool list"
  color_buf :: "vec4 list"
  texture_coordinates_buf :: "vec2 list"
  free_ephemeral_particle_search_start_index :: nat
  burning_points :: "element_index list"
  current_num_mechanical_dynamics_iterations :: real
  current_cumulated_intaken_water_threshold_for_air_bubbles :: real
  are_ephemeral_points_dirty :: bool
  is_plane_id_buffer_ephemeral_dirty :: bool
  events :: "game_event list"

abbreviation structural_material_of :: "points \<Rightarrow> nat \<Rightarrow> structural_material" where
  "structural_material_of p i \<equiv> fst (materials_buf p ! i)"

section \<open>Well-formedness: the buffers are parallel\<close>

text \<open>Every buffer holds one entry per populated point; the populated size is at most the
  store's capacity \<open>all_point_count\<close> (ship points are appended by \<^verbatim>\<open>Add\<close> during
  construction, the ephemeral region follows them).\<close>

definition populated_size :: "points \<Rightarrow> nat" where
  "populated_size p = length (materials_buf p)"

definition buffer_lengths :: "points \<Rightarrow> nat list" where
  "buffer_lengths p =
     [length (is_rope_buf p), length (position_buf p), length (velocity_buf p),
      length (force_buf p), length (augmented_material_mass_buf p), length (mass_buf p),
      length (decay_buf p), length (integration_factor_time_coefficient_buf p),
      length (integration_factor_buf p), length (force_render_buf p),
      length (material_is_hull_buf p), length (material_water_volume_fill_buf p),
      length (material_water_intake_buf p), length (material_water_restitution_buf p),
      length (material_water_diffusion_speed_buf p), length (water_buf p),
      length (water_velocity_buf p), length (water_momentum_buf p),
      length (cumulated_intaken_water_buf p), length (is_leaking_buf p),
      length (factory_is_leaking_buf p), length (temperature_buf p),
      length (material_heat_capacity_buf p), length (material_ignition_temperature_buf p),
      length (combustion_state_buf p), length (electrical_element_buf p),
      length (light_buf p), length (material_wind_receptivity_buf p),
      length (material_rust_receptivity_buf p), length (ephemeral_type_buf p),
      length (ephemeral_start_time_buf p), length (ephemeral_max_lifetime_buf p),
      length (ephemeral_state_buf p), length (connected_springs_buf p),
      length (factory_connected_springs_buf p), length (connected_triangles_buf p),
      length (factory_connected_triangles_buf p), length (connected_component_id_buf p),
      length (plane_id_buf p), length (plane_id_float_buf p), length (is_pinned_buf p),
      length (color_buf p), length (texture_coordinates_buf p)]"

definition points_wf :: "points \<Rightarrow> bool" where
  "points_wf p \<longleftrightarrow>
     list_all (\<lambda>l. l = populated_size p) (buffer_lengths p)
     \<and> populated_size p \<le> all_point_count p"

section \<open>Leaking points\<close>

text \<open>\<^verbatim>\<open>RandomizeCumulatedIntakenWater\<close> and \<^verbatim>\<open>SetLeaking\<close> (declared in
  \<^verbatim>\<open>Physics.h\<close>): a leaking point starts from a random share \<open>r \<in> [0, 1)\<close> of the
  air-bubble threshold.\<close>

definition randomize_cumulated_intaken_water :: "real \<Rightarrow> real \<Rightarrow> real" where
  "randomize_cumulated_intaken_water threshold r = r * threshold"

definition set_leaking :: "element_index \<Rightarrow> real \<Rightarrow> points \<Rightarrow> points" where
  "set_leaking i r p =
     p\<lparr>is_leaking_buf := (is_leaking_buf p)[i := True],
       cumulated_intaken_water_buf := (cumulated_intaken_water_buf p)[i :=
         randomize_cumulated_intaken_water
           (current_cumulated_intaken_water_threshold_for_air_bubbles p) r]\<rparr>"

section \<open>Points::Add\<close>

text \<open>\<^verbatim>\<open>Points::Add\<close> appends one ship point to every buffer; its index is the
  populated size before the call.  \<open>r\<close> is the random draw of \<^verbatim>\<open>SetLeaking\<close>.\<close>

definition add_point ::
  "vec2 \<Rightarrow> structural_material \<Rightarrow> electrical_material option \<Rightarrow> bool \<Rightarrow> nat option
   \<Rightarrow> bool \<Rightarrow> vec4 \<Rightarrow> vec2 \<Rightarrow> game_parameters \<Rightarrow> real \<Rightarrow> points \<Rightarrow> points" where
  "add_point position sm em is_rope electrical_element_index is_leaking color tex gp r p =
     (let point_index = populated_size p;
          p1 = p\<lparr>
            materials_buf := materials_buf p @ [(sm, em)],
            is_rope_buf := is_rope_buf p @ [is_rope],
            position_buf := position_buf p @ [position],
            velocity_buf := velocity_buf p @ [vzero],
            force_buf := force_buf p @ [vzero],
            augmented_material_mass_buf := augmented_material_mass_buf p @ [sm_mass sm],
            mass_buf := mass_buf p @ [sm_mass sm],
            decay_buf := decay_buf p @ [1],
            integration_factor_time_coefficient_buf :=
              integration_factor_time_coefficient_buf p
              @ [gp_integration_time_coefficient gp (current_num_mechanical_dynamics_iterations p)],
            integration_factor_buf := integration_factor_buf p @ [vzero],
            force_render_buf := force_render_buf p @ [vzero],
            material_is_hull_buf := material_is_hull_buf p @ [sm_is_hull sm],
            material_water_volume_fill_buf := material_water_volume_fill_buf p @ [sm_water_volume_fill sm],
            material_water_intake_buf := material_water_intake_buf p @ [sm_water_intake sm],
            material_water_restitution_buf := material_water_restitution_buf p @ [1 - sm_water_retention sm],
            material_water_diffusion_speed_buf :=
              material_water_diffusion_speed_buf p @ [sm_water_diffusion_speed sm],
            water_buf := water_buf p @ [0],
            water_velocity_buf := water_velocity_buf p @ [vzero],
            water_momentum_buf := water_momentum_buf p @ [vzero],
            cumulated_intaken_water_buf := cumulated_intaken_water_buf p @ [0],
            is_leaking_buf := is_leaking_buf p @ [is_leaking]\<rparr>;
          p2 = (if is_leaking then set_leaking point_index r p1 else p1)
      in p2\<lparr>
            factory_is_leaking_buf := factory_is_leaking_buf p2 @ [is_leaking],
            temperature_buf := temperature_buf p2 @ [gp_initial_temperature gp],
            material_heat_capacity_buf := material_heat_capacity_buf p2 @ [sm_heat_capacity sm],
            material_ignition_temperature_buf :=
              material_ignition_temperature_buf p2 @ [sm_ignition_temperature sm],
            combustion_state_buf := combustion_state_buf p2 @ [default_combustion_state],
            electrical_element_buf := electrical_element_buf p2 @ [electrical_element_index],
            light_buf := light_buf p2 @ [0],
            material_wind_receptivity_buf := material_wind_receptivity_buf p2 @ [sm_wind_receptivity sm],
            material_rust_receptivity_buf := material_rust_receptivity_buf p2 @ [sm_rust_receptivity sm],
            ephemeral_type_buf := ephemeral_type_buf p2 @ [EphemeralNone],
            ephemeral_start_time_buf := ephemeral_start_time_buf p2 @ [0],
            ephemeral_max_lifetime_buf := ephemeral_max_lifetime_buf p2 @ [0],
            ephemeral_state_buf := ephemeral_state_buf p2 @ [DebrisState],
            connected_springs_buf := connected_springs_buf p2 @ [[]],
            factory_connected_springs_buf := factory_connected_springs_buf p2 @ [[]],
            connected_triangles_buf := connected_triangles_buf p2 @ [[]],
            factory_connected_triangles_buf := factory_connected_triangles_buf p2 @ [[]],
            connected_component_id_buf := connected_component_id_buf p2 @ [None],
            plane_id_buf := plane_id_buf p2 @ [none_plane_id],
            plane_id_float_buf := plane_id_float_buf p2 @ [0],
            is_pinned_buf := is_pinned_buf p2 @ [False],
            color_buf := color_buf p2 @ [color],
            texture_coordinates_buf := texture_coordinates_buf p2 @ [tex]\<rparr>)"

section \<open>Points::Detach and Points::OnOrphaned\<close>

text \<open>The detach handler is installed by the ship (\<^verbatim>\<open>Ship::PointDetachHandler\<close>,
  outside \<^verbatim>\<open>src/\<close>): it receives the point, the two \<^verbatim>\<open>DetachOptions\<close> flags
  (generate debris, fire destroy event), the simulation time and the parameters, and may
  change anything in the store.\<close>

type_synonym detach_handler =
  "element_index \<Rightarrow> bool \<Rightarrow> bool \<Rightarrow> real \<Rightarrow> game_parameters \<Rightarrow> points \<Rightarrow> points"

definition detach ::
  "detach_handler option \<Rightarrow> element_index \<Rightarrow> vec2 \<Rightarrow> bool \<Rightarrow> bool \<Rightarrow> real
   \<Rightarrow> game_parameters \<Rightarrow> points \<Rightarrow> points" where
  "detach handler i velocity generate_debris fire_destroy_event t gp p =
     (let p1 = (case handler of
                  None \<Rightarrow> p
                | Some h \<Rightarrow> h i generate_debris fire_destroy_event t gp p)
      in if \<not> is_pinned_buf p1 ! i
         then p1\<lparr>velocity_buf := (velocity_buf p1)[i := velocity]\<rparr>
         else p1)"

text \<open>\<^verbatim>\<open>OnOrphaned\<close>: a burning point that loses its last spring gets a tiny
  flame; \<open>fd\<close> is the draw of \<^verbatim>\<open>GenerateRandomReal(0.1f, 0.14f)\<close>.\<close>

definition on_orphaned :: "element_index \<Rightarrow> real \<Rightarrow> points \<Rightarrow> points" where
  "on_orphaned i fd p =
     (if cs_state (combustion_state_buf p ! i) = Burning
      then p\<lparr>combustion_state_buf := (combustion_state_buf p)[i :=
               (combustion_state_buf p ! i)\<lparr>cs_flame_development := fd\<rparr>]\<rparr>
      else p)"

section \<open>Points::UpdateForGameParameters\<close>

text \<open>A change of the number of mechanical iterations recomputes every point's
  integration time coefficient; a change of the air-bubble threshold re-randomizes the
  intaken water of every leaking ship point (\<open>rnd i\<close> is point \<open>i\<close>'s draw).\<close>

definition update_for_game_parameters ::
  "game_parameters \<Rightarrow> (nat \<Rightarrow> real) \<Rightarrow> points \<Rightarrow> points" where
  "update_for_game_parameters gp rnd p =
     (let n = gp_num_mechanical_dynamics_iterations gp;
          p1 = (if n \<noteq> current_num_mechanical_dynamics_iterations p
                then p\<lparr>integration_factor_time_coefficient_buf :=
                         map (\<lambda>_. gp_integration_time_coefficient gp n)
                           (integration_factor_time_coefficient_buf p),
                       current_num_mechanical_dynamics_iterations := n\<rparr>
                else p);
          thr = gp_cumulated_intaken_water_threshold_for_air_bubbles gp
      in if thr \<noteq> current_cumulated_intaken_water_threshold_for_air_bubbles p1
         then p1\<lparr>cumulated_intaken_water_buf :=
                   map (\<lambda>i. if i < ship_point_count p1 \<and> is_leaking_buf p1 ! i
                             then randomize_cumulated_intaken_water thr (rnd i)
                             else cumulated_intaken_water_buf p1 ! i)
                     [0..<length (cumulated_intaken_water_buf p1)],
                 current_cumulated_intaken_water_threshold_for_air_bubbles := thr\<rparr>
         else p1)"

section \<open>Points::AugmentMaterialMass and Points::UpdateMasses\<close>

text \<open>\<^verbatim>\<open>Springs::UpdateForMass\<close> (outside \<^verbatim>\<open>src/\<close>) is the argument
  \<open>update_for_mass\<close>, over the springs' state \<open>'s\<close>; it is called once per
  connected spring, in the order of the point's connected-springs set.\<close>

definition augment_material_mass ::
  "element_index \<Rightarrow> real \<Rightarrow> (nat \<Rightarrow> points \<Rightarrow> 's \<Rightarrow> 's) \<Rightarrow> 's \<Rightarrow> points \<Rightarrow> points \<times> 's" where
  "augment_material_mass i offset update_for_mass springs p =
     (let p1 = p\<lparr>augmented_material_mass_buf := (augmented_material_mass_buf p)[i :=
                  sm_mass (structural_material_of p i) + offset]\<rparr>
      in (p1, fold (\<lambda>cs s. update_for_mass (spring_index cs) p1 s)
                (connected_springs_buf p1 ! i) springs))"

definition point_current_mass :: "game_parameters \<Rightarrow> points \<Rightarrow> nat \<Rightarrow> real" where
  "point_current_mass gp p i =
     augmented_material_mass_buf p ! i
     + min (water_buf p ! i) (material_water_volume_fill_buf p ! i)
       * (gp_water_mass gp * gp_water_density_adjustment gp)"

definition update_masses :: "game_parameters \<Rightarrow> points \<Rightarrow> points" where
  "update_masses gp p =
     p\<lparr>mass_buf := map (point_current_mass gp p) [0..<populated_size p],
       integration_factor_buf :=
         map (\<lambda>i. (integration_factor_time_coefficient_buf p ! i / point_current_mass gp p i,
                   integration_factor_time_coefficient_buf p ! i / point_current_mass gp p i))
           [0..<populated_size p]\<rparr>"

text \<open>The store with no populated point and no capacity: the starting value that
  concrete examples are built from.\<close>

definition empty_points :: points where
  "empty_points =
     \<lparr>ship_point_count = 0,
      all_point_count = 0,
      materials_buf = [],
      is_rope_buf = [],
      position_buf = [],
      velocity_buf = [],
      force_buf = [],
      augmented_material_mass_buf = [],
      mass_buf = [],
      decay_buf = [],
      integration_factor_time_coefficient_buf = [],
      integration_factor_buf = [],
      force_render_buf = [],
      material_is_hull_buf = [],
      material_water_volume_fill_buf = [],
      material_water_intake_buf = [],
      material_water_restitution_buf = [],
      material_water_diffusion_speed_buf = [],
      water_buf = [],
      water_velocity_buf = [],
      water_momentum_buf = [],
      cumulated_intaken_water_buf = [],
      is_leaking_buf = [],
      factory_is_leaking_buf = [],
      temperature_buf = [],
      material_heat_capacity_buf = [],
      material_ignition_temperature_buf = [],
      combustion_state_buf = [],
      electrical_element_buf = [],
      light_buf = [],
      material_wind_receptivity_buf = [],
      material_rust_receptivity_buf = [],
      ephemeral_type_buf = [],
      ephemeral_start_time_buf = [],
      ephemeral_max_lifetime_buf = [],
      ephemeral_state_buf = [],
      connected_springs_buf = [],
      factory_connected_springs_buf = [],
      connected_triangles_buf = [],
      factory_connected_triangles_buf = [],
      connected_component_id_buf = [],
      plane_id_buf = [],
      plane_id_float_buf = [],
      is_pinned_buf = [],
      color_buf = [],
      texture_coordinates_buf = [],
      free_ephemeral_particle_search_start_index = 0,
      burning_points = [],
      current_num_mechanical_dynamics_iterations = 0,
      current_cumulated_intaken_water_threshold_for_air_bubbles = 0,
      are_ephemeral_points_dirty = False,
      is_plane_id_buffer_ephemeral_dirty = False,
      events = []\<rparr>"

section \<open>Concrete stores\<close>

text \<open>A parameter set, a material and a store with room for two points, from which
  the concrete runs of this and the other theories are built.\<close>

definition example_game_parameters :: game_parameters where
  "example_game_parameters =
     \<lparr>gp_num_mechanical_dynamics_iterations = 30,
      gp_cumulated_intaken_water_threshold_for_air_bubbles = 8,
      gp_combustion_speed_adjustment = 1, gp_ignition_temperature_adjustment = 1,
      gp_combustion_heat_adjustment = 1, gp_max_burning_particles = 112,
      gp_water_density_adjustment = 1, gp_initial_temperature = 298.15,
      gp_ignition_temperature_high_watermark = 0, gp_ignition_temperature_low_watermark = -30,
      gp_smothering_water_low_watermark = 0.05, gp_smothering_water_high_watermark = 0.1,
      gp_smothering_decay_low_watermark = 0.0005, gp_smothering_decay_high_watermark = 0.05,
      gp_water_mass = 1000, gp_gravity_normalized = (0, -1),
      gp_integration_time_coefficient = (\<lambda>dt. dt * dt)\<rparr>"


definition example_material :: structural_material where
  "example_material =
     \<lparr>sm_mass = 750, sm_is_hull = True, sm_water_volume_fill = 1, sm_water_intake = 1,
      sm_water_retention = 0.05, sm_water_diffusion_speed = 0.5, sm_heat_capacity = 450,
      sm_ignition_temperature = 1000, sm_wind_receptivity = 0, sm_rust_receptivity = 1,
      sm_render_color = (0.5, 0.5, 0.5, 1)\<rparr>"

definition example_store :: points where
  "example_store =
     empty_points\<lparr>ship_point_count := 2, all_point_count := 2,
       current_cumulated_intaken_water_threshold_for_air_bubbles := 4\<rparr>"

definition example_one_point :: points where
  "example_one_point =
     add_point (0, 0) example_material None False None True (1, 1, 1, 1) (0, 0)
       example_game_parameters 0.5 example_store"

section \<open>Lemmas: well-formedness and the store's operations\<close>

lemma points_wf_length [buffer_simps]:
  assumes "points_wf p"
  shows "length (mass_buf p) = populated_size p"
    and "length (augmented_material_mass_buf p) = populated_size p"
    and "length (water_buf p) = populated_size p"
    and "length (material_water_volume_fill_buf p) = populated_size p"
    and "length (integration_factor_time_coefficient_buf p) = populated_size p"
    and "length (integration_factor_buf p) = populated_size p"
    and "length (velocity_buf p) = populated_size p"
    and "length (is_pinned_buf p) = populated_size p"
    and "length (is_leaking_buf p) = populated_size p"
    and "length (cumulated_intaken_water_buf p) = populated_size p"
    and "length (combustion_state_buf p) = populated_size p"
    and "length (ephemeral_type_buf p) = populated_size p"
    and "length (ephemeral_start_time_buf p) = populated_size p"
    and "length (decay_buf p) = populated_size p"
    and "length (temperature_buf p) = populated_size p"
    and "length (plane_id_buf p) = populated_size p"
    and "length (connected_springs_buf p) = populated_size p"
    and "length (position_buf p) = populated_size p"
  using assms by (simp_all add: points_wf_def buffer_lengths_def)

lemma update_masses_buffer_lengths:
  "points_wf p \<Longrightarrow> buffer_lengths (update_masses gp p) = buffer_lengths p"
  by (simp add: update_masses_def buffer_lengths_def points_wf_length)

text \<open>UpdateMasses keeps the store well formed.\<close>

lemma update_masses_wf: "points_wf p \<Longrightarrow> points_wf (update_masses gp p)"
  by (simp add: points_wf_def update_masses_buffer_lengths)
     (simp add: update_masses_def populated_size_def)

lemma update_masses_mass:
  "i < populated_size p \<Longrightarrow>
   mass_buf (update_masses gp p) ! i =
     augmented_material_mass_buf p ! i
     + min (water_buf p ! i) (material_water_volume_fill_buf p ! i)
       * (gp_water_mass gp * gp_water_density_adjustment gp)"
  by (simp add: update_masses_def point_current_mass_def)

lemma point_current_mass_pos:
  assumes "0 < augmented_material_mass_buf p ! i" "0 \<le> water_buf p ! i"
    "0 \<le> material_water_volume_fill_buf p ! i" "0 \<le> gp_water_mass gp"
    "0 \<le> gp_water_density_adjustment gp"
  shows "0 < point_current_mass gp p i"
  using assms by (auto simp: point_current_mass_def intro!: add_pos_nonneg mult_nonneg_nonneg)

text \<open>After AugmentMaterialMass(i, offset) and UpdateMasses, point i's mass is its material mass plus the offset plus the mass of the water it holds.\<close>

lemma augment_then_update_masses:
  assumes wf: "points_wf p" and i: "i < populated_size p"
  shows "mass_buf (update_masses gp (fst (augment_material_mass i offset u s p))) ! i =
     sm_mass (structural_material_of p i) + offset
     + min (water_buf p ! i) (material_water_volume_fill_buf p ! i)
       * (gp_water_mass gp * gp_water_density_adjustment gp)"
  using wf i
  by (simp add: augment_material_mass_def update_masses_def point_current_mass_def Let_def
      populated_size_def points_wf_length)

lemma detach_velocity:
  "\<not> is_pinned_buf (case h of None \<Rightarrow> p | Some f \<Rightarrow> f i g fd t gp p) ! i \<Longrightarrow>
   i < length (velocity_buf (case h of None \<Rightarrow> p | Some f \<Rightarrow> f i g fd t gp p)) \<Longrightarrow>
   velocity_buf (detach h i v g fd t gp p) ! i = v"
  by (simp add: detach_def Let_def)

text \<open>When the air-bubble threshold changes, UpdateForGameParameters gives every leaking ship point an intaken water between 0 and the new threshold.\<close>

lemma update_for_game_parameters_leaking_bounds:
  assumes "gp_cumulated_intaken_water_threshold_for_air_bubbles gp
             \<noteq> current_cumulated_intaken_water_threshold_for_air_bubbles p"
    and "0 \<le> gp_cumulated_intaken_water_threshold_for_air_bubbles gp"
    and "0 \<le> rnd i" "rnd i \<le> 1"
    and "i < ship_point_count p" "is_leaking_buf p ! i"
    and "i < length (cumulated_intaken_water_buf p)"
  shows "0 \<le> cumulated_intaken_water_buf (update_for_game_parameters gp rnd p) ! i
    \<and> cumulated_intaken_water_buf (update_for_game_parameters gp rnd p) ! i
        \<le> gp_cumulated_intaken_water_threshold_for_air_bubbles gp"
  using assms
  by (simp add: update_for_game_parameters_def Let_def randomize_cumulated_intaken_water_def
      mult_left_le_one_le)

lemma add_point_buffer_lengths:
  "buffer_lengths (add_point pos sm em ir ei il c t gp r p) = map Suc (buffer_lengths p)"
  by (cases il) (simp_all add: add_point_def set_leaking_def Let_def buffer_lengths_def)

lemma add_point_populated_size:
  "populated_size (add_point pos sm em ir ei il c t gp r p) = Suc (populated_size p)"
  by (simp add: add_point_def set_leaking_def Let_def populated_size_def)

lemma add_point_all_point_count:
  "all_point_count (add_point pos sm em ir ei il c t gp r p) = all_point_count p"
  by (simp add: add_point_def set_leaking_def Let_def)


text \<open>The point Points::Add appends has the material's mass, decay 1, the default combustion state, no ephemeral type, and, when leaking, a random share of the air-bubble threshold as intaken water.\<close>

lemma add_point_new_point:
  assumes "points_wf p"
  shows "mass_buf (add_point pos sm em ir ei il c t gp r p) ! populated_size p = sm_mass sm
    \<and> decay_buf (add_point pos sm em ir ei il c t gp r p) ! populated_size p = 1
    \<and> combustion_state_buf (add_point pos sm em ir ei il c t gp r p) ! populated_size p
        = default_combustion_state
    \<and> ephemeral_type_buf (add_point pos sm em ir ei il c t gp r p) ! populated_size p = EphemeralNone
    \<and> is_leaking_buf (add_point pos sm em ir ei il c t gp r p) ! populated_size p = il
    \<and> cumulated_intaken_water_buf (add_point pos sm em ir ei il c t gp r p) ! populated_size p =
          (if il then r * current_cumulated_intaken_water_threshold_for_air_bubbles p else 0)"
  using points_wf_length [OF assms]
  by (cases il) (simp_all add: add_point_def set_leaking_def Let_def nth_append
      randomize_cumulated_intaken_water_def)

section \<open>Concrete runs\<close>

lemma example_store_wf: "points_wf example_store"
  by (simp add: points_wf_def buffer_lengths_def populated_size_def example_store_def empty_points_def)

lemma example_store_populated_size: "populated_size example_store = 0"
  by (simp add: populated_size_def example_store_def empty_points_def)

lemma example_store_threshold:
  "current_cumulated_intaken_water_threshold_for_air_bubbles example_store = 4"
  by (simp add: example_store_def)

lemma example_one_point_wf: "points_wf example_one_point"
  using example_store_wf
  by (simp add: example_one_point_def points_wf_def add_point_buffer_lengths add_point_populated_size
      add_point_all_point_count list_all_iff example_store_populated_size)
     (simp add: example_store_def)

lemma example_one_point_fields:
  "populated_size example_one_point = 1"
  "ship_point_count example_one_point = 2"
  "water_buf example_one_point ! 0 = 0"
  "is_leaking_buf example_one_point ! 0"
  "length (cumulated_intaken_water_buf example_one_point) = 1"
  "current_cumulated_intaken_water_threshold_for_air_bubbles example_one_point = 4"
  by (simp_all add: example_one_point_def add_point_def set_leaking_def Let_def populated_size_def
      example_store_def empty_points_def)


theorem add_point_new_point_witness:
  "mass_buf example_one_point ! 0 = 750
   \<and> decay_buf example_one_point ! 0 = 1
   \<and> combustion_state_buf example_one_point ! 0 = default_combustion_state
   \<and> ephemeral_type_buf example_one_point ! 0 = EphemeralNone
   \<and> is_leaking_buf example_one_point ! 0
   \<and> cumulated_intaken_water_buf example_one_point ! 0 = 2"
  unfolding example_one_point_def
  using add_point_new_point [OF example_store_wf, of "(0, 0)" example_material None False None True
      "(1, 1, 1, 1)" "(0, 0)" example_game_parameters "0.5"]
  by (simp add: example_store_populated_size example_material_def example_store_threshold)

theorem update_masses_wf_witness:
  "points_wf (update_masses example_game_parameters example_one_point)"
  using update_masses_wf [OF example_one_point_wf] .

theorem augment_then_update_masses_witness:
  "mass_buf (update_masses example_game_parameters
       (fst (augment_material_mass 0 5 (\<lambda>_ _ s. s) () example_one_point))) ! 0 = 755"
proof -
  have "structural_material_of example_one_point 0 = example_material"
    by (simp add: example_one_point_def add_point_def set_leaking_def Let_def
        example_store_def empty_points_def)
  moreover have "material_water_volume_fill_buf example_one_point ! 0 = 1"
    by (simp add: example_one_point_def add_point_def set_leaking_def Let_def
        example_store_def empty_points_def example_material_def)
  ultimately show ?thesis
    using augment_then_update_masses [OF example_one_point_wf, of 0 example_game_parameters 5
        "\<lambda>_ _ s. s" "()"]
    by (simp add: example_one_point_fields example_material_def)
qed

theorem update_for_game_parameters_leaking_bounds_witness:
  "0 \<le> cumulated_intaken_water_buf
         (update_for_game_parameters example_game_parameters (\<lambda>_. 0.25) example_one_point) ! 0
   \<and> cumulated_intaken_water_buf
         (update_for_game_parameters example_game_parameters (\<lambda>_. 0.25) example_one_point) ! 0 \<le> 8"
  using update_for_game_parameters_leaking_bounds [of example_game_parameters example_one_point
      "\<lambda>_. 0.25" 0]
  by (simp add: example_one_point_fields example_game_parameters_def)

end
