(* ===== verification/EphemeralPool.thy ===== *)
theory EphemeralPool
  imports PointStore
begin

text \<open>
  The ephemeral-particle pool of \<^verbatim>\<open>src/Game/Points.cpp\<close>: the region
  \<open>[ship_point_count, all_point_count)\<close> of the store, allocated by
  \<^verbatim>\<open>FindFreeEphemeralParticle\<close> (a wrap-around scan from a moving search start that
  falls back to stealing the oldest particle), filled by the three
  \<^verbatim>\<open>CreateEphemeralParticle*\<close> functions, released by
  \<^verbatim>\<open>DestroyEphemeralParticle\<close> and advanced by \<^verbatim>\<open>UpdateEphemeralParticles\<close>.
  The scan loop stops only when it comes back to its start index, so it is a
  \<^theory_text>\<open>partial_function (option)\<close>; \<open>find_free_ephemeral_particle_returns\<close> shows it returns
  whenever the search start lies in the ephemeral region, by relating it to a fold over
  the explicit visiting order \<open>rotation\<close>.
\<close>

text \<open>\<^verbatim>\<open>std::numeric_limits<float>::max()\<close>, the lifetime of an air bubble.\<close>

definition max_float :: real where
  "max_float = (2 - 1 / 2 ^ 23) * 2 ^ 127"

section \<open>The scan of FindFreeEphemeralParticle\<close>

text \<open>One iteration: a free slot ends the search (\<open>Inl\<close>); otherwise the slot may
  become the oldest seen so far (ties go to the later slot, as \<^verbatim>\<open>>=\<close> does), the
  index advances with wrap-around, and arriving back at the start ends the search with the
  oldest slot (\<open>Inr\<close>).\<close>

partial_function (option) find_free_scan ::
  "ephemeral_type list \<Rightarrow> real list \<Rightarrow> nat \<Rightarrow> nat \<Rightarrow> nat \<Rightarrow> real \<Rightarrow> nat \<Rightarrow> nat option
   \<Rightarrow> real \<Rightarrow> (nat + nat option) option" where
  "find_free_scan ts sts ship all start now p oldest oldest_lifetime =
     (if ts ! p = EphemeralNone then Some (Inl p)
      else
        (let lifetime = now - sts ! p;
             older = (oldest_lifetime \<le> lifetime);
             oldest' = (if older then Some p else oldest);
             oldest_lifetime' = (if older then lifetime else oldest_lifetime);
             p' = (if all \<le> Suc p then ship else Suc p)
         in if p' = start then Some (Inr oldest')
            else find_free_scan ts sts ship all start now p' oldest' oldest_lifetime'))"

text \<open>The next search start after slot \<open>q\<close>: \<open>q + 1\<close>, wrapped into the region.\<close>

definition next_search_start :: "nat \<Rightarrow> nat \<Rightarrow> nat \<Rightarrow> nat" where
  "next_search_start ship all q = (if all \<le> Suc q then ship else Suc q)"

text \<open>\<^verbatim>\<open>FindFreeEphemeralParticle\<close>: the index found (or
  \<open>none_element_index\<close>) with the updated search start.  When no slot is free, every
  lifetime is negative and \<open>force\<close> holds, the code steals index
  \<^verbatim>\<open>NoneElementIndex\<close>, whose successor wraps to 0 in 32 bits.\<close>

definition find_free_ephemeral_particle ::
  "real \<Rightarrow> bool \<Rightarrow> points \<Rightarrow> (points \<times> element_index) option" where
  "find_free_ephemeral_particle now force p =
     (let ship = ship_point_count p; all = all_point_count p;
          start = free_ephemeral_particle_search_start_index p
      in case find_free_scan (ephemeral_type_buf p) (ephemeral_start_time_buf p)
                ship all start now start None 0 of
           None \<Rightarrow> None
         | Some (Inl q) \<Rightarrow>
             Some (p\<lparr>free_ephemeral_particle_search_start_index := next_search_start ship all q\<rparr>, q)
         | Some (Inr oldest) \<Rightarrow>
             (if \<not> force then Some (p, none_element_index)
              else case oldest of
                Some q \<Rightarrow>
                  Some (p\<lparr>free_ephemeral_particle_search_start_index :=
                           next_search_start ship all q\<rparr>, q)
              | None \<Rightarrow>
                  Some (p\<lparr>free_ephemeral_particle_search_start_index :=
                           (if all \<le> 0 then ship else 0)\<rparr>, none_element_index)))"

section \<open>Reference: the visiting order as a list\<close>

definition rotation :: "nat \<Rightarrow> nat \<Rightarrow> nat \<Rightarrow> nat list" where
  "rotation ship all start = [start..<all] @ [ship..<start]"

fun scan_list ::
  "ephemeral_type list \<Rightarrow> real list \<Rightarrow> real \<Rightarrow> nat list \<Rightarrow> nat option \<Rightarrow> real
   \<Rightarrow> nat + nat option" where
  "scan_list ts sts now [] oldest oldest_lifetime = Inr oldest"
| "scan_list ts sts now (p # ps) oldest oldest_lifetime =
     (if ts ! p = EphemeralNone then Inl p
      else
        (let lifetime = now - sts ! p;
             older = (oldest_lifetime \<le> lifetime)
         in scan_list ts sts now ps (if older then Some p else oldest)
              (if older then lifetime else oldest_lifetime)))"

definition is_free_slot :: "points \<Rightarrow> nat \<Rightarrow> bool" where
  "is_free_slot p q \<longleftrightarrow> ephemeral_type_buf p ! q = EphemeralNone"

text \<open>The pool's invariant: the search start lies in the ephemeral region and the
  buffers the scan reads cover it.\<close>

definition pool_inv :: "points \<Rightarrow> bool" where
  "pool_inv p \<longleftrightarrow>
     ship_point_count p \<le> free_ephemeral_particle_search_start_index p
     \<and> free_ephemeral_particle_search_start_index p < all_point_count p
     \<and> all_point_count p \<le> length (ephemeral_type_buf p)
     \<and> all_point_count p \<le> length (ephemeral_start_time_buf p)"

section \<open>Creating ephemeral particles\<close>

text \<open>The three creators write the slot that \<^verbatim>\<open>FindFreeEphemeralParticle\<close>
  returns.  The result is \<open>None\<close> when the scan does not return, and when the debris
  and sparkle creators' \<^verbatim>\<open>assert(NoneElementIndex != pointIndex)\<close> fails; the air
  bubble creator does not steal, and gives up when no slot is free.  \<open>frame\<close> is the
  draw of \<^verbatim>\<open>Choose<TextureFrameIndex>(2)\<close>.\<close>

definition create_ephemeral_particle_air_bubble ::
  "vec2 \<Rightarrow> real \<Rightarrow> real \<Rightarrow> real \<Rightarrow> structural_material \<Rightarrow> real \<Rightarrow> plane_id \<Rightarrow> nat
   \<Rightarrow> game_parameters \<Rightarrow> points \<Rightarrow> points option" where
  "create_ephemeral_particle_air_bubble position initial_size vortex_amplitude vortex_period sm
     now plane frame gp p =
     (case find_free_ephemeral_particle now False p of
        None \<Rightarrow> None
      | Some (p, i) \<Rightarrow>
          if i = none_element_index then Some p
          else Some (p\<lparr>
            position_buf := (position_buf p)[i := position],
            velocity_buf := (velocity_buf p)[i := vzero],
            force_buf := (force_buf p)[i := vzero],
            augmented_material_mass_buf := (augmented_material_mass_buf p)[i := sm_mass sm],
            mass_buf := (mass_buf p)[i := sm_mass sm],
            decay_buf := (decay_buf p)[i := 1],
            integration_factor_time_coefficient_buf := (integration_factor_time_coefficient_buf p)[i :=
              gp_integration_time_coefficient gp (current_num_mechanical_dynamics_iterations p)],
            materials_buf := (materials_buf p)[i := (sm, None)],
            material_water_volume_fill_buf := (material_water_volume_fill_buf p)[i := sm_water_volume_fill sm],
            material_water_intake_buf := (material_water_intake_buf p)[i := sm_water_intake sm],
            material_water_restitution_buf := (material_water_restitution_buf p)[i := 1 - sm_water_retention sm],
            material_water_diffusion_speed_buf :=
              (material_water_diffusion_speed_buf p)[i := sm_water_diffusion_speed sm],
            water_buf := (water_buf p)[i := 0],
            temperature_buf := (temperature_buf p)[i := gp_initial_temperature gp],
            material_heat_capacity_buf := (material_heat_capacity_buf p)[i := sm_heat_capacity sm],
            material_ignition_temperature_buf :=
              (material_ignition_temperature_buf p)[i := sm_ignition_temperature sm],
            combustion_state_buf := (combustion_state_buf p)[i := default_combustion_state],
            light_buf := (light_buf p)[i := 0],
            material_wind_receptivity_buf := (material_wind_receptivity_buf p)[i := 0],
            material_rust_receptivity_buf := (material_rust_receptivity_buf p)[i := 0],
            ephemeral_type_buf := (ephemeral_type_buf p)[i := AirBubble],
            ephemeral_start_time_buf := (ephemeral_start_time_buf p)[i := now],
            ephemeral_max_lifetime_buf := (ephemeral_max_lifetime_buf p)[i := max_float],
            ephemeral_state_buf := (ephemeral_state_buf p)[i :=
              air_bubble_state frame initial_size vortex_amplitude vortex_period],
            connected_component_id_buf := (connected_component_id_buf p)[i := None],
            plane_id_buf := (plane_id_buf p)[i := plane],
            plane_id_float_buf := (plane_id_float_buf p)[i := real plane],
            is_plane_id_buffer_ephemeral_dirty := True,
            color_buf := (color_buf p)[i := sm_render_color sm]\<rparr>))"

definition create_ephemeral_particle_debris ::
  "vec2 \<Rightarrow> vec2 \<Rightarrow> structural_material \<Rightarrow> real \<Rightarrow> real \<Rightarrow> plane_id
   \<Rightarrow> game_parameters \<Rightarrow> points \<Rightarrow> points option" where
  "create_ephemeral_particle_debris position velocity sm now max_lifetime plane gp p =
     (case find_free_ephemeral_particle now True p of
        None \<Rightarrow> None
      | Some (p, i) \<Rightarrow>
          if i = none_element_index then None
          else Some (p\<lparr>
            position_buf := (position_buf p)[i := position],
            velocity_buf := (velocity_buf p)[i := velocity],
            force_buf := (force_buf p)[i := vzero],
            augmented_material_mass_buf := (augmented_material_mass_buf p)[i := sm_mass sm],
            mass_buf := (mass_buf p)[i := sm_mass sm],
            decay_buf := (decay_buf p)[i := 1],
            integration_factor_time_coefficient_buf := (integration_factor_time_coefficient_buf p)[i :=
              gp_integration_time_coefficient gp (current_num_mechanical_dynamics_iterations p)],
            materials_buf := (materials_buf p)[i := (sm, None)],
            material_water_volume_fill_buf := (material_water_volume_fill_buf p)[i := 0],
            material_water_intake_buf := (material_water_intake_buf p)[i := sm_water_intake sm],
            material_water_restitution_buf := (material_water_restitution_buf p)[i := 1 - sm_water_retention sm],
            material_water_diffusion_speed_buf :=
              (material_water_diffusion_speed_buf p)[i := sm_water_diffusion_speed sm],
            water_buf := (water_buf p)[i := 0],
            temperature_buf := (temperature_buf p)[i := gp_initial_temperature gp],
            material_heat_capacity_buf := (material_heat_capacity_buf p)[i := sm_heat_capacity sm],
            material_ignition_temperature_buf :=
              (material_ignition_temperature_buf p)[i := sm_ignition_temperature sm],
            combustion_state_buf := (combustion_state_buf p)[i := default_combustion_state],
            light_buf := (light_buf p)[i := 0],
            material_wind_receptivity_buf := (material_wind_receptivity_buf p)[i := 3],
            material_rust_receptivity_buf := (material_rust_receptivity_buf p)[i := 0],
            ephemeral_type_buf := (ephemeral_type_buf p)[i := Debris],
            ephemeral_start_time_buf := (ephemeral_start_time_buf p)[i := now],
            ephemeral_max_lifetime_buf := (ephemeral_max_lifetime_buf p)[i := max_lifetime],
            ephemeral_state_buf := (ephemeral_state_buf p)[i := DebrisState],
            connected_component_id_buf := (connected_component_id_buf p)[i := None],
            plane_id_buf := (plane_id_buf p)[i := plane],
            plane_id_float_buf := (plane_id_float_buf p)[i := real plane],
            is_plane_id_buffer_ephemeral_dirty := True,
            color_buf := (color_buf p)[i := sm_render_color sm],
            are_ephemeral_points_dirty := True\<rparr>))"

definition create_ephemeral_particle_sparkle ::
  "vec2 \<Rightarrow> vec2 \<Rightarrow> structural_material \<Rightarrow> real \<Rightarrow> real \<Rightarrow> plane_id \<Rightarrow> nat
   \<Rightarrow> game_parameters \<Rightarrow> points \<Rightarrow> points option" where
  "create_ephemeral_particle_sparkle position velocity sm now max_lifetime plane frame gp p =
     (case find_free_ephemeral_particle now True p of
        None \<Rightarrow> None
      | Some (p, i) \<Rightarrow>
          if i = none_element_index then None
          else Some (p\<lparr>
            position_buf := (position_buf p)[i := position],
            velocity_buf := (velocity_buf p)[i := velocity],
            force_buf := (force_buf p)[i := vzero],
            augmented_material_mass_buf := (augmented_material_mass_buf p)[i := sm_mass sm],
            mass_buf := (mass_buf p)[i := sm_mass sm],
            decay_buf := (decay_buf p)[i := 1],
            integration_factor_time_coefficient_buf := (integration_factor_time_coefficient_buf p)[i :=
              gp_integration_time_coefficient gp (current_num_mechanical_dynamics_iterations p)],
            materials_buf := (materials_buf p)[i := (sm, None)],
            material_water_volume_fill_buf := (material_water_volume_fill_buf p)[i := 0],
            material_water_intake_buf := (material_water_intake_buf p)[i := sm_water_intake sm],
            material_water_restitution_buf := (material_water_restitution_buf p)[i := 1 - sm_water_retention sm],
            material_water_diffusion_speed_buf :=
              (material_water_diffusion_speed_buf p)[i := sm_water_diffusion_speed sm],
            water_buf := (water_buf p)[i := 0],
            temperature_buf := (temperature_buf p)[i := 773.15],
            material_heat_capacity_buf := (material_heat_capacity_buf p)[i := sm_heat_capacity sm],
            material_ignition_temperature_buf :=
              (material_ignition_temperature_buf p)[i := sm_ignition_temperature sm],
            combustion_state_buf := (combustion_state_buf p)[i := default_combustion_state],
            light_buf := (light_buf p)[i := 0],
            material_wind_receptivity_buf := (material_wind_receptivity_buf p)[i := 5],
            material_rust_receptivity_buf := (material_rust_receptivity_buf p)[i := 0],
            ephemeral_type_buf := (ephemeral_type_buf p)[i := Sparkle],
            ephemeral_start_time_buf := (ephemeral_start_time_buf p)[i := now],
            ephemeral_max_lifetime_buf := (ephemeral_max_lifetime_buf p)[i := max_lifetime],
            ephemeral_state_buf := (ephemeral_state_buf p)[i := sparkle_state frame],
            connected_component_id_buf := (connected_component_id_buf p)[i := None],
            plane_id_buf := (plane_id_buf p)[i := plane],
            plane_id_float_buf := (plane_id_float_buf p)[i := real plane],
            is_plane_id_buffer_ephemeral_dirty := True\<rparr>))"

section \<open>Destroying and updating ephemeral particles\<close>

text \<open>\<^verbatim>\<open>ExpireEphemeralParticle\<close> (declared in \<^verbatim>\<open>Physics.h\<close>): the slot
  becomes free.\<close>

definition expire_ephemeral_particle :: "element_index \<Rightarrow> points \<Rightarrow> points" where
  "expire_ephemeral_particle i p =
     p\<lparr>ephemeral_type_buf := (ephemeral_type_buf p)[i := EphemeralNone]\<rparr>"

text \<open>\<^verbatim>\<open>DestroyEphemeralParticle\<close>: the destroy handler installed by the ship
  (if any), a \<^verbatim>\<open>Destroy\<close> event with the particle's material and whether it is
  under water, then expiry.\<close>

definition destroy_ephemeral_particle ::
  "(element_index \<Rightarrow> points \<Rightarrow> points) option \<Rightarrow> (vec2 \<Rightarrow> bool) \<Rightarrow> element_index
   \<Rightarrow> points \<Rightarrow> points" where
  "destroy_ephemeral_particle handler is_underwater i p =
     (let p1 = (case handler of None \<Rightarrow> p | Some h \<Rightarrow> h i p);
          p2 = p1\<lparr>events := events p1 @
                 [DestroyEvent (structural_material_of p1 i)
                    (is_underwater (position_buf p1 ! i)) 1]\<rparr>
      in expire_ephemeral_particle i p2)"

text \<open>One particle's step of \<^verbatim>\<open>UpdateEphemeralParticles\<close>.  \<open>ocean_height\<close>
  is \<^verbatim>\<open>World::GetOceanSurfaceHeightAt\<close> and \<open>precalc_sin\<close> the table lookup
  \<^verbatim>\<open>PrecalcLoFreqSin.GetNearestPeriodic\<close>.\<close>

definition set_alpha :: "vec4 \<Rightarrow> real \<Rightarrow> vec4" where
  "set_alpha c a = (case c of (r, g, b, _) \<Rightarrow> (r, g, b, a))"

definition update_air_bubble ::
  "real \<Rightarrow> (real \<Rightarrow> real) \<Rightarrow> (real \<Rightarrow> real) \<Rightarrow> element_index \<Rightarrow> points \<Rightarrow> points" where
  "update_air_bubble now ocean_height precalc_sin i p =
     (if is_pinned_buf p ! i then p
      else
        (let pos = position_buf p ! i;
             water_height = ocean_height (fst pos);
             delta_y = water_height - snd pos
         in if delta_y \<le> 0 then expire_ephemeral_particle i p
            else
              (case ephemeral_state_buf p ! i of
                 AirBubbleState frame initial_size vortex_amplitude angular_velocity _ _ last_vortex_value \<Rightarrow>
                   (let progress = -1 / (-1 + min (snd pos) 0);
                        lifetime = now - ephemeral_start_time_buf p ! i;
                        amplitude = vortex_amplitude + progress;
                        vortex_value = amplitude * precalc_sin (angular_velocity * lifetime)
                    in p\<lparr>ephemeral_state_buf := (ephemeral_state_buf p)[i :=
                           AirBubbleState frame initial_size vortex_amplitude angular_velocity
                             delta_y progress vortex_value],
                         position_buf := (position_buf p)[i :=
                           (fst pos + (vortex_value - last_vortex_value), snd pos)]\<rparr>)
               | _ \<Rightarrow> p)))"

definition update_ephemeral_particle ::
  "real \<Rightarrow> (real \<Rightarrow> real) \<Rightarrow> (real \<Rightarrow> real) \<Rightarrow> points \<Rightarrow> element_index \<Rightarrow> points" where
  "update_ephemeral_particle now ocean_height precalc_sin p i =
     (let elapsed = now - ephemeral_start_time_buf p ! i;
          max_lifetime = ephemeral_max_lifetime_buf p ! i
      in case ephemeral_type_buf p ! i of
           EphemeralNone \<Rightarrow> p
         | AirBubble \<Rightarrow> update_air_bubble now ocean_height precalc_sin i p
         | Debris \<Rightarrow>
             (if max_lifetime \<le> elapsed
              then (expire_ephemeral_particle i p)\<lparr>are_ephemeral_points_dirty := True\<rparr>
              else p\<lparr>color_buf := (color_buf p)[i :=
                       set_alpha (color_buf p ! i) (max (1 - elapsed / max_lifetime) 0)]\<rparr>)
         | Sparkle \<Rightarrow>
             (if max_lifetime \<le> elapsed
              then expire_ephemeral_particle i p
              else (case ephemeral_state_buf p ! i of
                      SparkleState frame _ \<Rightarrow>
                        p\<lparr>ephemeral_state_buf := (ephemeral_state_buf p)[i :=
                             SparkleState frame (elapsed / max_lifetime)]\<rparr>
                    | _ \<Rightarrow> p)))"

definition update_ephemeral_particles ::
  "real \<Rightarrow> (real \<Rightarrow> real) \<Rightarrow> (real \<Rightarrow> real) \<Rightarrow> points \<Rightarrow> points" where
  "update_ephemeral_particles now ocean_height precalc_sin p =
     fold (\<lambda>i q. update_ephemeral_particle now ocean_height precalc_sin q i)
       [ship_point_count p..<all_point_count p] p"

text \<open>What \<^verbatim>\<open>UpdateEphemeralParticles\<close> may change at a slot.\<close>

definition slot_view :: "points \<Rightarrow> nat \<Rightarrow> vec2 \<times> ephemeral_type \<times> ephemeral_state \<times> vec4" where
  "slot_view p j = (position_buf p ! j, ephemeral_type_buf p ! j, ephemeral_state_buf p ! j, color_buf p ! j)"

text \<open>A pool of three slots: one ship point and two ephemeral slots, the search
  starting at slot 1.\<close>

definition example_pool :: "ephemeral_type list \<Rightarrow> real list \<Rightarrow> points" where
  "example_pool ts sts =
     empty_points\<lparr>ship_point_count := 1, all_point_count := 3,
       ephemeral_type_buf := ts, ephemeral_start_time_buf := sts,
       free_ephemeral_particle_search_start_index := 1\<rparr>"

section \<open>Lemmas: the scan is a fold over the rotation\<close>


lemma find_free_scan_second_segment:
  assumes "ship \<le> p" "p < start" "start < all"
  shows "find_free_scan ts sts ship all start now p oldest olt =
           Some (scan_list ts sts now [p..<start] oldest olt)"
  using assms
proof (induction "start - p" arbitrary: p oldest olt)
  case 0
  then show ?case by simp
next
  case (Suc k)
  have split: "[p..<start] = p # [Suc p..<start]"
    using Suc.prems by (simp add: upt_conv_Cons)
  show ?case
  proof (cases "ts ! p = EphemeralNone")
    case True
    then show ?thesis
      by (simp add: split find_free_scan.simps [of ts sts ship all start now p])
  next
    case False
    have nxt: "\<not> all \<le> Suc p" using Suc.prems by simp
    show ?thesis
    proof (cases "Suc p = start")
      case True
      with False nxt show ?thesis
        by (simp add: split find_free_scan.simps [of ts sts ship all start now p] Let_def)
    next
      case ne: False
      then have "Suc p < start" using Suc.prems by simp
      then have IH: "\<And>oo tt. find_free_scan ts sts ship all start now (Suc p) oo tt =
                        Some (scan_list ts sts now [Suc p..<start] oo tt)"
        using Suc by simp
      from False nxt ne show ?thesis
        by (simp add: split find_free_scan.simps [of ts sts ship all start now p] Let_def IH)
    qed
  qed
qed

lemma find_free_scan_rotation_suffix:
  assumes "start \<le> p" "p < all" "ship \<le> start" "start < all"
  shows "find_free_scan ts sts ship all start now p oldest olt =
           Some (scan_list ts sts now ([p..<all] @ [ship..<start]) oldest olt)"
  using assms
proof (induction "all - p" arbitrary: p oldest olt)
  case 0
  then show ?case by simp
next
  case (Suc k)
  have split: "[p..<all] = p # [Suc p..<all]"
    using Suc.prems by (simp add: upt_conv_Cons)
  show ?case
  proof (cases "ts ! p = EphemeralNone")
    case True
    then show ?thesis
      by (simp add: split find_free_scan.simps [of ts sts ship all start now p])
  next
    case False
    show ?thesis
    proof (cases "Suc p < all")
      case True
      then have IH: "\<And>oo tt. find_free_scan ts sts ship all start now (Suc p) oo tt =
          Some (scan_list ts sts now ([Suc p..<all] @ [ship..<start]) oo tt)"
        using Suc by simp
      have "Suc p \<noteq> start" using Suc.prems by simp
      with False True show ?thesis
        by (simp add: split find_free_scan.simps [of ts sts ship all start now p] Let_def IH)
    next
      case last: False
      then have nil: "[Suc p..<all] = []" by simp
      show ?thesis
      proof (cases "ship = start")
        case True
        have "find_free_scan ts sts ship all start now p oldest olt =
            Some (Inr (if olt \<le> now - sts ! p then Some p else oldest))"
          using False last True by (subst find_free_scan.simps) (simp add: Let_def)
        then show ?thesis using False True by (simp add: split nil Let_def)
      next
        case ne: False
        then have "ship < start" using Suc.prems by simp
        then have seg: "\<And>oo tt. find_free_scan ts sts ship all start now ship oo tt =
                          Some (scan_list ts sts now [ship..<start] oo tt)"
          using Suc.prems by (simp add: find_free_scan_second_segment)
        from False last ne show ?thesis
          by (simp add: split nil find_free_scan.simps [of ts sts ship all start now p] Let_def seg)
      qed
    qed
  qed
qed

lemma find_free_scan_rotation:
  assumes "ship \<le> start" "start < all"
  shows "find_free_scan ts sts ship all start now start oldest olt =
           Some (scan_list ts sts now (rotation ship all start) oldest olt)"
  using assms find_free_scan_rotation_suffix [of start start all ship]
  by (simp add: rotation_def)


section \<open>Lemmas: the scan's result\<close>


lemma scan_list_first_free:
  "filter (\<lambda>q. ts ! q = EphemeralNone) qs = q # rest \<Longrightarrow>
   scan_list ts sts now qs oldest olt = Inl q"
proof (induction qs arbitrary: oldest olt)
  case Nil
  then show ?case by simp
next
  case (Cons a qs)
  then show ?case by (auto simp: Let_def split: if_splits)
qed

lemma scan_list_no_free:
  "filter (\<lambda>q. ts ! q = EphemeralNone) qs = [] \<Longrightarrow>
   \<exists>o'. scan_list ts sts now qs oldest olt = Inr o'
     \<and> ((o' = oldest \<and> (\<forall>q\<in>set qs. now - sts ! q < olt))
        \<or> (\<exists>q\<in>set qs. o' = Some q \<and> olt \<le> now - sts ! q
             \<and> (\<forall>q'\<in>set qs. now - sts ! q' \<le> now - sts ! q)))"
proof (induction qs arbitrary: oldest olt)
  case Nil
  then show ?case by simp
next
  case (Cons a qs)
  then have nf: "ts ! a \<noteq> EphemeralNone" and rest: "filter (\<lambda>q. ts ! q = EphemeralNone) qs = []"
    by (auto split: if_splits)
  show ?case
  proof (cases "olt \<le> now - sts ! a")
    case True
    from Cons.IH [OF rest, of "Some a" "now - sts ! a"] obtain o' where
      r: "scan_list ts sts now qs (Some a) (now - sts ! a) = Inr o'" and
      c: "(o' = Some a \<and> (\<forall>q\<in>set qs. now - sts ! q < now - sts ! a))
          \<or> (\<exists>q\<in>set qs. o' = Some q \<and> now - sts ! a \<le> now - sts ! q
              \<and> (\<forall>q'\<in>set qs. now - sts ! q' \<le> now - sts ! q))" by blast
    from c have "\<exists>q\<in>set (a # qs). o' = Some q \<and> olt \<le> now - sts ! q
              \<and> (\<forall>q'\<in>set (a # qs). now - sts ! q' \<le> now - sts ! q)"
    proof
      assume "o' = Some a \<and> (\<forall>q\<in>set qs. now - sts ! q < now - sts ! a)"
      with True show ?thesis by force
    next
      assume "\<exists>q\<in>set qs. o' = Some q \<and> now - sts ! a \<le> now - sts ! q
              \<and> (\<forall>q'\<in>set qs. now - sts ! q' \<le> now - sts ! q)"
      with True show ?thesis by force
    qed
    with nf True r show ?thesis by (simp add: Let_def)
  next
    case False
    from Cons.IH [OF rest, of oldest olt] obtain o' where
      r: "scan_list ts sts now qs oldest olt = Inr o'" and
      c: "(o' = oldest \<and> (\<forall>q\<in>set qs. now - sts ! q < olt))
          \<or> (\<exists>q\<in>set qs. o' = Some q \<and> olt \<le> now - sts ! q
              \<and> (\<forall>q'\<in>set qs. now - sts ! q' \<le> now - sts ! q))" by blast
    from c False have "(o' = oldest \<and> (\<forall>q\<in>set (a # qs). now - sts ! q < olt))
        \<or> (\<exists>q\<in>set (a # qs). o' = Some q \<and> olt \<le> now - sts ! q
              \<and> (\<forall>q'\<in>set (a # qs). now - sts ! q' \<le> now - sts ! q))"
      by force
    with nf False r show ?thesis by (simp add: Let_def)
  qed
qed

lemma set_rotation:
  "ship \<le> start \<Longrightarrow> start \<le> all \<Longrightarrow> set (rotation ship all start) = {ship..<all}"
  by (auto simp: rotation_def)

lemma rotation_not_Nil:
  "start < all \<Longrightarrow> rotation ship all start \<noteq> []"
  by (simp add: rotation_def)

lemma next_search_start_bounds:
  "ship \<le> q \<Longrightarrow> q < all \<Longrightarrow> ship \<le> next_search_start ship all q \<and> next_search_start ship all q < all"
  by (simp add: next_search_start_def)

lemma find_free_scan_pool:
  "pool_inv p \<Longrightarrow>
   find_free_scan (ephemeral_type_buf p) (ephemeral_start_time_buf p) (ship_point_count p)
     (all_point_count p) (free_ephemeral_particle_search_start_index p) now
     (free_ephemeral_particle_search_start_index p) None 0 =
   Some (scan_list (ephemeral_type_buf p) (ephemeral_start_time_buf p) now
     (rotation (ship_point_count p) (all_point_count p) (free_ephemeral_particle_search_start_index p))
     None 0)"
  by (simp add: pool_inv_def find_free_scan_rotation)


lemma scan_list_Inl_mem:
  "scan_list ts sts now qs oldest olt = Inl q \<Longrightarrow> q \<in> set qs"
  by (induction qs arbitrary: oldest olt) (auto simp: Let_def split: if_splits)

lemma scan_list_Inr_Some_mem:
  "scan_list ts sts now qs oldest olt = Inr (Some q) \<Longrightarrow> q \<in> set qs \<or> oldest = Some q"
  by (induction qs arbitrary: oldest olt) (auto simp: Let_def split: if_splits)

lemma scan_list_Inr_None:
  "scan_list ts sts now qs oldest olt = Inr None \<Longrightarrow>
   oldest = None \<and> (\<forall>q\<in>set qs. now - sts ! q < olt)"
  by (induction qs arbitrary: oldest olt) (auto simp: Let_def split: if_splits)

section \<open>Theorems: FindFreeEphemeralParticle\<close>

text \<open>C6: On a pool satisfying the pool invariant the wrap-around scan of FindFreeEphemeralParticle terminates: it returns a value for every start index and time.\<close>

theorem find_free_ephemeral_particle_returns:
  "pool_inv p \<Longrightarrow> \<exists>r. find_free_ephemeral_particle now force p = Some r"
  by (simp add: find_free_ephemeral_particle_def find_free_scan_pool Let_def
      split: sum.split option.split)

text \<open>C7: When some slot of the ephemeral region is free, FindFreeEphemeralParticle returns the first free slot in wrap-around order from the search start, and moves the search start just past it.\<close>

theorem find_free_ephemeral_particle_first_free:
  assumes "pool_inv p"
    and "filter (is_free_slot p) (rotation (ship_point_count p) (all_point_count p)
           (free_ephemeral_particle_search_start_index p)) = q # rest"
  shows "find_free_ephemeral_particle now force p =
           Some (p\<lparr>free_ephemeral_particle_search_start_index :=
                    next_search_start (ship_point_count p) (all_point_count p) q\<rparr>, q)
     \<and> is_free_slot p q \<and> ship_point_count p \<le> q \<and> q < all_point_count p"
proof -
  let ?rot = "rotation (ship_point_count p) (all_point_count p) (free_ephemeral_particle_search_start_index p)"
  have f: "filter (\<lambda>q. ephemeral_type_buf p ! q = EphemeralNone) ?rot = q # rest"
    using assms(2) by (simp add: is_free_slot_def [abs_def])
  have "q \<in> set (filter (is_free_slot p) ?rot)" using assms(2) by simp
  then have q: "is_free_slot p q" "q \<in> {ship_point_count p..<all_point_count p}"
    using assms(1) set_rotation [of "ship_point_count p" "free_ephemeral_particle_search_start_index p"
        "all_point_count p"] by (auto simp: pool_inv_def)
  show ?thesis
    using assms(1) q
    by (simp add: find_free_ephemeral_particle_def find_free_scan_pool scan_list_first_free [OF f])
qed

text \<open>When no slot is free and force is not set, FindFreeEphemeralParticle returns NoneElementIndex and leaves the store unchanged.\<close>

theorem find_free_ephemeral_particle_no_force:
  assumes "pool_inv p"
    and "filter (is_free_slot p) (rotation (ship_point_count p) (all_point_count p)
           (free_ephemeral_particle_search_start_index p)) = []"
  shows "find_free_ephemeral_particle now False p = Some (p, none_element_index)"
proof -
  have f: "filter (\<lambda>q. ephemeral_type_buf p ! q = EphemeralNone) (rotation (ship_point_count p)
      (all_point_count p) (free_ephemeral_particle_search_start_index p)) = []"
    using assms(2) by (simp add: is_free_slot_def [abs_def])
  obtain o' where "scan_list (ephemeral_type_buf p) (ephemeral_start_time_buf p) now
      (rotation (ship_point_count p) (all_point_count p) (free_ephemeral_particle_search_start_index p))
      None 0 = Inr o'"
    using scan_list_no_free [OF f] by blast
  with assms(1) show ?thesis
    by (simp add: find_free_ephemeral_particle_def find_free_scan_pool Let_def)
qed


text \<open>When no ephemeral particle started in the future, a successful FindFreeEphemeralParticle leaves the search start inside the ephemeral region (the pool invariant).\<close>

theorem find_free_ephemeral_particle_keeps_pool_inv:
  assumes inv: "pool_inv p"
    and past: "\<forall>q\<in>{ship_point_count p..<all_point_count p}. ephemeral_start_time_buf p ! q \<le> now"
    and res: "find_free_ephemeral_particle now force p = Some (p', i)"
  shows "pool_inv p'"
proof -
  let ?s = "free_ephemeral_particle_search_start_index p"
  let ?rot = "rotation (ship_point_count p) (all_point_count p) ?s"
  let ?r = "scan_list (ephemeral_type_buf p) (ephemeral_start_time_buf p) now ?rot None 0"
  have rng: "ship_point_count p \<le> ?s" "?s < all_point_count p" using inv by (auto simp: pool_inv_def)
  have set_rot: "set ?rot = {ship_point_count p..<all_point_count p}"
    using rng by (simp add: set_rotation)
  have upd: "pool_inv (p\<lparr>free_ephemeral_particle_search_start_index :=
      next_search_start (ship_point_count p) (all_point_count p) q\<rparr>)" if "q \<in> set ?rot" for q
    using inv that set_rot next_search_start_bounds [of "ship_point_count p" q "all_point_count p"]
    by (simp add: pool_inv_def)
  show ?thesis
  proof (cases ?r)
    case (Inl q)
    with res inv upd [OF scan_list_Inl_mem [OF Inl]] show ?thesis
      by (auto simp: find_free_ephemeral_particle_def find_free_scan_pool)
  next
    case (Inr o')
    show ?thesis
    proof (cases o')
      case None
      have "\<forall>q\<in>set ?rot. now - ephemeral_start_time_buf p ! q < 0"
        using scan_list_Inr_None Inr None by blast
      then have "\<not> force" using past set_rot rng by force
      with res inv Inr show ?thesis
        by (auto simp: find_free_ephemeral_particle_def find_free_scan_pool)
    next
      case (Some q)
      then have "q \<in> set ?rot" using scan_list_Inr_Some_mem Inr by blast
      with res inv Inr Some upd [of q] show ?thesis
        by (auto simp: find_free_ephemeral_particle_def find_free_scan_pool Let_def split: if_splits)
    qed
  qed
qed

text \<open>When every ephemeral slot is in use, force is set and every start time lies in the future, FindFreeEphemeralParticle returns NoneElementIndex and sets the search start to NoneElementIndex + 1, which wraps to 0 and leaves the ephemeral region.\<close>

theorem find_free_ephemeral_particle_future_start_times:
  assumes inv: "pool_inv p"
    and nofree: "filter (is_free_slot p) (rotation (ship_point_count p) (all_point_count p)
           (free_ephemeral_particle_search_start_index p)) = []"
    and future: "\<forall>q\<in>{ship_point_count p..<all_point_count p}. now < ephemeral_start_time_buf p ! q"
  shows "find_free_ephemeral_particle now True p =
           Some (p\<lparr>free_ephemeral_particle_search_start_index := 0\<rparr>, none_element_index)"
proof -
  let ?s = "free_ephemeral_particle_search_start_index p"
  let ?rot = "rotation (ship_point_count p) (all_point_count p) ?s"
  have rng: "ship_point_count p \<le> ?s" "?s < all_point_count p" using inv by (auto simp: pool_inv_def)
  have set_rot: "set ?rot = {ship_point_count p..<all_point_count p}"
    using rng by (simp add: set_rotation)
  have f: "filter (\<lambda>q. ephemeral_type_buf p ! q = EphemeralNone) ?rot = []"
    using nofree by (simp add: is_free_slot_def [abs_def])
  from scan_list_no_free [OF f, of "ephemeral_start_time_buf p" now None 0]
  obtain o' where rc: "scan_list (ephemeral_type_buf p) (ephemeral_start_time_buf p) now ?rot None 0 = Inr o'
    \<and> ((o' = None \<and> (\<forall>q\<in>set ?rot. now - ephemeral_start_time_buf p ! q < 0))
      \<or> (\<exists>q\<in>set ?rot. o' = Some q \<and> 0 \<le> now - ephemeral_start_time_buf p ! q
           \<and> (\<forall>q'\<in>set ?rot. now - ephemeral_start_time_buf p ! q' \<le> now - ephemeral_start_time_buf p ! q)))" ..
  have "\<not> (\<exists>q\<in>set ?rot. 0 \<le> now - ephemeral_start_time_buf p ! q)"
    using future set_rot by force
  then have "o' = None" using conjunct2 [OF rc] by blast
  with conjunct1 [OF rc] inv rng show ?thesis
    by (simp add: find_free_ephemeral_particle_def find_free_scan_pool Let_def)
qed

section \<open>Theorems: UpdateEphemeralParticles\<close>


lemma update_ephemeral_particle_other:
  "j \<noteq> i \<Longrightarrow> slot_view (update_ephemeral_particle now oh sn p i) j = slot_view p j"
  by (auto simp: slot_view_def update_ephemeral_particle_def update_air_bubble_def
      expire_ephemeral_particle_def Let_def
      split: ephemeral_type.split ephemeral_state.split if_splits)

lemma update_ephemeral_particle_counts:
  "ship_point_count (update_ephemeral_particle now oh sn p i) = ship_point_count p
   \<and> all_point_count (update_ephemeral_particle now oh sn p i) = all_point_count p"
  by (auto simp: update_ephemeral_particle_def update_air_bubble_def
      expire_ephemeral_particle_def Let_def
      split: ephemeral_type.split ephemeral_state.split if_splits)

lemma fold_update_ephemeral_other:
  "j \<notin> set xs \<Longrightarrow>
   slot_view (fold (\<lambda>i q. update_ephemeral_particle now oh sn q i) xs p) j = slot_view p j"
  by (induction xs arbitrary: p) (simp_all add: update_ephemeral_particle_other)

text \<open>UpdateEphemeralParticles never changes the ephemeral data of a ship point.\<close>

theorem update_ephemeral_particles_ship_region:
  "j < ship_point_count p \<Longrightarrow>
   slot_view (update_ephemeral_particles now oh sn p) j = slot_view p j"
  by (simp add: update_ephemeral_particles_def fold_update_ephemeral_other)

text \<open>A debris particle whose lifetime has passed is expired: its type becomes EphemeralNone and the ephemeral points are marked dirty.\<close>

theorem update_ephemeral_particle_debris_expires:
  assumes "ephemeral_type_buf p ! i = Debris"
    and "ephemeral_max_lifetime_buf p ! i \<le> now - ephemeral_start_time_buf p ! i"
    and "i < length (ephemeral_type_buf p)"
  shows "ephemeral_type_buf (update_ephemeral_particle now oh sn p i) ! i = EphemeralNone
     \<and> are_ephemeral_points_dirty (update_ephemeral_particle now oh sn p i)"
  using assms by (simp add: update_ephemeral_particle_def expire_ephemeral_particle_def Let_def)

text \<open>A live debris particle gets an alpha 1 - elapsed/lifetime between 0 and 1.\<close>

theorem update_ephemeral_particle_debris_alpha:
  assumes "ephemeral_type_buf p ! i = Debris"
    and "now - ephemeral_start_time_buf p ! i < ephemeral_max_lifetime_buf p ! i"
    and "0 \<le> now - ephemeral_start_time_buf p ! i"
    and "i < length (color_buf p)"
  shows "0 \<le> snd (snd (snd (color_buf (update_ephemeral_particle now oh sn p i) ! i)))
     \<and> snd (snd (snd (color_buf (update_ephemeral_particle now oh sn p i) ! i))) \<le> 1"
proof -
  have "0 < ephemeral_max_lifetime_buf p ! i" using assms(2,3) by linarith
  then have "0 \<le> (now - ephemeral_start_time_buf p ! i) / ephemeral_max_lifetime_buf p ! i"
    using assms(3) by simp
  then show ?thesis
    using assms by (auto simp: update_ephemeral_particle_def set_alpha_def Let_def split: prod.split)
qed


section \<open>Witnesses on a concrete pool\<close>


lemmas example_pool_simps = example_pool_def empty_points_def pool_inv_def rotation_def
  is_free_slot_def [abs_def] next_search_start_def numeral_3_eq_3 atLeastLessThan_upt

theorem find_free_ephemeral_particle_returns_witness:
  "pool_inv (example_pool [EphemeralNone, Debris, Sparkle] [0, 1, 2])
   \<and> (\<exists>r. find_free_ephemeral_particle 5 True (example_pool [EphemeralNone, Debris, Sparkle] [0, 1, 2]) = Some r)"
  using find_free_ephemeral_particle_returns [of "example_pool [EphemeralNone, Debris, Sparkle] [0, 1, 2]" 5 True]
  by (simp add: example_pool_simps)

theorem find_free_ephemeral_particle_first_free_witness:
  "pool_inv (example_pool [EphemeralNone, Debris, EphemeralNone] [0, 1, 2])
   \<and> find_free_ephemeral_particle 5 False (example_pool [EphemeralNone, Debris, EphemeralNone] [0, 1, 2])
     = Some ((example_pool [EphemeralNone, Debris, EphemeralNone] [0, 1, 2])
              \<lparr>free_ephemeral_particle_search_start_index := 1\<rparr>, 2)"
  using find_free_ephemeral_particle_first_free
    [of "example_pool [EphemeralNone, Debris, EphemeralNone] [0, 1, 2]" 2 "[]" 5 False]
  by (simp add: example_pool_simps)

theorem find_free_ephemeral_particle_no_force_witness:
  "pool_inv (example_pool [EphemeralNone, Debris, Sparkle] [0, 1, 2])
   \<and> find_free_ephemeral_particle 5 False (example_pool [EphemeralNone, Debris, Sparkle] [0, 1, 2])
     = Some (example_pool [EphemeralNone, Debris, Sparkle] [0, 1, 2], none_element_index)"
  using find_free_ephemeral_particle_no_force
    [of "example_pool [EphemeralNone, Debris, Sparkle] [0, 1, 2]" 5]
  by (simp add: example_pool_simps)


theorem find_free_ephemeral_particle_future_start_times_witness:
  "find_free_ephemeral_particle 0 True (example_pool [EphemeralNone, Debris, Sparkle] [0, 1, 2])
     = Some ((example_pool [EphemeralNone, Debris, Sparkle] [0, 1, 2])
              \<lparr>free_ephemeral_particle_search_start_index := 0\<rparr>, none_element_index)
   \<and> \<not> pool_inv ((example_pool [EphemeralNone, Debris, Sparkle] [0, 1, 2])
              \<lparr>free_ephemeral_particle_search_start_index := 0\<rparr>)"
  using find_free_ephemeral_particle_future_start_times
    [of "example_pool [EphemeralNone, Debris, Sparkle] [0, 1, 2]" 0]
  by (simp add: example_pool_simps numeral_3_eq_3 less_Suc_eq)

theorem find_free_ephemeral_particle_keeps_pool_inv_witness:
  "pool_inv ((example_pool [EphemeralNone, Debris, Sparkle] [0, 1, 2])
              \<lparr>free_ephemeral_particle_search_start_index := 2\<rparr>)"
proof -
  let ?p = "example_pool [EphemeralNone, Debris, Sparkle] [0, 1, 2]"
  have r: "find_free_ephemeral_particle 5 True ?p =
      Some (?p\<lparr>free_ephemeral_particle_search_start_index := 2\<rparr>, 1)"
    by (simp add: find_free_ephemeral_particle_def find_free_scan_rotation example_pool_simps Let_def)
  show ?thesis
    by (rule find_free_ephemeral_particle_keeps_pool_inv [OF _ _ r])
       (simp_all add: example_pool_simps)
qed

theorem update_ephemeral_particles_ship_region_witness:
  "0 < ship_point_count (example_pool [EphemeralNone, Debris, Sparkle] [0, 1, 2])
   \<and> slot_view (update_ephemeral_particles 5 (\<lambda>_. 0) (\<lambda>_. 0)
        (example_pool [EphemeralNone, Debris, Sparkle] [0, 1, 2])) 0
     = slot_view (example_pool [EphemeralNone, Debris, Sparkle] [0, 1, 2]) 0"
  using update_ephemeral_particles_ship_region
    [of 0 "example_pool [EphemeralNone, Debris, Sparkle] [0, 1, 2]" 5 "\<lambda>_. 0" "\<lambda>_. 0"]
  by (simp add: example_pool_simps)

theorem update_ephemeral_particle_debris_expires_witness:
  "ephemeral_type_buf (update_ephemeral_particle 5 (\<lambda>_. 0) (\<lambda>_. 0)
      ((example_pool [EphemeralNone, Debris, Sparkle] [0, 1, 2])
         \<lparr>ephemeral_max_lifetime_buf := [0, 2, 10]\<rparr>) 1) ! 1 = EphemeralNone"
  using update_ephemeral_particle_debris_expires
    [of "(example_pool [EphemeralNone, Debris, Sparkle] [0, 1, 2])
         \<lparr>ephemeral_max_lifetime_buf := [0, 2, 10]\<rparr>" 1 5 "\<lambda>_. 0" "\<lambda>_. 0"]
  by (simp add: example_pool_simps)

theorem update_ephemeral_particle_debris_alpha_witness:
  "snd (snd (snd (color_buf (update_ephemeral_particle 5 (\<lambda>_. 0) (\<lambda>_. 0)
      ((example_pool [EphemeralNone, Debris, Sparkle] [0, 1, 2])
         \<lparr>ephemeral_max_lifetime_buf := [0, 10, 10],
          color_buf := [(0, 0, 0, 1), (0, 0, 0, 1), (0, 0, 0, 1)]\<rparr>) 1) ! 1))) \<le> 1"
  using update_ephemeral_particle_debris_alpha
    [of "(example_pool [EphemeralNone, Debris, Sparkle] [0, 1, 2])
         \<lparr>ephemeral_max_lifetime_buf := [0, 10, 10],
          color_buf := [(0, 0, 0, 1), (0, 0, 0, 1), (0, 0, 0, 1)]\<rparr>" 1 5 "\<lambda>_. 0" "\<lambda>_. 0"]
  by (simp add: example_pool_simps)
end
