(* ===== verification/Combustion.thy ===== *)
theory Combustion
  imports PointStore
begin

text \<open>
  Heat and combustion of \<^verbatim>\<open>src/Game/Points.cpp\<close>: the flame-development state
  machine of \<^verbatim>\<open>UpdateCombustionHighFrequency\<close>, the heat a burning point gives its
  neighbours, the ignition and consumption pass \<^verbatim>\<open>UpdateCombustionLowFrequency\<close>,
  and the list \<^verbatim>\<open>mBurningPoints\<close> kept in plane-id order by
  \<^verbatim>\<open>std::lower_bound\<close> and \<^verbatim>\<open>ReorderBurningPointsForDepth\<close>.

  The high-frequency pass erases from \<^verbatim>\<open>mBurningPoints\<close> inside a range-for over
  the same vector.  The model follows what the loop does with a vector of trivially
  copyable indices: the loop runs over the positions of the vector as it was when the
  loop started, reads whatever each position holds at that moment, and \<^verbatim>\<open>erase\<close>
  shifts the tail left while leaving the last old slot in place.  A failed
  \<^verbatim>\<open>std::find\<close> (erase at \<^verbatim>\<open>end()\<close>) is undefined and gives \<open>None\<close>.
\<close>

section \<open>Helpers declared outside src/\<close>

text \<open>\<^verbatim>\<open>SmoothStep\<close> of \<^verbatim>\<open>GameCore/GameMath.h\<close>.\<close>

definition smooth_step :: "real \<Rightarrow> real \<Rightarrow> real \<Rightarrow> real" where
  "smooth_step e0 e1 x =
     (let t = min (max ((x - e0) / (e1 - e0)) 0) 1 in t * t * (3 - 2 * t))"

text \<open>\<^verbatim>\<open>SmotherCombustion\<close> (declared in \<^verbatim>\<open>Physics.h\<close>): the point goes to
  extinguishing by smothering.\<close>

definition smother_combustion :: "element_index \<Rightarrow> points \<Rightarrow> points" where
  "smother_combustion i p =
     p\<lparr>combustion_state_buf := (combustion_state_buf p)[i :=
        (combustion_state_buf p ! i)\<lparr>cs_state := Extinguishing_Smothered\<rparr>]\<rparr>"

section \<open>Burning points ordered by plane id\<close>

text \<open>\<^verbatim>\<open>std::lower_bound\<close> with the comparator
  \<open>plane p1 < plane p2\<close>: the binary search over \<open>[first, first + len)\<close>.\<close>

function lower_bound :: "(nat \<Rightarrow> nat) \<Rightarrow> nat list \<Rightarrow> nat \<Rightarrow> nat \<Rightarrow> nat \<Rightarrow> nat" where
  "lower_bound plane xs x first len =
     (if len = 0 then first
      else (let half = len div 2; middle = first + half
            in if plane (xs ! middle) < plane x
               then lower_bound plane xs x (Suc middle) (len - half - 1)
               else lower_bound plane xs x first half))"
  by pat_completeness auto
termination
  by (relation "measure (\<lambda>(_, _, _, _, len). len)") auto

declare lower_bound.simps [simp del]

definition insert_burning_point :: "(nat \<Rightarrow> nat) \<Rightarrow> element_index \<Rightarrow> nat list \<Rightarrow> nat list" where
  "insert_burning_point plane i bp =
     (let k = lower_bound plane bp i 0 (length bp) in take k bp @ i # drop k bp)"

text \<open>The reference: insertion before the first point of no smaller plane id.\<close>

fun insort_plane :: "(nat \<Rightarrow> nat) \<Rightarrow> nat \<Rightarrow> nat list \<Rightarrow> nat list" where
  "insort_plane plane x [] = [x]"
| "insort_plane plane x (y # ys) =
     (if plane y < plane x then y # insort_plane plane x ys else x # y # ys)"

text \<open>\<^verbatim>\<open>ReorderBurningPointsForDepth\<close>: \<^verbatim>\<open>std::sort\<close> by plane id.  The
  standard sort is not stable, so the model takes one admissible order.\<close>

definition reorder_burning_points_for_depth :: "points \<Rightarrow> points" where
  "reorder_burning_points_for_depth p =
     p\<lparr>burning_points := sort_key (\<lambda>i. plane_id_buf p ! i) (burning_points p)\<rparr>"

section \<open>The flame-development state machine\<close>

text \<open>The \<^verbatim>\<open>switch\<close> at the end of \<^verbatim>\<open>UpdateCombustionHighFrequency\<close>:
  the new combustion state and whether the point leaves \<^verbatim>\<open>mBurningPoints\<close>.\<close>

definition flame_step :: "combustion_state \<Rightarrow> combustion_state \<times> bool" where
  "flame_step c =
     (case cs_state c of
        Developing_1 \<Rightarrow>
          (let fd = cs_flame_development c + 0.105 * cs_flame_development c
           in (c\<lparr>cs_flame_development := fd,
                 cs_state := (if cs_max_flame_development c + 0.2 < fd then Developing_2
                              else Developing_1)\<rparr>, False))
      | Developing_2 \<Rightarrow>
          (let extra0 = cs_flame_development c - cs_max_flame_development c;
               extra = extra0 - 0.2 * extra0
           in if extra < 0.02
              then (c\<lparr>cs_state := Burning, cs_flame_development := cs_max_flame_development c\<rparr>, False)
              else (c\<lparr>cs_flame_development := cs_max_flame_development c + extra\<rparr>, False))
      | Extinguishing_Consumed \<Rightarrow>
          (let fd = cs_flame_development c
                    - 0.0625 * (cs_max_flame_development c - cs_flame_development c + 0.01)
           in if fd \<le> 0.02 then (c\<lparr>cs_flame_development := fd, cs_state := NotBurning\<rparr>, True)
              else (c\<lparr>cs_flame_development := fd\<rparr>, False))
      | Extinguishing_Smothered \<Rightarrow>
          (let fd = cs_flame_development c - 0.3 * cs_flame_development c
           in if fd \<le> 0.02 then (c\<lparr>cs_flame_development := fd, cs_state := NotBurning\<rparr>, True)
              else (c\<lparr>cs_flame_development := fd\<rparr>, False))
      | Burning \<Rightarrow> (c, False)
      | NotBurning \<Rightarrow> (c, False))"

text \<open>The transitions the state machine may take in one tick (spec section 4.5), and
  the flame of one point over \<open>n\<close> ticks when nothing else touches it.\<close>

fun flame_transition_allowed :: "combustion_state_type \<Rightarrow> combustion_state_type \<Rightarrow> bool" where
  "flame_transition_allowed Developing_1 s = (s = Developing_1 \<or> s = Developing_2)"
| "flame_transition_allowed Developing_2 s = (s = Developing_2 \<or> s = Burning)"
| "flame_transition_allowed Burning s = (s = Burning)"
| "flame_transition_allowed Extinguishing_Consumed s = (s = Extinguishing_Consumed \<or> s = NotBurning)"
| "flame_transition_allowed Extinguishing_Smothered s = (s = Extinguishing_Smothered \<or> s = NotBurning)"
| "flame_transition_allowed NotBurning s = (s = NotBurning)"

definition flame_run :: "nat \<Rightarrow> combustion_state \<Rightarrow> combustion_state" where
  "flame_run n c = ((\<lambda>c. fst (flame_step c)) ^^ n) c"

section \<open>One point of the high-frequency pass\<close>

definition effective_combustion_heat :: "game_parameters \<Rightarrow> real \<Rightarrow> real" where
  "effective_combustion_heat gp dt = 100 * 1000 * dt * gp_combustion_heat_adjustment gp"

text \<open>Heat a burning point \<open>i\<close> gives its neighbour across one spring, preferring the
  upward direction: \<open>0.2 + 1.5 (1 - cos \<theta>)\<close> against gravity.\<close>

definition deposit_heat ::
  "game_parameters \<Rightarrow> real \<Rightarrow> element_index \<Rightarrow> connected_spring \<Rightarrow> points \<Rightarrow> points" where
  "deposit_heat gp dt i s p =
     (let other = other_endpoint_index s;
          spring_dir = vnormalise (vsub (position_buf p ! other) (position_buf p ! i));
          dir_alpha = 0.2 + 1.5 * (1 - vdot spring_dir (gp_gravity_normalized gp))
      in p\<lparr>temperature_buf := (temperature_buf p)[other :=
            temperature_buf p ! other
            + effective_combustion_heat gp dt * dir_alpha / material_heat_capacity_buf p ! other]\<rparr>)"

definition is_active_flame :: "combustion_state_type \<Rightarrow> bool" where
  "is_active_flame s \<longleftrightarrow>
     s = Developing_1 \<or> s = Developing_2 \<or> s = Burning \<or> s = Extinguishing_Consumed"

text \<open>The body of the loop for point \<open>i\<close>: smothering or heat generation, then the
  state machine.  The flag says that the point must be erased from the list.\<close>

definition combustion_hf_point ::
  "game_parameters \<Rightarrow> real \<Rightarrow> (vec2 \<Rightarrow> bool) \<Rightarrow> element_index \<Rightarrow> points \<Rightarrow> points \<times> bool" where
  "combustion_hf_point gp dt is_underwater i p =
     (let st = cs_state (combustion_state_buf p ! i);
          p1 = (if is_active_flame st
                   \<and> (is_underwater (position_buf p ! i)
                      \<or> gp_smothering_water_high_watermark gp < water_buf p ! i)
                then smother_combustion i p
                else if st = Burning
                then fold (deposit_heat gp dt i) (connected_springs_buf p ! i)
                       (p\<lparr>temperature_buf := (temperature_buf p)[i :=
                          material_ignition_temperature_buf p ! i
                          * gp_ignition_temperature_adjustment gp * 1.1]\<rparr>)
                else p);
          (c', remove) = flame_step (combustion_state_buf p1 ! i)
      in (p1\<lparr>combustion_state_buf := (combustion_state_buf p1)[i := c']\<rparr>, remove))"

section \<open>The high-frequency loop over mBurningPoints\<close>

text \<open>\<^verbatim>\<open>vector::erase\<close> at position \<open>j\<close> of a vector of logical size \<open>sz\<close>,
  on its storage \<open>buf\<close>: the tail moves one slot left, the old last slot keeps its
  value.\<close>

definition erase_in_storage :: "nat \<Rightarrow> nat \<Rightarrow> nat list \<Rightarrow> nat list" where
  "erase_in_storage j sz buf = take j buf @ take (sz - 1 - j) (drop (Suc j) buf) @ drop (sz - 1) buf"

definition find_index :: "nat \<Rightarrow> nat list \<Rightarrow> nat option" where
  "find_index x xs = (if x \<in> set xs then Some (length (takeWhile (\<lambda>y. y \<noteq> x) xs)) else None)"

text \<open>The range-for: positions \<open>k\<close> of the storage as it was when the loop began;
  the state is the store, the storage and the logical size.\<close>

fun combustion_hf_loop ::
  "game_parameters \<Rightarrow> real \<Rightarrow> (vec2 \<Rightarrow> bool) \<Rightarrow> nat list \<Rightarrow> points \<times> nat list \<times> nat
   \<Rightarrow> (points \<times> nat list \<times> nat) option" where
  "combustion_hf_loop gp dt uw [] st = Some st"
| "combustion_hf_loop gp dt uw (k # ks) (p, buf, sz) =
     (let i = buf ! k;
          (p', remove) = combustion_hf_point gp dt uw i p
      in if \<not> remove then combustion_hf_loop gp dt uw ks (p', buf, sz)
         else (case find_index i (take sz buf) of
                 None \<Rightarrow> None
               | Some j \<Rightarrow> combustion_hf_loop gp dt uw ks (p', erase_in_storage j sz buf, sz - 1)))"

definition update_combustion_high_frequency ::
  "game_parameters \<Rightarrow> real \<Rightarrow> (vec2 \<Rightarrow> bool) \<Rightarrow> points \<Rightarrow> points option" where
  "update_combustion_high_frequency gp dt uw p =
     (let bp = burning_points p
      in case combustion_hf_loop gp dt uw [0..<length bp] (p, bp, length bp) of
           None \<Rightarrow> None
         | Some (p', buf, sz) \<Rightarrow> Some (p'\<lparr>burning_points := take sz buf\<rparr>))"

text \<open>The reference the loop is meant to implement: every point of the list is
  processed once, in order, and the finished ones leave the list.\<close>

fun combustion_hf_reference ::
  "game_parameters \<Rightarrow> real \<Rightarrow> (vec2 \<Rightarrow> bool) \<Rightarrow> nat list \<Rightarrow> points \<Rightarrow> points \<times> nat list" where
  "combustion_hf_reference gp dt uw [] p = (p, [])"
| "combustion_hf_reference gp dt uw (i # is) p =
     (let (p', remove) = combustion_hf_point gp dt uw i p;
          (p'', kept) = combustion_hf_reference gp dt uw is p'
      in (p'', if remove then kept else i # kept))"

section \<open>The low-frequency pass\<close>

text \<open>The loop \<^verbatim>\<open>for (i = offset; i < shipPointCount; i += stride)\<close>: its
  index sequence, which is infinite when \<open>stride = 0\<close> and \<open>offset\<close> is in range.\<close>

partial_function (option) stride_indices :: "nat \<Rightarrow> nat \<Rightarrow> nat \<Rightarrow> nat list option" where
  "stride_indices i stride n =
     (if i < n then Option.bind (stride_indices (i + stride) stride n) (\<lambda>is. Some (i # is))
      else Some [])"

definition effective_combustion_decay_rate :: "game_parameters \<Rightarrow> real \<Rightarrow> real" where
  "effective_combustion_decay_rate gp dt = 90 / (gp_combustion_speed_adjustment gp * dt)"

definition decay_alpha :: "game_parameters \<Rightarrow> real \<Rightarrow> real \<Rightarrow> real" where
  "decay_alpha gp dt material_mass =
     (let mass_multiplier = (material_mass / 750) powr 0.15;
          total_decay_steps = effective_combustion_decay_rate gp dt * mass_multiplier
      in 0.01 powr (1 / total_decay_steps))"

definition decay_neighbour :: "real \<Rightarrow> connected_spring \<Rightarrow> points \<Rightarrow> points" where
  "decay_neighbour alpha s p =
     p\<lparr>decay_buf := (decay_buf p)[other_endpoint_index s :=
        decay_buf p ! other_endpoint_index s * alpha]\<rparr>"

text \<open>One point of the loop: a candidate for ignition, or a burning point that is
  consumed (\<^verbatim>\<open>OnPointCombustionEnd\<close>) or decays with its neighbours.\<close>

definition combustion_lf_point ::
  "game_parameters \<Rightarrow> real \<Rightarrow> (vec2 \<Rightarrow> bool) \<Rightarrow> points \<times> (nat \<times> real) list \<Rightarrow> element_index
   \<Rightarrow> points \<times> (nat \<times> real) list" where
  "combustion_lf_point gp dt is_underwater pc i =
     (let (p, cands) = pc;
          c = combustion_state_buf p ! i;
          t = temperature_buf p ! i;
          eff_ign = material_ignition_temperature_buf p ! i * gp_ignition_temperature_adjustment gp
      in if cs_state c = NotBurning then
           (if eff_ign + gp_ignition_temperature_high_watermark gp \<le> t
               \<and> \<not> is_underwater (position_buf p ! i)
               \<and> water_buf p ! i < gp_smothering_water_low_watermark gp
               \<and> gp_smothering_decay_high_watermark gp < decay_buf p ! i
            then (p, cands @ [(i, (t - eff_ign) / eff_ign)])
            else (p, cands))
         else if cs_state c = Burning then
           (if t \<le> eff_ign + gp_ignition_temperature_low_watermark gp
               \<or> decay_buf p ! i < gp_smothering_decay_low_watermark gp
            then (p\<lparr>combustion_state_buf := (combustion_state_buf p)[i :=
                     c\<lparr>cs_state := Extinguishing_Consumed\<rparr>],
                   events := events p @ [PointCombustionEnd]\<rparr>, cands)
            else
              (let alpha = decay_alpha gp dt (sm_mass (structural_material_of p i));
                   p1 = p\<lparr>decay_buf := (decay_buf p)[i := decay_buf p ! i * alpha]\<rparr>
               in (fold (decay_neighbour alpha) (connected_springs_buf p1 ! i) p1, cands)))
         else (p, cands))"

text \<open>Ignition of one selected candidate; \<open>personality\<close> is the draw of
  \<^verbatim>\<open>GenerateRandomNormalizedReal\<close>.\<close>

definition ignite_point :: "real \<Rightarrow> nat \<times> real \<Rightarrow> points \<Rightarrow> points" where
  "ignite_point personality cand p =
     (let i = fst cand;
          fd = 0.1 + 0.5 * smooth_step 0 2 (snd cand);
          delta = real (length (connected_springs_buf p ! i)) * 0.0625;
          c = (combustion_state_buf p ! i)\<lparr>cs_state := Developing_1, cs_flame_development := fd,
                cs_personality := personality,
                cs_max_flame_development := max (0.25 + delta + 0.5 * personality) fd\<rparr>
      in p\<lparr>combustion_state_buf := (combustion_state_buf p)[i := c],
           burning_points := insert_burning_point (\<lambda>q. plane_id_buf p ! q) i (burning_points p),
           events := events p @ [PointCombustionBegin]\<rparr>)"

text \<open>How many candidates ignite: \<open>4 + rnd_choice\<close> (\<open>rnd_choice\<close> is the draw of
  \<^verbatim>\<open>Choose(6)\<close>), at most the room left under \<^verbatim>\<open>MaxBurningParticles\<close>, at most
  the candidates.\<close>

definition max_ignitions :: "game_parameters \<Rightarrow> nat \<Rightarrow> nat \<Rightarrow> nat \<Rightarrow> nat" where
  "max_ignitions gp rnd_choice n_burning n_candidates =
     min (min (4 + rnd_choice)
              (if n_burning < gp_max_burning_particles gp
               then gp_max_burning_particles gp - n_burning else 0))
         n_candidates"

text \<open>\<^verbatim>\<open>std::nth_element\<close> puts the \<open>k\<close> candidates of highest key first, in an
  unspecified order; the model takes them in the order of a stable sort.\<close>

definition select_candidates :: "nat \<Rightarrow> (nat \<times> real) list \<Rightarrow> (nat \<times> real) list" where
  "select_candidates k cands = take k (sort_key (\<lambda>c. - snd c) cands)"

definition update_combustion_low_frequency ::
  "nat \<Rightarrow> nat \<Rightarrow> real \<Rightarrow> game_parameters \<Rightarrow> (vec2 \<Rightarrow> bool) \<Rightarrow> nat \<Rightarrow> (nat \<Rightarrow> real)
   \<Rightarrow> points \<Rightarrow> points option" where
  "update_combustion_low_frequency offset stride dt gp is_underwater rnd_choice personality p =
     (case stride_indices offset stride (ship_point_count p) of
        None \<Rightarrow> None
      | Some is \<Rightarrow>
          (let (p1, cands) = fold (\<lambda>i pc. combustion_lf_point gp dt is_underwater pc i) is (p, []);
               k = max_ignitions gp rnd_choice (length (burning_points p1)) (length cands);
               chosen = select_candidates k cands
           in Some (fold (\<lambda>j q. ignite_point (personality j) (chosen ! j) q) [0..<k] p1)))"

section \<open>The invariant of the burning list\<close>

text \<open>\<^verbatim>\<open>mBurningPoints\<close> holds each ship point that is not
  \<^verbatim>\<open>NotBurning\<close> exactly once, in plane-id order (the order
  \<^verbatim>\<open>std::lower_bound\<close> relies on and the assertion before the insertion
  states).\<close>

definition combustion_inv :: "points \<Rightarrow> bool" where
  "combustion_inv p \<longleftrightarrow>
     ship_point_count p \<le> length (combustion_state_buf p)
     \<and> distinct (burning_points p)
     \<and> sorted (map (\<lambda>q. plane_id_buf p ! q) (burning_points p))
     \<and> set (burning_points p) =
         {i. i < ship_point_count p \<and> cs_state (combustion_state_buf p ! i) \<noteq> NotBurning}"

section \<open>A concrete store with three extinguishing points\<close>

definition example_extinguishing :: combustion_state where
  "example_extinguishing =
     \<lparr>cs_state = Extinguishing_Smothered, cs_flame_development = 0.02,
      cs_max_flame_development = 0.5, cs_personality = 0\<rparr>"

definition example_burning_store :: points where
  "example_burning_store =
     empty_points\<lparr>ship_point_count := 3, all_point_count := 3,
       combustion_state_buf := replicate 3 example_extinguishing,
       burning_points := [0, 1, 2],
       position_buf := replicate 3 (0, 0), water_buf := replicate 3 0,
       connected_springs_buf := replicate 3 [], plane_id_buf := [0, 1, 2]\<rparr>"

text \<open>The same store with three developing flames: nothing leaves the list.\<close>

definition example_developing :: combustion_state where
  "example_developing =
     \<lparr>cs_state = Developing_1, cs_flame_development = 0.1,
      cs_max_flame_development = 0.5, cs_personality = 0\<rparr>"

definition example_developing_store :: points where
  "example_developing_store =
     example_burning_store\<lparr>combustion_state_buf := replicate 3 example_developing\<rparr>"

section \<open>Insertion into the burning list\<close>

lemma sorted_lt_takeWhile:
  assumes s: "sorted (map plane xs)" and m: "m < length xs"
  shows "plane (xs ! m) < plane x \<longleftrightarrow> m < length (takeWhile (\<lambda>y. plane y < plane x) xs)"
proof
  assume lt: "plane (xs ! m) < plane x"
  show "m < length (takeWhile (\<lambda>y. plane y < plane x) xs)"
  proof (rule ccontr)
    let ?t = "length (takeWhile (\<lambda>y. plane y < plane x) xs)"
    assume "\<not> m < ?t"
    then have le: "?t \<le> m" by simp
    with m have tl: "?t < length xs" by simp
    then have "\<not> plane (xs ! ?t) < plane x" by (rule nth_length_takeWhile)
    moreover have "plane (xs ! ?t) \<le> plane (xs ! m)"
      using s le m tl by (auto simp: sorted_iff_nth_mono)
    ultimately show False using lt by simp
  qed
next
  assume "m < length (takeWhile (\<lambda>y. plane y < plane x) xs)"
  then show "plane (xs ! m) < plane x"
    by (metis nth_mem set_takeWhileD takeWhile_nth)
qed

lemma lower_bound_takeWhile:
  assumes "sorted (map plane xs)" "first + len \<le> length xs"
    "first \<le> length (takeWhile (\<lambda>y. plane y < plane x) xs)"
    "length (takeWhile (\<lambda>y. plane y < plane x) xs) \<le> first + len"
  shows "lower_bound plane xs x first len = length (takeWhile (\<lambda>y. plane y < plane x) xs)"
  using assms
proof (induction plane xs x first len rule: lower_bound.induct)
  case (1 plane xs x first len)
  let ?t = "length (takeWhile (\<lambda>y. plane y < plane x) xs)"
  show ?case
  proof (cases "len = 0")
    case True
    with "1.prems" show ?thesis by (simp add: lower_bound.simps [of plane xs x first 0])
  next
    case False
    let ?mid = "first + len div 2"
    have mid: "?mid < length xs" using False "1.prems"(2) by simp
    show ?thesis
    proof (cases "plane (xs ! ?mid) < plane x")
      case True
      then have "?mid < ?t" using sorted_lt_takeWhile [OF "1.prems"(1) mid] by simp
      with "1.IH"(1) [of "len div 2" ?mid] False True "1.prems" show ?thesis
        by (simp add: lower_bound.simps [of plane xs x first len])
    next
      case ge: False
      then have "?t \<le> ?mid" using sorted_lt_takeWhile [OF "1.prems"(1) mid] by simp
      with "1.IH"(2) [of "len div 2" ?mid] False ge "1.prems" show ?thesis
        by (simp add: lower_bound.simps [of plane xs x first len])
    qed
  qed
qed

lemma insort_plane_takeWhile:
  "insort_plane plane x xs =
     takeWhile (\<lambda>y. plane y < plane x) xs @ x # dropWhile (\<lambda>y. plane y < plane x) xs"
  by (induction xs) auto

lemma insert_burning_point_insort:
  assumes "sorted (map plane bp)"
  shows "insert_burning_point plane i bp = insort_plane plane i bp"
proof -
  have k: "lower_bound plane bp i 0 (length bp) = length (takeWhile (\<lambda>y. plane y < plane i) bp)"
    by (rule lower_bound_takeWhile) (simp_all add: assms length_takeWhile_le)
  show ?thesis
    by (simp add: insert_burning_point_def k insort_plane_takeWhile
        flip: takeWhile_eq_take dropWhile_eq_drop)
qed

lemma mset_insort_plane: "mset (insort_plane plane x xs) = add_mset x (mset xs)"
  by (induction xs) auto

lemma set_insort_plane: "set (insort_plane plane x xs) = insert x (set xs)"
  by (induction xs) auto

lemma sorted_insort_plane:
  "sorted (map plane xs) \<Longrightarrow> sorted (map plane (insort_plane plane x xs))"
  by (induction xs) (auto simp: set_insort_plane)

lemma distinct_insort_plane:
  "x \<notin> set xs \<Longrightarrow> distinct xs \<Longrightarrow> distinct (insort_plane plane x xs)"
  by (induction xs) (auto simp: set_insort_plane)

section \<open>The flame state machine\<close>

lemma flame_step_cases [state_machine_simps]:
  "cs_state c = NotBurning \<Longrightarrow> flame_step c = (c, False)"
  "cs_state c = Burning \<Longrightarrow> flame_step c = (c, False)"
  by (simp_all add: flame_step_def)

lemma flame_step_max_personality:
  "cs_max_flame_development (fst (flame_step c)) = cs_max_flame_development c
   \<and> cs_personality (fst (flame_step c)) = cs_personality c"
  by (simp add: flame_step_def Let_def split: combustion_state_type.split)

text \<open>One step of the flame-development state machine only takes the transitions Developing_1 -> Developing_2 -> Burning, Extinguishing_* -> NotBurning, or stays.\<close>

theorem flame_step_transition:
  "flame_transition_allowed (cs_state c) (cs_state (fst (flame_step c)))"
  by (cases "cs_state c") (simp_all add: flame_step_def Let_def)

text \<open>A point leaves mBurningPoints in a step exactly when it was extinguishing and the step takes it to NotBurning.\<close>

theorem flame_step_removes:
  "snd (flame_step c) \<longleftrightarrow>
     (cs_state c = Extinguishing_Consumed \<or> cs_state c = Extinguishing_Smothered)
     \<and> cs_state (fst (flame_step c)) = NotBurning"
  by (cases "cs_state c") (simp_all add: flame_step_def Let_def)

lemma flame_run_Suc: "flame_run (Suc n) c = fst (flame_step (flame_run n c))"
  by (simp add: flame_run_def)

lemma flame_run_add: "flame_run (m + n) c = flame_run m (flame_run n c)"
  by (simp add: flame_run_def funpow_add)

lemma flame_run_stable:
  "cs_state c = NotBurning \<or> cs_state c = Burning \<Longrightarrow> flame_run n c = c"
  by (induction n) (auto simp: flame_run_Suc flame_step_def flame_run_def)

lemma flame_run_smothered:
  "cs_state c = Extinguishing_Smothered \<Longrightarrow>
   cs_state (flame_run n c) = NotBurning
   \<or> (cs_state (flame_run n c) = Extinguishing_Smothered
      \<and> cs_flame_development (flame_run n c) = 0.7 ^ n * cs_flame_development c)"
proof (induction n)
  case 0
  then show ?case by (simp add: flame_run_def)
next
  case (Suc n)
  then show ?case
    by (auto simp: flame_run_Suc flame_step_def Let_def)
qed

text \<open>A smothered flame reaches NotBurning after finitely many steps.\<close>

theorem flame_smothered_goes_out:
  "cs_state c = Extinguishing_Smothered \<Longrightarrow> \<exists>n. cs_state (flame_run n c) = NotBurning"
proof -
  assume s: "cs_state c = Extinguishing_Smothered"
  let ?fd = "cs_flame_development c"
  obtain n where n: "0.7 ^ n * ?fd < 0.02"
  proof (cases "0 < ?fd")
    case True
    obtain n where "(0.7::real) ^ n < 0.02 / ?fd"
      using real_arch_pow_inv [of "0.02 / ?fd" "0.7"] True by auto
    then have "0.7 ^ n * ?fd < 0.02" using True by (simp add: pos_less_divide_eq)
    then show ?thesis by (rule that)
  next
    case False
    then have "0.7 ^ 0 * ?fd < 0.02" by simp
    then show ?thesis by (rule that)
  qed
  from flame_run_smothered [OF s, of n]
  have "cs_state (flame_run (Suc n) c) = NotBurning"
  proof
    assume "cs_state (flame_run n c) = NotBurning"
    then show ?thesis by (simp add: flame_run_Suc flame_step_def)
  next
    assume r: "cs_state (flame_run n c) = Extinguishing_Smothered
      \<and> cs_flame_development (flame_run n c) = 0.7 ^ n * ?fd"
    have small: "0.7 * y \<le> 0.02" if "y < 0.02" for y :: real using that by (simp add: power2_eq_square)
    have "0.7 * (0.7 ^ n * ?fd) \<le> 0.02" using small [OF n] .
    with r show ?thesis by (simp add: flame_run_Suc flame_step_def Let_def)
  qed
  then show ?thesis by blast
qed

section \<open>Development reaches Burning\<close>

lemma flame_step_into_developing_1:
  "cs_state (fst (flame_step c)) = Developing_1 \<Longrightarrow>
   cs_state c = Developing_1
   \<and> cs_flame_development (fst (flame_step c)) \<le> cs_max_flame_development c + 0.2"
  by (cases "cs_state c") (auto simp: flame_step_def Let_def split: if_splits)

lemma flame_step_into_developing_2:
  "cs_state (fst (flame_step c)) = Developing_2 \<Longrightarrow> cs_state c = Developing_2 \<Longrightarrow>
   0.02 \<le> cs_flame_development (fst (flame_step c)) - cs_max_flame_development c"
  by (auto simp: flame_step_def Let_def split: if_splits)

lemma flame_step_into_consumed:
  "cs_state (fst (flame_step c)) = Extinguishing_Consumed \<Longrightarrow>
   0.02 < cs_flame_development (fst (flame_step c))"
  by (cases "cs_state c") (auto simp: flame_step_def Let_def split: if_splits)

lemma flame_run_developing_1:
  assumes "cs_state c = Developing_1"
  shows "cs_state (flame_run n c) \<in> {Developing_1, Developing_2, Burning}
    \<and> cs_max_flame_development (flame_run n c) = cs_max_flame_development c
    \<and> (cs_state (flame_run n c) = Developing_1 \<longrightarrow>
         cs_flame_development (flame_run n c) = 1.105 ^ n * cs_flame_development c)"
proof (induction n)
  case 0
  with assms show ?case by (simp add: flame_run_def)
next
  case (Suc n)
  then show ?case
    by (auto simp: flame_run_Suc flame_step_def Let_def split: if_splits)
qed

lemma flame_run_developing_2:
  assumes "cs_state c = Developing_2"
  shows "cs_state (flame_run n c) \<in> {Developing_2, Burning}
    \<and> cs_max_flame_development (flame_run n c) = cs_max_flame_development c
    \<and> (cs_state (flame_run n c) = Developing_2 \<longrightarrow>
         cs_flame_development (flame_run n c) - cs_max_flame_development c
           = 0.8 ^ n * (cs_flame_development c - cs_max_flame_development c))"
proof (induction n)
  case 0
  with assms show ?case by (simp add: flame_run_def)
next
  case (Suc n)
  then show ?case
    by (auto simp: flame_run_Suc flame_step_def Let_def)
qed

lemma flame_developing_1_leaves:
  assumes s: "cs_state c = Developing_1" and pos: "0 < cs_flame_development c"
  shows "\<exists>n. cs_state (flame_run n c) = Developing_2 \<or> cs_state (flame_run n c) = Burning"
proof -
  let ?fd = "cs_flame_development c" and ?mfd = "cs_max_flame_development c"
  obtain n where n: "(?mfd + 0.2) / ?fd < 1.105 ^ n"
    using real_arch_pow [of "1.105" "(?mfd + 0.2) / ?fd"] by auto
  have a: "?mfd + 0.2 < 1.105 ^ n * ?fd"
    using pos_divide_less_eq [OF pos, THEN iffD1, OF n] .
  have "(1.105::real) ^ n \<le> 1.105 ^ Suc n" by simp
  then have b: "1.105 ^ n * ?fd \<le> 1.105 ^ Suc n * ?fd"
    using pos by (intro mult_right_mono) simp_all
  have big: "?mfd + 0.2 < 1.105 ^ Suc n * ?fd" by (rule less_le_trans [OF a b])
  from flame_run_developing_1 [OF s, of "Suc n"]
  have r: "cs_state (flame_run (Suc n) c) \<in> {Developing_1, Developing_2, Burning}"
    "cs_max_flame_development (flame_run (Suc n) c) = ?mfd"
    "cs_state (flame_run (Suc n) c) = Developing_1 \<Longrightarrow>
       cs_flame_development (flame_run (Suc n) c) = 1.105 ^ Suc n * ?fd" by auto
  have "cs_state (flame_run (Suc n) c) \<noteq> Developing_1"
  proof
    assume d1: "cs_state (flame_run (Suc n) c) = Developing_1"
    then have "cs_flame_development (flame_run (Suc n) c)
               \<le> cs_max_flame_development (flame_run n c) + 0.2"
      using flame_step_into_developing_1 [of "flame_run n c"] by (simp add: flame_run_Suc)
    moreover have "cs_max_flame_development (flame_run n c) = ?mfd"
      using flame_run_developing_1 [OF s, of n] by simp
    ultimately show False using r(3) [OF d1] big by linarith
  qed
  with r(1) show ?thesis by blast
qed

lemma flame_developing_2_burns:
  assumes s: "cs_state c = Developing_2"
  shows "\<exists>n. cs_state (flame_run n c) = Burning"
proof -
  let ?e = "cs_flame_development c - cs_max_flame_development c"
  obtain n where n: "0.8 ^ Suc n * ?e < 0.02"
  proof (cases "0 < ?e")
    case True
    obtain n where "(0.8::real) ^ n < 0.02 / ?e"
      using real_arch_pow_inv [of "0.02 / ?e" "0.8"] True by auto
    then have a: "0.8 ^ n * ?e < 0.02" using pos_less_divide_eq [OF True, THEN iffD1] by blast
    have "(0.8::real) ^ Suc n \<le> 0.8 ^ n" by simp
    then have b: "0.8 ^ Suc n * ?e \<le> 0.8 ^ n * ?e"
      using True by (intro mult_right_mono) simp_all
    show ?thesis by (rule that, rule le_less_trans [OF b a])
  next
    case False
    then have "0.8 ^ Suc 0 * ?e < 0.02" by simp
    then show ?thesis by (rule that)
  qed
  from flame_run_developing_2 [OF s, of "Suc n"]
  have r: "cs_state (flame_run (Suc n) c) \<in> {Developing_2, Burning}"
    "cs_state (flame_run (Suc n) c) = Developing_2 \<Longrightarrow>
       cs_flame_development (flame_run (Suc n) c) - cs_max_flame_development c = 0.8 ^ Suc n * ?e"
    by auto
  have "cs_state (flame_run (Suc n) c) \<noteq> Developing_2"
  proof
    assume d2: "cs_state (flame_run (Suc n) c) = Developing_2"
    then have prev: "cs_state (flame_run n c) = Developing_2"
      using flame_run_developing_2 [OF s, of n] by (auto simp: flame_run_Suc flame_step_def)
    have "0.02 \<le> cs_flame_development (flame_run (Suc n) c)
                - cs_max_flame_development (flame_run n c)"
      using flame_step_into_developing_2 [of "flame_run n c"] d2 prev by (simp add: flame_run_Suc)
    moreover have "cs_max_flame_development (flame_run n c) = cs_max_flame_development c"
      using flame_run_developing_2 [OF s, of n] by simp
    ultimately show False using r(2) [OF d2] n by linarith
  qed
  with r(1) show ?thesis by blast
qed

text \<open>A flame that starts Developing_1 with positive development reaches Burning after finitely many steps.\<close>

theorem flame_development_completes:
  assumes "cs_state c = Developing_1" "0 < cs_flame_development c"
  shows "\<exists>n. cs_state (flame_run n c) = Burning"
proof -
  obtain m where m: "cs_state (flame_run m c) = Developing_2 \<or> cs_state (flame_run m c) = Burning"
    using flame_developing_1_leaves [OF assms] by blast
  then show ?thesis
  proof
    assume "cs_state (flame_run m c) = Developing_2"
    then obtain k where "cs_state (flame_run k (flame_run m c)) = Burning"
      using flame_developing_2_burns by blast
    then show ?thesis by (metis flame_run_add)
  qed blast
qed

section \<open>Consumption, and the heat of one burning point\<close>

lemma flame_run_consumed:
  assumes "cs_state c = Extinguishing_Consumed"
  shows "cs_state (flame_run n c) \<in> {Extinguishing_Consumed, NotBurning}
    \<and> cs_max_flame_development (flame_run n c) = cs_max_flame_development c
    \<and> (cs_state (flame_run n c) = Extinguishing_Consumed \<longrightarrow>
         cs_max_flame_development c + 0.01 - cs_flame_development (flame_run n c)
           = 1.0625 ^ n * (cs_max_flame_development c + 0.01 - cs_flame_development c))"
proof (induction n)
  case 0
  with assms show ?case by (simp add: flame_run_def)
next
  case (Suc n)
  then show ?case
    by (auto simp: flame_run_Suc flame_step_def Let_def algebra_simps split: if_splits)
qed

text \<open>C9: A consumed flame whose development is below its maximum plus 0.01 reaches NotBurning after finitely many steps.\<close>

theorem flame_consumed_goes_out:
  assumes s: "cs_state c = Extinguishing_Consumed"
    and below: "cs_flame_development c < cs_max_flame_development c + 0.01"
  shows "\<exists>n. cs_state (flame_run n c) = NotBurning"
proof -
  let ?d = "cs_max_flame_development c + 0.01 - cs_flame_development c"
  have pos: "0 < ?d" using below by simp
  obtain n where n: "(cs_max_flame_development c - 0.01) / ?d < 1.0625 ^ n"
    using real_arch_pow [of "1.0625" "(cs_max_flame_development c - 0.01) / ?d"] by auto
  have a: "cs_max_flame_development c - 0.01 < 1.0625 ^ n * ?d"
    using pos_divide_less_eq [OF pos, THEN iffD1, OF n] .
  have "(1.0625::real) ^ n \<le> 1.0625 ^ Suc n" by simp
  then have b: "1.0625 ^ n * ?d \<le> 1.0625 ^ Suc n * ?d"
    using pos by (intro mult_right_mono) simp_all
  have big: "cs_max_flame_development c - 0.01 < 1.0625 ^ Suc n * ?d"
    by (rule less_le_trans [OF a b])
  from flame_run_consumed [OF s, of "Suc n"]
  have r: "cs_state (flame_run (Suc n) c) \<in> {Extinguishing_Consumed, NotBurning}"
    "cs_state (flame_run (Suc n) c) = Extinguishing_Consumed \<Longrightarrow>
       cs_max_flame_development c + 0.01 - cs_flame_development (flame_run (Suc n) c)
         = 1.0625 ^ Suc n * ?d" by auto
  have "cs_state (flame_run (Suc n) c) \<noteq> Extinguishing_Consumed"
  proof
    assume e: "cs_state (flame_run (Suc n) c) = Extinguishing_Consumed"
    then have "0.02 < cs_flame_development (flame_run (Suc n) c)"
      using flame_step_into_consumed [of "flame_run n c"] by (simp add: flame_run_Suc)
    with r(2) [OF e] big show False by linarith
  qed
  with r(1) show ?thesis by blast
qed

lemma deposit_heat_frame:
  "combustion_state_buf (deposit_heat gp dt i s p) = combustion_state_buf p
   \<and> burning_points (deposit_heat gp dt i s p) = burning_points p
   \<and> plane_id_buf (deposit_heat gp dt i s p) = plane_id_buf p
   \<and> ship_point_count (deposit_heat gp dt i s p) = ship_point_count p"
  by (simp add: deposit_heat_def Let_def)

lemma fold_deposit_heat_frame:
  "combustion_state_buf (fold (deposit_heat gp dt i) ss p) = combustion_state_buf p
   \<and> burning_points (fold (deposit_heat gp dt i) ss p) = burning_points p
   \<and> plane_id_buf (fold (deposit_heat gp dt i) ss p) = plane_id_buf p
   \<and> ship_point_count (fold (deposit_heat gp dt i) ss p) = ship_point_count p"
  by (induction ss arbitrary: p) (simp_all add: deposit_heat_frame)

lemma combustion_hf_point_frame:
  "burning_points (fst (combustion_hf_point gp dt uw i p)) = burning_points p
   \<and> plane_id_buf (fst (combustion_hf_point gp dt uw i p)) = plane_id_buf p
   \<and> ship_point_count (fst (combustion_hf_point gp dt uw i p)) = ship_point_count p
   \<and> length (combustion_state_buf (fst (combustion_hf_point gp dt uw i p)))
       = length (combustion_state_buf p)"
  by (simp add: combustion_hf_point_def smother_combustion_def fold_deposit_heat_frame Let_def
      split: prod.split)

lemma combustion_hf_point_other:
  "j \<noteq> i \<Longrightarrow>
   combustion_state_buf (fst (combustion_hf_point gp dt uw i p)) ! j = combustion_state_buf p ! j"
  by (simp add: combustion_hf_point_def smother_combustion_def fold_deposit_heat_frame Let_def
      split: prod.split)

lemma combustion_hf_point_not_burning:
  "i < length (combustion_state_buf p) \<Longrightarrow> cs_state (combustion_state_buf p ! i) = NotBurning \<Longrightarrow>
   combustion_hf_point gp dt uw i p = (p, False)"
  by (simp add: combustion_hf_point_def is_active_flame_def flame_step_def Let_def)

lemma combustion_hf_point_self:
  assumes "i < length (combustion_state_buf p)"
  shows "(snd (combustion_hf_point gp dt uw i p) \<longleftrightarrow>
            cs_state (combustion_state_buf (fst (combustion_hf_point gp dt uw i p)) ! i) = NotBurning
            \<and> cs_state (combustion_state_buf p ! i) \<noteq> NotBurning)
     \<and> (cs_state (combustion_state_buf p ! i) = NotBurning \<longrightarrow>
          cs_state (combustion_state_buf (fst (combustion_hf_point gp dt uw i p)) ! i) = NotBurning)"
  using assms
  by (cases "cs_state (combustion_state_buf p ! i)")
     (auto simp: combustion_hf_point_def smother_combustion_def fold_deposit_heat_frame
       is_active_flame_def flame_step_def Let_def)

section \<open>The high-frequency pass\<close>

lemma combustion_hf_reference_length_frame:
  "length (snd (combustion_hf_reference gp dt uw xs p)) \<le> length xs
   \<and> burning_points (fst (combustion_hf_reference gp dt uw xs p)) = burning_points p"
proof (induction xs arbitrary: p)
  case Nil
  then show ?case by simp
next
  case (Cons a xs)
  obtain p1 r where h: "combustion_hf_point gp dt uw a p = (p1, r)" by fastforce
  obtain p2 kept where t: "combustion_hf_reference gp dt uw xs p1 = (p2, kept)" by fastforce
  have "length kept \<le> length xs" "burning_points p2 = burning_points p1"
    using Cons.IH [of p1] t by simp_all
  moreover have "burning_points p1 = burning_points p"
    using combustion_hf_point_frame [of gp dt uw a p] h by simp
  ultimately show ?case using h t by simp
qed

lemmas combustion_hf_reference_length = combustion_hf_reference_length_frame [THEN conjunct1]
lemmas combustion_hf_reference_frame = combustion_hf_reference_length_frame [THEN conjunct2]

lemma combustion_hf_loop_no_removal:
  "combustion_hf_reference gp dt uw (map ((!) buf) ks) p = (p', map ((!) buf) ks) \<Longrightarrow>
   combustion_hf_loop gp dt uw ks (p, buf, sz) = Some (p', buf, sz)"
proof (induction ks arbitrary: p)
  case Nil
  then show ?case by simp
next
  case (Cons k ks)
  obtain p1 r where h: "combustion_hf_point gp dt uw (buf ! k) p = (p1, r)" by fastforce
  obtain p2 kept where t: "combustion_hf_reference gp dt uw (map ((!) buf) ks) p1 = (p2, kept)"
    by fastforce
  have eq: "(p2, if r then kept else buf ! k # kept) = (p', buf ! k # map ((!) buf) ks)"
    using Cons.prems h t by simp
  have "length kept \<le> length ks"
    using combustion_hf_reference_length [of gp dt uw "map ((!) buf) ks" p1] t by simp
  then have nr: "\<not> r" using eq by (auto split: if_splits)
  with eq have "p2 = p'" "kept = map ((!) buf) ks" by simp_all
  with t have "combustion_hf_loop gp dt uw ks (p1, buf, sz) = Some (p', buf, sz)"
    using Cons.IH by simp
  with h nr show ?case by simp
qed

text \<open>C4: When no point of the burning list finishes during the tick, the high-frequency pass (the range-for over the vector with erase) computes exactly what the reference pass that processes each point once computes.\<close>

theorem update_combustion_high_frequency_no_removal:
  assumes "snd (combustion_hf_reference gp dt uw (burning_points p) p) = burning_points p"
  shows "update_combustion_high_frequency gp dt uw p =
           Some (fst (combustion_hf_reference gp dt uw (burning_points p) p))"
proof -
  let ?bp = "burning_points p"
  have m: "map ((!) ?bp) [0..<length ?bp] = ?bp" by (simp add: map_nth)
  have "combustion_hf_reference gp dt uw (map ((!) ?bp) [0..<length ?bp]) p =
      (fst (combustion_hf_reference gp dt uw ?bp p), map ((!) ?bp) [0..<length ?bp])"
    using assms m by (metis prod.collapse)
  then have "combustion_hf_loop gp dt uw [0..<length ?bp] (p, ?bp, length ?bp) =
      Some (fst (combustion_hf_reference gp dt uw ?bp p), ?bp, length ?bp)"
    by (rule combustion_hf_loop_no_removal)
  then show ?thesis
    by (simp add: update_combustion_high_frequency_def combustion_hf_reference_frame Let_def)
qed

lemmas example_burning_simps = example_burning_store_def example_extinguishing_def empty_points_def
  numeral_3_eq_3


section \<open>Termination of the strided loop\<close>

lemma stride_indices_pos:
  "0 < stride \<Longrightarrow>
   \<exists>xs. stride_indices i stride n = Some xs \<and> distinct xs \<and> set xs \<subseteq> {i..<n}"
proof (induction "n - i" arbitrary: i rule: less_induct)
  case less
  show ?case
  proof (cases "i < n")
    case True
    have "n - (i + stride) < n - i" using True less.prems by simp
    then obtain xs where xs: "stride_indices (i + stride) stride n = Some xs" "distinct xs"
      "set xs \<subseteq> {i + stride..<n}"
      using less by blast
    then have "i \<notin> set xs" using less.prems by auto
    with xs True show ?thesis
      by (subst stride_indices.simps) (auto simp: less.prems)
  next
    case False
    then show ?thesis by (subst stride_indices.simps) simp
  qed
qed

lemma stride_indices_zero_aux:
  assumes "stride_indices i stride n = Some r"
  shows "stride = 0 \<longrightarrow> n \<le> i"
proof (rule stride_indices.raw_induct [where P = "\<lambda>i s n r. s = 0 \<longrightarrow> n \<le> i", OF _ assms])
  fix f :: "nat \<Rightarrow> nat \<Rightarrow> nat \<Rightarrow> nat list option" and i s n r
  assume ih: "\<And>i s n r. f i s n = Some r \<Longrightarrow> s = 0 \<longrightarrow> n \<le> i"
    and st: "(if i < n then Option.bind (f (i + s) s n) (\<lambda>is. Some (i # is)) else Some []) = Some r"
  show "s = 0 \<longrightarrow> n \<le> i"
  proof (cases "i < n")
    case True
    with st obtain r' where "f (i + s) s n = Some r'" by (auto split: Option.bind_splits)
    with ih True show ?thesis by fastforce
  qed simp
qed

text \<open>The strided loop of UpdateCombustionLowFrequency ends exactly when the stride is positive or the offset is already past the ship points; with stride 0 it never ends.\<close>

theorem stride_indices_returns_iff:
  "(\<exists>xs. stride_indices i stride n = Some xs) \<longleftrightarrow> 0 < stride \<or> n \<le> i"
proof
  assume "\<exists>xs. stride_indices i stride n = Some xs"
  then show "0 < stride \<or> n \<le> i" using stride_indices_zero_aux by blast
next
  assume "0 < stride \<or> n \<le> i"
  then show "\<exists>xs. stride_indices i stride n = Some xs"
  proof
    assume "0 < stride"
    then show ?thesis using stride_indices_pos by blast
  next
    assume "n \<le> i"
    then show ?thesis by (subst stride_indices.simps) simp
  qed
qed

section \<open>The low-frequency pass: the per-point loop\<close>

lemma combustion_inv_cong:
  assumes "burning_points p' = burning_points p" "plane_id_buf p' = plane_id_buf p"
    "ship_point_count p' = ship_point_count p"
    "length (combustion_state_buf p') = length (combustion_state_buf p)"
    "\<And>j. (cs_state (combustion_state_buf p' ! j) = NotBurning) =
          (cs_state (combustion_state_buf p ! j) = NotBurning)"
  shows "combustion_inv p' = combustion_inv p"
  using assms by (simp add: combustion_inv_def)

lemma fold_decay_neighbour:
  "\<exists>d. fold (decay_neighbour a) ss p = p\<lparr>decay_buf := d\<rparr>"
proof (induction ss arbitrary: p)
  case Nil
  have "p = p\<lparr>decay_buf := decay_buf p\<rparr>" by simp
  then show ?case by (metis fold_simps(1))
next
  case (Cons s ss)
  obtain d where d: "fold (decay_neighbour a) ss (decay_neighbour a s p) =
                  (decay_neighbour a s p)\<lparr>decay_buf := d\<rparr>" using Cons by blast
  have "fold (decay_neighbour a) (s # ss) p = (decay_neighbour a s p)\<lparr>decay_buf := d\<rparr>"
    using d by simp
  also have "\<dots> = p\<lparr>decay_buf := d\<rparr>" by (simp add: decay_neighbour_def)
  finally show ?case by blast
qed

lemma cs_state_update_not_burning:
  assumes "S \<noteq> NotBurning" "cs_state (xs ! i) \<noteq> NotBurning"
  shows "(cs_state (xs[i := (xs ! i)\<lparr>cs_state := S\<rparr>] ! j) = NotBurning) =
         (cs_state (xs ! j) = NotBurning)"
  using assms by (cases "i < length xs"; cases "i = j") (auto simp: list_update_beyond not_less)

lemma combustion_lf_point_frame:
  assumes "combustion_lf_point gp dt uw (p, cands) i = (p', cands')"
  shows "burning_points p' = burning_points p \<and> plane_id_buf p' = plane_id_buf p
    \<and> ship_point_count p' = ship_point_count p
    \<and> length (combustion_state_buf p') = length (combustion_state_buf p)
    \<and> (\<forall>j. (cs_state (combustion_state_buf p' ! j) = NotBurning) =
            (cs_state (combustion_state_buf p ! j) = NotBurning))
    \<and> (cands' = cands \<or> (\<exists>x. cands' = cands @ [(i, x)]
                               \<and> cs_state (combustion_state_buf p ! i) = NotBurning))"
proof -
  let ?a = "decay_alpha gp dt (sm_mass (structural_material_of p i))"
  let ?p1 = "p\<lparr>decay_buf := (decay_buf p)[i := decay_buf p ! i * ?a]\<rparr>"
  obtain d where d: "fold (decay_neighbour ?a) (connected_springs_buf p ! i) ?p1 = ?p1\<lparr>decay_buf := d\<rparr>"
    using fold_decay_neighbour by blast
  show ?thesis
    using assms
    by (auto simp: combustion_lf_point_def Let_def d cs_state_update_not_burning split: if_splits)
qed

lemma combustion_lf_fold:
  assumes "fold (\<lambda>i pc. combustion_lf_point gp dt uw pc i) xs (p, cands) = (p', cands')"
  shows "burning_points p' = burning_points p \<and> plane_id_buf p' = plane_id_buf p
    \<and> ship_point_count p' = ship_point_count p
    \<and> length (combustion_state_buf p') = length (combustion_state_buf p)
    \<and> (\<forall>j. (cs_state (combustion_state_buf p' ! j) = NotBurning) =
            (cs_state (combustion_state_buf p ! j) = NotBurning))
    \<and> (\<exists>new. cands' = cands @ new \<and> set (map fst new) \<subseteq> set xs
             \<and> (distinct xs \<longrightarrow> distinct (map fst new))
             \<and> (\<forall>c\<in>set new. cs_state (combustion_state_buf p ! fst c) = NotBurning))"
  using assms
proof (induction xs arbitrary: p cands)
  case Nil
  then show ?case by simp
next
  case (Cons i xs)
  obtain q qc where step: "combustion_lf_point gp dt uw (p, cands) i = (q, qc)"
    by (cases "combustion_lf_point gp dt uw (p, cands) i") blast
  have rest: "fold (\<lambda>i pc. combustion_lf_point gp dt uw pc i) xs (q, qc) = (p', cands')"
    using Cons.prems step by simp
  note f1 = combustion_lf_point_frame [OF step]
  note ih = Cons.IH [OF rest]
  from ih obtain new where new: "cands' = qc @ new" "set (map fst new) \<subseteq> set xs"
    "distinct xs \<longrightarrow> distinct (map fst new)"
    "\<forall>c\<in>set new. cs_state (combustion_state_buf q ! fst c) = NotBurning" by blast
  have "\<exists>pre. qc = cands @ pre \<and> set (map fst pre) \<subseteq> {i} \<and> length pre \<le> 1
      \<and> (\<forall>c\<in>set pre. cs_state (combustion_state_buf p ! fst c) = NotBurning)"
  proof (cases "qc = cands")
    case True
    then show ?thesis by (intro exI [of _ "[]"]) simp
  next
    case False
    with f1 obtain x where "qc = cands @ [(i, x)]"
      "cs_state (combustion_state_buf p ! i) = NotBurning" by blast
    then show ?thesis by (intro exI [of _ "[(i, x)]"]) simp
  qed
  then obtain pre where pre: "qc = cands @ pre" "set (map fst pre) \<subseteq> {i}" "length pre \<le> 1"
    "\<forall>c\<in>set pre. cs_state (combustion_state_buf p ! fst c) = NotBurning"
    by blast
  have "distinct (i # xs) \<longrightarrow> distinct (map fst (pre @ new))"
  proof
    assume d: "distinct (i # xs)"
    have "distinct (map fst pre)" using pre(3) by (cases pre) auto
    moreover have "set (map fst pre) \<inter> set (map fst new) = {}" using pre(2) new(2) d by auto
    ultimately show "distinct (map fst (pre @ new))" using new(3) d by simp
  qed
  moreover have "\<forall>c\<in>set (pre @ new). cs_state (combustion_state_buf p ! fst c) = NotBurning"
    using pre(4) new(4) f1 by auto
  moreover have "set (map fst (pre @ new)) \<subseteq> set (i # xs)" using pre(2) new(2) by auto
  ultimately show ?case using ih f1 new(1) pre(1) by auto
qed

section \<open>The low-frequency pass: ignition\<close>

lemma length_insert_burning_point [simp]:
  "length (insert_burning_point plane i bp) = Suc (length bp)"
  by (simp add: insert_burning_point_def Let_def)

lemma ignite_point_frame:
  "ship_point_count (ignite_point pers c p) = ship_point_count p \<and>
   plane_id_buf (ignite_point pers c p) = plane_id_buf p \<and>
   length (combustion_state_buf (ignite_point pers c p)) = length (combustion_state_buf p) \<and>
   length (burning_points (ignite_point pers c p)) = Suc (length (burning_points p)) \<and>
   events (ignite_point pers c p) = events p @ [PointCombustionBegin] \<and>
   (\<forall>j. j \<noteq> fst c \<longrightarrow> combustion_state_buf (ignite_point pers c p) ! j = combustion_state_buf p ! j)"
  by (simp add: ignite_point_def Let_def)

lemma ignite_point_inv:
  assumes inv: "combustion_inv p" and i: "fst c < ship_point_count p"
    and nb: "cs_state (combustion_state_buf p ! fst c) = NotBurning"
  shows "combustion_inv (ignite_point pers c p)"
proof -
  let ?plane = "\<lambda>q. plane_id_buf p ! q"
  let ?bp = "burning_points p"
  have s: "sorted (map ?plane ?bp)" and d: "distinct ?bp" and len: "ship_point_count p \<le> length (combustion_state_buf p)"
    and st: "set ?bp = {j. j < ship_point_count p \<and> cs_state (combustion_state_buf p ! j) \<noteq> NotBurning}"
    using inv by (simp_all add: combustion_inv_def)
  have ins: "insert_burning_point ?plane (fst c) ?bp = insort_plane ?plane (fst c) ?bp"
    using s by (rule insert_burning_point_insort)
  have notin: "fst c \<notin> set ?bp" using st nb by simp
  have "set (insort_plane ?plane (fst c) ?bp) =
        {j. j < ship_point_count p \<and>
            cs_state ((combustion_state_buf p)[fst c := (combustion_state_buf p ! fst c)
               \<lparr>cs_state := Developing_1, cs_flame_development := 0.1 + 0.5 * smooth_step 0 2 (snd c),
                 cs_personality := pers,
                 cs_max_flame_development := max (0.25 + real (length (connected_springs_buf p ! fst c)) * 0.0625 + 0.5 * pers)
                   (0.1 + 0.5 * smooth_step 0 2 (snd c))\<rparr>] ! j) \<noteq> NotBurning}"
    using st i len by (auto simp: set_insort_plane nth_list_update)
  then show ?thesis
    using ins s d notin len
    by (simp add: combustion_inv_def ignite_point_def Let_def sorted_insort_plane distinct_insort_plane)
qed

lemma ignite_fold:
  assumes "combustion_inv p" "distinct (map (\<lambda>j. fst (ch ! j)) js)"
    "\<forall>j\<in>set js. fst (ch ! j) < ship_point_count p
                 \<and> cs_state (combustion_state_buf p ! fst (ch ! j)) = NotBurning"
  shows "combustion_inv (fold (\<lambda>j q. ignite_point (pers j) (ch ! j) q) js p) \<and>
         length (burning_points (fold (\<lambda>j q. ignite_point (pers j) (ch ! j) q) js p)) =
           length (burning_points p) + length js"
  using assms
proof (induction js arbitrary: p)
  case Nil
  then show ?case by simp
next
  case (Cons j js)
  let ?q = "ignite_point (pers j) (ch ! j) p"
  have inv': "combustion_inv ?q"
    using Cons.prems by (intro ignite_point_inv) auto
  have ne: "\<forall>j'\<in>set js. fst (ch ! j') \<noteq> fst (ch ! j)" using Cons.prems(2) by (auto simp: image_iff)
  have "\<forall>j'\<in>set js. fst (ch ! j') < ship_point_count ?q
          \<and> cs_state (combustion_state_buf ?q ! fst (ch ! j')) = NotBurning"
    using Cons.prems ne ignite_point_frame [of "pers j" "ch ! j" p] by auto
  then have "combustion_inv (fold (\<lambda>j q. ignite_point (pers j) (ch ! j) q) js ?q) \<and>
         length (burning_points (fold (\<lambda>j q. ignite_point (pers j) (ch ! j) q) js ?q)) =
           length (burning_points ?q) + length js"
    using Cons.IH inv' Cons.prems(2) by simp
  then show ?case using ignite_point_frame [of "pers j" "ch ! j" p] by simp
qed

lemma select_candidates_facts:
  assumes "k \<le> length cands"
  shows "length (select_candidates k cands) = k \<and>
         set (select_candidates k cands) \<subseteq> set cands \<and>
         (distinct (map fst cands) \<longrightarrow> distinct (map fst (select_candidates k cands)))"
proof -
  let ?s = "sort_key (\<lambda>c. - snd c) cands"
  have m: "mset (map fst ?s) = mset (map fst cands)" by (simp only: mset_map mset_sort)
  have "distinct (map fst cands) \<longrightarrow> distinct (map fst ?s)"
    using m by (metis mset_eq_imp_distinct_iff)
  then show ?thesis
    using assms by (auto simp: select_candidates_def length_sort dest: in_set_takeD simp flip: take_map)
qed

section \<open>The low-frequency pass: whole\<close>

lemma ignite_fold_length:
  "length (burning_points (fold (\<lambda>j q. ignite_point (pers j) (ch ! j) q) js p)) =
     length (burning_points p) + length js"
  by (induction js arbitrary: p) (simp_all add: ignite_point_frame)

lemma combustion_lf_fold_length:
  assumes "fold (\<lambda>i pc. combustion_lf_point gp dt uw pc i) xs (p, []) = (p1, cands)"
  shows "length (burning_points p1) = length (burning_points p)"
  using combustion_lf_fold [OF assms] by simp

lemma max_ignitions_le:
  "max_ignitions gp rc nb nc \<le> nc \<and>
   nb + max_ignitions gp rc nb nc \<le> max nb (gp_max_burning_particles gp)"
  by (simp add: max_ignitions_def) linarith

lemma stride_indices_Some:
  assumes "stride_indices i stride n = Some xs"
  shows "distinct xs \<and> set xs \<subseteq> {i..<n}"
proof (cases "0 < stride")
  case True
  then show ?thesis using stride_indices_pos [OF True, of i n] assms by auto
next
  case False
  then have "n \<le> i" using stride_indices_zero_aux [OF assms] by simp
  then have "xs = []" using assms by (subst (asm) stride_indices.simps) simp
  then show ?thesis by simp
qed

lemma update_combustion_low_frequency_Some_inv:
  assumes inv: "combustion_inv p"
    and upd: "update_combustion_low_frequency offset stride dt gp uw rc pers p = Some p'"
  shows "combustion_inv p'"
proof -
  obtain xs where si: "stride_indices offset stride (ship_point_count p) = Some xs"
    using upd by (cases "stride_indices offset stride (ship_point_count p)")
                 (simp_all add: update_combustion_low_frequency_def)
  have dxs: "distinct xs" and sxs: "set xs \<subseteq> {offset..<ship_point_count p}"
    using stride_indices_Some [OF si] by simp_all
  obtain p1 cands where f: "fold (\<lambda>i pc. combustion_lf_point gp dt uw pc i) xs (p, []) = (p1, cands)"
    by (cases "fold (\<lambda>i pc. combustion_lf_point gp dt uw pc i) xs (p, [])") blast
  note fr = combustion_lf_fold [OF f]
  have inv1: "combustion_inv p1"
    using fr inv by (subst combustion_inv_cong [of p1 p]) simp_all
  define k where "k = max_ignitions gp rc (length (burning_points p1)) (length cands)"
  define ch where "ch = select_candidates k cands"
  have p': "p' = fold (\<lambda>j q. ignite_point (pers j) (ch ! j) q) [0..<k] p1"
    using upd by (simp add: update_combustion_low_frequency_def si f k_def ch_def Let_def)
  have k: "k \<le> length cands" using max_ignitions_le k_def by blast
  note sel = select_candidates_facts [OF k, folded ch_def]
  have dc: "distinct (map fst cands)" and cnb: "\<forall>c\<in>set cands. fst c \<in> set xs \<and>
      cs_state (combustion_state_buf p ! fst c) = NotBurning"
    using fr dxs by auto
  have m: "map (\<lambda>j. fst (ch ! j)) [0..<k] = map fst ch"
    using sel by (intro nth_equalityI) auto
  have "\<forall>j\<in>set [0..<k]. fst (ch ! j) < ship_point_count p1
          \<and> cs_state (combustion_state_buf p1 ! fst (ch ! j)) = NotBurning"
  proof
    fix j assume "j \<in> set [0..<k]"
    then have "ch ! j \<in> set cands" using sel by (auto intro: nth_mem)
    then show "fst (ch ! j) < ship_point_count p1
          \<and> cs_state (combustion_state_buf p1 ! fst (ch ! j)) = NotBurning"
      using cnb sxs fr by auto
  qed
  then show ?thesis
    using ignite_fold [OF inv1] m sel dc p' by simp
qed

lemma update_combustion_low_frequency_burning_length:
  assumes "update_combustion_low_frequency offset stride dt gp uw rc pers p = Some p'"
  shows "length (burning_points p') \<le>
           max (length (burning_points p)) (gp_max_burning_particles gp)"
proof -
  obtain xs where si: "stride_indices offset stride (ship_point_count p) = Some xs"
    using assms by (cases "stride_indices offset stride (ship_point_count p)")
                   (simp_all add: update_combustion_low_frequency_def)
  obtain p1 cands where f: "fold (\<lambda>i pc. combustion_lf_point gp dt uw pc i) xs (p, []) = (p1, cands)"
    by (cases "fold (\<lambda>i pc. combustion_lf_point gp dt uw pc i) xs (p, [])") blast
  define k where "k = max_ignitions gp rc (length (burning_points p1)) (length cands)"
  have p': "p' = fold (\<lambda>j q. ignite_point (pers j) (select_candidates k cands ! j) q) [0..<k] p1"
    using assms by (simp add: update_combustion_low_frequency_def si f k_def Let_def)
  show ?thesis
    using max_ignitions_le [of gp rc "length (burning_points p1)" "length cands"]
    by (simp add: p' ignite_fold_length combustion_lf_fold_length [OF f] k_def)
qed

lemma update_combustion_low_frequency_Some:
  assumes "0 < stride"
  shows "\<exists>p'. update_combustion_low_frequency offset stride dt gp uw rc pers p = Some p'"
proof -
  obtain xs where "stride_indices offset stride (ship_point_count p) = Some xs"
    using stride_indices_pos [OF assms] by blast
  then show ?thesis
    by (simp add: update_combustion_low_frequency_def case_prod_beta Let_def)
qed

lemma flaming_subset_burning:
  assumes "combustion_inv p"
  shows "card {i. i < ship_point_count p \<and>
                  cs_state (combustion_state_buf p ! i) \<in> {Developing_1, Developing_2, Burning}}
         \<le> length (burning_points p)"
proof -
  let ?F = "{i. i < ship_point_count p \<and>
                cs_state (combustion_state_buf p ! i) \<in> {Developing_1, Developing_2, Burning}}"
  have st: "set (burning_points p) =
      {i. i < ship_point_count p \<and> cs_state (combustion_state_buf p ! i) \<noteq> NotBurning}"
    and d: "distinct (burning_points p)"
    using assms by (simp_all add: combustion_inv_def)
  have "?F \<subseteq> set (burning_points p)" unfolding st by auto
  then have "card ?F \<le> card (set (burning_points p))" by (intro card_mono) simp_all
  also have "\<dots> = length (burning_points p)" using d by (rule distinct_card)
  finally show ?thesis .
qed

lemma stride_indices_less:
  "i < n \<Longrightarrow> stride_indices i stride n = map_option ((#) i) (stride_indices (i + stride) stride n)"
  by (subst stride_indices.simps) (simp add: map_option_case split: option.split)

lemma stride_indices_ge:
  "\<not> i < n \<Longrightarrow> stride_indices i stride n = Some []"
  by (subst stride_indices.simps) simp

lemma example_burning_store_inv: "combustion_inv example_burning_store"
proof -
  have "{i. i < 3 \<and> cs_state (replicate 3 example_extinguishing ! i) \<noteq> NotBurning} = {0, 1, 2}"
    by (auto simp: example_extinguishing_def nth_replicate)
  then show ?thesis
    by (simp add: combustion_inv_def example_burning_store_def empty_points_def)
qed

lemma combustion_lf_point_inactive:
  "cs_state (combustion_state_buf p ! i) \<noteq> NotBurning \<Longrightarrow>
   cs_state (combustion_state_buf p ! i) \<noteq> Burning \<Longrightarrow>
   combustion_lf_point gp dt uw (p, cands) i = (p, cands)"
  by (simp add: combustion_lf_point_def Let_def)

lemma example_burning_store_fields:
  "ship_point_count example_burning_store = 3"
  "burning_points example_burning_store = [0, 1, 2]"
  "i < 3 \<Longrightarrow> combustion_state_buf example_burning_store ! i = example_extinguishing"
  by (simp_all add: example_burning_store_def empty_points_def)

lemma example_burning_store_lf_point:
  "i < 3 \<Longrightarrow> combustion_lf_point gp dt uw (example_burning_store, []) i = (example_burning_store, [])"
  by (rule combustion_lf_point_inactive)
     (simp_all add: example_burning_store_fields example_extinguishing_def)

lemma example_burning_store_lf:
  "update_combustion_low_frequency 0 1 dt example_game_parameters uw rc pers example_burning_store
     = Some example_burning_store"
proof -
  have si: "stride_indices 0 1 (ship_point_count example_burning_store) = Some [0, 1, 2]"
    by (simp add: stride_indices_less stride_indices_ge example_burning_store_fields)
  have f: "fold (\<lambda>i pc. combustion_lf_point example_game_parameters dt uw pc i) [0, 1, 2]
             (example_burning_store, []) = (example_burning_store, [])"
    by (simp add: example_burning_store_lf_point)
  show ?thesis
    unfolding update_combustion_low_frequency_def si option.case f
    by (simp add: max_ignitions_def Let_def)
qed

section \<open>Properties of the combustion passes\<close>

text \<open>C1: From a store whose burning list satisfies the combustion invariant (distinct, sorted by plane id, exactly the ship points that are not NotBurning), the low-frequency combustion pass with a positive stride returns and its result satisfies the invariant again.\<close>

theorem update_combustion_low_frequency_keeps_inv:
  assumes inv: "combustion_inv p" and stride: "0 < stride"
  shows "\<exists>p'. update_combustion_low_frequency offset stride dt gp uw rc pers p = Some p'
              \<and> combustion_inv p'"
  using update_combustion_low_frequency_Some [OF stride] update_combustion_low_frequency_Some_inv [OF inv]
  by blast

text \<open>C2: If the burning list satisfies the invariant and holds at most MaxBurningParticles points, then after the low-frequency pass at most MaxBurningParticles ship points are Developing_1, Developing_2 or Burning.\<close>

theorem update_combustion_low_frequency_combustion_cap:
  assumes "combustion_inv p" "length (burning_points p) \<le> gp_max_burning_particles gp"
    and "update_combustion_low_frequency offset stride dt gp uw rc pers p = Some p'"
  shows "card {i. i < ship_point_count p' \<and>
                  cs_state (combustion_state_buf p' ! i) \<in> {Developing_1, Developing_2, Burning}}
         \<le> gp_max_burning_particles gp"
proof -
  have "combustion_inv p'" using update_combustion_low_frequency_Some_inv assms(1,3) .
  then have "card {i. i < ship_point_count p' \<and>
                  cs_state (combustion_state_buf p' ! i) \<in> {Developing_1, Developing_2, Burning}}
             \<le> length (burning_points p')" by (rule flaming_subset_burning)
  also have "\<dots> \<le> max (length (burning_points p)) (gp_max_burning_particles gp)"
    using assms(3) by (rule update_combustion_low_frequency_burning_length)
  finally show ?thesis using assms(2) by simp
qed

theorem update_combustion_low_frequency_keeps_inv_witness:
  "\<exists>p'. update_combustion_low_frequency 0 1 0.02 example_game_parameters (\<lambda>_. False) 0 (\<lambda>_. 0)
          example_burning_store = Some p' \<and> combustion_inv p'"
  using update_combustion_low_frequency_keeps_inv [OF example_burning_store_inv, of 1 0 "0.02"
      example_game_parameters "\<lambda>_. False" 0 "\<lambda>_. 0"]
  by simp

theorem update_combustion_low_frequency_combustion_cap_witness:
  "card {i. i < ship_point_count example_burning_store \<and>
            cs_state (combustion_state_buf example_burning_store ! i)
              \<in> {Developing_1, Developing_2, Burning}}
   \<le> gp_max_burning_particles example_game_parameters"
proof -
  have "length (burning_points example_burning_store) \<le> gp_max_burning_particles example_game_parameters"
    by (simp add: example_burning_store_def example_game_parameters_def)
  then show ?thesis
    using update_combustion_low_frequency_combustion_cap [OF example_burning_store_inv _
        example_burning_store_lf [of "0.02" "\<lambda>_. False" 0 "\<lambda>_. 0"]]
    by simp
qed

text \<open>C5: Inserting at std::lower_bound by plane id into a list sorted by plane id equals insertion before the first point of no smaller plane id; the list stays sorted and gains exactly the new point.\<close>

theorem insert_burning_point_eq_insort:
  assumes "sorted (map plane bp)"
  shows "insert_burning_point plane i bp = insort_plane plane i bp
         \<and> sorted (map plane (insert_burning_point plane i bp))
         \<and> mset (insert_burning_point plane i bp) = add_mset i (mset bp)"
  using insert_burning_point_insort [OF assms] sorted_insort_plane [OF assms]
  by (simp add: mset_insort_plane)

theorem insert_burning_point_eq_insort_witness:
  "insert_burning_point (\<lambda>q. [0, 1, 1, 2] ! q) 1 [0, 2, 3] = [0, 1, 2, 3]"
  using insert_burning_point_eq_insort [of "\<lambda>q. [0, 1, 1, 2] ! q" "[0, 2, 3]" 1]
  by simp

theorem update_combustion_high_frequency_no_removal_witness:
  "snd (combustion_hf_reference example_game_parameters 0.02 (\<lambda>_. False) [0, 1, 2]
          example_developing_store) = [0, 1, 2]
   \<and> update_combustion_high_frequency example_game_parameters 0.02 (\<lambda>_. False)
          example_developing_store
       = Some (fst (combustion_hf_reference example_game_parameters 0.02 (\<lambda>_. False) [0, 1, 2]
          example_developing_store))"
proof -
  have bp: "burning_points example_developing_store = [0, 1, 2]"
    by (simp add: example_developing_store_def example_burning_store_def empty_points_def)
  have r: "snd (combustion_hf_reference example_game_parameters 0.02 (\<lambda>_. False) [0, 1, 2]
          example_developing_store) = [0, 1, 2]"
    by (simp add: example_developing_store_def example_burning_simps example_developing_def
        combustion_hf_point_def is_active_flame_def flame_step_def Let_def
        example_game_parameters_def)
  show ?thesis
    using r update_combustion_high_frequency_no_removal
        [of example_game_parameters "0.02" "\<lambda>_. False" example_developing_store]
    by (simp add: bp)
qed

theorem flame_development_completes_witness:
  "\<exists>n. cs_state (flame_run n example_developing) = Burning"
  using flame_development_completes [of example_developing]
  by (simp add: example_developing_def)

theorem flame_smothered_goes_out_witness:
  "\<exists>n. cs_state (flame_run n example_extinguishing) = NotBurning"
  using flame_smothered_goes_out [of example_extinguishing]
  by (simp add: example_extinguishing_def)

theorem flame_consumed_goes_out_witness:
  "\<exists>n. cs_state (flame_run n
         \<lparr>cs_state = Extinguishing_Consumed, cs_flame_development = 0.5,
          cs_max_flame_development = 0.5, cs_personality = 0\<rparr>) = NotBurning"
  using flame_consumed_goes_out
      [of "\<lparr>cs_state = Extinguishing_Consumed, cs_flame_development = 0.5,
            cs_max_flame_development = 0.5, cs_personality = 0\<rparr>"]
  by simp

end
