(* ===== verification/Ocean.thy ===== *)
theory Ocean
  imports Prelude
begin

text \<open>
  The ocean surface of \<^verbatim>\<open>src/Game/OceanSurface.cpp\<close>: a one-dimensional
  shallow-water (SWE) layer of height and velocity fields, each double-buffered, with
  one wave-generation cell and one boundary cell at each end; the render samples derived
  from the height field and the wind ripples; the user-driven external wave
  (\<^verbatim>\<open>SWEWaveStateMachine\<close>) that \<^verbatim>\<open>AdjustTo\<close> starts, restarts and releases;
  and \<^verbatim>\<open>Upload\<close>, which sends at most 500 slices to the render context.

  The constants of \<^verbatim>\<open>Physics.h\<close> and \<^verbatim>\<open>GameParameters.h\<close> that the file uses
  (\<^verbatim>\<open>SamplesCount\<close>, \<^verbatim>\<open>Dx\<close>, the simulation step, gravity, the world width) are
  the fields of \<open>ocean_constants\<close>.  The running average of the wind incisiveness
  (\<^verbatim>\<open>RunningAverage\<close>, outside \<^verbatim>\<open>src/\<close>) is a state of type \<open>'a\<close> with its
  update function passed in.  An out-of-range buffer access, which the code only
  asserts against, is the result \<open>None\<close>.
\<close>

section \<open>Constants\<close>

record ocean_constants =
  oc_samples_count :: nat
  oc_dx :: real
  oc_step_dt :: real
  oc_gravity :: real
  oc_half_max_world_width :: real

definition render_slices :: nat where
  "render_slices = 500"

definition swe_height_field_offset :: real where
  "swe_height_field_offset = 100"

definition swe_height_field_amplification :: real where
  "swe_height_field_amplification = 50"

definition swe_boundary_conditions_samples :: nat where
  "swe_boundary_conditions_samples = 1"

definition swe_outer_layer_samples :: nat where
  "swe_outer_layer_samples = 1 + swe_boundary_conditions_samples"

definition swe_total_samples :: "ocean_constants \<Rightarrow> nat" where
  "swe_total_samples K = swe_outer_layer_samples + oc_samples_count K + swe_outer_layer_samples"

section \<open>The external wave state machine\<close>

datatype wave_phase = Rise | Fall

datatype release_mode = OnCue | Automatic

record swe_wave =
  ws_sample_index :: int
  ws_low_height :: real
  ws_phase_start_height :: real
  ws_phase_target_height :: real
  ws_current_height :: real
  ws_current_progress :: real
  ws_start_time :: real
  ws_phase :: wave_phase
  ws_release_mode :: release_mode
  ws_smoothing_delay :: real

text \<open>\<^verbatim>\<open>CalculateSmoothingDelay\<close>: the number of ticks fitted to the height change,
  at least one tick.\<close>

definition calculate_smoothing_delay :: "ocean_constants \<Rightarrow> swe_wave \<Rightarrow> real" where
  "calculate_smoothing_delay K w =
     (let delta_h = min \<bar>ws_phase_target_height w - ws_current_height w\<bar> (swe_height_field_offset / 5);
          delay_ticks =
            (if ws_phase w = Rise
             then -19.88881 + (147.403 / 0.6126081) * (1 - exp (-0.6126081 * delta_h))
             else 1.220013 + (7.8394 / 0.6485749) * (1 - exp (-0.6485749 * delta_h)))
      in max delay_ticks 1 * oc_step_dt K)"

text \<open>The constructor: the delay is computed from the members initialised before it.\<close>

definition swe_wave_create ::
  "ocean_constants \<Rightarrow> int \<Rightarrow> real \<Rightarrow> real \<Rightarrow> release_mode \<Rightarrow> real \<Rightarrow> swe_wave" where
  "swe_wave_create K sample_index start_height target_height release_mode t =
     (let w = \<lparr>ws_sample_index = sample_index, ws_low_height = start_height,
               ws_phase_start_height = start_height, ws_phase_target_height = target_height,
               ws_current_height = start_height, ws_current_progress = 0, ws_start_time = t,
               ws_phase = Rise, ws_release_mode = release_mode, ws_smoothing_delay = 0\<rparr>
      in w\<lparr>ws_smoothing_delay := calculate_smoothing_delay K w\<rparr>)"

definition swe_wave_restart :: "ocean_constants \<Rightarrow> real \<Rightarrow> real \<Rightarrow> swe_wave \<Rightarrow> swe_wave" where
  "swe_wave_restart K restart_height t w =
     (let w1 = w\<lparr>ws_phase_start_height := ws_current_height w,
                 ws_phase_target_height := restart_height, ws_current_progress := 0,
                 ws_start_time := t, ws_phase := Rise\<rparr>
      in w1\<lparr>ws_smoothing_delay := calculate_smoothing_delay K w1\<rparr>)"

definition start_fall_phase :: "ocean_constants \<Rightarrow> real \<Rightarrow> swe_wave \<Rightarrow> swe_wave" where
  "start_fall_phase K t w =
     (let w1 = w\<lparr>ws_phase_start_height := ws_current_height w,
                 ws_phase_target_height := ws_low_height w, ws_current_progress := 0,
                 ws_start_time := t, ws_phase := Fall\<rparr>
      in w1\<lparr>ws_smoothing_delay := calculate_smoothing_delay K w1\<rparr>)"

definition swe_wave_release :: "ocean_constants \<Rightarrow> real \<Rightarrow> swe_wave \<Rightarrow> swe_wave" where
  "swe_wave_release K t w =
     (if ws_phase w = Rise then start_fall_phase K t w else w\<lparr>ws_current_progress := 1\<rparr>)"

text \<open>\<^verbatim>\<open>SWEWaveStateMachine::Update\<close>: the new height, or \<open>None\<close> when the wave
  is over.\<close>

definition swe_wave_update :: "ocean_constants \<Rightarrow> real \<Rightarrow> swe_wave \<Rightarrow> swe_wave \<times> real option" where
  "swe_wave_update K t w =
     (let w1 = (if ws_current_progress w < 1
                then w\<lparr>ws_current_progress := (t - ws_start_time w) / ws_smoothing_delay w\<rparr>
                else w);
          sin_progress = sin (pi / 2 * min (ws_current_progress w1) 1);
          w2 = w1\<lparr>ws_current_height := ws_phase_start_height w1
                    + (ws_phase_target_height w1 - ws_phase_start_height w1) * sin_progress\<rparr>
      in if 1 \<le> ws_current_progress w2
         then (if ws_phase w2 = Rise
               then ((if ws_release_mode w2 = Automatic then start_fall_phase K t w2 else w2),
                     Some (ws_current_height w2))
               else (w2, None))
         else (w2, Some (ws_current_height w2)))"

section \<open>The ocean surface\<close>

text \<open>\<open>os_samples\<close> holds \<^verbatim>\<open>SampleValue\<close> and
  \<^verbatim>\<open>SampleValuePlusOneMinusSampleValue\<close>; it is empty until the first update
  writes it (the constructor leaves the array uninitialised).\<close>

record 'a ocean_surface =
  os_samples :: "(real \<times> real) list"
  os_cur_h :: "real list"
  os_next_h :: "real list"
  os_cur_v :: "real list"
  os_next_v :: "real list"
  os_wave :: "swe_wave option"
  os_wind_average :: 'a

definition ocean_create :: "ocean_constants \<Rightarrow> 'a \<Rightarrow> 'a ocean_surface" where
  "ocean_create K avg =
     \<lparr>os_samples = [],
      os_cur_h = replicate (swe_total_samples K + 1) swe_height_field_offset,
      os_next_h = replicate (swe_total_samples K + 1) swe_height_field_offset,
      os_cur_v = replicate (swe_total_samples K + 1) 0,
      os_next_v = replicate (swe_total_samples K + 1) 0,
      os_wave = None,
      os_wind_average = avg\<rparr>"

section \<open>The SWE step\<close>

text \<open>The semi-Lagrangian back-trace: the fractional index a value had one step ago,
  clamped to the grid, and the linear interpolation at it.\<close>

definition backtrace_index :: "ocean_constants \<Rightarrow> nat \<Rightarrow> real \<Rightarrow> real" where
  "backtrace_index K i v =
     min (max 0 (real i - v * oc_step_dt K / oc_dx K)) (real (swe_total_samples K - 1))"

definition lerp_at :: "real list \<Rightarrow> real \<Rightarrow> real" where
  "lerp_at xs c =
     (let ci = nat (truncate_int c); cf = c - real ci
      in (1 - cf) * xs ! ci + cf * xs ! (ci + 1))"

definition interior :: "ocean_constants \<Rightarrow> nat list" where
  "interior K = [swe_boundary_conditions_samples..<swe_total_samples K - swe_boundary_conditions_samples]"

definition advect_height_field :: "ocean_constants \<Rightarrow> 'a ocean_surface \<Rightarrow> 'a ocean_surface" where
  "advect_height_field K sf =
     sf\<lparr>os_next_h := fold (\<lambda>i nh. nh[i :=
          lerp_at (os_cur_h sf)
            (backtrace_index K i ((os_cur_v sf ! i + os_cur_v sf ! (i + 1)) / 2))])
        (interior K) (os_next_h sf)\<rparr>"

definition advect_velocity_field :: "ocean_constants \<Rightarrow> 'a ocean_surface \<Rightarrow> 'a ocean_surface" where
  "advect_velocity_field K sf =
     sf\<lparr>os_next_v := fold (\<lambda>i nv. nv[i :=
          lerp_at (os_cur_v sf) (backtrace_index K i (os_cur_v sf ! i))])
        (interior K) (os_next_v sf)\<rparr>"

definition update_height_field :: "ocean_constants \<Rightarrow> 'a ocean_surface \<Rightarrow> 'a ocean_surface" where
  "update_height_field K sf =
     sf\<lparr>os_next_h := fold (\<lambda>i nh. nh[i :=
          nh ! i - nh ! i * (os_next_v sf ! (i + 1) - os_next_v sf ! i) / oc_dx K * oc_step_dt K])
        (interior K) (os_next_h sf)\<rparr>"

definition update_velocity_field :: "ocean_constants \<Rightarrow> 'a ocean_surface \<Rightarrow> 'a ocean_surface" where
  "update_velocity_field K sf =
     sf\<lparr>os_next_v := fold (\<lambda>i nv. nv[i :=
          nv ! i + oc_gravity K * (os_next_h sf ! (i - 1) - os_next_h sf ! i) / oc_dx K * oc_step_dt K])
        (interior K) (os_next_v sf)\<rparr>"

text \<open>Reflective boundary: the boundary cell's height mirrors its neighbour's (the
  loop runs once, for \<open>i = 0\<close>).\<close>

definition set_boundary_conditions :: "ocean_constants \<Rightarrow> 'a ocean_surface \<Rightarrow> 'a ocean_surface" where
  "set_boundary_conditions K sf =
     (let T = swe_total_samples K;
          nh1 = (os_next_h sf)[0 := os_next_h sf ! 1]
      in sf\<lparr>os_next_h := nh1[T - 1 := nh1 ! (T - 2)]\<rparr>)"

definition swap_buffers :: "'a ocean_surface \<Rightarrow> 'a ocean_surface" where
  "swap_buffers sf =
     sf\<lparr>os_cur_h := os_next_h sf, os_next_h := os_cur_h sf,
       os_cur_v := os_next_v sf, os_next_v := os_cur_v sf\<rparr>"

definition swe_step :: "ocean_constants \<Rightarrow> 'a ocean_surface \<Rightarrow> 'a ocean_surface" where
  "swe_step K sf =
     swap_buffers (set_boundary_conditions K (update_velocity_field K (update_height_field K
       (advect_velocity_field K (advect_height_field K sf)))))"

section \<open>Render samples\<close>

definition wind_incisiveness :: "real \<Rightarrow> real \<Rightarrow> real \<Rightarrow> real" where
  "wind_incisiveness speed_magnitude max_speed_magnitude base_speed_magnitude =
     (let gust = max_speed_magnitude - base_speed_magnitude
      in if gust = 0 then 0 else max 0 (speed_magnitude - \<bar>base_speed_magnitude\<bar>) / \<bar>gust\<bar>)"

definition ripples_time_frequency :: "real \<Rightarrow> real" where
  "ripples_time_frequency wind_speed_base = (if 0 \<le> wind_speed_base then 128 else -128)"

definition sample_value :: "ocean_constants \<Rightarrow> real \<Rightarrow> real \<Rightarrow> real \<Rightarrow> real list \<Rightarrow> nat \<Rightarrow> real" where
  "sample_value K t freq wave_height h i =
     (h ! (swe_outer_layer_samples + i) - swe_height_field_offset) * swe_height_field_amplification
     + sin (real i * oc_dx K * 0.5 - t * freq) * wave_height"

definition generate_samples ::
  "ocean_constants \<Rightarrow> real \<Rightarrow> real \<Rightarrow> real \<Rightarrow> real list \<Rightarrow> (real \<times> real) list" where
  "generate_samples K t freq wave_height h =
     (let S = oc_samples_count K; v = sample_value K t freq wave_height h
      in map (\<lambda>i. (v i, if Suc i < S then v (Suc i) - v i else 0)) [0..<S] @ [(v (S - 1), 0)])"

section \<open>OceanSurface::Update and OceanSurface::AdjustTo\<close>

text \<open>Step 2 of \<^verbatim>\<open>Update\<close>: the external wave writes its height into the current
  height field at its sample index, or ends.\<close>

definition apply_external_wave ::
  "ocean_constants \<Rightarrow> real \<Rightarrow> 'a ocean_surface \<Rightarrow> 'a ocean_surface option" where
  "apply_external_wave K t sf =
     (case os_wave sf of
        None \<Rightarrow> Some sf
      | Some w \<Rightarrow>
          (case swe_wave_update K t w of
             (_, None) \<Rightarrow> Some (sf\<lparr>os_wave := None\<rparr>)
           | (w', Some h) \<Rightarrow>
               (let k = ws_sample_index w'
                in if 0 \<le> k \<and> nat k < length (os_cur_h sf)
                   then Some (sf\<lparr>os_wave := Some w', os_cur_h := (os_cur_h sf)[nat k := h]\<rparr>)
                   else None)))"

definition ocean_update ::
  "ocean_constants \<Rightarrow> ('a \<Rightarrow> real \<Rightarrow> 'a \<times> real) \<Rightarrow> real \<Rightarrow> real \<Rightarrow> real \<Rightarrow> real \<Rightarrow> real
   \<Rightarrow> 'a ocean_surface \<Rightarrow> 'a ocean_surface option" where
  "ocean_update K average_update t wind_speed_magnitude wind_max_speed_magnitude
     wind_base_speed_magnitude wind_speed_base sf =
     (case apply_external_wave K t sf of
        None \<Rightarrow> None
      | Some sf1 \<Rightarrow>
          (let sf2 = swe_step K sf1;
               raw = wind_incisiveness wind_speed_magnitude wind_max_speed_magnitude
                       wind_base_speed_magnitude;
               (avg', smoothed) = average_update (os_wind_average sf2) raw;
               wave_height = 0.7 * smoothed
           in Some (sf2\<lparr>os_samples := generate_samples K t (ripples_time_frequency wind_speed_base)
                                       wave_height (os_cur_h sf2),
                       os_wind_average := avg'\<rparr>)))"

text \<open>\<^verbatim>\<open>AdjustTo\<close>: a position starts a wave (its low height read at the sample's
  cell of the height field) or restarts the running one; no position releases the
  running wave, and without one the code dereferences an empty optional: \<open>None\<close>.\<close>

definition wave_sample_index :: "ocean_constants \<Rightarrow> real \<Rightarrow> int" where
  "wave_sample_index K x = truncate_int ((x + oc_half_max_world_width K) / oc_dx K + 0.5)"

definition ocean_adjust_to ::
  "ocean_constants \<Rightarrow> vec2 option \<Rightarrow> real \<Rightarrow> 'a ocean_surface \<Rightarrow> 'a ocean_surface option" where
  "ocean_adjust_to K world_coordinates t sf =
     (case world_coordinates of
        Some (x, y) \<Rightarrow>
          (let target_height = y / swe_height_field_amplification + swe_height_field_offset
           in case os_wave sf of
                None \<Rightarrow>
                  (let k = wave_sample_index K x
                   in if 0 \<le> k \<and> swe_outer_layer_samples + nat k < length (os_cur_h sf)
                      then Some (sf\<lparr>os_wave := Some (swe_wave_create K k
                                     (os_cur_h sf ! (swe_outer_layer_samples + nat k))
                                     target_height OnCue t)\<rparr>)
                      else None)
              | Some w \<Rightarrow> Some (sf\<lparr>os_wave := Some (swe_wave_restart K target_height t w)\<rparr>))
      | None \<Rightarrow>
          (case os_wave sf of
             None \<Rightarrow> None
           | Some w \<Rightarrow> Some (sf\<lparr>os_wave := Some (swe_wave_release K t w)\<rparr>)))"

section \<open>OceanSurface::Upload\<close>

text \<open>The vertices sent to \<^verbatim>\<open>RenderContext::UploadOcean\<close> between
  \<^verbatim>\<open>UploadOceanStart(n)\<close> and \<^verbatim>\<open>UploadOceanEnd\<close>: the slice count \<open>n\<close> and
  the list of \<open>(x, height, sea depth)\<close>.  \<open>height_at\<close> is
  \<^verbatim>\<open>OceanSurface::GetHeightAt\<close> (\<^verbatim>\<open>Physics.h\<close>); a read past the samples is
  \<open>None\<close>.\<close>

definition ocean_upload ::
  "ocean_constants \<Rightarrow> (real \<Rightarrow> real) \<Rightarrow> real \<Rightarrow> real \<Rightarrow> real \<Rightarrow> 'a ocean_surface
   \<Rightarrow> (int \<times> (real \<times> real \<times> real) list) option" where
  "ocean_upload K height_at visible_left visible_right sea_depth sf =
     (let sample_index = truncate_int ((visible_left + oc_half_max_world_width K) / oc_dx K);
          sample_x = - oc_half_max_world_width K + oc_dx K * real_of_int sample_index;
          coverage_width = visible_right - sample_x;
          n = \<lceil>coverage_width / oc_dx K\<rceil>
      in if int render_slices \<le> n
         then (let slice_dx = coverage_width / real render_slices
               in Some (int render_slices,
                        map (\<lambda>s. let x = sample_x + slice_dx * real s in (x, height_at x, sea_depth))
                          [0..<Suc render_slices]))
         else if 0 \<le> sample_index \<and> nat (sample_index + n) < length (os_samples sf)
         then Some (n, map (\<lambda>s. (sample_x + oc_dx K * real_of_int s,
                                 fst (os_samples sf ! nat (s + sample_index)), sea_depth)) [0..n])
         else None)"

section \<open>Invariants and concrete values\<close>

text \<open>The four SWE buffers have one cell more than the samples plus the outer layers;
  the boundary velocities of both buffers are zero (the code asserts it after every
  update).\<close>

definition ocean_inv :: "ocean_constants \<Rightarrow> 'a ocean_surface \<Rightarrow> bool" where
  "ocean_inv K sf \<longleftrightarrow>
     (let T = swe_total_samples K
      in length (os_cur_h sf) = Suc T \<and> length (os_next_h sf) = Suc T
         \<and> length (os_cur_v sf) = Suc T \<and> length (os_next_v sf) = Suc T
         \<and> os_cur_v sf ! 0 = 0 \<and> os_cur_v sf ! (T - 1) = 0
         \<and> os_next_v sf ! 0 = 0 \<and> os_next_v sf ! (T - 1) = 0)"

text \<open>With the external wave: its sample index lies in the height buffer.\<close>

definition ocean_wf :: "ocean_constants \<Rightarrow> 'a ocean_surface \<Rightarrow> bool" where
  "ocean_wf K sf \<longleftrightarrow>
     ocean_inv K sf
     \<and> (case os_wave sf of
          None \<Rightarrow> True
        | Some w \<Rightarrow> 0 \<le> ws_sample_index w \<and> nat (ws_sample_index w) < Suc (swe_total_samples K))"

text \<open>The ocean at rest: heights at the rest height, velocities zero.\<close>

definition rest_ocean :: "ocean_constants \<Rightarrow> 'a ocean_surface \<Rightarrow> bool" where
  "rest_ocean K sf \<longleftrightarrow>
     os_cur_h sf = replicate (Suc (swe_total_samples K)) swe_height_field_offset
     \<and> os_next_h sf = replicate (Suc (swe_total_samples K)) swe_height_field_offset
     \<and> os_cur_v sf = replicate (Suc (swe_total_samples K)) 0
     \<and> os_next_v sf = replicate (Suc (swe_total_samples K)) 0"

text \<open>Four samples of width 1, a 0.02 s step.\<close>

definition example_ocean_constants :: ocean_constants where
  "example_ocean_constants =
     \<lparr>oc_samples_count = 4, oc_dx = 1, oc_step_dt = 0.02, oc_gravity = 9.80,
      oc_half_max_world_width = 2\<rparr>"

definition example_wave :: swe_wave where
  "example_wave =
     \<lparr>ws_sample_index = 2, ws_low_height = 100, ws_phase_start_height = 100,
      ws_phase_target_height = 101, ws_current_height = 100, ws_current_progress = 0,
      ws_start_time = 0, ws_phase = Rise, ws_release_mode = OnCue, ws_smoothing_delay = 2\<rparr>"

section \<open>Lemmas: the SWE step\<close>

lemma swe_total_samples_ge: "4 \<le> swe_total_samples K"
  by (simp add: swe_total_samples_def swe_outer_layer_samples_def swe_boundary_conditions_samples_def)

lemma set_interior: "set (interior K) = {1..<swe_total_samples K - 1}"
  by (simp add: interior_def swe_boundary_conditions_samples_def)

lemma distinct_interior: "distinct (interior K)"
  by (simp add: interior_def)

lemma boundary_not_interior [simp]:
  "0 \<notin> set (interior K)" "swe_total_samples K - 1 \<notin> set (interior K)"
  by (simp_all add: set_interior)

lemma swe_frame [simp]:
  "os_cur_h (advect_height_field K sf) = os_cur_h sf"
  "os_cur_v (advect_height_field K sf) = os_cur_v sf"
  "os_next_v (advect_height_field K sf) = os_next_v sf"
  "os_cur_h (advect_velocity_field K sf) = os_cur_h sf"
  "os_cur_v (advect_velocity_field K sf) = os_cur_v sf"
  "os_next_h (advect_velocity_field K sf) = os_next_h sf"
  "os_cur_h (update_height_field K sf) = os_cur_h sf"
  "os_cur_v (update_height_field K sf) = os_cur_v sf"
  "os_next_v (update_height_field K sf) = os_next_v sf"
  "os_cur_h (update_velocity_field K sf) = os_cur_h sf"
  "os_cur_v (update_velocity_field K sf) = os_cur_v sf"
  "os_next_h (update_velocity_field K sf) = os_next_h sf"
  "os_cur_h (set_boundary_conditions K sf) = os_cur_h sf"
  "os_cur_v (set_boundary_conditions K sf) = os_cur_v sf"
  "os_next_v (set_boundary_conditions K sf) = os_next_v sf"
  "os_wave (swe_step K sf) = os_wave sf"
  "os_wind_average (swe_step K sf) = os_wind_average sf"
  by (simp_all add: advect_height_field_def advect_velocity_field_def update_height_field_def
      update_velocity_field_def set_boundary_conditions_def swe_step_def swap_buffers_def Let_def)

lemma swe_lengths [simp]:
  "length (os_next_h (advect_height_field K sf)) = length (os_next_h sf)"
  "length (os_next_v (advect_velocity_field K sf)) = length (os_next_v sf)"
  "length (os_next_h (update_height_field K sf)) = length (os_next_h sf)"
  "length (os_next_v (update_velocity_field K sf)) = length (os_next_v sf)"
  "length (os_next_h (set_boundary_conditions K sf)) = length (os_next_h sf)"
  by (simp_all add: advect_height_field_def advect_velocity_field_def update_height_field_def
      update_velocity_field_def set_boundary_conditions_def Let_def)

lemma swe_velocity_boundary [simp]:
  "j \<notin> set (interior K) \<Longrightarrow> os_next_v (advect_velocity_field K sf) ! j = os_next_v sf ! j"
  "j \<notin> set (interior K) \<Longrightarrow> os_next_v (update_velocity_field K sf) ! j = os_next_v sf ! j"
  by (simp_all add: advect_velocity_field_def update_velocity_field_def nth_fold_update_notin)

lemma set_boundary_conditions_mirror:
  assumes "length (os_next_h sf) = Suc (swe_total_samples K)"
  shows "os_next_h (set_boundary_conditions K sf) ! 0 = os_next_h (set_boundary_conditions K sf) ! 1
    \<and> os_next_h (set_boundary_conditions K sf) ! (swe_total_samples K - 1)
        = os_next_h (set_boundary_conditions K sf) ! (swe_total_samples K - 2)"
  using assms swe_total_samples_ge [of K]
  by (simp add: set_boundary_conditions_def Let_def nth_list_update)

lemma swe_step_inv:
  assumes "ocean_inv K sf"
  shows "ocean_inv K (swe_step K sf)
    \<and> os_cur_h (swe_step K sf) ! 0 = os_cur_h (swe_step K sf) ! 1
    \<and> os_cur_h (swe_step K sf) ! (swe_total_samples K - 1)
        = os_cur_h (swe_step K sf) ! (swe_total_samples K - 2)"
proof -
  let ?s1 = "update_velocity_field K (update_height_field K (advect_velocity_field K (advect_height_field K sf)))"
  have "length (os_next_h ?s1) = Suc (swe_total_samples K)"
    using assms by (simp add: ocean_inv_def Let_def)
  note m = set_boundary_conditions_mirror [OF this]
  have "os_next_v ?s1 ! 0 = os_next_v sf ! 0"
    "os_next_v ?s1 ! (swe_total_samples K - 1) = os_next_v sf ! (swe_total_samples K - 1)"
    by (simp_all only: swe_velocity_boundary boundary_not_interior not_False_eq_True swe_frame)
  then show ?thesis
    using assms m by (simp add: ocean_inv_def Let_def swe_step_def swap_buffers_def)
qed

section \<open>Update and AdjustTo keep the invariant\<close>

lemma wave_sample_index_kept [simp]:
  "ws_sample_index (fst (swe_wave_update K t w)) = ws_sample_index w"
  "ws_sample_index (swe_wave_restart K h t w) = ws_sample_index w"
  "ws_sample_index (swe_wave_release K t w) = ws_sample_index w"
  "ws_sample_index (start_fall_phase K t w) = ws_sample_index w"
  by (simp_all add: swe_wave_update_def swe_wave_restart_def swe_wave_release_def
      start_fall_phase_def Let_def)

lemma apply_external_wave_wf:
  assumes "ocean_wf K sf"
  shows "\<exists>sf1. apply_external_wave K t sf = Some sf1 \<and> ocean_wf K sf1
          \<and> os_cur_v sf1 = os_cur_v sf \<and> os_next_v sf1 = os_next_v sf
          \<and> os_next_h sf1 = os_next_h sf \<and> os_wind_average sf1 = os_wind_average sf"
proof (cases "os_wave sf")
  case None
  then show ?thesis using assms by (simp add: apply_external_wave_def)
next
  case (Some w)
  obtain w' hv where u: "swe_wave_update K t w = (w', hv)" by fastforce
  have idx: "ws_sample_index w' = ws_sample_index w"
    using wave_sample_index_kept(1) [of K t w] u by simp
  show ?thesis
  proof (cases hv)
    case None
    then show ?thesis using assms Some u by (simp add: apply_external_wave_def ocean_wf_def ocean_inv_def)
  next
    case (Some h)
    then show ?thesis
      using assms \<open>os_wave sf = Some w\<close> u idx
      by (simp add: apply_external_wave_def ocean_wf_def ocean_inv_def Let_def)
  qed
qed

text \<open>C11: OceanSurface::Update on a well-formed ocean (buffer lengths, zero boundary velocities in both buffers, the external wave's cell inside the height buffer) returns a well-formed ocean in which the boundary heights mirror their neighbours: the spec's ocean mirror invariant.\<close>

lemma ocean_update_wf:
  assumes "ocean_wf K sf"
  shows "\<exists>sf'. ocean_update K avg t a b c d sf = Some sf' \<and> ocean_wf K sf'
     \<and> os_cur_h sf' ! 0 = os_cur_h sf' ! 1
     \<and> os_cur_h sf' ! (swe_total_samples K - 1) = os_cur_h sf' ! (swe_total_samples K - 2)"
proof -
  obtain sf1 where a1: "apply_external_wave K t sf = Some sf1" and wf1: "ocean_wf K sf1"
    using apply_external_wave_wf [OF assms] by blast
  have inv1: "ocean_inv K sf1" using wf1 by (simp add: ocean_wf_def)
  note st = swe_step_inv [OF inv1]
  obtain avg' sm where av: "avg (os_wind_average sf1)
      (wind_incisiveness a b c) = (avg', sm)" by fastforce
  have "ocean_wf K (swe_step K sf1)"
    using st wf1 by (simp add: ocean_wf_def)
  then show ?thesis
    using st by (simp add: ocean_update_def a1 av ocean_wf_def ocean_inv_def Let_def)
qed

lemma ocean_create_wf: "ocean_wf K (ocean_create K a)"
  using swe_total_samples_ge [of K]
  by (simp add: ocean_wf_def ocean_inv_def ocean_create_def Let_def)

text \<open>AdjustTo keeps the ocean well formed: a new wave's sample index is inside the height buffer.\<close>

lemma ocean_adjust_to_wf:
  assumes "ocean_wf K sf" "ocean_adjust_to K c t sf = Some sf'"
  shows "ocean_wf K sf'"
  using assms
  by (auto simp: ocean_adjust_to_def ocean_wf_def ocean_inv_def swe_wave_create_def Let_def
      split: option.splits prod.splits if_splits)

section \<open>The wave state machine\<close>

lemma calculate_smoothing_delay_bounds:
  assumes "0 < oc_step_dt K"
  shows "oc_step_dt K \<le> calculate_smoothing_delay K w \<and> calculate_smoothing_delay K w \<le> 221 * oc_step_dt K"
proof -
  let ?dh = "min \<bar>ws_phase_target_height w - ws_current_height w\<bar> (swe_height_field_offset / 5)"
  have e1: "0 < exp (-0.6126081 * ?dh)" and e2: "0 < exp (-0.6485749 * ?dh)" by simp_all
  have "(if ws_phase w = Rise
         then -19.88881 + (147.403 / 0.6126081) * (1 - exp (-0.6126081 * ?dh))
         else 1.220013 + (7.8394 / 0.6485749) * (1 - exp (-0.6485749 * ?dh))) \<le> (221::real)"
    using e1 e2 by (simp add: algebra_simps)
  then have "max (if ws_phase w = Rise
         then -19.88881 + (147.403 / 0.6126081) * (1 - exp (-0.6126081 * ?dh))
         else 1.220013 + (7.8394 / 0.6485749) * (1 - exp (-0.6485749 * ?dh))) 1 \<in> {1..221::real}"
    by simp
  then show ?thesis
    using assms by (simp add: calculate_smoothing_delay_def Let_def mult_right_mono del: max_less_iff_conj)
qed

lemma sin_progress_bounds:
  assumes "0 \<le> p"
  shows "0 \<le> sin (pi / 2 * min p 1) \<and> sin (pi / 2 * min p 1) \<le> 1"
proof -
  have "0 \<le> pi / 2 * min p 1" using assms by simp
  moreover have "pi / 2 * min p 1 \<le> pi"
    using pi_gt_zero by (simp add: mult_le_cancel_left1 min_def)
  ultimately show ?thesis by (simp add: sin_ge_zero)
qed

lemma between_interp:
  assumes "0 \<le> s" "s \<le> (1::real)"
  shows "min a b \<le> a + (b - a) * s \<and> a + (b - a) * s \<le> max a b"
proof (cases "a \<le> b")
  case True
  have "(b - a) * s \<le> b - a" using assms True by (simp add: mult_left_le)
  then show ?thesis using assms True by (simp add: min_def max_def)
next
  case False
  have "(a - b) * s \<le> a - b" using assms False by (simp add: mult_left_le)
  moreover have "b * s \<le> a * s" using assms(1) False by (intro mult_right_mono) simp_all
  ultimately show ?thesis using assms False by (simp add: min_def max_def algebra_simps)
qed

text \<open>Once its start time has passed, the external wave's height lies between the start height and the target height of its phase (the sin-shaped interpolation never overshoots).\<close>

theorem swe_wave_update_height_bounds:
  assumes "ws_start_time w \<le> t" "0 < ws_smoothing_delay w" "0 \<le> ws_current_progress w"
    and "snd (swe_wave_update K t w) = Some h"
  shows "min (ws_phase_start_height w) (ws_phase_target_height w) \<le> h
       \<and> h \<le> max (ws_phase_start_height w) (ws_phase_target_height w)"
proof -
  define p where "p = (if ws_current_progress w < 1
                       then (t - ws_start_time w) / ws_smoothing_delay w else ws_current_progress w)"
  have p0: "0 \<le> p" using assms(1-3) by (simp add: p_def)
  have h: "h = ws_phase_start_height w
             + (ws_phase_target_height w - ws_phase_start_height w) * sin (pi / 2 * min p 1)"
    using assms(4) by (auto simp: swe_wave_update_def Let_def p_def split: if_splits)
  show ?thesis using h between_interp sin_progress_bounds [OF p0] by simp
qed

text \<open>Restarting the external wave twice with the same target at the same time is the same as restarting it once.\<close>

theorem swe_wave_restart_idempotent:
  "swe_wave_restart K h t (swe_wave_restart K h t w) = swe_wave_restart K h t w"
  by (simp add: swe_wave_restart_def calculate_smoothing_delay_def Let_def)

text \<open>C13: After Release, the external wave's Update reports the end of the wave at any time at least 221 simulation steps later.\<close>

theorem swe_wave_release_finishes:
  assumes "0 < oc_step_dt K" "t + 221 * oc_step_dt K \<le> t'"
  shows "snd (swe_wave_update K t' (swe_wave_release K t w)) = None"
proof (cases "ws_phase w = Rise")
  case True
  let ?w1 = "start_fall_phase K t w"
  have d: "ws_smoothing_delay ?w1 \<le> 221 * oc_step_dt K" "0 < ws_smoothing_delay ?w1"
    using calculate_smoothing_delay_bounds [OF assms(1)] assms(1)
    by (simp_all add: start_fall_phase_def Let_def) (meson less_le_trans)
  then have "1 \<le> (t' - t) / ws_smoothing_delay ?w1"
    using assms(2) by (simp add: le_divide_eq)
  then show ?thesis
    using True by (simp add: swe_wave_release_def swe_wave_update_def Let_def start_fall_phase_def)
next
  case False
  then show ?thesis by (simp add: swe_wave_release_def swe_wave_update_def Let_def)
qed

text \<open>AdjustTo without a position (the release) fails exactly when no external wave is running: the code then dereferences an empty std::optional.\<close>

theorem ocean_adjust_to_release_error:
  "ocean_adjust_to K None t sf = None \<longleftrightarrow> os_wave sf = None"
  by (simp add: ocean_adjust_to_def split: option.split)

section \<open>Interpolation bounds and the ocean at rest\<close>

text \<open>The semi-Lagrangian back-trace of the advection gives an integer part i with i + 1 inside the buffer and a fractional part in [0, 1), as the assertion in AdvectHeightField and AdvectVelocityField requires.\<close>

theorem backtrace_index_in_grid:
  "nat (truncate_int (backtrace_index K i v)) + 1 \<le> swe_total_samples K
   \<and> 0 \<le> backtrace_index K i v - real (nat (truncate_int (backtrace_index K i v)))
   \<and> backtrace_index K i v - real (nat (truncate_int (backtrace_index K i v))) < 1"
proof -
  let ?c = "backtrace_index K i v"
  let ?T = "swe_total_samples K"
  have c0: "0 \<le> ?c" and c1: "?c \<le> real (?T - 1)"
    using swe_total_samples_ge [of K] by (simp_all add: backtrace_index_def)
  have tr: "truncate_int ?c = \<lfloor>?c\<rfloor>" using c0 by (simp add: truncate_int_def)
  have f0: "0 \<le> \<lfloor>?c\<rfloor>" using c0 by simp
  have "\<lfloor>?c\<rfloor> \<le> int (?T - 1)" using c1 by (simp add: floor_le_iff)
  then have "nat \<lfloor>?c\<rfloor> + 1 \<le> ?T" using swe_total_samples_ge [of K] by linarith
  moreover have "real (nat \<lfloor>?c\<rfloor>) = real_of_int \<lfloor>?c\<rfloor>" using f0 by simp
  ultimately show ?thesis
    using tr by (simp add: of_int_floor_le) linarith
qed

lemma lerp_at_replicate:
  "0 \<le> c \<Longrightarrow> c \<le> real (n - 1) \<Longrightarrow> 2 \<le> n \<Longrightarrow> lerp_at (replicate (Suc n) x) c = x"
proof -
  assume c0: "0 \<le> c" and c1: "c \<le> real (n - 1)" and n: "2 \<le> n"
  have "\<lfloor>c\<rfloor> \<le> int (n - 1)" using c1 by (simp add: floor_le_iff)
  then have "nat \<lfloor>c\<rfloor> + 1 < Suc n" using n by linarith
  then show ?thesis
    using c0 by (simp add: lerp_at_def truncate_int_def Let_def algebra_simps nth_replicate
        del: replicate_Suc)
qed

lemma replicate_update_same [simp]: "(replicate n x)[k := x] = replicate n x"
  by (metis list_update_id list_update_beyond nth_replicate not_le length_replicate)

lemma fold_update_replicate:
  assumes "\<And>i. i \<in> set ks \<Longrightarrow> f i (replicate n x) = x"
  shows "fold (\<lambda>i xs. xs[i := f i xs]) ks (replicate n x) = replicate n x"
  using assms
proof (induction ks)
  case Nil
  then show ?case by simp
next
  case (Cons k ks)
  have "(replicate n x)[k := f k (replicate n x)] = replicate n x"
    using Cons.prems by simp
  then show ?case using Cons by simp
qed

text \<open>An ocean at rest (all heights at the rest height, all velocities zero, in both buffers) is a fixed point of the SWE step.\<close>

theorem swe_step_rest:
  assumes "rest_ocean K sf"
  shows "swe_step K sf = sf"
proof -
  let ?T = "swe_total_samples K"
  have T: "4 \<le> ?T" by (rule swe_total_samples_ge)
  have bt: "0 \<le> backtrace_index K i v \<and> backtrace_index K i v \<le> real (?T - 1)" for i v
    using T by (simp add: backtrace_index_def)
  have ah: "os_next_h (advect_height_field K sf) = os_next_h sf"
    using assms bt T
    by (simp add: rest_ocean_def advect_height_field_def lerp_at_replicate fold_update_replicate del: replicate_Suc)
  have av: "os_next_v (advect_velocity_field K (advect_height_field K sf)) = os_next_v sf"
    using assms bt T
    by (simp add: rest_ocean_def advect_velocity_field_def lerp_at_replicate fold_update_replicate del: replicate_Suc)
  let ?s2 = "advect_velocity_field K (advect_height_field K sf)"
  have uh: "os_next_h (update_height_field K ?s2) = os_next_h sf"
    using assms ah av T unfolding update_height_field_def rest_ocean_def
    by (simp del: replicate_Suc)
       (rule fold_update_replicate, auto simp: set_interior nth_replicate simp del: replicate_Suc)
  have uv: "os_next_v (update_velocity_field K (update_height_field K ?s2)) = os_next_v sf"
    using assms ah av uh T unfolding update_velocity_field_def rest_ocean_def
    by (simp del: replicate_Suc)
       (rule fold_update_replicate, auto simp: set_interior nth_replicate simp del: replicate_Suc)
  have bc: "os_next_h (set_boundary_conditions K (update_velocity_field K (update_height_field K ?s2)))
            = os_next_h sf"
    using assms uh T by (simp add: rest_ocean_def set_boundary_conditions_def Let_def nth_replicate del: replicate_Suc)
  show ?thesis
    using assms bc uv T
    by (intro ocean_surface.equality)
       (simp_all add: swe_step_def swap_buffers_def rest_ocean_def set_boundary_conditions_def
         update_velocity_field_def update_height_field_def advect_velocity_field_def
         advect_height_field_def Let_def del: replicate_Suc)
qed

section \<open>Where the external wave lands; samples; upload\<close>

lemma swe_wave_update_returns_current:
  "snd (swe_wave_update K t w) = Some h \<Longrightarrow> ws_current_height (fst (swe_wave_update K t w)) = h"
  by (auto simp: swe_wave_update_def Let_def start_fall_phase_def split: if_splits)

text \<open>C12: A wave started by AdjustTo at world x takes its low height from the height cell SWEOuterLayerSamples + i of the sample at x, but Update writes the wave's height into cell i, two cells to the left, and leaves the sample's own cell alone.\<close>

theorem ocean_adjust_to_wave_cell:
  assumes "os_wave sf = None" "ocean_adjust_to K (Some (x, y)) t sf = Some sf1"
    and "apply_external_wave K t' sf1 = Some sf2" "os_wave sf2 = Some w"
  shows "ws_sample_index w = wave_sample_index K x
    \<and> ws_low_height w = os_cur_h sf ! (swe_outer_layer_samples + nat (wave_sample_index K x))
    \<and> os_cur_h sf2 ! nat (wave_sample_index K x) = ws_current_height w
    \<and> os_cur_h sf2 ! (swe_outer_layer_samples + nat (wave_sample_index K x))
        = os_cur_h sf ! (swe_outer_layer_samples + nat (wave_sample_index K x))"
proof -
  let ?k = "wave_sample_index K x"
  let ?c = "swe_outer_layer_samples + nat ?k"
  let ?w0 = "swe_wave_create K ?k (os_cur_h sf ! ?c)
               (y / swe_height_field_amplification + swe_height_field_offset) OnCue t"
  have k: "0 \<le> ?k" "?c < length (os_cur_h sf)"
    and sf1: "sf1 = sf\<lparr>os_wave := Some ?w0\<rparr>"
    using assms(1,2) by (auto simp: ocean_adjust_to_def Let_def split: if_splits)
  obtain w' hv where u: "swe_wave_update K t' ?w0 = (w', hv)" by fastforce
  have "ws_sample_index w' = ws_sample_index ?w0"
    using wave_sample_index_kept(1) [of K t' ?w0] u by simp
  moreover have "ws_sample_index ?w0 = ?k" by (simp add: swe_wave_create_def Let_def)
  ultimately have idx: "ws_sample_index w' = ?k" by simp
  have "hv \<noteq> None"
  proof
    assume "hv = None"
    then have "sf2 = sf1\<lparr>os_wave := None\<rparr>"
      using assms(3) u sf1 by (simp add: apply_external_wave_def)
    with assms(4) show False by simp
  qed
  then obtain h where hv: "hv = Some h" by blast
  have sf2: "sf2 = sf1\<lparr>os_wave := Some w', os_cur_h := (os_cur_h sf1)[nat ?k := h]\<rparr>"
    using assms(3) sf1 u hv k idx by (simp add: apply_external_wave_def Let_def)
  have w: "w = w'" using assms(4) sf2 by simp
  have cur: "ws_current_height w' = h"
    using swe_wave_update_returns_current [of K t' ?w0 h] u hv by simp
  have low: "ws_low_height w' = os_cur_h sf ! ?c"
    using u by (auto simp: swe_wave_update_def swe_wave_create_def start_fall_phase_def Let_def
                     split: if_splits)
  have "nat ?k < length (os_cur_h sf)" using k by simp
  then show ?thesis
    using sf1 sf2 w cur low idx k by (simp add: swe_outer_layer_samples_def swe_boundary_conditions_samples_def)
qed

text \<open>Update generates SamplesCount + 1 render samples, each holding the difference to the next sample, the last two with difference 0 and the extra sample equal to the last one.\<close>

theorem generate_samples_shape:
  assumes "0 < oc_samples_count K"
  shows "length (generate_samples K t f wh h) = Suc (oc_samples_count K)
    \<and> (\<forall>i. Suc i < oc_samples_count K \<longrightarrow>
          snd (generate_samples K t f wh h ! i)
            = fst (generate_samples K t f wh h ! Suc i) - fst (generate_samples K t f wh h ! i))
    \<and> snd (generate_samples K t f wh h ! (oc_samples_count K - 1)) = 0
    \<and> generate_samples K t f wh h ! oc_samples_count K
        = (fst (generate_samples K t f wh h ! (oc_samples_count K - 1)), 0)"
  using assms by (simp add: generate_samples_def Let_def nth_append)

lemma ocean_upload_slices:
  assumes "ocean_upload K height_at l r d sf = Some (n, vs)"
  shows "n \<le> int render_slices \<and> length vs = nat (n + 1)"
  using assms by (auto simp: ocean_upload_def Let_def render_slices_def split: if_splits)

text \<open>OceanSurface::Upload announces at most 500 slices and sends exactly one vertex more than the slices it announces.\<close>

theorem ocean_upload_bounds:
  assumes "ocean_upload K height_at l r d sf = Some (n, vs)"
  shows "n \<le> int render_slices \<and> length vs = nat (n + 1)"
  using ocean_upload_slices [OF assms] .

section \<open>A concrete wave\<close>

lemma example_ocean_constants_simps [simp]:
  "oc_samples_count example_ocean_constants = 4" "oc_dx example_ocean_constants = 1"
  "oc_step_dt example_ocean_constants = 0.02" "oc_half_max_world_width example_ocean_constants = 2"
  "swe_total_samples example_ocean_constants = 8"
  by (simp_all add: example_ocean_constants_def swe_total_samples_def swe_outer_layer_samples_def
      swe_boundary_conditions_samples_def)

lemma example_wave_index: "wave_sample_index example_ocean_constants 0 = 2"
proof -
  have "\<lfloor>(5 / 2 :: real)\<rfloor> = 2" by (simp add: floor_eq_iff)
  then show ?thesis by (simp add: wave_sample_index_def truncate_int_def)
qed

lemma example_adjust_to:
  "ocean_adjust_to example_ocean_constants (Some (0, 50)) 0 (ocean_create example_ocean_constants ())
     = Some ((ocean_create example_ocean_constants ())\<lparr>os_wave :=
         Some (swe_wave_create example_ocean_constants 2 100 101 OnCue 0)\<rparr>)
   \<and> os_cur_h (ocean_create example_ocean_constants ()) ! 4 = 100
   \<and> length (os_cur_h (ocean_create example_ocean_constants ())) = 9"
proof -
  let ?K = "example_ocean_constants"
  let ?sf = "ocean_create ?K ()"
  have h4: "os_cur_h ?sf ! 4 = 100"
    by (simp add: ocean_create_def swe_height_field_offset_def nth_replicate del: replicate_Suc)
  have len: "length (os_cur_h ?sf) = 9"
    by (simp add: ocean_create_def del: replicate_Suc)
  show ?thesis
    using h4 len
    by (simp add: ocean_adjust_to_def example_wave_index swe_outer_layer_samples_def
        swe_boundary_conditions_samples_def swe_height_field_amplification_def
        swe_height_field_offset_def ocean_create_def)
qed

theorem ocean_adjust_to_wave_cell_witness:
  "\<exists>sf1 sf2 w. ocean_adjust_to example_ocean_constants (Some (0, 50)) 0
                  (ocean_create example_ocean_constants ()) = Some sf1
     \<and> apply_external_wave example_ocean_constants 5 sf1 = Some sf2
     \<and> os_wave sf2 = Some w
     \<and> os_cur_h sf2 ! 2 = 101 \<and> os_cur_h sf2 ! 4 = 100"
proof -
  let ?K = "example_ocean_constants"
  let ?sf = "ocean_create ?K ()"
  let ?w0 = "swe_wave_create ?K 2 100 101 OnCue 0"
  have adj: "ocean_adjust_to ?K (Some (0, 50)) 0 ?sf = Some (?sf\<lparr>os_wave := Some ?w0\<rparr>)"
    and h4: "os_cur_h ?sf ! 4 = 100" and len: "length (os_cur_h ?sf) = 9"
    using example_adjust_to by simp_all
  have d: "0.02 \<le> ws_smoothing_delay ?w0 \<and> ws_smoothing_delay ?w0 \<le> 221 * 0.02"
    using calculate_smoothing_delay_bounds [of ?K] by (simp add: swe_wave_create_def Let_def)
  then have p: "1 \<le> 5 / ws_smoothing_delay ?w0" by (simp add: le_divide_eq)
  have d0: "ws_start_time ?w0 = 0" "ws_current_progress ?w0 = 0" "ws_phase ?w0 = Rise"
    "ws_release_mode ?w0 = OnCue" "ws_phase_start_height ?w0 = 100"
    "ws_phase_target_height ?w0 = 101" "ws_sample_index ?w0 = 2"
    by (simp_all add: swe_wave_create_def Let_def)
  obtain w' where u: "swe_wave_update ?K 5 ?w0 = (w', Some 101)" and i2: "ws_sample_index w' = 2"
    using p d0 by (simp add: swe_wave_update_def Let_def min_absorb2)
  let ?sf2 = "(?sf\<lparr>os_wave := Some ?w0\<rparr>)\<lparr>os_wave := Some w',
                os_cur_h := (os_cur_h ?sf)[2 := 101]\<rparr>"
  have app: "apply_external_wave ?K 5 (?sf\<lparr>os_wave := Some ?w0\<rparr>) = Some ?sf2"
    using u i2 len by (simp add: apply_external_wave_def)
  have cell: "os_cur_h ?sf2 ! nat (wave_sample_index ?K 0) = ws_current_height w'
    \<and> os_cur_h ?sf2 ! (swe_outer_layer_samples + nat (wave_sample_index ?K 0))
        = os_cur_h ?sf ! (swe_outer_layer_samples + nat (wave_sample_index ?K 0))"
    using ocean_adjust_to_wave_cell [of ?sf ?K 0 50 0 "?sf\<lparr>os_wave := Some ?w0\<rparr>" 5 ?sf2 w']
      adj app by (simp add: ocean_create_def)
  have "ws_current_height w' = 101"
    using swe_wave_update_returns_current [of ?K 5 ?w0 101] u by simp
  then show ?thesis
    using adj app cell h4
    by (intro exI [of _ "?sf\<lparr>os_wave := Some ?w0\<rparr>"] exI [of _ ?sf2] exI [of _ w'])
       (simp add: example_wave_index swe_outer_layer_samples_def swe_boundary_conditions_samples_def)
qed

section \<open>Witnesses\<close>

lemma example_ocean_wf: "ocean_wf example_ocean_constants (ocean_create example_ocean_constants ())"
  by (rule ocean_create_wf)

theorem ocean_update_wf_witness:
  "\<exists>sf'. ocean_update example_ocean_constants (\<lambda>a r. (a, r)) 0 0 0 0 0
           (ocean_create example_ocean_constants ()) = Some sf'
     \<and> ocean_wf example_ocean_constants sf' \<and> os_cur_h sf' ! 0 = os_cur_h sf' ! 1
     \<and> os_cur_h sf' ! 7 = os_cur_h sf' ! 6"
  using ocean_update_wf [OF example_ocean_wf, of "\<lambda>a r. (a, r)" 0 0 0 0 0]
  by (simp add: numeral_eq_Suc)

theorem ocean_adjust_to_wf_witness:
  "ocean_wf example_ocean_constants
     (the (ocean_adjust_to example_ocean_constants (Some (0, 50)) 0
             (ocean_create example_ocean_constants ())))"
proof -
  have a: "ocean_adjust_to example_ocean_constants (Some (0, 50)) 0
             (ocean_create example_ocean_constants ())
           = Some ((ocean_create example_ocean_constants ())\<lparr>os_wave :=
               Some (swe_wave_create example_ocean_constants 2 100 101 OnCue 0)\<rparr>)"
    using example_adjust_to by simp
  show ?thesis using ocean_adjust_to_wf [OF example_ocean_wf a] a by simp
qed

theorem swe_wave_update_height_bounds_witness:
  "100 \<le> the (snd (swe_wave_update example_ocean_constants 1 example_wave))
   \<and> the (snd (swe_wave_update example_ocean_constants 1 example_wave)) \<le> 101"
proof -
  have "snd (swe_wave_update example_ocean_constants 1 example_wave)
        = Some (100 + sin (pi / 2 * (1 / 2)))"
    by (simp add: swe_wave_update_def example_wave_def Let_def)
  then show ?thesis
    using swe_wave_update_height_bounds [of example_wave 1 example_ocean_constants
        "100 + sin (pi / 2 * (1 / 2))"]
    by (simp add: example_wave_def)
qed

theorem swe_wave_release_finishes_witness:
  "snd (swe_wave_update example_ocean_constants 5 (swe_wave_release example_ocean_constants 0 example_wave))
     = None"
  using swe_wave_release_finishes [of example_ocean_constants 0 5 example_wave] by simp

theorem swe_step_rest_witness:
  "swe_step example_ocean_constants (ocean_create example_ocean_constants ())
     = ocean_create example_ocean_constants ()"
  using swe_step_rest [of example_ocean_constants "ocean_create example_ocean_constants ()"]
  by (simp add: rest_ocean_def ocean_create_def)

theorem generate_samples_shape_witness:
  "length (generate_samples example_ocean_constants 0 128 0 (replicate 9 100)) = 5
   \<and> snd (generate_samples example_ocean_constants 0 128 0 (replicate 9 100) ! 3) = 0"
  using generate_samples_shape [of example_ocean_constants 0 128 0 "replicate 9 100"]
  by simp

theorem ocean_upload_bounds_witness:
  "\<exists>vs. ocean_upload example_ocean_constants (\<lambda>_. 0) (-2) 600 10
          (ocean_create example_ocean_constants ()) = Some (500, vs) \<and> length vs = 501"
proof -
  have "ocean_upload example_ocean_constants (\<lambda>_. 0) (-2) 600 10 (ocean_create example_ocean_constants ())
        = Some (500, map (\<lambda>s. let x = -2 + 602 / 500 * real s in (x, 0, 10)) [0..<501])"
    by (simp add: ocean_upload_def truncate_int_def render_slices_def Let_def)
  then show ?thesis
    using ocean_upload_bounds [of example_ocean_constants "\<lambda>_. 0" "-2" 600 10
        "ocean_create example_ocean_constants ()" 500] by auto
qed

end
