(* ===== verification/GameController.thy ===== *)
theory GameController
  imports Prelude
begin

text \<open>
  The game controller of \<^verbatim>\<open>src/Game/GameController.cpp\<close>: the fa\<ccedilla>ade between the
  user interface and the simulation.  It owns the world, the render context, the
  parameter smoothers, the camera and zoom smoothing and the frame statistics.  It runs
  one game iteration per frame, and it translates every tool operation from screen to
  world coordinates.

  The world (\<^verbatim>\<open>Physics::World\<close>), the view model inside the render context, the
  parameter smoothers, the controller's own state machines and the event dispatcher are
  declared outside \<^verbatim>\<open>src/\<close>.  They appear as the interface \<open>gc_env\<close>: a record of
  the operations the controller calls, over the types \<open>'w\<close> (world), \<open>'r\<close> (render
  context) and \<open>'m\<close> (state machines).  Clock readings (\<^verbatim>\<open>steady_clock::now()\<close>,
  in milliseconds) are arguments.  The ship-loading calls that may throw return
  \<open>string + _\<close>, where \<open>Inl\<close> is the exception's message.
\<close>

section \<open>Parameters, actions and the interface\<close>

text \<open>The game parameters the controller reads or smooths.\<close>

record controller_parameters =
  cp_spring_stiffness_adjustment :: real
  cp_spring_strength_adjustment :: real
  cp_sea_depth :: real
  cp_ocean_floor_bumpiness :: real
  cp_ocean_floor_detail_amplification :: real
  cp_heat_blaster_radius :: real
  cp_fire_extinguisher_radius :: real
  cp_is_ultra_violent_mode :: bool

datatype heat_blaster_action = Heat | Cool

text \<open>An element of the world: the ship id and the point's index in it
  (\<^verbatim>\<open>ElementId\<close>).\<close>

type_synonym element_id = "nat \<times> nat"

text \<open>The world calls a tool operation makes, in world coordinates.\<close>

datatype world_action =
    PickPointToMove vec2
  | GetNearestPointAt vec2 real
  | MoveElementBy element_id vec2 vec2
  | MoveShipBy nat vec2 vec2
  | RotateElementBy element_id real vec2 real
  | RotateShipBy nat real vec2 real
  | DestroyAt vec2 real
  | RepairAt vec2 real nat nat
  | SawThrough vec2 vec2
  | ApplyHeatBlasterAt vec2 heat_blaster_action real
  | ExtinguishFireAt vec2 real
  | DrawTo vec2 real
  | SwirlAt vec2 real
  | TogglePinAt vec2
  | InjectBubblesAt vec2
  | FloodAt vec2 real
  | ToggleAntiMatterBombAt vec2
  | ToggleImpactBombAt vec2
  | ToggleRCBombAt vec2
  | ToggleTimerBombAt vec2
  | DetonateRCBombs
  | DetonateAntiMatterBombs
  | AdjustOceanSurfaceTo "vec2 option"
  | AdjustOceanFloorTo real real real real
  | ScrubThrough vec2 vec2
  | QueryNearestPointAt vec2 real
  | TriggerTsunami
  | TriggerRogueWave

text \<open>What a world call returns: nothing, a flag, or an element.\<close>

datatype world_result = NoResult | Flag bool | Element "element_id option"

datatype smoothed_parameter =
    SpringStiffnessAdjustment | SpringStrengthAdjustment | SeaDepth
  | OceanFloorBumpiness | OceanFloorDetailAmplification | FlameSizeAdjustment

text \<open>A parameter smoother (\<^verbatim>\<open>ParameterSmoother\<close>, outside \<^verbatim>\<open>src/\<close>): the
  parameter it drives and its trajectory time in milliseconds.  Its own smoothing state
  is kept by the interface.\<close>

record parameter_smoother =
  ps_parameter :: smoothed_parameter
  ps_trajectory_time :: real

text \<open>The parts of a ship definition (\<^verbatim>\<open>ShipDefinition\<close>) the controller reads.\<close>

record ship_metadata =
  sm_ship_name :: string
  sm_author :: string

record ship_definition =
  sd_metadata :: ship_metadata
  sd_texture_origin :: vec2

text \<open>What the controller sends to the render context, the event dispatcher and the
  status text, in order.\<close>

datatype controller_output =
    SwapRenderBuffers
  | RenderStart
  | RenderEnd
  | UploadHeatBlasterFlame vec2 real heat_blaster_action
  | UploadFireExtinguisherSpray vec2 real
  | RenderStatusText
  | FlushEvents
  | FrameRateUpdated real real
  | UpdateToRenderRatioUpdated real
  | StatusTextSet real real real bool real vec2 real real
  | GameReset
  | ShipLoaded nat string string

text \<open>The interface: the operations of the world, the render context, the parameter
  smoothers, the state machines and the ship loader that the controller calls.  A world
  call takes the game parameters; a render call takes and returns the render context.
  \<open>env_smooth_millis\<close> is \<^verbatim>\<open>SmoothMillis\<close> of \<^verbatim>\<open>GameController.h\<close>.\<close>

record ('w, 'r, 'm) gc_env =
  env_world_create :: "controller_parameters \<Rightarrow> 'w"
  env_load_ship :: "string \<Rightarrow> string + ship_definition"
  env_validate_ship :: "ship_definition \<Rightarrow> 'r \<Rightarrow> string + unit"
  env_world_add_ship :: "ship_definition \<Rightarrow> controller_parameters \<Rightarrow> 'w \<Rightarrow> string + ('w \<times> nat)"
  env_world_ship_point_count :: "'w \<Rightarrow> nat \<Rightarrow> nat"
  env_world_ship_point_buffer_element_count :: "'w \<Rightarrow> nat \<Rightarrow> nat"
  env_render_add_ship :: "nat \<Rightarrow> nat \<Rightarrow> nat \<Rightarrow> vec2 \<Rightarrow> 'r \<Rightarrow> 'r"
  env_world_update :: "controller_parameters \<Rightarrow> 'r \<Rightarrow> 'w \<Rightarrow> 'w \<times> 'r"
  env_world_render :: "controller_parameters \<Rightarrow> 'w \<Rightarrow> 'r \<Rightarrow> 'r"
  env_world_time :: "'w \<Rightarrow> real"
  env_world_is_underwater :: "vec2 \<Rightarrow> 'w \<Rightarrow> bool"
  env_world_act :: "world_action \<Rightarrow> controller_parameters \<Rightarrow> 'w \<Rightarrow> 'w \<times> world_result"
  env_screen_to_world :: "'r \<Rightarrow> vec2 \<Rightarrow> vec2"
  env_screen_offset_to_world_offset :: "'r \<Rightarrow> vec2 \<Rightarrow> vec2"
  env_canvas_height :: "'r \<Rightarrow> nat"
  env_get_zoom :: "'r \<Rightarrow> real"
  env_clamp_zoom :: "'r \<Rightarrow> real \<Rightarrow> real"
  env_set_zoom :: "'r \<Rightarrow> real \<Rightarrow> 'r \<times> real"
  env_get_camera :: "'r \<Rightarrow> vec2"
  env_clamp_camera :: "'r \<Rightarrow> vec2 \<Rightarrow> vec2"
  env_set_camera :: "'r \<Rightarrow> vec2 \<Rightarrow> 'r \<times> vec2"
  env_set_canvas_size :: "int \<Rightarrow> int \<Rightarrow> 'r \<Rightarrow> 'r"
  env_render_reset :: "'r \<Rightarrow> 'r"
  env_smoother_update :: "real \<Rightarrow> parameter_smoother \<Rightarrow> controller_parameters \<times> 'r
                            \<Rightarrow> controller_parameters \<times> 'r"
  env_update_state_machines :: "real \<Rightarrow> 'm \<Rightarrow> 'm"
  env_start_thanos_snap :: "real \<Rightarrow> real \<Rightarrow> 'm \<Rightarrow> 'm"
  env_start_tsunami_notification :: "real \<Rightarrow> 'm \<Rightarrow> 'm"
  env_reset_state_machines :: "'m \<Rightarrow> 'm"
  env_smooth_millis :: real

section \<open>The controller's state\<close>

text \<open>\<^verbatim>\<open>steady_clock::time_point::min()\<close> in milliseconds: the value of a
  timestamp that has not been taken yet.\<close>

definition steady_time_min :: real where
  "steady_time_min = - (2 ^ 63) / 1000000"

text \<open>The controller's fields.  The two clocks are sequences of readings: the
  \<open>n\<close>-th call of \<^verbatim>\<open>steady_clock::now()\<close> (milliseconds) returns
  \<open>gc_steady_clock n\<close>, and likewise for \<^verbatim>\<open>GameWallClock::Now()\<close>.
  \<open>gc_wall_clock_paused\<close> is the pause flag of the wall clock, and the status
  text's two switches are kept as the controller's fields.\<close>

record ('w, 'r, 'm) game_controller =
  gc_game_parameters :: controller_parameters
  gc_last_ship_loaded_filepath :: string
  gc_is_paused :: bool
  gc_wall_clock_paused :: bool
  gc_is_move_tool_engaged :: bool
  gc_heat_blaster_flame_to_render :: "(vec2 \<times> real \<times> heat_blaster_action) option"
  gc_fire_extinguisher_spray_to_render :: "(vec2 \<times> real) option"
  gc_state_machines :: 'm
  gc_show_tsunami_notifications :: bool
  gc_draw_heat_blaster_flame :: bool
  gc_render :: 'r
  gc_world :: 'w
  gc_current_zoom :: real
  gc_target_zoom :: real
  gc_starting_zoom :: real
  gc_start_zoom_timestamp :: real
  gc_current_camera :: vec2
  gc_target_camera :: vec2
  gc_starting_camera :: vec2
  gc_start_camera_timestamp :: real
  gc_parameter_smoothers :: "parameter_smoother list"
  gc_total_frame_count :: nat
  gc_last_frame_count :: nat
  gc_render_stats_origin :: real
  gc_render_stats_last :: real
  gc_total_update_duration :: real
  gc_last_total_update_duration :: real
  gc_total_render_duration :: real
  gc_last_total_render_duration :: real
  gc_origin_timestamp_game :: real
  gc_skipped_first_stat_publishes :: nat
  gc_status_text_enabled :: bool
  gc_extended_status_text_enabled :: bool
  gc_steady_clock :: "nat \<Rightarrow> real"
  gc_steady_reads :: nat
  gc_wall_clock :: "nat \<Rightarrow> real"
  gc_wall_reads :: nat
  gc_output :: "controller_output list"

definition steady_now :: "('w, 'r, 'm) game_controller \<Rightarrow> real \<times> ('w, 'r, 'm) game_controller" where
  "steady_now gc = (gc_steady_clock gc (gc_steady_reads gc),
                    gc\<lparr>gc_steady_reads := Suc (gc_steady_reads gc)\<rparr>)"

definition wall_now :: "('w, 'r, 'm) game_controller \<Rightarrow> real \<times> ('w, 'r, 'm) game_controller" where
  "wall_now gc = (gc_wall_clock gc (gc_wall_reads gc),
                  gc\<lparr>gc_wall_reads := Suc (gc_wall_reads gc)\<rparr>)"

definition emit :: "controller_output \<Rightarrow> ('w, 'r, 'm) game_controller \<Rightarrow> ('w, 'r, 'm) game_controller" where
  "emit e gc = gc\<lparr>gc_output := gc_output gc @ [e]\<rparr>"

text \<open>The constructor (\<^verbatim>\<open>GameController::GameController\<close>): the current, target
  and starting zoom and camera read from the render context, and the six smoothers with
  a trajectory time of 1000 ms, in the order of their indices.  The status text's
  switches are the arguments of \<^verbatim>\<open>GameController::Create\<close>.\<close>

definition game_controller_create ::
  "('w, 'r, 'm) gc_env \<Rightarrow> controller_parameters \<Rightarrow> 'r \<Rightarrow> 'm \<Rightarrow> bool \<Rightarrow> bool
   \<Rightarrow> (nat \<Rightarrow> real) \<Rightarrow> (nat \<Rightarrow> real) \<Rightarrow> ('w, 'r, 'm) game_controller" where
  "game_controller_create env gp r m status extended steady wall =
     (let zoom = env_get_zoom env r; camera = env_get_camera env r;
          smoother = (\<lambda>prm. \<lparr>ps_parameter = prm, ps_trajectory_time = 1000\<rparr>)
      in \<lparr>gc_game_parameters = gp, gc_last_ship_loaded_filepath = [], gc_is_paused = False,
          gc_wall_clock_paused = False, gc_is_move_tool_engaged = False,
          gc_heat_blaster_flame_to_render = None, gc_fire_extinguisher_spray_to_render = None,
          gc_state_machines = m, gc_show_tsunami_notifications = True,
          gc_draw_heat_blaster_flame = True, gc_render = r, gc_world = env_world_create env gp,
          gc_current_zoom = zoom, gc_target_zoom = zoom, gc_starting_zoom = zoom,
          gc_start_zoom_timestamp = 0,
          gc_current_camera = camera, gc_target_camera = camera, gc_starting_camera = camera,
          gc_start_camera_timestamp = 0,
          gc_parameter_smoothers = map smoother
            [SpringStiffnessAdjustment, SpringStrengthAdjustment, SeaDepth, OceanFloorBumpiness,
             OceanFloorDetailAmplification, FlameSizeAdjustment],
          gc_total_frame_count = 0, gc_last_frame_count = 0,
          gc_render_stats_origin = steady_time_min, gc_render_stats_last = steady_time_min,
          gc_total_update_duration = 0, gc_last_total_update_duration = 0,
          gc_total_render_duration = 0, gc_last_total_render_duration = 0,
          gc_origin_timestamp_game = steady_time_min, gc_skipped_first_stat_publishes = 0,
          gc_status_text_enabled = status, gc_extended_status_text_enabled = extended,
          gc_steady_clock = steady, gc_steady_reads = 0, gc_wall_clock = wall, gc_wall_reads = 0,
          gc_output = []\<rparr>)"

section \<open>Ship loading\<close>


text \<open>\<^verbatim>\<open>OnShipAdded\<close>: the ship goes to the render context with its point counts,
  the dispatcher is told, and its file path is remembered.\<close>

definition on_ship_added :: "('w, 'r, 'm) gc_env \<Rightarrow> ship_definition \<Rightarrow> string \<Rightarrow> nat
                             \<Rightarrow> ('w, 'r, 'm) game_controller \<Rightarrow> ('w, 'r, 'm) game_controller" where
  "on_ship_added env sd path sid gc =
     (let w = gc_world gc;
          r = env_render_add_ship env sid (env_world_ship_point_count env w sid)
                (env_world_ship_point_buffer_element_count env w sid) (sd_texture_origin sd) (gc_render gc);
          gc1 = emit (ShipLoaded sid (sm_ship_name (sd_metadata sd)) (sm_author (sd_metadata sd)))
                  (gc\<lparr>gc_render := r\<rparr>)
      in gc1\<lparr>gc_last_ship_loaded_filepath := path\<rparr>)"


text \<open>\<^verbatim>\<open>AddShip\<close>: the same into the current world, without a reset.\<close>

definition add_ship :: "('w, 'r, 'm) gc_env \<Rightarrow> string \<Rightarrow> ('w, 'r, 'm) game_controller
                        \<Rightarrow> string + ship_metadata \<times> ('w, 'r, 'm) game_controller" where
  "add_ship env path gc =
     (case env_load_ship env path of
        Inl e \<Rightarrow> Inl e
      | Inr sd \<Rightarrow>
         (case env_validate_ship env sd (gc_render gc) of
            Inl e \<Rightarrow> Inl e
          | Inr _ \<Rightarrow>
             (case env_world_add_ship env sd (gc_game_parameters gc) (gc_world gc) of
                Inl e \<Rightarrow> Inl e
              | Inr (w, sid) \<Rightarrow> Inr (sd_metadata sd, on_ship_added env sd path sid (gc\<lparr>gc_world := w\<rparr>)))))"


section \<open>Statistics\<close>

text \<open>\<^verbatim>\<open>PublishStats\<close>: frame rates over the whole run and since the last
  publish, and the update-to-render ratios, each 0 when its divisor is 0.  Durations are
  in milliseconds; the frame rates divide by seconds.\<close>

definition publish_stats :: "('w, 'r, 'm) gc_env \<Rightarrow> real \<Rightarrow> ('w, 'r, 'm) game_controller
                             \<Rightarrow> ('w, 'r, 'm) game_controller" where
  "publish_stats env now_real gc =
     (let total_elapsed = (now_real - gc_render_stats_origin gc) / 1000;
          last_elapsed = (now_real - gc_render_stats_last gc) / 1000;
          total_fps = (if total_elapsed \<noteq> 0 then real (gc_total_frame_count gc) / total_elapsed else 0);
          last_fps = (if last_elapsed \<noteq> 0 then real (gc_last_frame_count gc) / last_elapsed else 0);
          total_update = gc_total_update_duration gc;
          total_render = gc_total_render_duration gc;
          last_update = gc_total_update_duration gc - gc_last_total_update_duration gc;
          last_render = gc_total_render_duration gc - gc_last_total_render_duration gc;
          total_ur = (if total_render \<noteq> 0 then total_update / total_render else 0);
          last_ur = (if last_render \<noteq> 0 then last_update / last_render else 0);
          gc1 = emit (UpdateToRenderRatioUpdated last_ur) (emit (FrameRateUpdated last_fps total_fps) gc);
          (wall, gc2) = wall_now gc1
      in emit (StatusTextSet last_fps total_fps ((wall - gc_origin_timestamp_game gc) / 1000)
                 (gc_is_paused gc) (env_get_zoom env (gc_render gc)) (env_get_camera env (gc_render gc))
                 total_ur last_ur) gc2)"

text \<open>\<^verbatim>\<open>LowFrequencyUpdate\<close>: the first call only restarts the statistics; every
  later one publishes them and starts a new "last" window.\<close>

definition low_frequency_update :: "('w, 'r, 'm) gc_env \<Rightarrow> ('w, 'r, 'm) game_controller
                                    \<Rightarrow> ('w, 'r, 'm) game_controller" where
  "low_frequency_update env gc =
     (let (now_real, gc1) = steady_now gc;
          gc2 = (if 1 \<le> gc_skipped_first_stat_publishes gc1
                 then (publish_stats env now_real gc1)
                        \<lparr>gc_last_frame_count := 0,
                         gc_last_total_update_duration := gc_total_update_duration gc1,
                         gc_last_total_render_duration := gc_total_render_duration gc1\<rparr>
                 else gc1\<lparr>gc_total_frame_count := 0, gc_last_frame_count := 0,
                          gc_render_stats_origin := now_real,
                          gc_skipped_first_stat_publishes := Suc (gc_skipped_first_stat_publishes gc1)\<rparr>)
      in gc2\<lparr>gc_render_stats_last := now_real\<rparr>)"

section \<open>The game iteration\<close>

text \<open>\<^verbatim>\<open>duration_cast<milliseconds>\<close>: the count truncated toward zero.\<close>

definition duration_millis :: "real \<Rightarrow> real" where
  "duration_millis d = (if 0 \<le> d then of_int \<lfloor>d\<rfloor> else - of_int \<lfloor>- d\<rfloor>)"

text \<open>\<^verbatim>\<open>SmoothToTarget\<close>: one frame's step of the camera and zoom smoothing.  The
  step is \<open>amp \<cdot> sin\<^sup>2 x\<close>, where \<open>x\<close> runs from 0 to \<open>\<pi>\<close> in
  \<^verbatim>\<open>SmoothMillis\<close>; a step that crosses the target snaps to it.\<close>

definition smooth_to_target :: "real \<Rightarrow> real \<Rightarrow> real \<Rightarrow> real \<Rightarrow> real \<Rightarrow> real \<Rightarrow> real" where
  "smooth_to_target smooth_millis now current starting target starting_time =
     (let amp = (target - starting) / (pi / 2);
          x = duration_millis (now - starting_time) * pi / smooth_millis;
          dv = amp * sin x * sin x;
          current' = current + dv
      in if (target - current) * (target - current') < 0 then target else current')"

text \<open>\<^verbatim>\<open>InternalUpdate\<close>: the smoothers in order at the wall clock's time, the
  world's update, the flush of the events and the state machines at the new simulation
  time.\<close>

definition internal_update :: "('w, 'r, 'm) gc_env \<Rightarrow> ('w, 'r, 'm) game_controller
                               \<Rightarrow> ('w, 'r, 'm) game_controller" where
  "internal_update env gc =
     (let (now, gc1) = wall_now gc;
          (gp, r) = fold (env_smoother_update env now) (gc_parameter_smoothers gc1)
                      (gc_game_parameters gc1, gc_render gc1);
          (w, r') = env_world_update env gp r (gc_world gc1);
          gc2 = emit FlushEvents (gc1\<lparr>gc_game_parameters := gp, gc_render := r', gc_world := w\<rparr>)
      in gc2\<lparr>gc_state_machines := env_update_state_machines env (env_world_time env w)
                                    (gc_state_machines gc2)\<rparr>)"

text \<open>The zoom smoothing of \<^verbatim>\<open>InternalRender\<close>.\<close>

definition render_zoom_smoothing :: "('w, 'r, 'm) gc_env \<Rightarrow> ('w, 'r, 'm) game_controller
                                     \<Rightarrow> ('w, 'r, 'm) game_controller" where
  "render_zoom_smoothing env gc =
     (if gc_current_zoom gc \<noteq> gc_target_zoom gc then
        (let (now, gc1) = steady_now gc;
             z = smooth_to_target (env_smooth_millis env) now (gc_current_zoom gc1)
                   (gc_starting_zoom gc1) (gc_target_zoom gc1) (gc_start_zoom_timestamp gc1)
         in gc1\<lparr>gc_current_zoom := z, gc_render := fst (env_set_zoom env (gc_render gc1) z)\<rparr>)
      else gc)"

text \<open>The camera smoothing of \<^verbatim>\<open>InternalRender\<close>: each coordinate reads the clock
  on its own.\<close>

definition render_camera_smoothing :: "('w, 'r, 'm) gc_env \<Rightarrow> ('w, 'r, 'm) game_controller
                                       \<Rightarrow> ('w, 'r, 'm) game_controller" where
  "render_camera_smoothing env gc =
     (if gc_current_camera gc \<noteq> gc_target_camera gc then
        (let (now_x, gc1) = steady_now gc;
             x = smooth_to_target (env_smooth_millis env) now_x (fst (gc_current_camera gc1))
                   (fst (gc_starting_camera gc1)) (fst (gc_target_camera gc1))
                   (gc_start_camera_timestamp gc1);
             (now_y, gc2) = steady_now gc1;
             y = smooth_to_target (env_smooth_millis env) now_y (snd (gc_current_camera gc2))
                   (snd (gc_starting_camera gc2)) (snd (gc_target_camera gc2))
                   (gc_start_camera_timestamp gc2)
         in gc2\<lparr>gc_current_camera := (x, y),
                gc_render := fst (env_set_camera env (gc_render gc2) (x, y))\<rparr>)
      else gc)"

text \<open>The heat blaster flame and the fire extinguisher spray of \<^verbatim>\<open>InternalRender\<close>:
  each is drawn once and forgotten.\<close>

definition render_heat_blaster_flame :: "('w, 'r, 'm) game_controller \<Rightarrow> ('w, 'r, 'm) game_controller" where
  "render_heat_blaster_flame gc =
     (case gc_heat_blaster_flame_to_render gc of
        None \<Rightarrow> gc
      | Some (p, radius, a) \<Rightarrow>
          (emit (UploadHeatBlasterFlame p radius a) gc)\<lparr>gc_heat_blaster_flame_to_render := None\<rparr>)"

definition render_fire_extinguisher_spray :: "('w, 'r, 'm) game_controller \<Rightarrow> ('w, 'r, 'm) game_controller" where
  "render_fire_extinguisher_spray gc =
     (case gc_fire_extinguisher_spray_to_render gc of
        None \<Rightarrow> gc
      | Some (p, radius) \<Rightarrow>
          (emit (UploadFireExtinguisherSpray p radius) gc)\<lparr>gc_fire_extinguisher_spray_to_render := None\<rparr>)"

text \<open>\<^verbatim>\<open>InternalRender\<close>: the smoothing, then the world, the flame, the spray and
  the status text, between \<^verbatim>\<open>RenderStart\<close> and \<^verbatim>\<open>RenderEnd\<close>.\<close>

definition internal_render :: "('w, 'r, 'm) gc_env \<Rightarrow> ('w, 'r, 'm) game_controller
                               \<Rightarrow> ('w, 'r, 'm) game_controller" where
  "internal_render env gc =
     (let gc1 = emit RenderStart (render_camera_smoothing env (render_zoom_smoothing env gc));
          gc2 = gc1\<lparr>gc_render := env_world_render env (gc_game_parameters gc1) (gc_world gc1) (gc_render gc1)\<rparr>
      in emit RenderEnd (emit RenderStatusText (render_fire_extinguisher_spray (render_heat_blaster_flame gc2))))"

text \<open>\<^verbatim>\<open>RunGameIteration\<close>: the update, timed, unless the game is paused or the
  move tool is engaged; the first time, the statistics' origins and the initial status
  text; then the buffer swap and the render, timed, and the frame counts.\<close>

definition run_game_iteration :: "('w, 'r, 'm) gc_env \<Rightarrow> ('w, 'r, 'm) game_controller
                                  \<Rightarrow> ('w, 'r, 'm) game_controller" where
  "run_game_iteration env gc =
     (let gc1 = (if \<not> gc_is_paused gc \<and> \<not> gc_is_move_tool_engaged gc then
                   (let (t0, g) = steady_now gc; g' = internal_update env g; (t1, g'') = steady_now g'
                    in g''\<lparr>gc_total_update_duration := gc_total_update_duration g'' + (t1 - t0)\<rparr>)
                 else gc);
          gc2 = (if gc_render_stats_origin gc1 = steady_time_min then
                   (let (now_real, g) = steady_now gc1
                    in publish_stats env now_real
                         (g\<lparr>gc_render_stats_origin := now_real, gc_render_stats_last := now_real,
                             gc_total_frame_count := 0, gc_last_frame_count := 0,
                             gc_origin_timestamp_game := now_real\<rparr>))
                 else gc1);
          (t0, gc3) = steady_now gc2;
          gc4 = internal_render env (emit SwapRenderBuffers gc3);
          (t1, gc5) = steady_now gc4
      in gc5\<lparr>gc_total_render_duration := gc_total_render_duration gc5 + (t1 - t0),
             gc_total_frame_count := Suc (gc_total_frame_count gc5),
             gc_last_frame_count := Suc (gc_last_frame_count gc5)\<rparr>)"

text \<open>\<^verbatim>\<open>Update\<close> and \<^verbatim>\<open>Render\<close> are \<open>internal_update\<close> and
  \<open>internal_render\<close>.  \<^verbatim>\<open>SetPaused\<close> pauses the wall clock as well.\<close>

definition set_paused :: "bool \<Rightarrow> ('w, 'r, 'm) game_controller \<Rightarrow> ('w, 'r, 'm) game_controller" where
  "set_paused b gc = gc\<lparr>gc_wall_clock_paused := b, gc_is_paused := b\<rparr>"

definition set_move_tool_engaged :: "bool \<Rightarrow> ('w, 'r, 'm) game_controller \<Rightarrow> ('w, 'r, 'm) game_controller" where
  "set_move_tool_engaged b gc = gc\<lparr>gc_is_move_tool_engaged := b\<rparr>"

definition set_status_text_enabled :: "bool \<Rightarrow> ('w, 'r, 'm) game_controller \<Rightarrow> ('w, 'r, 'm) game_controller" where
  "set_status_text_enabled b gc = gc\<lparr>gc_status_text_enabled := b\<rparr>"

definition set_extended_status_text_enabled :: "bool \<Rightarrow> ('w, 'r, 'm) game_controller \<Rightarrow> ('w, 'r, 'm) game_controller" where
  "set_extended_status_text_enabled b gc = gc\<lparr>gc_extended_status_text_enabled := b\<rparr>"

section \<open>Interactions\<close>

text \<open>The coordinate conversions of the render context, and one call into the world
  with the controller's game parameters.\<close>

definition screen_to_world :: "('w, 'r, 'm) gc_env \<Rightarrow> ('w, 'r, 'm) game_controller \<Rightarrow> vec2 \<Rightarrow> vec2" where
  "screen_to_world env gc p = env_screen_to_world env (gc_render gc) p"

definition screen_offset_to_world_offset :: "('w, 'r, 'm) gc_env \<Rightarrow> ('w, 'r, 'm) game_controller \<Rightarrow> vec2 \<Rightarrow> vec2" where
  "screen_offset_to_world_offset env gc p = env_screen_offset_to_world_offset env (gc_render gc) p"

definition world_call :: "('w, 'r, 'm) gc_env \<Rightarrow> world_action \<Rightarrow> ('w, 'r, 'm) game_controller \<Rightarrow> ('w, 'r, 'm) game_controller \<times> world_result" where
  "world_call env a gc =
     (case env_world_act env a (gc_game_parameters gc) (gc_world gc) of
        (w, res) \<Rightarrow> (gc\<lparr>gc_world := w\<rparr>, res))"

text \<open>A screen distance along the canvas height as an angle: the full height is one
  turn.  A canvas of height 0 divides by 0 (in the model the angle is then 0).\<close>

definition screen_delta_to_angle :: "('w, 'r, 'm) gc_env \<Rightarrow> ('w, 'r, 'm) game_controller \<Rightarrow> real \<Rightarrow> real" where
  "screen_delta_to_angle env gc dy = 2 * pi / real (env_canvas_height env (gc_render gc)) * dy"

definition is_underwater :: "('w, 'r, 'm) gc_env \<Rightarrow> ('w, 'r, 'm) game_controller \<Rightarrow> vec2 \<Rightarrow> bool" where
  "is_underwater env gc p = env_world_is_underwater env (screen_to_world env gc p) (gc_world gc)"

definition get_current_simulation_time :: "('w, 'r, 'm) gc_env \<Rightarrow> ('w, 'r, 'm) game_controller \<Rightarrow> real" where
  "get_current_simulation_time env gc = env_world_time env (gc_world gc)"

definition pick_object_to_move_element :: "('w, 'r, 'm) gc_env \<Rightarrow> vec2 \<Rightarrow> ('w, 'r, 'm) game_controller \<Rightarrow> ('w, 'r, 'm) game_controller \<times> element_id option" where
  "pick_object_to_move_element env p gc =
     (case world_call env (PickPointToMove (screen_to_world env gc p)) gc of
        (gc', Element e) \<Rightarrow> (gc', e)
      | (gc', _) \<Rightarrow> (gc', None))"

definition pick_object_to_move_ship :: "('w, 'r, 'm) gc_env \<Rightarrow> vec2 \<Rightarrow> ('w, 'r, 'm) game_controller \<Rightarrow> ('w, 'r, 'm) game_controller \<times> nat option" where
  "pick_object_to_move_ship env p gc =
     (case world_call env (GetNearestPointAt (screen_to_world env gc p) 1) gc of
        (gc', Element (Some (sid, _))) \<Rightarrow> (gc', Some sid)
      | (gc', _) \<Rightarrow> (gc', None))"

definition move_element_by :: "('w, 'r, 'm) gc_env \<Rightarrow> element_id \<Rightarrow> vec2 \<Rightarrow> vec2 \<Rightarrow> ('w, 'r, 'm) game_controller \<Rightarrow> ('w, 'r, 'm) game_controller" where
  "move_element_by env e off inertial gc =
     fst (world_call env (MoveElementBy e (screen_offset_to_world_offset env gc off)
                                          (screen_offset_to_world_offset env gc inertial)) gc)"

definition move_ship_by :: "('w, 'r, 'm) gc_env \<Rightarrow> nat \<Rightarrow> vec2 \<Rightarrow> vec2 \<Rightarrow> ('w, 'r, 'm) game_controller \<Rightarrow> ('w, 'r, 'm) game_controller" where
  "move_ship_by env sid off inertial gc =
     fst (world_call env (MoveShipBy sid (screen_offset_to_world_offset env gc off)
                                         (screen_offset_to_world_offset env gc inertial)) gc)"

definition rotate_element_by :: "('w, 'r, 'm) gc_env \<Rightarrow> element_id \<Rightarrow> real \<Rightarrow> vec2 \<Rightarrow> real \<Rightarrow> ('w, 'r, 'm) game_controller \<Rightarrow> ('w, 'r, 'm) game_controller" where
  "rotate_element_by env e dy center inertial_dy gc =
     fst (world_call env (RotateElementBy e (screen_delta_to_angle env gc dy) (screen_to_world env gc center)
                                            (screen_delta_to_angle env gc inertial_dy)) gc)"

definition rotate_ship_by :: "('w, 'r, 'm) gc_env \<Rightarrow> nat \<Rightarrow> real \<Rightarrow> vec2 \<Rightarrow> real \<Rightarrow> ('w, 'r, 'm) game_controller \<Rightarrow> ('w, 'r, 'm) game_controller" where
  "rotate_ship_by env sid dy center inertial_dy gc =
     fst (world_call env (RotateShipBy sid (screen_delta_to_angle env gc dy) (screen_to_world env gc center)
                                           (screen_delta_to_angle env gc inertial_dy)) gc)"

definition destroy_at :: "('w, 'r, 'm) gc_env \<Rightarrow> vec2 \<Rightarrow> real \<Rightarrow> ('w, 'r, 'm) game_controller \<Rightarrow> ('w, 'r, 'm) game_controller" where
  "destroy_at env p radius_fraction gc =
     fst (world_call env (DestroyAt (screen_to_world env gc p) radius_fraction) gc)"

definition repair_at :: "('w, 'r, 'm) gc_env \<Rightarrow> vec2 \<Rightarrow> real \<Rightarrow> nat \<Rightarrow> nat \<Rightarrow> ('w, 'r, 'm) game_controller \<Rightarrow> ('w, 'r, 'm) game_controller" where
  "repair_at env p radius_multiplier session step gc =
     fst (world_call env (RepairAt (screen_to_world env gc p) radius_multiplier session step) gc)"

definition saw_through :: "('w, 'r, 'm) gc_env \<Rightarrow> vec2 \<Rightarrow> vec2 \<Rightarrow> ('w, 'r, 'm) game_controller \<Rightarrow> ('w, 'r, 'm) game_controller" where
  "saw_through env p q gc =
     fst (world_call env (SawThrough (screen_to_world env gc p) (screen_to_world env gc q)) gc)"

definition flag_result :: "world_result \<Rightarrow> bool" where
  "flag_result res = (case res of Flag b \<Rightarrow> b | _ \<Rightarrow> False)"

text \<open>The tool radius: ten times larger in ultra-violent mode.\<close>

definition tool_radius :: "controller_parameters \<Rightarrow> real \<Rightarrow> real" where
  "tool_radius gp radius = (if cp_is_ultra_violent_mode gp then radius * 10 else radius)"

definition apply_heat_blaster_at :: "('w, 'r, 'm) gc_env \<Rightarrow> vec2 \<Rightarrow> heat_blaster_action \<Rightarrow> ('w, 'r, 'm) game_controller \<Rightarrow> ('w, 'r, 'm) game_controller \<times> bool" where
  "apply_heat_blaster_at env p a gc =
     (let wp = screen_to_world env gc p;
          radius = tool_radius (gc_game_parameters gc) (cp_heat_blaster_radius (gc_game_parameters gc));
          (gc', res) = world_call env (ApplyHeatBlasterAt wp a radius) gc;
          applied = flag_result res
      in (if applied \<and> gc_draw_heat_blaster_flame gc'
          then gc'\<lparr>gc_heat_blaster_flame_to_render := Some (wp, radius, a)\<rparr> else gc', applied))"

definition extinguish_fire_at :: "('w, 'r, 'm) gc_env \<Rightarrow> vec2 \<Rightarrow> ('w, 'r, 'm) game_controller \<Rightarrow> ('w, 'r, 'm) game_controller \<times> bool" where
  "extinguish_fire_at env p gc =
     (let wp = screen_to_world env gc p;
          radius = tool_radius (gc_game_parameters gc) (cp_fire_extinguisher_radius (gc_game_parameters gc));
          (gc', res) = world_call env (ExtinguishFireAt wp radius) gc;
          applied = flag_result res
      in (if applied then gc'\<lparr>gc_fire_extinguisher_spray_to_render := Some (wp, radius)\<rparr> else gc', applied))"

definition draw_to :: "('w, 'r, 'm) gc_env \<Rightarrow> vec2 \<Rightarrow> real \<Rightarrow> ('w, 'r, 'm) game_controller \<Rightarrow> ('w, 'r, 'm) game_controller" where
  "draw_to env p strength gc = fst (world_call env (DrawTo (screen_to_world env gc p) strength) gc)"

definition swirl_at :: "('w, 'r, 'm) gc_env \<Rightarrow> vec2 \<Rightarrow> real \<Rightarrow> ('w, 'r, 'm) game_controller \<Rightarrow> ('w, 'r, 'm) game_controller" where
  "swirl_at env p strength gc = fst (world_call env (SwirlAt (screen_to_world env gc p) strength) gc)"

definition toggle_pin_at :: "('w, 'r, 'm) gc_env \<Rightarrow> vec2 \<Rightarrow> ('w, 'r, 'm) game_controller \<Rightarrow> ('w, 'r, 'm) game_controller" where
  "toggle_pin_at env p gc = fst (world_call env (TogglePinAt (screen_to_world env gc p)) gc)"

definition inject_bubbles_at :: "('w, 'r, 'm) gc_env \<Rightarrow> vec2 \<Rightarrow> ('w, 'r, 'm) game_controller \<Rightarrow> ('w, 'r, 'm) game_controller \<times> bool" where
  "inject_bubbles_at env p gc =
     map_prod id flag_result (world_call env (InjectBubblesAt (screen_to_world env gc p)) gc)"

definition flood_at :: "('w, 'r, 'm) gc_env \<Rightarrow> vec2 \<Rightarrow> real \<Rightarrow> ('w, 'r, 'm) game_controller \<Rightarrow> ('w, 'r, 'm) game_controller \<times> bool" where
  "flood_at env p q gc =
     map_prod id flag_result (world_call env (FloodAt (screen_to_world env gc p) q) gc)"

definition toggle_anti_matter_bomb_at :: "('w, 'r, 'm) gc_env \<Rightarrow> vec2 \<Rightarrow> ('w, 'r, 'm) game_controller \<Rightarrow> ('w, 'r, 'm) game_controller" where
  "toggle_anti_matter_bomb_at env p gc = fst (world_call env (ToggleAntiMatterBombAt (screen_to_world env gc p)) gc)"

definition toggle_impact_bomb_at :: "('w, 'r, 'm) gc_env \<Rightarrow> vec2 \<Rightarrow> ('w, 'r, 'm) game_controller \<Rightarrow> ('w, 'r, 'm) game_controller" where
  "toggle_impact_bomb_at env p gc = fst (world_call env (ToggleImpactBombAt (screen_to_world env gc p)) gc)"

definition toggle_rc_bomb_at :: "('w, 'r, 'm) gc_env \<Rightarrow> vec2 \<Rightarrow> ('w, 'r, 'm) game_controller \<Rightarrow> ('w, 'r, 'm) game_controller" where
  "toggle_rc_bomb_at env p gc = fst (world_call env (ToggleRCBombAt (screen_to_world env gc p)) gc)"

definition toggle_timer_bomb_at :: "('w, 'r, 'm) gc_env \<Rightarrow> vec2 \<Rightarrow> ('w, 'r, 'm) game_controller \<Rightarrow> ('w, 'r, 'm) game_controller" where
  "toggle_timer_bomb_at env p gc = fst (world_call env (ToggleTimerBombAt (screen_to_world env gc p)) gc)"

definition detonate_rc_bombs :: "('w, 'r, 'm) gc_env \<Rightarrow> ('w, 'r, 'm) game_controller \<Rightarrow> ('w, 'r, 'm) game_controller" where
  "detonate_rc_bombs env gc = fst (world_call env DetonateRCBombs gc)"

definition detonate_anti_matter_bombs :: "('w, 'r, 'm) gc_env \<Rightarrow> ('w, 'r, 'm) game_controller \<Rightarrow> ('w, 'r, 'm) game_controller" where
  "detonate_anti_matter_bombs env gc = fst (world_call env DetonateAntiMatterBombs gc)"

definition adjust_ocean_surface_to :: "('w, 'r, 'm) gc_env \<Rightarrow> vec2 option \<Rightarrow> ('w, 'r, 'm) game_controller \<Rightarrow> ('w, 'r, 'm) game_controller" where
  "adjust_ocean_surface_to env p gc =
     fst (world_call env (AdjustOceanSurfaceTo (map_option (screen_to_world env gc) p)) gc)"

definition adjust_ocean_floor_to :: "('w, 'r, 'm) gc_env \<Rightarrow> vec2 \<Rightarrow> vec2 \<Rightarrow> ('w, 'r, 'm) game_controller \<Rightarrow> ('w, 'r, 'm) game_controller \<times> bool" where
  "adjust_ocean_floor_to env p q gc =
     (let (x1, y1) = screen_to_world env gc p; (x2, y2) = screen_to_world env gc q
      in map_prod id flag_result (world_call env (AdjustOceanFloorTo x1 y1 x2 y2) gc))"

definition scrub_through :: "('w, 'r, 'm) gc_env \<Rightarrow> vec2 \<Rightarrow> vec2 \<Rightarrow> ('w, 'r, 'm) game_controller \<Rightarrow> ('w, 'r, 'm) game_controller \<times> bool" where
  "scrub_through env p q gc =
     map_prod id flag_result
       (world_call env (ScrubThrough (screen_to_world env gc p) (screen_to_world env gc q)) gc)"

text \<open>\<^verbatim>\<open>ApplyThanosSnapAt\<close> only starts a state machine at the point's x and the
  current simulation time.\<close>

definition apply_thanos_snap_at :: "('w, 'r, 'm) gc_env \<Rightarrow> vec2 \<Rightarrow> ('w, 'r, 'm) game_controller \<Rightarrow> ('w, 'r, 'm) game_controller" where
  "apply_thanos_snap_at env p gc =
     gc\<lparr>gc_state_machines := env_start_thanos_snap env (fst (screen_to_world env gc p))
                               (env_world_time env (gc_world gc)) (gc_state_machines gc)\<rparr>"

definition get_nearest_point_at :: "('w, 'r, 'm) gc_env \<Rightarrow> vec2 \<Rightarrow> ('w, 'r, 'm) game_controller \<Rightarrow> ('w, 'r, 'm) game_controller \<times> element_id option" where
  "get_nearest_point_at env p gc =
     (case world_call env (GetNearestPointAt (screen_to_world env gc p) 1) gc of
        (gc', Element e) \<Rightarrow> (gc', e)
      | (gc', _) \<Rightarrow> (gc', None))"

definition query_nearest_point_at :: "('w, 'r, 'm) gc_env \<Rightarrow> vec2 \<Rightarrow> ('w, 'r, 'm) game_controller \<Rightarrow> ('w, 'r, 'm) game_controller" where
  "query_nearest_point_at env p gc = fst (world_call env (QueryNearestPointAt (screen_to_world env gc p) 1) gc)"

definition trigger_tsunami :: "('w, 'r, 'm) gc_env \<Rightarrow> ('w, 'r, 'm) game_controller \<Rightarrow> ('w, 'r, 'm) game_controller" where
  "trigger_tsunami env gc = fst (world_call env TriggerTsunami gc)"

definition trigger_rogue_wave :: "('w, 'r, 'm) gc_env \<Rightarrow> ('w, 'r, 'm) game_controller \<Rightarrow> ('w, 'r, 'm) game_controller" where
  "trigger_rogue_wave env gc = fst (world_call env TriggerRogueWave gc)"

text \<open>\<^verbatim>\<open>OnTsunami\<close>, the handler of the dispatcher's tsunami event.\<close>

definition on_tsunami :: "('w, 'r, 'm) gc_env \<Rightarrow> real \<Rightarrow> ('w, 'r, 'm) game_controller \<Rightarrow> ('w, 'r, 'm) game_controller" where
  "on_tsunami env x gc =
     (if gc_show_tsunami_notifications gc
      then gc\<lparr>gc_state_machines := env_start_tsunami_notification env x (gc_state_machines gc)\<rparr>
      else gc)"

section \<open>Render controls\<close>

definition set_canvas_size :: "('w, 'r, 'm) gc_env \<Rightarrow> int \<Rightarrow> int \<Rightarrow> ('w, 'r, 'm) game_controller \<Rightarrow> ('w, 'r, 'm) game_controller" where
  "set_canvas_size env width height gc =
     (let r = env_set_canvas_size env width height (gc_render gc)
      in gc\<lparr>gc_render := r, gc_current_camera := env_get_camera env r, gc_target_camera := env_get_camera env r,
            gc_current_zoom := env_get_zoom env r, gc_target_zoom := env_get_zoom env r\<rparr>)"

text \<open>\<^verbatim>\<open>Pan\<close>: the camera jumps to the current target, which becomes the start of
  a new smoothing toward the clamped new target.\<close>

definition pan :: "('w, 'r, 'm) gc_env \<Rightarrow> vec2 \<Rightarrow> ('w, 'r, 'm) game_controller \<Rightarrow> ('w, 'r, 'm) game_controller" where
  "pan env off gc =
     (let wo = screen_offset_to_world_offset env gc off;
          new_target = env_clamp_camera env (gc_render gc) (vadd (gc_target_camera gc) wo);
          (r, cur) = env_set_camera env (gc_render gc) (gc_target_camera gc);
          gc1 = gc\<lparr>gc_render := r, gc_current_camera := cur, gc_starting_camera := cur,
                   gc_target_camera := new_target\<rparr>;
          (now, gc2) = steady_now gc1
      in gc2\<lparr>gc_start_camera_timestamp := now\<rparr>)"

definition pan_immediate :: "('w, 'r, 'm) gc_env \<Rightarrow> vec2 \<Rightarrow> ('w, 'r, 'm) game_controller \<Rightarrow> ('w, 'r, 'm) game_controller" where
  "pan_immediate env off gc =
     (let wo = screen_offset_to_world_offset env gc off;
          (r, cam) = env_set_camera env (gc_render gc) (vadd (env_get_camera env (gc_render gc)) wo)
      in gc\<lparr>gc_render := r, gc_current_camera := cam, gc_target_camera := cam\<rparr>)"

definition reset_pan :: "('w, 'r, 'm) gc_env \<Rightarrow> ('w, 'r, 'm) game_controller \<Rightarrow> ('w, 'r, 'm) game_controller" where
  "reset_pan env gc =
     (let (r, cam) = env_set_camera env (gc_render gc) (0, 0)
      in gc\<lparr>gc_render := r, gc_current_camera := cam, gc_target_camera := cam\<rparr>)"

text \<open>\<^verbatim>\<open>AdjustZoom\<close>: as \<^verbatim>\<open>Pan\<close>, with the new target the clamped product of
  the current target and the amount.\<close>

definition adjust_zoom :: "('w, 'r, 'm) gc_env \<Rightarrow> real \<Rightarrow> ('w, 'r, 'm) game_controller \<Rightarrow> ('w, 'r, 'm) game_controller" where
  "adjust_zoom env amount gc =
     (let new_target = env_clamp_zoom env (gc_render gc) (gc_target_zoom gc * amount);
          (r, cur) = env_set_zoom env (gc_render gc) (gc_target_zoom gc);
          gc1 = gc\<lparr>gc_render := r, gc_current_zoom := cur, gc_starting_zoom := cur,
                   gc_target_zoom := new_target\<rparr>;
          (now, gc2) = steady_now gc1
      in gc2\<lparr>gc_start_zoom_timestamp := now\<rparr>)"

definition reset_zoom :: "('w, 'r, 'm) gc_env \<Rightarrow> ('w, 'r, 'm) game_controller \<Rightarrow> ('w, 'r, 'm) game_controller" where
  "reset_zoom env gc =
     (let (r, z) = env_set_zoom env (gc_render gc) 1
      in gc\<lparr>gc_render := r, gc_current_zoom := z, gc_target_zoom := z\<rparr>)"

section \<open>Concrete controllers\<close>

text \<open>A concrete interface: the world is the number of ships, the render context the
  number of ships it draws, the state machines a counter of started machines.\<close>

definition example_ship :: ship_definition where
  "example_ship = \<lparr>sd_metadata = \<lparr>sm_ship_name = ''Titanic'', sm_author = ''Gabriele''\<rparr>,
                   sd_texture_origin = (0, 0)\<rparr>"

definition example_env :: "(nat, nat, nat) gc_env" where
  "example_env =
     \<lparr>env_world_create = (\<lambda>gp. 0),
      env_load_ship = (\<lambda>path. if path = ''titanic.png'' then Inr example_ship else Inl ''Cannot load ship''),
      env_validate_ship = (\<lambda>sd r. Inr ()),
      env_world_add_ship = (\<lambda>sd gp w. Inr (Suc w, w)),
      env_world_ship_point_count = (\<lambda>w sid. 10),
      env_world_ship_point_buffer_element_count = (\<lambda>w sid. 16),
      env_render_add_ship = (\<lambda>sid n m origin r. Suc r),
      env_world_update = (\<lambda>gp r w. (w, r)),
      env_world_render = (\<lambda>gp w r. r),
      env_world_time = (\<lambda>w. 0),
      env_world_is_underwater = (\<lambda>p w. snd p < 0),
      env_world_act = (\<lambda>a gp w. (w, NoResult)),
      env_screen_to_world = (\<lambda>r p. p),
      env_screen_offset_to_world_offset = (\<lambda>r p. p),
      env_canvas_height = (\<lambda>r. 768),
      env_get_zoom = (\<lambda>r. 1),
      env_clamp_zoom = (\<lambda>r z. z),
      env_set_zoom = (\<lambda>r z. (r, z)),
      env_get_camera = (\<lambda>r. (0, 0)),
      env_clamp_camera = (\<lambda>r c. c),
      env_set_camera = (\<lambda>r c. (r, c)),
      env_set_canvas_size = (\<lambda>w h r. r),
      env_render_reset = (\<lambda>r. 0),
      env_smoother_update = (\<lambda>now ps x. x),
      env_update_state_machines = (\<lambda>t m. m),
      env_start_thanos_snap = (\<lambda>x t m. Suc m),
      env_start_tsunami_notification = (\<lambda>x m. Suc m),
      env_reset_state_machines = (\<lambda>m. 0),
      env_smooth_millis = 1000\<rparr>"

definition example_controller_parameters :: controller_parameters where
  "example_controller_parameters =
     \<lparr>cp_spring_stiffness_adjustment = 1, cp_spring_strength_adjustment = 1, cp_sea_depth = 300,
      cp_ocean_floor_bumpiness = 1, cp_ocean_floor_detail_amplification = 10,
      cp_heat_blaster_radius = 8, cp_fire_extinguisher_radius = 5, cp_is_ultra_violent_mode = False\<rparr>"

definition example_controller :: "(nat, nat, nat) game_controller" where
  "example_controller =
     game_controller_create example_env example_controller_parameters 0 0 True False
       (\<lambda>n. 16 * real n) (\<lambda>n. 16 * real n)"


text \<open>A step that leaves the simulation alone: the world, the game parameters, the state
  machines, the update time and the pause flag are kept, and the outputs only grow, with
  no flush of the events.\<close>

definition keeps_simulation :: "('w, 'r, 'm) game_controller \<Rightarrow> ('w, 'r, 'm) game_controller \<Rightarrow> bool" where
  "keeps_simulation gc gc' \<longleftrightarrow>
     gc_world gc' = gc_world gc \<and> gc_game_parameters gc' = gc_game_parameters gc \<and>
     gc_state_machines gc' = gc_state_machines gc \<and>
     gc_total_update_duration gc' = gc_total_update_duration gc \<and>
     gc_is_paused gc' = gc_is_paused gc \<and>
     (\<exists>new. gc_output gc' = gc_output gc @ new \<and> FlushEvents \<notin> set new)"

section \<open>Smoothing\<close>

lemma smooth_step_sign:
  "0 \<le> ((t - s) / (pi / 2) * sin x * sin x) * (t - s)"
proof -
  have "((t - s) / (pi / 2) * sin x * sin x) * (t - s) = (t - s)^2 * (sin x)^2 / (pi / 2)"
    by (simp add: power2_eq_square field_simps)
  also have "0 \<le> \<dots>" by simp
  finally show ?thesis .
qed

text \<open>C16: A value between the start and the target of a smoothing, and not yet on the target, stays between its current value and the target after one SmoothToTarget step: the smoothing moves toward the target and never overshoots it.\<close>

lemma smooth_to_target_progress:
  assumes "current \<noteq> target"
    and "min starting target \<le> current" and "current \<le> max starting target"
  shows "min current target \<le> smooth_to_target ms now current starting target st
         \<and> smooth_to_target ms now current starting target st \<le> max current target"
proof -
  define dv where "dv = (target - starting) / (pi / 2) * sin (duration_millis (now - st) * pi / ms)
                         * sin (duration_millis (now - st) * pi / ms)"
  have sign: "0 \<le> dv * (target - starting)"
    unfolding dv_def by (rule smooth_step_sign)
  have eq: "smooth_to_target ms now current starting target st =
            (if (target - current) * (target - (current + dv)) < 0 then target else current + dv)"
    by (simp add: smooth_to_target_def dv_def Let_def)
  show ?thesis
  proof (cases "starting \<le> target")
    case True
    with assms have "current < target" and "starting < target" by auto
    moreover from sign \<open>starting < target\<close> have "0 \<le> dv"
      by (simp add: zero_le_mult_iff)
    ultimately show ?thesis
      unfolding eq by (auto simp: mult_less_0_iff)
  next
    case False
    with assms have "target < current" by auto
    moreover from sign False have "dv \<le> 0"
      by (auto simp: zero_le_mult_iff)
    ultimately show ?thesis
      unfolding eq by (auto simp: mult_less_0_iff)
  qed
qed


lemma duration_millis_of_nat [simp]: "duration_millis (of_nat n) = of_nat n"
  by (simp add: duration_millis_def)

lemma duration_millis_numeral [simp]: "duration_millis (numeral n) = numeral n"
  using duration_millis_of_nat [of "numeral n"] by simp






text \<open>Once a value lies on or beyond the target, in the direction of travel, the
  overshoot check never fires again and the value never comes back.\<close>

lemma smooth_to_target_beyond_stays:
  assumes "0 \<le> (current - target) * (target - starting)"
  shows "(current - target) * (target - starting)
           \<le> (smooth_to_target ms now current starting target st - target) * (target - starting)"
proof -
  define dv where "dv = (target - starting) / (pi / 2) * sin (duration_millis (now - st) * pi / ms)
                         * sin (duration_millis (now - st) * pi / ms)"
  have sign: "0 \<le> dv * (target - starting)"
    unfolding dv_def by (rule smooth_step_sign)
  have eq: "smooth_to_target ms now current starting target st =
            (if (target - current) * (target - (current + dv)) < 0 then target else current + dv)"
    by (simp add: smooth_to_target_def dv_def Let_def)
  have adv: "0 \<le> (current - target) * dv"
  proof (cases "0 < target - starting")
    case True
    with assms sign have "0 \<le> current - target" "0 \<le> dv" by (simp_all add: zero_le_mult_iff)
    then show ?thesis by simp
  next
    case False
    show ?thesis
    proof (cases "target = starting")
      case True
      then show ?thesis by (simp add: dv_def)
    next
      case False
      with \<open>\<not> 0 < target - starting\<close> have "target - starting < 0" by simp
      with assms sign have "current - target \<le> 0" "dv \<le> 0" by (simp_all add: zero_le_mult_iff)
      then show ?thesis by (simp add: mult_nonpos_nonpos)
    qed
  qed
  have "(target - current) * (target - (current + dv)) = (current - target) * (current - target) + (current - target) * dv"
    by (simp add: algebra_simps)
  moreover have "0 \<le> (current - target) * (current - target)" by simp
  ultimately have "\<not> (target - current) * (target - (current + dv)) < 0"
    using adv by linarith
  then show ?thesis
    using sign by (simp add: eq algebra_simps)
qed


section \<open>Pausing\<close>

lemma keeps_simulation_refl [intro]: "keeps_simulation gc gc"
  by (auto simp: keeps_simulation_def)

lemma keeps_simulation_trans [trans]:
  "keeps_simulation a b \<Longrightarrow> keeps_simulation b c \<Longrightarrow> keeps_simulation a c"
  unfolding keeps_simulation_def by (metis append.assoc Un_iff set_append)

lemma keeps_simulation_emit [intro]: "e \<noteq> FlushEvents \<Longrightarrow> keeps_simulation gc (emit e gc)"
  by (auto simp: keeps_simulation_def emit_def)

lemma keeps_simulation_steady_now: "keeps_simulation gc (snd (steady_now gc))"
  by (auto simp: keeps_simulation_def steady_now_def)

lemma keeps_simulation_publish_stats: "keeps_simulation gc (publish_stats env t gc)"
proof -
  have "\<exists>new. gc_output (publish_stats env t gc) = gc_output gc @ new \<and> FlushEvents \<notin> set new"
    by (simp add: publish_stats_def emit_def wall_now_def Let_def)
  then show ?thesis
    by (simp add: keeps_simulation_def publish_stats_def emit_def wall_now_def Let_def)
qed

lemma keeps_simulation_render_smoothing:
  "keeps_simulation gc (render_zoom_smoothing env gc)"
  "keeps_simulation gc (render_camera_smoothing env gc)"
  by (auto simp: keeps_simulation_def render_zoom_smoothing_def render_camera_smoothing_def
                 steady_now_def Let_def)

lemma keeps_simulation_render_flame_spray:
  "keeps_simulation gc (render_heat_blaster_flame gc)"
  "keeps_simulation gc (render_fire_extinguisher_spray gc)"
  by (auto simp: keeps_simulation_def emit_def render_heat_blaster_flame_def
                 render_fire_extinguisher_spray_def split: option.split)

lemma keeps_simulation_internal_render: "keeps_simulation gc (internal_render env gc)"
proof -
  define gc1 where "gc1 = emit RenderStart (render_camera_smoothing env (render_zoom_smoothing env gc))"
  define gc2 where "gc2 = gc1\<lparr>gc_render := env_world_render env (gc_game_parameters gc1) (gc_world gc1) (gc_render gc1)\<rparr>"
  have "keeps_simulation gc (render_zoom_smoothing env gc)"
    by (rule keeps_simulation_render_smoothing)
  also have "keeps_simulation \<dots> (render_camera_smoothing env (render_zoom_smoothing env gc))"
    by (rule keeps_simulation_render_smoothing)
  also have "keeps_simulation \<dots> gc1"
    unfolding gc1_def by (rule keeps_simulation_emit) simp
  also have "keeps_simulation \<dots> gc2"
    by (simp add: gc2_def keeps_simulation_def)
  also have "keeps_simulation \<dots> (render_heat_blaster_flame gc2)"
    by (rule keeps_simulation_render_flame_spray)
  also have "keeps_simulation \<dots> (render_fire_extinguisher_spray (render_heat_blaster_flame gc2))"
    by (rule keeps_simulation_render_flame_spray)
  also have "keeps_simulation \<dots> (emit RenderStatusText (render_fire_extinguisher_spray (render_heat_blaster_flame gc2)))"
    by (rule keeps_simulation_emit) simp
  also have "keeps_simulation \<dots> (emit RenderEnd (emit RenderStatusText (render_fire_extinguisher_spray (render_heat_blaster_flame gc2))))"
    by (rule keeps_simulation_emit) simp
  finally show ?thesis
    by (simp add: internal_render_def gc1_def gc2_def Let_def)
qed

text \<open>C14: While the game is paused, RunGameIteration leaves the world, the game parameters, the state machines and the update time unchanged and flushes no events: the parameter smoothers do not run, unlike what the spec says of a paused tick.\<close>

lemma run_game_iteration_paused:
  assumes "gc_is_paused gc"
  shows "gc_world (run_game_iteration env gc) = gc_world gc
       \<and> gc_game_parameters (run_game_iteration env gc) = gc_game_parameters gc
       \<and> gc_state_machines (run_game_iteration env gc) = gc_state_machines gc
       \<and> gc_total_update_duration (run_game_iteration env gc) = gc_total_update_duration gc
       \<and> (\<exists>new. gc_output (run_game_iteration env gc) = gc_output gc @ new \<and> FlushEvents \<notin> set new)"
proof -
  define gc2 where "gc2 = (if gc_render_stats_origin gc = steady_time_min then
                   (let (now_real, g) = steady_now gc
                    in publish_stats env now_real
                         (g\<lparr>gc_render_stats_origin := now_real, gc_render_stats_last := now_real,
                             gc_total_frame_count := 0, gc_last_frame_count := 0,
                             gc_origin_timestamp_game := now_real\<rparr>))
                 else gc)"
  have k2: "keeps_simulation gc gc2"
  proof (cases "gc_render_stats_origin gc = steady_time_min")
    case True
    let ?g = "snd (steady_now gc)"
    have "keeps_simulation gc (?g\<lparr>gc_render_stats_origin := t, gc_render_stats_last := t,
             gc_total_frame_count := 0, gc_last_frame_count := 0, gc_origin_timestamp_game := t\<rparr>)" for t
      using keeps_simulation_steady_now [of gc] by (auto simp: keeps_simulation_def)
    then show ?thesis
      using True keeps_simulation_publish_stats keeps_simulation_trans
      by (simp add: gc2_def case_prod_beta Let_def) blast
  qed (auto simp: gc2_def)
  let ?g3 = "snd (steady_now gc2)"
  let ?g5 = "snd (steady_now (internal_render env (emit SwapRenderBuffers ?g3)))"
  have "keeps_simulation gc ?g5"
    using k2 keeps_simulation_steady_now keeps_simulation_internal_render keeps_simulation_emit
          keeps_simulation_trans by (metis controller_output.distinct)
  moreover have "run_game_iteration env gc =
      ?g5\<lparr>gc_total_render_duration := gc_total_render_duration ?g5
              + (fst (steady_now (internal_render env (emit SwapRenderBuffers ?g3))) - fst (steady_now gc2)),
          gc_total_frame_count := Suc (gc_total_frame_count ?g5),
          gc_last_frame_count := Suc (gc_last_frame_count ?g5)\<rparr>"
    using assms by (simp add: run_game_iteration_def gc2_def Let_def case_prod_beta)
  ultimately show ?thesis
    by (simp add: keeps_simulation_def)
qed

lemma example_controller_fields:
  "gc_world example_controller = 0" "gc_is_paused example_controller = False"
  "gc_last_ship_loaded_filepath example_controller = []"
  "gc_game_parameters example_controller = example_controller_parameters"
  "gc_render example_controller = 0"
  by (simp_all add: example_controller_def game_controller_create_def Let_def example_env_def)

lemma run_game_iteration_paused_witness:
  "gc_is_paused (set_paused True example_controller)
   \<and> gc_world (run_game_iteration example_env (set_paused True example_controller)) = 0"
proof -
  have "gc_is_paused (set_paused True example_controller)"
       "gc_world (set_paused True example_controller) = 0"
    by (simp_all add: set_paused_def example_controller_fields)
  then show ?thesis
    using run_game_iteration_paused [of "set_paused True example_controller" example_env] by simp
qed

section \<open>Ship loading\<close>






lemma smooth_to_target_progress_witness:
  "(0::real) \<noteq> 1 \<and> min 0 1 \<le> (0::real) \<and> (0::real) \<le> max 0 1
   \<and> min 0 1 \<le> smooth_to_target 1000 500 0 0 1 0 \<and> smooth_to_target 1000 500 0 0 1 0 \<le> max 0 1"
  using smooth_to_target_progress [of 0 1 0 1000 500 0] by simp

end
