(* ===== verification/SceneRender.thy ===== *)
theory SceneRender
  imports Ocean GameController
begin

text \<open>
  The scene side of the render context, \<^verbatim>\<open>src/Game/RenderContext.h\<close> and
  \<^verbatim>\<open>src/Game/RenderContext.cpp\<close>: the vertex buffers of the stars, the clouds, the land,
  the ocean, the crosses of light, the heat blaster flame and the fire extinguisher spray,
  which the game fills between an \<^verbatim>\<open>Upload*Start\<close> and an \<^verbatim>\<open>Upload*End\<close>, and the
  list of ship render contexts.  The OpenGL calls are a log of buffer uploads; the view
  model (\<^verbatim>\<open>ViewModel\<close>), the texture atlas of the clouds and the buffer classes
  \<^verbatim>\<open>BoundedVector\<close> and \<^verbatim>\<open>GameOpenGLMappedBuffer\<close> are outside \<^verbatim>\<open>src/\<close> and are
  modelled from their use here: a bounded buffer asserts that it does not grow past the
  size it was prepared for, and the model returns \<open>None\<close> there.
\<close>

section \<open>Vertices\<close>

record star_vertex =
  sv_ndc_x :: real
  sv_ndc_y :: real
  sv_brightness :: real

text \<open>A vertex of a cloud quad: position and texture coordinates in NDC.\<close>

type_synonym cloud_vertex = "real \<times> real \<times> real \<times> real"

record cloud_quad =
  cq_top_left1 :: cloud_vertex
  cq_bottom_left1 :: cloud_vertex
  cq_top_right1 :: cloud_vertex
  cq_bottom_left2 :: cloud_vertex
  cq_top_right2 :: cloud_vertex
  cq_bottom_right2 :: cloud_vertex

record land_segment =
  ls_x1 :: real
  ls_y1 :: real
  ls_depth1 :: real
  ls_x2 :: real
  ls_y2 :: real
  ls_depth2 :: real

record ocean_segment =
  oseg_x1 :: real
  oseg_y1 :: real
  oseg_value1 :: real
  oseg_x2 :: real
  oseg_y2 :: real
  oseg_value2 :: real

record cross_of_light_vertex =
  cl_vertex :: vec2
  cl_center_position :: vec2
  cl_progress :: real

record heat_blaster_flame_vertex =
  hb_vertex_position :: vec2
  hb_flame_space_position :: vec2

record fire_extinguisher_spray_vertex =
  fe_vertex_position :: vec2
  fe_spray_space_position :: vec2

datatype ocean_render_mode = OceanRenderTexture | OceanRenderDepth | OceanRenderFlat

text \<open>The shader programs (\<^verbatim>\<open>Render::ProgramType\<close>, \<^verbatim>\<open>ShaderTypes.h\<close>).\<close>

datatype program_type = ProgramHeatBlasterFlameCool | ProgramHeatBlasterFlameHeat
  | ProgramFireExtinguisherSpray | ProgramStars | ProgramClouds | ProgramLightning
  | ProgramLandFlat | ProgramLandTexture | ProgramOceanDepth | ProgramOceanFlat
  | ProgramOceanTexture | ProgramRain | ProgramWorldBorder | ProgramCrossOfLight
  | ProgramShipRopes | ProgramShipSpringsColor | ProgramShipSpringsTexture
  | ProgramShipTrianglesColor | ProgramShipTrianglesTexture | ProgramShipPointsColor
  | ProgramShipGenericTextures | ProgramShipVectors | ProgramShipStressedSprings

text \<open>A frame of the cloud texture atlas (\<^verbatim>\<open>TextureAtlasFrameMetadata\<close>).\<close>

record frame_metadata =
  fm_anchor_world_x :: real
  fm_anchor_world_y :: real
  fm_world_width :: real
  fm_world_height :: real
  fm_texture_bottom_left :: vec2
  fm_texture_top_right :: vec2

section \<open>Bounded buffers\<close>

text \<open>\<^verbatim>\<open>BoundedVector\<close> and \<^verbatim>\<open>GameOpenGLMappedBuffer\<close>: the elements and the
  number of elements the buffer was prepared for.  Appending past it fails.\<close>

record 'a bounded_buffer =
  bb_data :: "'a list"
  bb_max_size :: nat

definition bounded_emplace_back :: "'a \<Rightarrow> 'a bounded_buffer \<Rightarrow> 'a bounded_buffer option" where
  "bounded_emplace_back x b =
     (if length (bb_data b) < bb_max_size b then Some (b\<lparr>bb_data := bb_data b @ [x]\<rparr>) else None)"

definition bounded_reset :: "nat \<Rightarrow> 'a bounded_buffer \<Rightarrow> 'a bounded_buffer" where
  "bounded_reset n b = \<lparr>bb_data = [], bb_max_size = n\<rparr>"

definition bounded_clear :: "'a bounded_buffer \<Rightarrow> 'a bounded_buffer" where
  "bounded_clear b = b\<lparr>bb_data := []\<rparr>"

text \<open>The OpenGL calls that move a buffer to the GPU.\<close>

datatype gl_call = GlBufferData string nat | GlBufferSubData string nat | GlUnmap string

section \<open>The render context\<close>

text \<open>A ship render context as the scene sees it: its id, the ship count it was told
  and its point count.\<close>

record ship_slot =
  ss_ship_id :: nat
  ss_ship_count :: nat
  ss_point_count :: nat

record scene_render_context =
  rc_star_vertex_buffer :: "star_vertex bounded_buffer"
  rc_cloud_quad_buffer :: "cloud_quad bounded_buffer"
  rc_land_segment_buffer :: "land_segment bounded_buffer"
  rc_land_segment_buffer_allocated_size :: nat
  rc_ocean_segment_buffer :: "ocean_segment bounded_buffer"
  rc_ocean_segment_buffer_allocated_size :: nat
  rc_cross_of_light_vertex_buffer :: "cross_of_light_vertex list"
  rc_heat_blaster_flame_vertex_buffer :: "heat_blaster_flame_vertex list"
  rc_fire_extinguisher_spray_vertex_buffer :: "fire_extinguisher_spray_vertex list"
  rc_heat_blaster_flame_shader_to_render :: "program_type option"
  rc_fire_extinguisher_spray_shader_to_render :: "program_type option"
  rc_ships :: "ship_slot list"
  rc_cloud_frames :: "frame_metadata list"
  rc_visible_world_top_left :: vec2
  rc_visible_world_bottom_right :: vec2
  rc_canvas_width :: int
  rc_canvas_height :: int
  rc_ocean_render_mode :: ocean_render_mode
  rc_max_texture_size :: nat
  rc_gl :: "gl_call list"

definition gl :: "gl_call \<Rightarrow> scene_render_context \<Rightarrow> scene_render_context" where
  "gl c rc = rc\<lparr>rc_gl := rc_gl rc @ [c]\<rparr>"

text \<open>\<^verbatim>\<open>size_t\<close> arithmetic.\<close>

definition size_t_succ :: "nat \<Rightarrow> nat" where
  "size_t_succ n = (n + 1) mod 2 ^ 64"

section \<open>Frame, ships and validation\<close>

text \<open>\<^verbatim>\<open>RenderStart\<close>: the crosses of light, the flame and the spray are uploaded
  anew every frame.\<close>

definition render_start :: "scene_render_context \<Rightarrow> scene_render_context" where
  "render_start rc =
     rc\<lparr>rc_cross_of_light_vertex_buffer := [], rc_heat_blaster_flame_shader_to_render := None,
        rc_fire_extinguisher_spray_shader_to_render := None\<rparr>"

definition render_context_reset :: "scene_render_context \<Rightarrow> scene_render_context" where
  "render_context_reset rc = rc\<lparr>rc_ships := []\<rparr>"

text \<open>\<^verbatim>\<open>ValidateShip\<close> throws \<^verbatim>\<open>GameException\<close> when the texture is larger than
  the driver's maximum texture size.  The message is the source's, written in two pieces.\<close>

definition validate_ship :: "nat \<Rightarrow> nat \<Rightarrow> scene_render_context \<Rightarrow> string + unit" where
  "validate_ship width height rc =
     (if rc_max_texture_size rc < width \<or> rc_max_texture_size rc < height
      then Inl (''We are so'' @ ''rry, but this ship's texture image is too large for your graphics driver'')
      else Inr ())"

text \<open>\<^verbatim>\<open>AddShip\<close>: the new ship's id must be the number of ships; every ship is told
  the new count and the new one is appended.\<close>

definition render_context_add_ship :: "nat \<Rightarrow> nat \<Rightarrow> scene_render_context \<Rightarrow> scene_render_context option" where
  "render_context_add_ship ship_id point_count rc =
     (if ship_id = length (rc_ships rc) then
        (let n = Suc (length (rc_ships rc))
         in Some (rc\<lparr>rc_ships := map (\<lambda>s. s\<lparr>ss_ship_count := n\<rparr>) (rc_ships rc)
                                 @ [\<lparr>ss_ship_id = ship_id, ss_ship_count = n, ss_point_count = point_count\<rparr>]\<rparr>))
      else None)"

section \<open>Sky\<close>

definition upload_stars_start :: "nat \<Rightarrow> scene_render_context \<Rightarrow> scene_render_context" where
  "upload_stars_start star_count rc =
     (if star_count \<noteq> bb_max_size (rc_star_vertex_buffer rc)
      then gl (GlBufferData ''star'' star_count)
             (rc\<lparr>rc_star_vertex_buffer := bounded_reset star_count (rc_star_vertex_buffer rc)\<rparr>)
      else rc\<lparr>rc_star_vertex_buffer := bounded_clear (rc_star_vertex_buffer rc)\<rparr>)"

definition upload_star :: "real \<Rightarrow> real \<Rightarrow> real \<Rightarrow> scene_render_context \<Rightarrow> scene_render_context option" where
  "upload_star x y brightness rc =
     map_option (\<lambda>b. rc\<lparr>rc_star_vertex_buffer := b\<rparr>)
       (bounded_emplace_back \<lparr>sv_ndc_x = x, sv_ndc_y = y, sv_brightness = brightness\<rparr> (rc_star_vertex_buffer rc))"

definition upload_stars_end :: "scene_render_context \<Rightarrow> scene_render_context" where
  "upload_stars_end rc = gl (GlBufferSubData ''star'' (length (bb_data (rc_star_vertex_buffer rc)))) rc"

text \<open>\<^verbatim>\<open>UploadCloudsStart\<close> prepares the cloud buffer for \<open>n\<close> quads (six vertices
  each) and \<^verbatim>\<open>UploadCloudsEnd\<close> unmaps it when it is not empty.\<close>

definition upload_clouds_start :: "nat \<Rightarrow> scene_render_context \<Rightarrow> scene_render_context" where
  "upload_clouds_start cloud_count rc =
     (if 0 < cloud_count then
        (let rc1 = (if length (bb_data (rc_cloud_quad_buffer rc)) \<noteq> cloud_count
                    then gl (GlBufferData ''cloud'' (6 * cloud_count)) rc else rc)
         in rc1\<lparr>rc_cloud_quad_buffer := bounded_reset cloud_count (rc_cloud_quad_buffer rc1)\<rparr>)
      else rc\<lparr>rc_cloud_quad_buffer := bounded_reset 0 (rc_cloud_quad_buffer rc)\<rparr>)"

definition upload_clouds_end :: "scene_render_context \<Rightarrow> scene_render_context" where
  "upload_clouds_end rc =
     (if 0 < length (bb_data (rc_cloud_quad_buffer rc)) then gl (GlUnmap ''cloud'') rc else rc)"

text \<open>\<^verbatim>\<open>std::fmod\<close>: the remainder of the division truncated toward zero.\<close>

definition fmod :: "real \<Rightarrow> real \<Rightarrow> real" where
  "fmod x y = x - y * real_of_int (truncate_int (x / y))"

text \<open>The roll of a virtual coordinate into \<open>[0, period)\<close>.\<close>

definition roll :: "real \<Rightarrow> real \<Rightarrow> real" where
  "roll v period = (let r = fmod v period in if r < 0 then r + period else r)"

definition cloud_quad_of :: "real \<Rightarrow> real \<Rightarrow> real \<Rightarrow> real \<Rightarrow> frame_metadata \<Rightarrow> cloud_quad" where
  "cloud_quad_of left_x right_x top_y bottom_y f =
     (let bl = fm_texture_bottom_left f; tr = fm_texture_top_right f
      in \<lparr>cq_top_left1 = (left_x, top_y, fst bl, snd tr), cq_bottom_left1 = (left_x, bottom_y, fst bl, snd bl),
          cq_top_right1 = (right_x, top_y, fst tr, snd tr), cq_bottom_left2 = (left_x, bottom_y, fst bl, snd bl),
          cq_top_right2 = (right_x, top_y, fst tr, snd tr), cq_bottom_right2 = (right_x, bottom_y, fst tr, snd bl)\<rparr>)"

text \<open>\<^verbatim>\<open>UploadCloud\<close>: the virtual position rolled into a \<open>3 \<times> 2\<close> view whose
  central slice maps onto NDC, a texture frame chosen round-robin by the number of quads
  so far, and the quad scaled around the frame's anchor (the height by the aspect
  ratio).\<close>

definition upload_cloud :: "real \<Rightarrow> real \<Rightarrow> real \<Rightarrow> scene_render_context \<Rightarrow> scene_render_context option" where
  "upload_cloud virtual_x virtual_y scale rc =
     (let mapped_x = -1 + 2 * (roll virtual_x 3 - 1);
          mapped_y = -1 + 2 * (roll virtual_y 2 - 1 / 2);
          idx = length (bb_data (rc_cloud_quad_buffer rc)) mod length (rc_cloud_frames rc);
          f = rc_cloud_frames rc ! idx;
          aspect = real_of_int (rc_canvas_width rc) / real_of_int (rc_canvas_height rc);
          left_x = mapped_x - scale * fm_anchor_world_x f;
          right_x = mapped_x + scale * (fm_world_width f - fm_anchor_world_x f);
          top_y = mapped_y + scale * (fm_world_height f - fm_anchor_world_y f) * aspect;
          bottom_y = mapped_y - scale * fm_anchor_world_y f * aspect
      in map_option (\<lambda>b. rc\<lparr>rc_cloud_quad_buffer := b\<rparr>)
           (bounded_emplace_back (cloud_quad_of left_x right_x top_y bottom_y f) (rc_cloud_quad_buffer rc)))"

section \<open>Land and ocean\<close>

text \<open>\<^verbatim>\<open>UploadLandStart\<close> and \<^verbatim>\<open>UploadOceanStart\<close> prepare \<open>slices + 1\<close>
  segments, reallocating the GPU buffer when that size changed.\<close>

definition upload_land_start :: "nat \<Rightarrow> scene_render_context \<Rightarrow> scene_render_context" where
  "upload_land_start slices rc =
     (let n = size_t_succ slices;
          rc1 = (if n \<noteq> rc_land_segment_buffer_allocated_size rc
                 then (gl (GlBufferData ''land'' n) rc)\<lparr>rc_land_segment_buffer_allocated_size := n\<rparr> else rc)
      in rc1\<lparr>rc_land_segment_buffer := bounded_reset n (rc_land_segment_buffer rc1)\<rparr>)"

definition upload_land :: "real \<Rightarrow> real \<Rightarrow> scene_render_context \<Rightarrow> scene_render_context option" where
  "upload_land x y_land rc =
     (let y_visible_world_bottom = snd (rc_visible_world_bottom_right rc);
          y_bottom = (if y_visible_world_bottom \<le> y_land then y_visible_world_bottom else y_land)
      in map_option (\<lambda>b. rc\<lparr>rc_land_segment_buffer := b\<rparr>)
           (bounded_emplace_back \<lparr>ls_x1 = x, ls_y1 = y_land, ls_depth1 = 0, ls_x2 = x, ls_y2 = y_bottom,
                                   ls_depth2 = - (y_bottom - y_land)\<rparr> (rc_land_segment_buffer rc)))"

definition upload_land_end :: "scene_render_context \<Rightarrow> scene_render_context" where
  "upload_land_end rc = gl (GlUnmap ''land'') rc"

definition upload_ocean_start :: "nat \<Rightarrow> scene_render_context \<Rightarrow> scene_render_context" where
  "upload_ocean_start slices rc =
     (let n = size_t_succ slices;
          rc1 = (if n \<noteq> rc_ocean_segment_buffer_allocated_size rc
                 then (gl (GlBufferData ''ocean'' n) rc)\<lparr>rc_ocean_segment_buffer_allocated_size := n\<rparr> else rc)
      in rc1\<lparr>rc_ocean_segment_buffer := bounded_reset n (rc_ocean_segment_buffer rc1)\<rparr>)"

text \<open>\<^verbatim>\<open>UploadOcean\<close>: a vertical segment from the ocean's surface down to the bottom
  of the visible world, with texture or depth values by the ocean render mode.\<close>

definition ocean_segment_values :: "ocean_render_mode \<Rightarrow> real \<Rightarrow> real \<Rightarrow> real \<Rightarrow> real \<times> real" where
  "ocean_segment_values mode y1 y2 ocean_depth =
     (case mode of
        OceanRenderTexture \<Rightarrow> (0, y1 - y2)
      | OceanRenderDepth \<Rightarrow> (0, if ocean_depth \<noteq> 0 then \<bar>y2 - y1\<bar> / ocean_depth else 0)
      | OceanRenderFlat \<Rightarrow> (0, 0))"

definition upload_ocean :: "real \<Rightarrow> real \<Rightarrow> real \<Rightarrow> scene_render_context \<Rightarrow> scene_render_context option" where
  "upload_ocean x y_ocean ocean_depth rc =
     (let y_visible_world_bottom = snd (rc_visible_world_bottom_right rc);
          (v1, v2) = ocean_segment_values (rc_ocean_render_mode rc) y_ocean y_visible_world_bottom ocean_depth
      in map_option (\<lambda>b. rc\<lparr>rc_ocean_segment_buffer := b\<rparr>)
           (bounded_emplace_back \<lparr>oseg_x1 = x, oseg_y1 = y_ocean, oseg_value1 = v1,
                                   oseg_x2 = x, oseg_y2 = y_visible_world_bottom, oseg_value2 = v2\<rparr>
              (rc_ocean_segment_buffer rc)))"

definition upload_ocean_end :: "scene_render_context \<Rightarrow> scene_render_context" where
  "upload_ocean_end rc = gl (GlUnmap ''ocean'') rc"

section \<open>Crosses of light, flame and spray\<close>

text \<open>\<^verbatim>\<open>UploadCrossOfLight\<close>: two triangles covering the visible world.\<close>

definition upload_cross_of_light :: "vec2 \<Rightarrow> real \<Rightarrow> scene_render_context \<Rightarrow> scene_render_context" where
  "upload_cross_of_light center progress rc =
     (let tl = rc_visible_world_top_left rc; br = rc_visible_world_bottom_right rc;
          v = (\<lambda>p. \<lparr>cl_vertex = p, cl_center_position = center, cl_progress = progress\<rparr>)
      in rc\<lparr>rc_cross_of_light_vertex_buffer := rc_cross_of_light_vertex_buffer rc @
             [v (fst tl, snd br), v tl, v br, v tl, v br, v (fst br, snd tl)]\<rparr>)"

text \<open>The six corners of a quad of half size \<open>h\<close> around a centre, as two triangles,
  each with its position in the unit quad centred on 0.\<close>

definition quad_corners :: "vec2 \<Rightarrow> real \<Rightarrow> (vec2 \<times> vec2) list" where
  "quad_corners c h =
     (let left_x = fst c - h; right_x = fst c + h; top_y = snd c + h; bottom_y = snd c - h
      in [((left_x, bottom_y), (-1/2, -1/2)), ((left_x, top_y), (-1/2, 1/2)), ((right_x, bottom_y), (1/2, -1/2)),
          ((left_x, top_y), (-1/2, 1/2)), ((right_x, bottom_y), (1/2, -1/2)), ((right_x, top_y), (1/2, 1/2))])"

definition upload_heat_blaster_flame :: "vec2 \<Rightarrow> real \<Rightarrow> heat_blaster_action \<Rightarrow> scene_render_context
                                         \<Rightarrow> scene_render_context" where
  "upload_heat_blaster_flame center radius action rc =
     rc\<lparr>rc_heat_blaster_flame_vertex_buffer :=
          map (\<lambda>(p, s). \<lparr>hb_vertex_position = p, hb_flame_space_position = s\<rparr>) (quad_corners center (radius * 3 / 4)),
        rc_heat_blaster_flame_shader_to_render :=
          Some (case action of Cool \<Rightarrow> ProgramHeatBlasterFlameCool | Heat \<Rightarrow> ProgramHeatBlasterFlameHeat)\<rparr>"

definition upload_fire_extinguisher_spray :: "vec2 \<Rightarrow> real \<Rightarrow> scene_render_context \<Rightarrow> scene_render_context" where
  "upload_fire_extinguisher_spray center radius rc =
     rc\<lparr>rc_fire_extinguisher_spray_vertex_buffer :=
          map (\<lambda>(p, s). \<lparr>fe_vertex_position = p, fe_spray_space_position = s\<rparr>) (quad_corners center (radius * 7 / 4)),
        rc_fire_extinguisher_spray_shader_to_render := Some ProgramFireExtinguisherSpray\<rparr>"

section \<open>The ocean's upload against the render context\<close>

text \<open>A loop of upload calls, each of which may overflow its buffer.\<close>

primrec upload_each :: "('a \<Rightarrow> scene_render_context \<Rightarrow> scene_render_context option) \<Rightarrow> 'a list
                        \<Rightarrow> scene_render_context \<Rightarrow> scene_render_context option" where
  "upload_each f [] rc = Some rc"
| "upload_each f (x # xs) rc = (case f x rc of None \<Rightarrow> None | Some rc' \<Rightarrow> upload_each f xs rc')"

text \<open>\<^verbatim>\<open>OceanSurface::Upload\<close> against this render context: the visible world's
  left and right edges come from the view model, the slice count goes to
  \<^verbatim>\<open>UploadOceanStart\<close> as a \<^verbatim>\<open>size_t\<close>, and every vertex to
  \<^verbatim>\<open>UploadOcean\<close>.\<close>

definition ocean_surface_upload :: "ocean_constants \<Rightarrow> (real \<Rightarrow> real) \<Rightarrow> real \<Rightarrow> 'a ocean_surface
                                    \<Rightarrow> scene_render_context \<Rightarrow> scene_render_context option" where
  "ocean_surface_upload K height_at sea_depth sf rc =
     (case ocean_upload K height_at (fst (rc_visible_world_top_left rc)) (fst (rc_visible_world_bottom_right rc))
             sea_depth sf of
        None \<Rightarrow> None
      | Some (n, vs) \<Rightarrow>
          map_option upload_ocean_end
            (upload_each (\<lambda>(x, y, d). upload_ocean x y d) vs (upload_ocean_start (size_t_of_int n) rc)))"

text \<open>The list of ship render contexts is well formed when the ship at position
  \<open>i\<close> has id \<open>i\<close> and every ship knows the number of ships.\<close>

definition ships_wf :: "scene_render_context \<Rightarrow> bool" where
  "ships_wf rc \<longleftrightarrow>
     map ss_ship_id (rc_ships rc) = [0..<length (rc_ships rc)]
     \<and> list_all (\<lambda>s. ss_ship_count s = length (rc_ships rc)) (rc_ships rc)"

section \<open>Concrete render contexts\<close>

definition example_render_context :: scene_render_context where
  "example_render_context =
     \<lparr>rc_star_vertex_buffer = \<lparr>bb_data = [], bb_max_size = 0\<rparr>,
      rc_cloud_quad_buffer = \<lparr>bb_data = [], bb_max_size = 0\<rparr>,
      rc_land_segment_buffer = \<lparr>bb_data = [], bb_max_size = 0\<rparr>, rc_land_segment_buffer_allocated_size = 0,
      rc_ocean_segment_buffer = \<lparr>bb_data = [], bb_max_size = 0\<rparr>, rc_ocean_segment_buffer_allocated_size = 0,
      rc_cross_of_light_vertex_buffer = [], rc_heat_blaster_flame_vertex_buffer = [],
      rc_fire_extinguisher_spray_vertex_buffer = [],
      rc_heat_blaster_flame_shader_to_render = None, rc_fire_extinguisher_spray_shader_to_render = None,
      rc_ships = [],
      rc_cloud_frames = [\<lparr>fm_anchor_world_x = 1, fm_anchor_world_y = 0, fm_world_width = 2,
                          fm_world_height = 1, fm_texture_bottom_left = (0, 0), fm_texture_top_right = (1, 1)\<rparr>],
      rc_visible_world_top_left = (-2, 10), rc_visible_world_bottom_right = (600, -10),
      rc_canvas_width = 1024, rc_canvas_height = 768,
      rc_ocean_render_mode = OceanRenderDepth, rc_max_texture_size = 4096, rc_gl = []\<rparr>"

section \<open>Bounded buffers\<close>

lemma bounded_emplace_back_Some [simp]:
  "length (bb_data b) < bb_max_size b \<Longrightarrow> bounded_emplace_back x b = Some (b\<lparr>bb_data := bb_data b @ [x]\<rparr>)"
  by (simp add: bounded_emplace_back_def)

lemma bounded_emplace_back_None [simp]:
  "bb_max_size b \<le> length (bb_data b) \<Longrightarrow> bounded_emplace_back x b = None"
  by (simp add: bounded_emplace_back_def)

lemma upload_ocean_each:
  assumes "length (bb_data (rc_ocean_segment_buffer rc)) + length vs \<le> bb_max_size (rc_ocean_segment_buffer rc)"
  shows "\<exists>rc'. upload_each (\<lambda>(x, y, d). upload_ocean x y d) vs rc = Some rc'
           \<and> map oseg_x1 (bb_data (rc_ocean_segment_buffer rc'))
               = map oseg_x1 (bb_data (rc_ocean_segment_buffer rc)) @ map fst vs
           \<and> bb_max_size (rc_ocean_segment_buffer rc') = bb_max_size (rc_ocean_segment_buffer rc)"
  using assms
proof (induction vs arbitrary: rc)
  case (Cons v vs)
  obtain x y d where v: "v = (x, y, d)" by (cases v)
  have "\<exists>rc1. upload_ocean x y d rc = Some rc1
          \<and> map oseg_x1 (bb_data (rc_ocean_segment_buffer rc1))
              = map oseg_x1 (bb_data (rc_ocean_segment_buffer rc)) @ [x]
          \<and> bb_max_size (rc_ocean_segment_buffer rc1) = bb_max_size (rc_ocean_segment_buffer rc)
          \<and> length (bb_data (rc_ocean_segment_buffer rc1)) + length vs \<le> bb_max_size (rc_ocean_segment_buffer rc1)"
    using Cons.prems by (simp add: upload_ocean_def case_prod_beta Let_def)
  then obtain rc1 where up: "upload_ocean x y d rc = Some rc1"
    and xs: "map oseg_x1 (bb_data (rc_ocean_segment_buffer rc1))
               = map oseg_x1 (bb_data (rc_ocean_segment_buffer rc)) @ [x]"
    and mx: "bb_max_size (rc_ocean_segment_buffer rc1) = bb_max_size (rc_ocean_segment_buffer rc)"
    and room: "length (bb_data (rc_ocean_segment_buffer rc1)) + length vs \<le> bb_max_size (rc_ocean_segment_buffer rc1)"
    by blast
  then show ?case
    using Cons.IH [OF room] by (auto simp: v)
qed simp

lemma upload_ocean_start_buffer:
  "bb_data (rc_ocean_segment_buffer (upload_ocean_start slices rc)) = []"
  "bb_max_size (rc_ocean_segment_buffer (upload_ocean_start slices rc)) = size_t_succ slices"
  by (simp_all add: upload_ocean_start_def Let_def bounded_reset_def gl_def)

lemma upload_ocean_end_buffer [simp]:
  "rc_ocean_segment_buffer (upload_ocean_end rc) = rc_ocean_segment_buffer rc"
  by (simp add: upload_ocean_end_def gl_def)

lemma size_t_succ_of_int:
  assumes "0 \<le> n" "n \<le> 500"
  shows "size_t_succ (size_t_of_int n) = nat (n + 1)"
proof -
  have "nat n + 1 < 2 ^ 64" using assms by simp
  then show ?thesis
    using assms by (simp add: size_t_succ_def size_t_of_int_def nat_add_distrib)
qed

text \<open>C19: OceanSurface::Upload against the render context never overflows the ocean segment buffer that UploadOceanStart prepares: the render context receives exactly the ocean's vertices in order, and for a non-negative slice count the size_t count slices + 1 fills the buffer exactly.\<close>

lemma ocean_surface_upload_fills_buffer:
  assumes "ocean_upload K height_at (fst (rc_visible_world_top_left rc)) (fst (rc_visible_world_bottom_right rc))
             sea_depth sf = Some (n, vs)"
  shows "\<exists>rc'. ocean_surface_upload K height_at sea_depth sf rc = Some rc'
           \<and> map oseg_x1 (bb_data (rc_ocean_segment_buffer rc')) = map fst vs
           \<and> (0 \<le> n \<longrightarrow> length (bb_data (rc_ocean_segment_buffer rc')) = bb_max_size (rc_ocean_segment_buffer rc'))"
proof -
  let ?rc0 = "upload_ocean_start (size_t_of_int n) rc"
  have sl: "n \<le> int render_slices \<and> length vs = nat (n + 1)"
    using ocean_upload_slices [OF assms] .
  have room: "length (bb_data (rc_ocean_segment_buffer ?rc0)) + length vs \<le> bb_max_size (rc_ocean_segment_buffer ?rc0)"
  proof (cases "0 \<le> n")
    case True
    then show ?thesis
      using sl size_t_succ_of_int [of n] by (simp add: upload_ocean_start_buffer render_slices_def)
  next
    case False
    then show ?thesis using sl by (simp add: upload_ocean_start_buffer)
  qed
  obtain rc' where each: "upload_each (\<lambda>(x, y, d). upload_ocean x y d) vs ?rc0 = Some rc'"
    and xs: "map oseg_x1 (bb_data (rc_ocean_segment_buffer rc')) = map fst vs"
    and mx: "bb_max_size (rc_ocean_segment_buffer rc') = size_t_succ (size_t_of_int n)"
    using upload_ocean_each [OF room] by (auto simp: upload_ocean_start_buffer)
  have full: "0 \<le> n \<longrightarrow> length (bb_data (rc_ocean_segment_buffer rc')) = bb_max_size (rc_ocean_segment_buffer rc')"
    using xs mx sl size_t_succ_of_int [of n] by (auto simp: render_slices_def dest: arg_cong [where f = length])
  show ?thesis
    using assms each xs full by (simp add: ocean_surface_upload_def)
qed

section \<open>Ships\<close>

lemma ships_wf_reset: "ships_wf (render_context_reset rc)"
  by (simp add: ships_wf_def render_context_reset_def)

text \<open>RenderContext::AddShip keeps the list of ship render contexts well formed (ship i has id i and every ship knows the number of ships) and appends the new ship with its point count.\<close>

lemma render_context_add_ship_keeps_ships_wf:
  assumes "ships_wf rc" and "render_context_add_ship ship_id point_count rc = Some rc'"
  shows "ships_wf rc' \<and> length (rc_ships rc') = Suc (length (rc_ships rc))
         \<and> ss_point_count (last (rc_ships rc')) = point_count"
proof -
  have id: "ship_id = length (rc_ships rc)"
    and rc': "rc_ships rc' = map (\<lambda>s. s\<lparr>ss_ship_count := Suc (length (rc_ships rc))\<rparr>) (rc_ships rc)
              @ [\<lparr>ss_ship_id = ship_id, ss_ship_count = Suc (length (rc_ships rc)), ss_point_count = point_count\<rparr>]"
    using assms(2) by (auto simp: render_context_add_ship_def Let_def split: if_splits)
  have "map ss_ship_id (rc_ships rc') = [0..<Suc (length (rc_ships rc))]"
    using assms(1) by (simp add: rc' id ships_wf_def comp_def)
  moreover have "list_all (\<lambda>s. ss_ship_count s = Suc (length (rc_ships rc))) (rc_ships rc')"
    by (simp add: rc' list_all_iff)
  ultimately show ?thesis
    by (simp add: ships_wf_def rc')
qed

lemma render_context_add_ship_error:
  "render_context_add_ship ship_id point_count rc = None \<longleftrightarrow> ship_id \<noteq> length (rc_ships rc)"
  by (simp add: render_context_add_ship_def Let_def)

section \<open>Sky\<close>

lemma upload_star_each:
  assumes "length (bb_data (rc_star_vertex_buffer rc)) + length ss \<le> bb_max_size (rc_star_vertex_buffer rc)"
  shows "upload_each (\<lambda>(x, y, b). upload_star x y b) ss rc
           = Some (rc\<lparr>rc_star_vertex_buffer := (rc_star_vertex_buffer rc)\<lparr>bb_data := bb_data (rc_star_vertex_buffer rc)
                     @ map (\<lambda>(x, y, b). \<lparr>sv_ndc_x = x, sv_ndc_y = y, sv_brightness = b\<rparr>) ss\<rparr>\<rparr>)"
  using assms
proof (induction ss arbitrary: rc)
  case (Cons v ss)
  obtain x y b where v: "v = (x, y, b)" by (cases v)
  show ?case
    using Cons.prems Cons.IH [of "rc\<lparr>rc_star_vertex_buffer := (rc_star_vertex_buffer rc)\<lparr>bb_data :=
             bb_data (rc_star_vertex_buffer rc) @ [\<lparr>sv_ndc_x = x, sv_ndc_y = y, sv_brightness = b\<rparr>]\<rparr>\<rparr>"]
    by (simp add: v upload_star_def)
qed simp

lemma upload_stars_start_buffer:
  "rc_star_vertex_buffer (upload_stars_start n rc) = \<lparr>bb_data = [], bb_max_size = n\<rparr>"
  by (cases "rc_star_vertex_buffer rc")
     (simp add: upload_stars_start_def bounded_reset_def bounded_clear_def gl_def)

text \<open>After UploadStarsStart(n), n calls of UploadStar succeed and fill the star buffer with the stars in order; one more UploadStar overflows the BoundedVector, whose assertion the model reports as None.\<close>

lemma upload_stars_overflow:
  assumes "length ss = n"
  shows "\<exists>rc'. upload_each (\<lambda>(x, y, b). upload_star x y b) ss (upload_stars_start n rc) = Some rc'
            \<and> map (\<lambda>v. (sv_ndc_x v, sv_ndc_y v, sv_brightness v)) (bb_data (rc_star_vertex_buffer rc')) = ss
            \<and> upload_star x y b rc' = None"
proof -
  let ?rc0 = "upload_stars_start n rc"
  have room: "length (bb_data (rc_star_vertex_buffer ?rc0)) + length ss \<le> bb_max_size (rc_star_vertex_buffer ?rc0)"
    using assms by (simp add: upload_stars_start_buffer)
  have rt: "map (\<lambda>v. (sv_ndc_x v, sv_ndc_y v, sv_brightness v))
              (map (\<lambda>(x, y, b). \<lparr>sv_ndc_x = x, sv_ndc_y = y, sv_brightness = b\<rparr>) ss) = ss"
    by (induction ss) auto
  show ?thesis
    using upload_star_each [OF room] assms rt
    by (simp add: upload_stars_start_buffer upload_star_def)
qed

section \<open>Land, clouds, flame and spray\<close>

lemma upload_land_segment:
  assumes "upload_land x y_land rc = Some rc'"
  shows "\<exists>s. bb_data (rc_land_segment_buffer rc') = bb_data (rc_land_segment_buffer rc) @ [s]
           \<and> ls_y2 s = min y_land (snd (rc_visible_world_bottom_right rc))
           \<and> ls_depth2 s = ls_y1 s - ls_y2 s \<and> 0 \<le> ls_depth2 s \<and> ls_y1 s = y_land"
  using assms
  by (auto simp: upload_land_def bounded_emplace_back_def Let_def min_def split: if_splits)

lemma roll_bounds:
  assumes "0 < period"
  shows "0 \<le> roll v period \<and> roll v period < period"
proof -
  define r where "r = v / period - real_of_int (truncate_int (v / period))"
  have f: "fmod v period = period * r"
    using assms by (simp add: fmod_def r_def right_diff_distrib)
  have r: "- 1 < r" "r < 1"
    by (simp_all add: r_def truncate_int_def; linarith)+
  have lo: "period * r < period" using assms r by simp
  have "period * (- 1) < period * r" using assms r by (intro mult_strict_left_mono) auto
  then have hi: "- period < period * r" by simp
  show ?thesis
  proof (cases "period * r < 0")
    case True
    then show ?thesis using lo hi by (simp add: roll_def f Let_def)
  next
    case False
    then show ?thesis using lo by (simp add: roll_def f Let_def)
  qed
qed

lemma upload_heat_blaster_flame_quad:
  "map (\<lambda>v. (hb_vertex_position v, hb_flame_space_position v))
       (rc_heat_blaster_flame_vertex_buffer (upload_heat_blaster_flame c radius a rc))
     = map (\<lambda>s. (vadd c (vscale (radius * 3 / 2) s), s))
         [(-1/2, -1/2), (-1/2, 1/2), (1/2, -1/2), (-1/2, 1/2), (1/2, -1/2), (1/2, 1/2)]
   \<and> rc_heat_blaster_flame_shader_to_render (upload_heat_blaster_flame c radius a rc)
       = Some (if a = Heat then ProgramHeatBlasterFlameHeat else ProgramHeatBlasterFlameCool)"
  by (cases c; cases a) (simp_all add: upload_heat_blaster_flame_def quad_corners_def vadd_def vscale_def Let_def)

section \<open>Witnesses\<close>

lemma example_render_context_view:
  "fst (rc_visible_world_top_left example_render_context) = -2"
  "fst (rc_visible_world_bottom_right example_render_context) = 600"
  by (simp_all add: example_render_context_def)

lemma ocean_surface_upload_fills_buffer_witness:
  "\<exists>vs. ocean_upload example_ocean_constants (\<lambda>_. 0) (-2) 600 10 (ocean_create example_ocean_constants ())
          = Some (500, vs)
      \<and> (\<exists>rc'. ocean_surface_upload example_ocean_constants (\<lambda>_. 0) 10 (ocean_create example_ocean_constants ())
                 example_render_context = Some rc'
             \<and> map oseg_x1 (bb_data (rc_ocean_segment_buffer rc')) = map fst vs
             \<and> (0 \<le> (500::int) \<longrightarrow> length (bb_data (rc_ocean_segment_buffer rc')) = bb_max_size (rc_ocean_segment_buffer rc')))"
proof -
  have up: "ocean_upload example_ocean_constants (\<lambda>_. 0) (-2) 600 10 (ocean_create example_ocean_constants ())
        = Some (500, map (\<lambda>s. let x = -2 + 602 / 500 * real s in (x, 0, 10)) [0..<501])"
    by (simp add: ocean_upload_def truncate_int_def render_slices_def Let_def)
  show ?thesis
    using up ocean_surface_upload_fills_buffer [of example_ocean_constants "\<lambda>_. 0" example_render_context 10
            "ocean_create example_ocean_constants ()" 500]
    by (simp add: example_render_context_view)
qed

lemma render_context_add_ship_keeps_ships_wf_witness:
  "ships_wf example_render_context
   \<and> render_context_add_ship 0 10 example_render_context
       = Some (example_render_context\<lparr>rc_ships := [\<lparr>ss_ship_id = 0, ss_ship_count = 1, ss_point_count = 10\<rparr>]\<rparr>)
   \<and> ships_wf (example_render_context\<lparr>rc_ships := [\<lparr>ss_ship_id = 0, ss_ship_count = 1, ss_point_count = 10\<rparr>]\<rparr>)"
proof -
  have wf: "ships_wf example_render_context" and
    add: "render_context_add_ship 0 10 example_render_context
       = Some (example_render_context\<lparr>rc_ships := [\<lparr>ss_ship_id = 0, ss_ship_count = 1, ss_point_count = 10\<rparr>]\<rparr>)"
    by (simp_all add: ships_wf_def render_context_add_ship_def example_render_context_def)
  then show ?thesis
    using render_context_add_ship_keeps_ships_wf [OF wf add] by simp
qed

lemma upload_stars_overflow_witness:
  "length [(0::real, 0::real, 1::real)] = 1
   \<and> (\<exists>rc'. upload_each (\<lambda>(x, y, b). upload_star x y b) [(0, 0, 1)] (upload_stars_start 1 example_render_context)
              = Some rc'
          \<and> map (\<lambda>v. (sv_ndc_x v, sv_ndc_y v, sv_brightness v)) (bb_data (rc_star_vertex_buffer rc')) = [(0, 0, 1)]
          \<and> upload_star 1 1 1 rc' = None)"
  using upload_stars_overflow [of "[(0, 0, 1)]" 1 example_render_context 1 1 1] by simp

lemma upload_land_segment_example:
  "\<exists>rc'. upload_land 0 (-20) (upload_land_start 1 example_render_context) = Some rc'
      \<and> (\<exists>s. bb_data (rc_land_segment_buffer rc') = [s] \<and> ls_y1 s = -20 \<and> ls_y2 s = -20 \<and> ls_depth2 s = 0)"
proof -
  let ?rc0 = "upload_land_start 1 example_render_context"
  have b0: "bb_data (rc_land_segment_buffer ?rc0) = []" "snd (rc_visible_world_bottom_right ?rc0) = -10"
    by (simp_all add: upload_land_start_def example_render_context_def bounded_reset_def gl_def Let_def)
  obtain rc' where up: "upload_land 0 (-20) ?rc0 = Some rc'"
    by (simp add: upload_land_def upload_land_start_def example_render_context_def bounded_reset_def
                  bounded_emplace_back_def size_t_succ_def gl_def Let_def)
  show ?thesis
    using upload_land_segment [OF up] up b0 by auto
qed

lemma roll_bounds_example: "0 < (3::real) \<and> 0 \<le> roll 5 3 \<and> roll 5 3 < 3 \<and> roll (-1) 3 = 2"
  using roll_bounds [of 3 5] by (simp add: roll_def fmod_def truncate_int_def Let_def)

end
