(* ===== verification/ShipRender.thy ===== *)
theory ShipRender
  imports Combustion
begin

text \<open>
  The ship's side of rendering: the \<^verbatim>\<open>Upload*\<close> functions of
  \<^verbatim>\<open>src/Game/Points.cpp\<close>, which send the store's buffers to the render context, the
  per-ship calls of \<^verbatim>\<open>src/Game/RenderContext.h\<close>, which check the ship id and forward
  to the ship's render context, and the buffers of \<^verbatim>\<open>src/Game/ShipRenderContext.cpp\<close>
  that receive them.  A call of the store becomes a value of \<open>ship_render_call\<close>; a
  pointer and a count become the slice of the buffer the call reads.  The GPU buffers a
  call writes are lists in the record \<open>ship_render_context\<close>.  The element calls of
  \<^verbatim>\<open>ShipRenderContext.h\<close> (outside \<^verbatim>\<open>src/\<close>) append to their element buffers.
\<close>

section \<open>Render settings and calls\<close>

text \<open>The render context's settings that the store reads (\<^verbatim>\<open>RenderTypes.h\<close>,
  outside \<^verbatim>\<open>src/\<close>); only the values the code tests are told apart.\<close>

datatype debug_ship_render_mode = DebugShipRenderNone | DebugShipRenderWireframe | DebugShipRenderPoints
  | DebugShipRenderOther

datatype ship_flame_render_mode = ShipFlameNoDraw | ShipFlameDraw

datatype vector_field_render_mode = VectorFieldNone | PointVelocity | PointForce | PointWaterVelocity
  | PointWaterMomentum

record render_settings =
  rs_draw_heat_overlay :: bool
  rs_debug_ship_render_mode :: debug_ship_render_mode
  rs_ship_flame_render_mode :: ship_flame_render_mode
  rs_vector_field_render_mode :: vector_field_render_mode

text \<open>The dirty flags of \<^verbatim>\<open>Points\<close> that only the upload reads and clears (the ship
  sets them); \<^verbatim>\<open>mIsPlaneIdBufferEphemeralDirty\<close> and \<^verbatim>\<open>mAreEphemeralPointsDirty\<close>
  are fields of \<open>points\<close>.\<close>

record upload_flags =
  is_texture_coordinates_buffer_dirty :: bool
  is_whole_color_buffer_dirty :: bool
  is_plane_id_buffer_non_ephemeral_dirty :: bool
  is_decay_buffer_dirty :: bool

datatype ship_render_call =
    UploadPointImmutableAttributes "vec2 list"
  | UploadPointColors "vec4 list" nat nat
  | UploadPointMutableAttributesStart
  | UploadPointMutableAttributes
  | UploadPointMutableAttributesPlaneId "real list" nat nat
  | UploadPointMutableAttributesDecay "real list" nat nat
  | UploadPointTemperature "real list" nat nat
  | UploadPointMutableAttributesEnd
  | UploadElementPoint nat
  | UploadFlamesStart nat real
  | UploadFlame plane_id vec2 real real bool
  | UploadFlamesEnd
  | UploadVectors nat "vec2 list" "real list" "vec2 list" real vec4
  | UploadElementEphemeralPointsStart
  | UploadElementEphemeralPoint nat
  | UploadElementEphemeralPointsEnd
  | UploadAirBubble plane_id nat vec2 real real
  | UploadGenericTexture plane_id nat vec2 real real real

text \<open>The slice a pointer and a count read.\<close>

definition slice :: "nat \<Rightarrow> nat \<Rightarrow> 'a list \<Rightarrow> 'a list" where
  "slice start cnt xs = take cnt (drop start xs)"

section \<open>The store's uploads\<close>

text \<open>\<^verbatim>\<open>EphemeralPoints()\<close> and \<^verbatim>\<open>NonEphemeralPoints()\<close>.\<close>

definition ephemeral_points :: "points \<Rightarrow> nat list" where
  "ephemeral_points p = [ship_point_count p..<all_point_count p]"

definition non_ephemeral_points :: "points \<Rightarrow> nat list" where
  "non_ephemeral_points p = [0..<ship_point_count p]"

definition ephemeral_point_count :: "points \<Rightarrow> nat" where
  "ephemeral_point_count p = all_point_count p - ship_point_count p"

text \<open>The plane-id part of \<^verbatim>\<open>UploadAttributes\<close>: the whole buffer when both halves
  are dirty, else the dirty half.\<close>

definition upload_plane_ids :: "upload_flags \<times> points \<Rightarrow> (upload_flags \<times> points) \<times> ship_render_call list" where
  "upload_plane_ids fp =
     (let (f, p) = fp; ship = ship_point_count p; all = all_point_count p; buf = plane_id_float_buf p
      in if is_plane_id_buffer_non_ephemeral_dirty f then
           (if is_plane_id_buffer_ephemeral_dirty p
            then ((f\<lparr>is_plane_id_buffer_non_ephemeral_dirty := False\<rparr>,
                   p\<lparr>is_plane_id_buffer_ephemeral_dirty := False\<rparr>),
                  [UploadPointMutableAttributesPlaneId (slice 0 all buf) 0 all])
            else ((f\<lparr>is_plane_id_buffer_non_ephemeral_dirty := False\<rparr>, p),
                  [UploadPointMutableAttributesPlaneId (slice 0 ship buf) 0 ship]))
         else if is_plane_id_buffer_ephemeral_dirty p
         then ((f, p\<lparr>is_plane_id_buffer_ephemeral_dirty := False\<rparr>),
               [UploadPointMutableAttributesPlaneId (slice ship (ephemeral_point_count p) buf) ship
                  (ephemeral_point_count p)])
         else ((f, p), []))"

text \<open>\<^verbatim>\<open>UploadAttributes\<close>.\<close>

definition upload_attributes :: "render_settings \<Rightarrow> upload_flags \<times> points
                                 \<Rightarrow> (upload_flags \<times> points) \<times> ship_render_call list" where
  "upload_attributes rs fp =
     (let (f, p) = fp; all = all_point_count p; ship = ship_point_count p;
          c1 = (if is_texture_coordinates_buffer_dirty f
                then [UploadPointImmutableAttributes (texture_coordinates_buf p)] else []);
          f1 = f\<lparr>is_texture_coordinates_buffer_dirty := False\<rparr>;
          c2 = (if is_whole_color_buffer_dirty f1
                then [UploadPointColors (slice 0 all (color_buf p)) 0 all]
                else [UploadPointColors (slice ship (ephemeral_point_count p) (color_buf p)) ship
                        (ephemeral_point_count p)]);
          f2 = f1\<lparr>is_whole_color_buffer_dirty := False\<rparr>;
          ((f3, p3), c3) = upload_plane_ids (f2, p);
          c4 = (if is_decay_buffer_dirty f3
                then [UploadPointMutableAttributesDecay (slice 0 all (decay_buf p3)) 0 all] else []);
          f4 = f3\<lparr>is_decay_buffer_dirty := False\<rparr>;
          c5 = (if rs_draw_heat_overlay rs
                then [UploadPointTemperature (slice 0 all (temperature_buf p3)) 0 all] else [])
      in ((f4, p3), c1 @ c2 @ [UploadPointMutableAttributesStart, UploadPointMutableAttributes] @ c3 @ c4 @ c5
                    @ [UploadPointMutableAttributesEnd]))"

text \<open>\<^verbatim>\<open>UploadNonEphemeralPointElements\<close>: the orphaned points, or every point in
  the \<^verbatim>\<open>Points\<close> debug mode.\<close>

definition upload_non_ephemeral_point_elements :: "render_settings \<Rightarrow> points \<Rightarrow> ship_render_call list" where
  "upload_non_ephemeral_point_elements rs p =
     (let do_all = (rs_debug_ship_render_mode rs = DebugShipRenderPoints)
      in map UploadElementPoint
           (filter (\<lambda>i. do_all \<or> connected_springs_buf p ! i = []) (non_ephemeral_points p)))"



text \<open>\<^verbatim>\<open>UploadVectors\<close>: one vector field by the render mode, with its length
  adjustment; \<open>element_count\<close> is the container's \<^verbatim>\<open>mElementCount\<close>.\<close>

definition vector_color :: vec4 where
  "vector_color = (1 / 2, 1 / 10, 0, 1)"

definition upload_vectors :: "render_settings \<Rightarrow> nat \<Rightarrow> points \<Rightarrow> ship_render_call list" where
  "upload_vectors rs element_count p =
     (let call = (\<lambda>v adj. [UploadVectors element_count (position_buf p) (plane_id_float_buf p) v adj vector_color])
      in case rs_vector_field_render_mode rs of
           PointVelocity \<Rightarrow> call (velocity_buf p) (1 / 4)
         | PointForce \<Rightarrow> call (force_render_buf p) (5 / 10000)
         | PointWaterVelocity \<Rightarrow> call (water_velocity_buf p) 1
         | PointWaterMomentum \<Rightarrow> call (water_momentum_buf p) (4 / 10)
         | VectorFieldNone \<Rightarrow> [])"

text \<open>One ephemeral particle of \<^verbatim>\<open>UploadEphemeralParticles\<close>: an air bubble as a
  texture whose alpha grows with its depth, a debris as a point element (only when the
  elements are re-uploaded), a sparkle as a generic texture.\<close>

definition upload_ephemeral_particle :: "bool \<Rightarrow> points \<Rightarrow> nat \<Rightarrow> ship_render_call list" where
  "upload_ephemeral_particle dirty p i =
     (case ephemeral_type_buf p ! i of
        AirBubble \<Rightarrow>
          (case ephemeral_state_buf p ! i of
             AirBubbleState frame initial_size _ _ current_delta_y _ _ \<Rightarrow>
               [UploadAirBubble (plane_id_buf p ! i) frame (position_buf p ! i) initial_size
                  (min 1 (current_delta_y / 4))]
           | _ \<Rightarrow> [])
      | Debris \<Rightarrow> (if dirty then [UploadElementEphemeralPoint i] else [])
      | Sparkle \<Rightarrow>
          (case ephemeral_state_buf p ! i of
             SparkleState frame progress \<Rightarrow>
               [UploadGenericTexture (plane_id_buf p ! i) frame (position_buf p ! i) 1 (4 * progress) (1 - progress)]
           | _ \<Rightarrow> [])
      | EphemeralNone \<Rightarrow> [])"

definition upload_ephemeral_particles :: "points \<Rightarrow> points \<times> ship_render_call list" where
  "upload_ephemeral_particles p =
     (let dirty = are_ephemeral_points_dirty p;
          calls = concat (map (upload_ephemeral_particle dirty p) (ephemeral_points p))
      in if dirty
         then (p\<lparr>are_ephemeral_points_dirty := False\<rparr>,
               UploadElementEphemeralPointsStart # calls @ [UploadElementEphemeralPointsEnd])
         else (p, calls))"

section \<open>The ship render context\<close>

text \<open>The buffers of \<^verbatim>\<open>ShipRenderContext\<close>: the GPU buffers of the point
  attributes as lists of \<open>point_count\<close> entries, the element buffers, the flames and
  textures of this frame and the vector arrows.\<close>

record ship_render_context =
  src_point_count :: nat
  src_max_max_plane_id :: nat
  src_point_texture_coordinates :: "vec2 list"
  src_point_colors :: "vec4 list"
  src_point_plane_ids :: "real list"
  src_point_decay :: "real list"
  src_point_temperature :: "real list"
  src_point_element_buffer :: "nat list"
  src_spring_element_buffer :: "(nat \<times> nat) list"
  src_rope_element_buffer :: "(nat \<times> nat) list"
  src_stressed_spring_element_buffer :: "(nat \<times> nat) list"
  src_triangle_element_buffer :: "(nat \<times> nat \<times> nat) list"
  src_ephemeral_point_element_buffer :: "nat list"
  src_flames :: "(plane_id \<times> vec2 \<times> real \<times> real \<times> bool) list"
  src_generic_texture_plane_buffers :: "(nat \<times> vec2 \<times> real \<times> real \<times> real) list list"
  src_air_bubbles :: "(plane_id \<times> nat \<times> vec2 \<times> real \<times> real) list"
  src_vector_arrow_vertex_buffer :: "(vec2 \<times> real) list"
  src_vector_arrow_color :: vec4
  src_view_model_updates :: nat

text \<open>\<^verbatim>\<open>glBufferSubData\<close> on a range of a GPU buffer.\<close>

definition write_range :: "nat \<Rightarrow> 'a list \<Rightarrow> 'a list \<Rightarrow> 'a list" where
  "write_range start xs buf = take start buf @ xs @ drop (start + length xs) buf"

text \<open>\<^verbatim>\<open>RenderStart\<close>: one empty generic-texture buffer per plane, and a view
  update when the highest plane id changed.\<close>

definition ship_render_start :: "nat \<Rightarrow> ship_render_context \<Rightarrow> ship_render_context" where
  "ship_render_start max_max_plane_id s =
     (let s1 = s\<lparr>src_generic_texture_plane_buffers := replicate (Suc max_max_plane_id) []\<rparr>
      in if max_max_plane_id \<noteq> src_max_max_plane_id s1
         then s1\<lparr>src_max_max_plane_id := max_max_plane_id,
                 src_view_model_updates := Suc (src_view_model_updates s1)\<rparr>
         else s1)"

definition upload_point_immutable_attributes :: "vec2 list \<Rightarrow> ship_render_context \<Rightarrow> ship_render_context" where
  "upload_point_immutable_attributes tex s =
     s\<lparr>src_point_texture_coordinates := take (src_point_count s) tex\<rparr>"

text \<open>\<^verbatim>\<open>UploadPointColors\<close> and \<^verbatim>\<open>UploadPointPlaneIds\<close> assert that the range
  lies inside the ship's points.\<close>

definition upload_point_colors :: "vec4 list \<Rightarrow> nat \<Rightarrow> nat \<Rightarrow> ship_render_context \<Rightarrow> ship_render_context option" where
  "upload_point_colors colors start cnt s =
     (if start + cnt \<le> src_point_count s
      then Some (s\<lparr>src_point_colors := write_range start (take cnt colors) (src_point_colors s)\<rparr>)
      else None)"

definition upload_point_plane_ids :: "real list \<Rightarrow> nat \<Rightarrow> nat \<Rightarrow> ship_render_context \<Rightarrow> ship_render_context option" where
  "upload_point_plane_ids ids start cnt s =
     (if start + cnt \<le> src_point_count s
      then Some (s\<lparr>src_point_plane_ids := write_range start (take cnt ids) (src_point_plane_ids s)\<rparr>)
      else None)"

definition upload_element_triangles_start :: "nat \<Rightarrow> ship_render_context \<Rightarrow> ship_render_context" where
  "upload_element_triangles_start n s =
     s\<lparr>src_triangle_element_buffer := take n (src_triangle_element_buffer s)
          @ replicate (n - length (src_triangle_element_buffer s)) (0, 0, 0)\<rparr>"

definition upload_elements_start :: "ship_render_context \<Rightarrow> ship_render_context" where
  "upload_elements_start s =
     s\<lparr>src_point_element_buffer := [], src_spring_element_buffer := [], src_rope_element_buffer := [],
       src_stressed_spring_element_buffer := []\<rparr>"

definition upload_element_stressed_springs_start :: "ship_render_context \<Rightarrow> ship_render_context" where
  "upload_element_stressed_springs_start s = s\<lparr>src_stressed_spring_element_buffer := []\<rparr>"

definition upload_element_ephemeral_points_start :: "ship_render_context \<Rightarrow> ship_render_context" where
  "upload_element_ephemeral_points_start s = s\<lparr>src_ephemeral_point_element_buffer := []\<rparr>"

text \<open>\<^verbatim>\<open>ShipRenderContext::UploadVectors\<close>: for each vector a stem from the point
  to the point plus the scaled vector, and two head segments of length 0.2 at the stem's
  end, turned by \<open>\<plusminus>45\<degree>\<close> from the reversed vector.\<close>

definition arrow_left_x :: vec2 where "arrow_left_x = (cos (- 2 * pi / 8), sin (- 2 * pi / 8))"
definition arrow_left_y :: vec2 where "arrow_left_y = (- sin (- 2 * pi / 8), cos (- 2 * pi / 8))"
definition arrow_right_x :: vec2 where "arrow_right_x = (cos (- 2 * pi / 8), - sin (- 2 * pi / 8))"
definition arrow_right_y :: vec2 where "arrow_right_y = (sin (- 2 * pi / 8), cos (- 2 * pi / 8))"

definition arrow_vertices :: "real \<Rightarrow> vec2 \<Rightarrow> real \<Rightarrow> vec2 \<Rightarrow> (vec2 \<times> real) list" where
  "arrow_vertices length_adjustment pos plane v =
     (let stem_end = vadd pos (vscale length_adjustment v);
          left_dir = vnormalise (- vdot v arrow_left_x, - vdot v arrow_left_y);
          right_dir = vnormalise (- vdot v arrow_right_x, - vdot v arrow_right_y)
      in [(pos, plane), (stem_end, plane),
          (stem_end, plane), (vadd stem_end (vscale (2 / 10) left_dir), plane),
          (stem_end, plane), (vadd stem_end (vscale (2 / 10) right_dir), plane)])"

definition ship_upload_vectors :: "nat \<Rightarrow> vec2 list \<Rightarrow> real list \<Rightarrow> vec2 list \<Rightarrow> real \<Rightarrow> vec4
                                   \<Rightarrow> ship_render_context \<Rightarrow> ship_render_context" where
  "ship_upload_vectors cnt positions plane_ids vectors length_adjustment color s =
     s\<lparr>src_vector_arrow_vertex_buffer :=
          concat (map (\<lambda>i. arrow_vertices length_adjustment (positions ! i) (plane_ids ! i) (vectors ! i)) [0..<cnt]),
       src_vector_arrow_color := color\<rparr>"

text \<open>One call on the ship's render context.  The element, flame and texture calls
  are the inline functions of \<^verbatim>\<open>ShipRenderContext.h\<close>: they append.  A generic
  texture goes to the buffer of its plane.\<close>

definition ship_render_step :: "ship_render_call \<Rightarrow> ship_render_context \<Rightarrow> ship_render_context option" where
  "ship_render_step c s =
     (case c of
        UploadPointImmutableAttributes tex \<Rightarrow> Some (upload_point_immutable_attributes tex s)
      | UploadPointColors colors start cnt \<Rightarrow> upload_point_colors colors start cnt s
      | UploadPointMutableAttributesStart \<Rightarrow> Some s
      | UploadPointMutableAttributes \<Rightarrow> Some s
      | UploadPointMutableAttributesPlaneId ids start cnt \<Rightarrow> upload_point_plane_ids ids start cnt s
      | UploadPointMutableAttributesDecay d start cnt \<Rightarrow>
          Some (s\<lparr>src_point_decay := write_range start (take cnt d) (src_point_decay s)\<rparr>)
      | UploadPointTemperature t start cnt \<Rightarrow>
          Some (s\<lparr>src_point_temperature := write_range start (take cnt t) (src_point_temperature s)\<rparr>)
      | UploadPointMutableAttributesEnd \<Rightarrow> Some s
      | UploadElementPoint i \<Rightarrow> Some (s\<lparr>src_point_element_buffer := src_point_element_buffer s @ [i]\<rparr>)
      | UploadFlamesStart n _ \<Rightarrow> Some (s\<lparr>src_flames := []\<rparr>)
      | UploadFlame plane pos scale seed on_chain \<Rightarrow>
          Some (s\<lparr>src_flames := src_flames s @ [(plane, pos, scale, seed, on_chain)]\<rparr>)
      | UploadFlamesEnd \<Rightarrow> Some s
      | UploadVectors cnt pos planes vs adj color \<Rightarrow>
          Some (ship_upload_vectors cnt pos planes vs adj color s)
      | UploadElementEphemeralPointsStart \<Rightarrow> Some (upload_element_ephemeral_points_start s)
      | UploadElementEphemeralPoint i \<Rightarrow>
          Some (s\<lparr>src_ephemeral_point_element_buffer := src_ephemeral_point_element_buffer s @ [i]\<rparr>)
      | UploadElementEphemeralPointsEnd \<Rightarrow> Some s
      | UploadAirBubble plane frame pos scale alpha \<Rightarrow>
          Some (s\<lparr>src_air_bubbles := src_air_bubbles s @ [(plane, frame, pos, scale, alpha)]\<rparr>)
      | UploadGenericTexture plane frame pos scale angle alpha \<Rightarrow>
          (if plane < length (src_generic_texture_plane_buffers s)
           then Some (s\<lparr>src_generic_texture_plane_buffers := (src_generic_texture_plane_buffers s)[plane :=
                          src_generic_texture_plane_buffers s ! plane @ [(frame, pos, scale, angle, alpha)]]\<rparr>)
           else None))"

text \<open>The per-ship calls of \<^verbatim>\<open>RenderContext\<close> assert that the ship id is one of
  its ships.\<close>

definition render_ship_call :: "nat \<Rightarrow> ship_render_call \<Rightarrow> ship_render_context list
                                \<Rightarrow> ship_render_context list option" where
  "render_ship_call ship_id c ships =
     (if ship_id < length ships
      then map_option (\<lambda>s. ships[ship_id := s]) (ship_render_step c (ships ! ship_id))
      else None)"

text \<open>A sequence of calls on one ship.\<close>

primrec ship_render_run :: "ship_render_call list \<Rightarrow> ship_render_context \<Rightarrow> ship_render_context option" where
  "ship_render_run [] s = Some s"
| "ship_render_run (c # cs) s = (case ship_render_step c s of None \<Rightarrow> None | Some s' \<Rightarrow> ship_render_run cs s')"

section \<open>Specifications and concrete stores\<close>

text \<open>What an upload of a buffer's dirty halves should leave on the GPU: the store's
  value at each point of a dirty half, the old GPU value elsewhere.\<close>

definition dirty_merge :: "bool \<Rightarrow> bool \<Rightarrow> nat \<Rightarrow> 'a list \<Rightarrow> 'a list \<Rightarrow> 'a list" where
  "dirty_merge ship_dirty eph_dirty ship store gpu =
     map (\<lambda>i. if (ship_dirty \<and> i < ship) \<or> (eph_dirty \<and> ship \<le> i) then store ! i else gpu ! i) [0..<length gpu]"

text \<open>A call on a range of a point buffer fits a ship of \<open>n\<close> points when the range
  lies inside the points and the data read is as long as the range.\<close>

definition call_in_range :: "nat \<Rightarrow> ship_render_call \<Rightarrow> bool" where
  "call_in_range n c =
     (case c of
        UploadPointColors xs start cnt \<Rightarrow> start + cnt \<le> n \<and> length xs = cnt
      | UploadPointMutableAttributesPlaneId xs start cnt \<Rightarrow> start + cnt \<le> n \<and> length xs = cnt
      | UploadPointMutableAttributesDecay xs start cnt \<Rightarrow> start + cnt \<le> n \<and> length xs = cnt
      | UploadPointTemperature xs start cnt \<Rightarrow> start + cnt \<le> n \<and> length xs = cnt
      | _ \<Rightarrow> True)"

definition example_render_points :: points where
  "example_render_points =
     empty_points\<lparr>ship_point_count := 1, all_point_count := 2,
       color_buf := [(1, 0, 0, 1), (0, 0, 1, 1)], plane_id_float_buf := [0, 1],
       decay_buf := [1, 1], temperature_buf := [300, 300], texture_coordinates_buf := [(0, 0), (1, 1)],
       is_plane_id_buffer_ephemeral_dirty := True\<rparr>"

definition example_upload_flags :: upload_flags where
  "example_upload_flags =
     \<lparr>is_texture_coordinates_buffer_dirty = True, is_whole_color_buffer_dirty = False,
      is_plane_id_buffer_non_ephemeral_dirty = True, is_decay_buffer_dirty = False\<rparr>"

definition example_render_settings :: render_settings where
  "example_render_settings =
     \<lparr>rs_draw_heat_overlay = False, rs_debug_ship_render_mode = DebugShipRenderNone,
      rs_ship_flame_render_mode = ShipFlameDraw, rs_vector_field_render_mode = VectorFieldNone\<rparr>"

definition example_ship_render_context :: ship_render_context where
  "example_ship_render_context =
     \<lparr>src_point_count = 2, src_max_max_plane_id = 0, src_point_texture_coordinates = [],
      src_point_colors = replicate 2 (0, 0, 0, 0), src_point_plane_ids = [7, 7],
      src_point_decay = [], src_point_temperature = [], src_point_element_buffer = [],
      src_spring_element_buffer = [], src_rope_element_buffer = [], src_stressed_spring_element_buffer = [],
      src_triangle_element_buffer = [], src_ephemeral_point_element_buffer = [], src_flames = [],
      src_generic_texture_plane_buffers = [[]], src_air_bubbles = [], src_vector_arrow_vertex_buffer = [],
      src_vector_arrow_color = (0, 0, 0, 0), src_view_model_updates = 0\<rparr>"

definition example_debris_points :: points where
  "example_debris_points =
     example_render_points\<lparr>ephemeral_type_buf := [EphemeralNone, Debris], are_ephemeral_points_dirty := True\<rparr>"

section \<open>Sequences of calls\<close>

lemma ship_render_run_append:
  "ship_render_run (xs @ ys) s = (case ship_render_run xs s of None \<Rightarrow> None | Some s' \<Rightarrow> ship_render_run ys s')"
  by (induction xs arbitrary: s) (auto split: option.split)

lemma write_range_slice:
  assumes "length gpu = n" "n \<le> length buf" "start + cnt \<le> n"
  shows "write_range start (take cnt (slice start cnt buf)) gpu
           = map (\<lambda>i. if start \<le> i \<and> i < start + cnt then buf ! i else gpu ! i) [0..<n]"
  using assms
  by (intro nth_equalityI) (auto simp: write_range_def slice_def nth_append min_def)

lemma dirty_merge_cases:
  assumes "length gpu = n" "n \<le> length buf" "ship \<le> n"
  shows "dirty_merge True True ship buf gpu = write_range 0 (take n (slice 0 n buf)) gpu"
    "dirty_merge True False ship buf gpu = write_range 0 (take ship (slice 0 ship buf)) gpu"
    "dirty_merge False True ship buf gpu = write_range ship (take (n - ship) (slice ship (n - ship) buf)) gpu"
    "dirty_merge False False ship buf gpu = gpu"
  using assms
  by (simp_all add: write_range_slice dirty_merge_def) (auto intro: nth_equalityI)

text \<open>C18: Points::UploadAttributes followed by the render context's handling of its calls refines the abstract upload: the ship's GPU colours and plane ids become the store's values on exactly the dirty halves of each buffer (all colours when the whole colour buffer is dirty, the ephemeral colours otherwise) and keep their old values elsewhere, no range assertion fails, and every dirty flag is cleared.\<close>

lemma upload_attributes_refines:
  assumes "src_point_count s = all_point_count p" "ship_point_count p \<le> all_point_count p"
    and "length (src_point_colors s) = all_point_count p" "length (src_point_plane_ids s) = all_point_count p"
    and "all_point_count p \<le> length (color_buf p)" "all_point_count p \<le> length (plane_id_float_buf p)"
  shows "\<exists>s'. ship_render_run (snd (upload_attributes rs (f, p))) s = Some s'
     \<and> src_point_colors s' = dirty_merge (is_whole_color_buffer_dirty f) True (ship_point_count p)
                               (color_buf p) (src_point_colors s)
     \<and> src_point_plane_ids s' = dirty_merge (is_plane_id_buffer_non_ephemeral_dirty f)
                                  (is_plane_id_buffer_ephemeral_dirty p) (ship_point_count p)
                                  (plane_id_float_buf p) (src_point_plane_ids s)
     \<and> fst (upload_attributes rs (f, p))
         = (f\<lparr>is_texture_coordinates_buffer_dirty := False, is_whole_color_buffer_dirty := False,
              is_plane_id_buffer_non_ephemeral_dirty := False, is_decay_buffer_dirty := False\<rparr>,
            p\<lparr>is_plane_id_buffer_ephemeral_dirty := False\<rparr>)"
  using assms
  by (cases "is_whole_color_buffer_dirty f"; cases "is_plane_id_buffer_non_ephemeral_dirty f";
      cases "is_plane_id_buffer_ephemeral_dirty p")
     (simp_all add: upload_attributes_def upload_plane_ids_def Let_def ship_render_run_append
        ship_render_step_def upload_point_colors_def upload_point_plane_ids_def dirty_merge_cases
        ephemeral_point_count_def upload_point_immutable_attributes_def)

text \<open>C21: Every buffer call that Points::UploadAttributes makes for a store of mAllPointCount points is well typed for a ship render context of that many points: its range lies inside the points and the data it reads has the length of the range.\<close>

lemma upload_attributes_calls_in_range:
  assumes "ship_point_count p \<le> all_point_count p"
    and "all_point_count p \<le> length (color_buf p)" "all_point_count p \<le> length (plane_id_float_buf p)"
    and "all_point_count p \<le> length (decay_buf p)" "all_point_count p \<le> length (temperature_buf p)"
  shows "list_all (call_in_range (all_point_count p)) (snd (upload_attributes rs (f, p)))"
  using assms
  by (cases "is_plane_id_buffer_non_ephemeral_dirty f"; cases "is_plane_id_buffer_ephemeral_dirty p")
     (simp_all add: upload_attributes_def upload_plane_ids_def Let_def call_in_range_def slice_def
        ephemeral_point_count_def)



lemma upload_ephemeral_particle_run:
  assumes "ephemeral_type_buf p ! i = Sparkle \<longrightarrow> plane_id_buf p ! i < length (src_generic_texture_plane_buffers s)"
  shows "\<exists>s'. ship_render_run (upload_ephemeral_particle True p i) s = Some s'
           \<and> src_ephemeral_point_element_buffer s'
               = src_ephemeral_point_element_buffer s @ (if ephemeral_type_buf p ! i = Debris then [i] else [])
           \<and> length (src_generic_texture_plane_buffers s') = length (src_generic_texture_plane_buffers s)"
  using assms
  by (cases "ephemeral_type_buf p ! i"; cases "ephemeral_state_buf p ! i")
     (simp_all add: upload_ephemeral_particle_def ship_render_step_def)

lemma upload_ephemeral_particles_run:
  assumes "\<forall>i \<in> set xs. ephemeral_type_buf p ! i = Sparkle \<longrightarrow> plane_id_buf p ! i < length (src_generic_texture_plane_buffers s)"
  shows "\<exists>s'. ship_render_run (concat (map (upload_ephemeral_particle True p) xs)) s = Some s'
           \<and> src_ephemeral_point_element_buffer s'
               = src_ephemeral_point_element_buffer s @ filter (\<lambda>i. ephemeral_type_buf p ! i = Debris) xs
           \<and> length (src_generic_texture_plane_buffers s') = length (src_generic_texture_plane_buffers s)"
  using assms
proof (induction xs arbitrary: s)
  case (Cons i xs)
  obtain s1 where r1: "ship_render_run (upload_ephemeral_particle True p i) s = Some s1"
    and e1: "src_ephemeral_point_element_buffer s1
               = src_ephemeral_point_element_buffer s @ (if ephemeral_type_buf p ! i = Debris then [i] else [])"
    and l1: "length (src_generic_texture_plane_buffers s1) = length (src_generic_texture_plane_buffers s)"
    using upload_ephemeral_particle_run [of p i s] Cons.prems by auto
  obtain s2 where r2: "ship_render_run (concat (map (upload_ephemeral_particle True p) xs)) s1 = Some s2"
    and e2: "src_ephemeral_point_element_buffer s2
               = src_ephemeral_point_element_buffer s1 @ filter (\<lambda>i. ephemeral_type_buf p ! i = Debris) xs"
    and l2: "length (src_generic_texture_plane_buffers s2) = length (src_generic_texture_plane_buffers s1)"
    using Cons.IH [of s1] Cons.prems l1 by auto
  show ?case
    using r1 r2 e1 e2 l1 l2 by (simp add: ship_render_run_append)
qed simp

text \<open>When the ephemeral points are dirty, Points::UploadEphemeralParticles rebuilds the ship's ephemeral point element buffer from scratch with exactly the debris particles of the ephemeral region, in index order, and clears the dirty flag.\<close>

lemma upload_ephemeral_particles_debris:
  assumes "are_ephemeral_points_dirty p"
    and "\<forall>i \<in> set (ephemeral_points p). ephemeral_type_buf p ! i = Sparkle
            \<longrightarrow> plane_id_buf p ! i < length (src_generic_texture_plane_buffers s)"
  shows "\<exists>s'. ship_render_run (snd (upload_ephemeral_particles p)) s = Some s'
           \<and> src_ephemeral_point_element_buffer s'
               = filter (\<lambda>i. ephemeral_type_buf p ! i = Debris) (ephemeral_points p)
           \<and> \<not> are_ephemeral_points_dirty (fst (upload_ephemeral_particles p))"
proof -
  let ?s0 = "upload_element_ephemeral_points_start s"
  obtain s' where r: "ship_render_run (concat (map (upload_ephemeral_particle True p) (ephemeral_points p))) ?s0 = Some s'"
    and e: "src_ephemeral_point_element_buffer s' = filter (\<lambda>i. ephemeral_type_buf p ! i = Debris) (ephemeral_points p)"
    using upload_ephemeral_particles_run [of "ephemeral_points p" p ?s0] assms(2)
    by (auto simp: upload_element_ephemeral_points_start_def)
  show ?thesis
    using assms(1) r e
    by (simp add: upload_ephemeral_particles_def Let_def ship_render_run_append ship_render_step_def)
qed

section \<open>Witnesses\<close>

lemma upload_attributes_refines_witness:
  "src_point_count example_ship_render_context = all_point_count example_render_points
   \<and> ship_point_count example_render_points \<le> all_point_count example_render_points
   \<and> (\<exists>s'. ship_render_run (snd (upload_attributes example_render_settings (example_upload_flags, example_render_points)))
              example_ship_render_context = Some s'
          \<and> src_point_colors s' = [(0, 0, 0, 0), (0, 0, 1, 1)] \<and> src_point_plane_ids s' = [0, 1])"
proof -
  have h: "src_point_count example_ship_render_context = all_point_count example_render_points"
    "ship_point_count example_render_points \<le> all_point_count example_render_points"
    "length (src_point_colors example_ship_render_context) = all_point_count example_render_points"
    "length (src_point_plane_ids example_ship_render_context) = all_point_count example_render_points"
    "all_point_count example_render_points \<le> length (color_buf example_render_points)"
    "all_point_count example_render_points \<le> length (plane_id_float_buf example_render_points)"
    by (simp_all add: example_ship_render_context_def example_render_points_def empty_points_def)
  have m: "dirty_merge (is_whole_color_buffer_dirty example_upload_flags) True (ship_point_count example_render_points)
             (color_buf example_render_points) (src_point_colors example_ship_render_context)
           = [(0, 0, 0, 0), (0, 0, 1, 1)]"
    "dirty_merge (is_plane_id_buffer_non_ephemeral_dirty example_upload_flags)
       (is_plane_id_buffer_ephemeral_dirty example_render_points) (ship_point_count example_render_points)
       (plane_id_float_buf example_render_points) (src_point_plane_ids example_ship_render_context) = [0, 1]"
    by (simp_all add: dirty_merge_def example_upload_flags_def example_render_points_def empty_points_def
                      example_ship_render_context_def upt_rec)
  show ?thesis
    using upload_attributes_refines [OF h, of example_render_settings example_upload_flags] h m by auto
qed

lemma upload_attributes_calls_in_range_witness:
  "ship_point_count example_render_points \<le> all_point_count example_render_points
   \<and> list_all (call_in_range (all_point_count example_render_points))
       (snd (upload_attributes example_render_settings (example_upload_flags, example_render_points)))"
proof -
  have h: "ship_point_count example_render_points \<le> all_point_count example_render_points"
    "all_point_count example_render_points \<le> length (color_buf example_render_points)"
    "all_point_count example_render_points \<le> length (plane_id_float_buf example_render_points)"
    "all_point_count example_render_points \<le> length (decay_buf example_render_points)"
    "all_point_count example_render_points \<le> length (temperature_buf example_render_points)"
    by (simp_all add: example_render_points_def empty_points_def)
  show ?thesis
    using upload_attributes_calls_in_range [OF h] h(1) by simp
qed


lemma upload_ephemeral_particles_debris_witness:
  "are_ephemeral_points_dirty example_debris_points
   \<and> (\<exists>s'. ship_render_run (snd (upload_ephemeral_particles example_debris_points)) example_ship_render_context
              = Some s' \<and> src_ephemeral_point_element_buffer s' = [1])"
proof -
  have h: "are_ephemeral_points_dirty example_debris_points"
    "\<forall>i \<in> set (ephemeral_points example_debris_points). ephemeral_type_buf example_debris_points ! i = Sparkle
        \<longrightarrow> plane_id_buf example_debris_points ! i
              < length (src_generic_texture_plane_buffers example_ship_render_context)"
    "filter (\<lambda>i. ephemeral_type_buf example_debris_points ! i = Debris) (ephemeral_points example_debris_points) = [1]"
    by (simp_all add: example_debris_points_def example_render_points_def empty_points_def ephemeral_points_def
                      upt_rec)
  show ?thesis
    using upload_ephemeral_particles_debris [OF h(1) h(2)] h by auto
qed

end
