(* ===== verification/RenderSettings.thy ===== *)
theory RenderSettings
  imports SceneRender ShipRender "HOL-Library.Word"
begin

text \<open>
  The settings of the render context and how they reach the ships: the getters and
  setters of \<^verbatim>\<open>src/Game/RenderContext.h\<close>, the \<^verbatim>\<open>On*Updated\<close> handlers of
  \<^verbatim>\<open>src/Game/RenderContext.cpp\<close> that push a setting into the shader programs and into
  every ship render context, \<^verbatim>\<open>UpdateWorldBorder\<close>, \<^verbatim>\<open>CalculateWaterColor\<close>, the
  settings part of \<^verbatim>\<open>AddShip\<close> and of the constructor, and the handlers of
  \<^verbatim>\<open>src/Game/ShipRenderContext.cpp\<close> that set a ship's parameters in the shader
  programs.  The shader manager, which the render context and every ship share, is an
  explicit store from (program, parameter) to the value last set; the OpenGL texture
  objects are the list of texture frames loaded.  \<^verbatim>\<open>rgbColor\<close> keeps its three
  bytes as \<^typ>\<open>8 word\<close>s.
\<close>

section \<open>Colours, view model and shader parameters\<close>

type_synonym rgb_color = "8 word \<times> 8 word \<times> 8 word"

text \<open>\<^verbatim>\<open>rgbColor::toVec3f\<close> and \<^verbatim>\<open>toVec4f\<close> (\<^verbatim>\<open>GameCore/Colors.h\<close>): each byte over 255.\<close>

definition to_vec3f :: "rgb_color \<Rightarrow> real \<times> real \<times> real" where
  "to_vec3f c = (case c of (r, g, b) \<Rightarrow> (real (unat r) / 255, real (unat g) / 255, real (unat b) / 255))"

definition to_vec4f :: "rgb_color \<Rightarrow> real \<Rightarrow> vec4" where
  "to_vec4f c a = (case to_vec3f c of (r, g, b) \<Rightarrow> (r, g, b, a))"

datatype land_render_mode = LandRenderTexture | LandRenderFlat

datatype ship_render_mode = ShipRenderTexture | ShipRenderStructure

datatype program_parameter = ParamOrthoMatrix | ParamViewportSize | ParamStarTransparency
  | ParamEffectiveAmbientLightIntensity | ParamAmbientLightIntensity | ParamRainDensity
  | ParamOceanTransparency | ParamOceanDarkeningRate | ParamOceanDepthColorStart
  | ParamOceanDepthColorEnd | ParamOceanFlatColor | ParamLandFlatColor | ParamWaterContrast
  | ParamWaterLevelThreshold | ParamTextureScaling

text \<open>The uniforms of the shared \<^verbatim>\<open>ShaderManager\<close>: the value last set for a
  parameter of a program.  Every \<^verbatim>\<open>SetProgramParameter\<close> of the sources follows the
  \<^verbatim>\<open>ActivateProgram\<close> of the same program, so the active program is not kept.\<close>

type_synonym shader_state = "program_type \<times> program_parameter \<Rightarrow> real list option"

definition set_program_parameter ::
  "program_type \<Rightarrow> program_parameter \<Rightarrow> real list \<Rightarrow> shader_state \<Rightarrow> shader_state" where
  "set_program_parameter p k v sm = sm((p, k) \<mapsto> v)"

definition set_parameter_in_programs ::
  "program_type list \<Rightarrow> program_parameter \<Rightarrow> real list \<Rightarrow> shader_state \<Rightarrow> shader_state" where
  "set_parameter_in_programs ps k v sm = fold (\<lambda>p. set_program_parameter p k v) ps sm"

text \<open>The part of \<^verbatim>\<open>ViewModel\<close> (outside \<^verbatim>\<open>src/\<close>) the handlers read: the
  orthographic matrix it computes, the canvas size and the visible world.\<close>

record view_model =
  vm_global_ortho_matrix :: "real list"
  vm_canvas_width :: int
  vm_canvas_height :: int
  vm_visible_world_top_left :: vec2
  vm_visible_world_bottom_right :: vec2

definition pixel_width_to_world_width :: "view_model \<Rightarrow> real \<Rightarrow> real" where
  "pixel_width_to_world_width vm w =
     w * (fst (vm_visible_world_bottom_right vm) - fst (vm_visible_world_top_left vm))
       / real_of_int (vm_canvas_width vm)"

definition pixel_height_to_world_height :: "view_model \<Rightarrow> real \<Rightarrow> real" where
  "pixel_height_to_world_height vm h =
     h * (snd (vm_visible_world_top_left vm) - snd (vm_visible_world_bottom_right vm))
       / real_of_int (vm_canvas_height vm)"

section \<open>The ship render context's parameters\<close>

text \<open>The parameters of a \<^verbatim>\<open>ShipRenderContext\<close> that the render context forwards,
  with the number of times its orthographic matrices were recomputed.\<close>

record ship_settings =
  sh_ship_id :: nat
  sh_ship_count :: nat
  sh_ambient_light_intensity :: real
  sh_water_color :: vec4
  sh_water_contrast :: real
  sh_water_level_of_detail :: real
  sh_ship_render_mode :: ship_render_mode
  sh_debug_ship_render_mode :: debug_ship_render_mode
  sh_vector_field_render_mode :: vector_field_render_mode
  sh_show_stressed_springs :: bool
  sh_draw_heat_overlay :: bool
  sh_heat_overlay_transparency :: real
  sh_ship_flame_render_mode :: ship_flame_render_mode
  sh_ship_flame_size_adjustment :: real
  sh_ortho_matrix_updates :: nat

definition ship_light_programs :: "program_type list" where
  "ship_light_programs = [ProgramShipRopes, ProgramShipSpringsColor, ProgramShipSpringsTexture,
     ProgramShipTrianglesColor, ProgramShipTrianglesTexture, ProgramShipPointsColor,
     ProgramShipGenericTextures, ProgramShipVectors]"

definition ship_water_programs :: "program_type list" where
  "ship_water_programs = [ProgramShipRopes, ProgramShipSpringsColor, ProgramShipSpringsTexture,
     ProgramShipTrianglesColor, ProgramShipTrianglesTexture, ProgramShipPointsColor]"

definition ship_on_ambient_light_intensity_updated :: "ship_settings \<Rightarrow> shader_state \<Rightarrow> shader_state" where
  "ship_on_ambient_light_intensity_updated s sm =
     set_parameter_in_programs ship_light_programs ParamAmbientLightIntensity
       [sh_ambient_light_intensity s] sm"

definition ship_on_water_contrast_updated :: "ship_settings \<Rightarrow> shader_state \<Rightarrow> shader_state" where
  "ship_on_water_contrast_updated s sm =
     set_parameter_in_programs ship_water_programs ParamWaterContrast [sh_water_contrast s] sm"

text \<open>\<^verbatim>\<open>OnWaterLevelOfDetailUpdated\<close> maps the level of detail 0 to 1 onto the
  threshold 2.0 to 0.01.\<close>

definition water_level_threshold :: "real \<Rightarrow> real" where
  "water_level_threshold lod = 2 + lod * (-2 + 0.01)"

definition ship_on_water_level_of_detail_updated :: "ship_settings \<Rightarrow> shader_state \<Rightarrow> shader_state" where
  "ship_on_water_level_of_detail_updated s sm =
     set_parameter_in_programs ship_water_programs ParamWaterLevelThreshold
       [water_level_threshold (sh_water_level_of_detail s)] sm"

text \<open>The setters of \<^verbatim>\<open>ShipRenderContext.h\<close> (outside \<^verbatim>\<open>src/\<close>): each stores the
  value and runs the handler of \<^verbatim>\<open>ShipRenderContext.cpp\<close> for it, where there is one;
  \<^verbatim>\<open>SetShipCount\<close> and \<^verbatim>\<open>OnViewModelUpdated\<close> recompute the orthographic matrices.\<close>

type_synonym ship_setter = "ship_settings \<Rightarrow> shader_state \<Rightarrow> ship_settings \<times> shader_state"

definition ship_set_effective_ambient_light_intensity :: "real \<Rightarrow> ship_setter" where
  "ship_set_effective_ambient_light_intensity v s sm =
     (let s' = s\<lparr>sh_ambient_light_intensity := v\<rparr> in (s', ship_on_ambient_light_intensity_updated s' sm))"

definition ship_set_water_contrast :: "real \<Rightarrow> ship_setter" where
  "ship_set_water_contrast v s sm =
     (let s' = s\<lparr>sh_water_contrast := v\<rparr> in (s', ship_on_water_contrast_updated s' sm))"

definition ship_set_water_level_threshold :: "real \<Rightarrow> ship_setter" where
  "ship_set_water_level_threshold v s sm =
     (let s' = s\<lparr>sh_water_level_of_detail := v\<rparr> in (s', ship_on_water_level_of_detail_updated s' sm))"

definition ship_set_field :: "(ship_settings \<Rightarrow> ship_settings) \<Rightarrow> ship_setter" where
  "ship_set_field f s sm = (f s, sm)"

definition ship_on_view_model_updated :: ship_setter where
  "ship_on_view_model_updated s sm = (s\<lparr>sh_ortho_matrix_updates := Suc (sh_ortho_matrix_updates s)\<rparr>, sm)"

definition ship_set_ship_count :: "nat \<Rightarrow> ship_setter" where
  "ship_set_ship_count n s sm =
     (s\<lparr>sh_ship_count := n, sh_ortho_matrix_updates := Suc (sh_ortho_matrix_updates s)\<rparr>, sm)"

text \<open>\<^verbatim>\<open>for (auto & s : mShips) s->Set...(...)\<close>: the ships in order, each one
  working on the shader state the previous one left.\<close>

primrec for_each_ship :: "ship_setter \<Rightarrow> ship_settings list \<Rightarrow> shader_state \<Rightarrow> ship_settings list \<times> shader_state" where
  "for_each_ship f [] sm = ([], sm)"
| "for_each_ship f (s # ss) sm =
     (case f s sm of (s', sm') \<Rightarrow> (case for_each_ship f ss sm' of (ss', sm'') \<Rightarrow> (s' # ss', sm'')))"

text \<open>The \<^verbatim>\<open>ShipRenderContext\<close> constructor as \<^verbatim>\<open>AddShip\<close> calls it: the
  parameters it is given, then \<^verbatim>\<open>OnViewModelUpdated\<close>,
  \<^verbatim>\<open>OnAmbientLightIntensityUpdated\<close>, \<^verbatim>\<open>OnWaterContrastUpdated\<close> and
  \<^verbatim>\<open>OnWaterLevelOfDetailUpdated\<close>.\<close>

definition ship_settings_create ::
  "nat \<Rightarrow> nat \<Rightarrow> real \<Rightarrow> vec4 \<Rightarrow> real \<Rightarrow> real \<Rightarrow> ship_render_mode \<Rightarrow> debug_ship_render_mode
   \<Rightarrow> vector_field_render_mode \<Rightarrow> bool \<Rightarrow> bool \<Rightarrow> real \<Rightarrow> ship_flame_render_mode \<Rightarrow> real
   \<Rightarrow> shader_state \<Rightarrow> ship_settings \<times> shader_state" where
  "ship_settings_create ship_id ship_count ambient water_color contrast lod srm dsrm vfrm stressed
     heat heat_transparency flame flame_size sm =
     (let s = \<lparr>sh_ship_id = ship_id, sh_ship_count = ship_count, sh_ambient_light_intensity = ambient,
               sh_water_color = water_color, sh_water_contrast = contrast,
               sh_water_level_of_detail = lod, sh_ship_render_mode = srm,
               sh_debug_ship_render_mode = dsrm, sh_vector_field_render_mode = vfrm,
               sh_show_stressed_springs = stressed, sh_draw_heat_overlay = heat,
               sh_heat_overlay_transparency = heat_transparency, sh_ship_flame_render_mode = flame,
               sh_ship_flame_size_adjustment = flame_size, sh_ortho_matrix_updates = 1\<rparr>
      in (s, ship_on_water_level_of_detail_updated s
               (ship_on_water_contrast_updated s (ship_on_ambient_light_intensity_updated s sm))))"

section \<open>The render context's settings\<close>

record settings_context =
  sc_view_model :: view_model
  sc_flat_sky_color :: rgb_color
  sc_ambient_light_intensity :: real
  sc_storm_ambient_darkening :: real
  sc_rain_density :: real
  sc_effective_ambient_light_intensity :: real
  sc_ocean_transparency :: real
  sc_ocean_darkening_rate :: real
  sc_show_ship_through_ocean :: bool
  sc_ocean_render_mode :: ocean_render_mode
  sc_ocean_texture_frames :: "frame_metadata list"
  sc_selected_ocean_texture_index :: nat
  sc_loaded_ocean_texture_index :: nat
  sc_depth_ocean_color_start :: rgb_color
  sc_depth_ocean_color_end :: rgb_color
  sc_flat_ocean_color :: rgb_color
  sc_land_render_mode :: land_render_mode
  sc_land_texture_frames :: "frame_metadata list"
  sc_selected_land_texture_index :: nat
  sc_loaded_land_texture_index :: nat
  sc_flat_land_color :: rgb_color
  sc_water_contrast :: real
  sc_water_level_of_detail :: real
  sc_ship_render_mode :: ship_render_mode
  sc_debug_ship_render_mode :: debug_ship_render_mode
  sc_vector_field_render_mode :: vector_field_render_mode
  sc_vector_field_length_multiplier :: real
  sc_show_stressed_springs :: bool
  sc_draw_heat_overlay :: bool
  sc_heat_overlay_transparency :: real
  sc_ship_flame_render_mode :: ship_flame_render_mode
  sc_ship_flame_size_adjustment :: real
  sc_ships :: "ship_settings list"
  sc_shader :: shader_state
  sc_texture_loads :: "(program_type \<times> nat) list"
  sc_text_canvas_size :: "int \<times> int"
  sc_text_effective_ambient_light_intensity :: real
  sc_world_border_texture_size :: "nat \<times> nat"
  sc_max_world_width :: real
  sc_max_world_height :: real
  sc_world_border_vertex_buffer :: "(real \<times> real \<times> real \<times> real) list"
  sc_is_world_border_visible :: bool

text \<open>\<^verbatim>\<open>CalculateWaterColor\<close>: the colour the ships draw water with.\<close>

definition water_color :: "ocean_render_mode \<Rightarrow> rgb_color \<Rightarrow> rgb_color \<Rightarrow> rgb_color \<Rightarrow> vec4" where
  "water_color mode depth_start depth_end flat =
     (case mode of
        OceanRenderDepth \<Rightarrow>
          (case (to_vec4f depth_start 1, to_vec4f depth_end 1) of
             ((r1, g1, b1, a1), (r2, g2, b2, a2)) \<Rightarrow> ((r1 + r2) / 2, (g1 + g2) / 2, (b1 + b2) / 2, (a1 + a2) / 2))
      | OceanRenderFlat \<Rightarrow> to_vec4f flat 1
      | OceanRenderTexture \<Rightarrow> (0, 0, 0.8, 1))"

definition calculate_water_color :: "settings_context \<Rightarrow> vec4" where
  "calculate_water_color c =
     water_color (sc_ocean_render_mode c) (sc_depth_ocean_color_start c) (sc_depth_ocean_color_end c)
       (sc_flat_ocean_color c)"

text \<open>Apply a ship setter to every ship, on the shared shader state.\<close>

definition update_ships :: "ship_setter \<Rightarrow> settings_context \<Rightarrow> settings_context" where
  "update_ships f c =
     (case for_each_ship f (sc_ships c) (sc_shader c) of
        (ss, sm) \<Rightarrow> c\<lparr>sc_ships := ss, sc_shader := sm\<rparr>)"

definition set_shader :: "program_type list \<Rightarrow> program_parameter \<Rightarrow> real list \<Rightarrow> settings_context \<Rightarrow> settings_context" where
  "set_shader ps k v c = c\<lparr>sc_shader := set_parameter_in_programs ps k v (sc_shader c)\<rparr>"

definition vec3_list :: "real \<times> real \<times> real \<Rightarrow> real list" where
  "vec3_list v = (case v of (x, y, z) \<Rightarrow> [x, y, z])"

section \<open>The world border\<close>

text \<open>\<^verbatim>\<open>MakeQuad\<close>: two triangles of \<^verbatim>\<open>(x, y, tx, ty)\<close> vertices.\<close>

definition make_quad :: "real \<Rightarrow> real \<Rightarrow> real \<Rightarrow> real \<Rightarrow> real \<Rightarrow> real \<Rightarrow> real \<Rightarrow> real
  \<Rightarrow> (real \<times> real \<times> real \<times> real) list \<Rightarrow> (real \<times> real \<times> real \<times> real) list" where
  "make_quad x1 y1 tx1 ty1 x2 y2 tx2 ty2 buf =
     buf @ [(x1, y1, tx1, ty1), (x1, y2, tx1, ty2), (x2, y1, tx2, ty1),
            (x1, y2, tx1, ty2), (x2, y1, tx2, ty1), (x2, y2, tx2, ty2)]"

text \<open>\<^verbatim>\<open>UpdateWorldBorder\<close>: a strip of half the texture's pixel size along each
  side of the world that reaches into the visible world.\<close>

definition update_world_border :: "settings_context \<Rightarrow> settings_context" where
  "update_world_border c =
     (let vm = sc_view_model c;
          tw = real (fst (sc_world_border_texture_size c));
          th = real (snd (sc_world_border_texture_size c));
          ww = pixel_width_to_world_width vm tw / 2;
          wh = pixel_height_to_world_height vm th / 2;
          tsw = sc_max_world_width c / ww - 1 / tw;
          tsh = sc_max_world_height c / wh - 1 / th;
          hw = sc_max_world_width c / 2;
          hh = sc_max_world_height c / 2;
          b1 = (if - hw + ww \<ge> fst (vm_visible_world_top_left vm)
                then make_quad (- hw) hh 0 tsh (- hw + ww) (- hh) 1 0 [] else []);
          b2 = (if hw - ww \<le> fst (vm_visible_world_bottom_right vm)
                then make_quad (hw - ww) hh 0 tsh hw (- hh) 1 0 b1 else b1);
          b3 = (if hh - wh \<le> snd (vm_visible_world_top_left vm)
                then make_quad (- hw) hh 0 1 hw (hh - wh) tsw 0 b2 else b2);
          b4 = (if - hh + wh \<ge> snd (vm_visible_world_bottom_right vm)
                then make_quad (- hw) (- hh + wh) 0 1 hw (- hh) tsw 0 b3 else b3)
      in c\<lparr>sc_world_border_vertex_buffer := b4, sc_is_world_border_visible := (b4 \<noteq> [])\<rparr>)"

section \<open>The handlers\<close>

definition on_view_model_updated :: "settings_context \<Rightarrow> settings_context" where
  "on_view_model_updated c =
     (let vm = sc_view_model c in
      update_world_border
       (update_ships ship_on_view_model_updated
         (set_shader [ProgramCrossOfLight] ParamViewportSize
            [real_of_int (vm_canvas_width vm), real_of_int (vm_canvas_height vm)]
           (set_shader [ProgramLandFlat, ProgramLandTexture, ProgramOceanDepth, ProgramOceanFlat,
                        ProgramOceanTexture, ProgramCrossOfLight, ProgramHeatBlasterFlameCool,
                        ProgramHeatBlasterFlameHeat, ProgramFireExtinguisherSpray, ProgramWorldBorder]
              ParamOrthoMatrix (vm_global_ortho_matrix vm) c))))"

definition star_transparency :: "real \<Rightarrow> real" where
  "star_transparency e = max 0 (1 - e) ^ 3"

definition on_effective_ambient_light_intensity_updated :: "settings_context \<Rightarrow> settings_context" where
  "on_effective_ambient_light_intensity_updated c =
     (let e = sc_ambient_light_intensity c * sc_storm_ambient_darkening c;
          c1 = c\<lparr>sc_effective_ambient_light_intensity := e\<rparr>;
          c2 = set_shader [ProgramStars] ParamStarTransparency [star_transparency e] c1;
          c3 = set_shader [ProgramClouds, ProgramLightning, ProgramLandFlat, ProgramLandTexture,
                           ProgramOceanDepth, ProgramOceanFlat, ProgramOceanTexture, ProgramRain,
                           ProgramWorldBorder] ParamEffectiveAmbientLightIntensity [e] c2;
          c4 = update_ships (ship_set_effective_ambient_light_intensity e) c3
      in c4\<lparr>sc_text_effective_ambient_light_intensity := e\<rparr>)"

definition on_rain_density_updated :: "settings_context \<Rightarrow> settings_context" where
  "on_rain_density_updated c = set_shader [ProgramRain] ParamRainDensity [sc_rain_density c] c"

definition on_ocean_transparency_updated :: "settings_context \<Rightarrow> settings_context" where
  "on_ocean_transparency_updated c =
     set_shader [ProgramOceanDepth, ProgramOceanFlat, ProgramOceanTexture] ParamOceanTransparency
       [sc_ocean_transparency c] c"

definition on_ocean_darkening_rate_updated :: "settings_context \<Rightarrow> settings_context" where
  "on_ocean_darkening_rate_updated c =
     set_shader [ProgramLandTexture, ProgramOceanDepth, ProgramOceanTexture] ParamOceanDarkeningRate
       [sc_ocean_darkening_rate c / 50] c"

definition on_ocean_render_parameters_updated :: "settings_context \<Rightarrow> settings_context" where
  "on_ocean_render_parameters_updated c =
     update_ships (ship_set_field (\<lambda>s. s\<lparr>sh_water_color := calculate_water_color c\<rparr>))
      (set_shader [ProgramOceanFlat] ParamOceanFlatColor (vec3_list (to_vec3f (sc_flat_ocean_color c)))
        (set_shader [ProgramOceanDepth] ParamOceanDepthColorEnd (vec3_list (to_vec3f (sc_depth_ocean_color_end c)))
          (set_shader [ProgramOceanDepth] ParamOceanDepthColorStart
             (vec3_list (to_vec3f (sc_depth_ocean_color_start c))) c)))"

text \<open>\<^verbatim>\<open>OnOceanTextureIndexUpdated\<close> and \<^verbatim>\<open>OnLandTextureIndexUpdated\<close>: when the
  selected index differs from the loaded one, clamp it to the last frame (in
  \<^verbatim>\<open>size_t\<close>: with no frames, \<^verbatim>\<open>size() - 1\<close> wraps to the largest value), load that
  frame and set the texture scaling.  Reading past the frames is \<open>None\<close>.\<close>

definition load_texture_index ::
  "program_type \<Rightarrow> frame_metadata list \<Rightarrow> nat \<Rightarrow> settings_context \<Rightarrow> (nat \<times> settings_context) option" where
  "load_texture_index p frames selected c =
     (let i = min selected (size_t_of_int (int (length frames) - 1)) in
      if i < length frames then
        Some (i, set_shader [p] ParamTextureScaling
                   [1 / fm_world_width (frames ! i), 1 / fm_world_height (frames ! i)]
                   (c\<lparr>sc_texture_loads := sc_texture_loads c @ [(p, i)]\<rparr>))
      else None)"

definition on_ocean_texture_index_updated :: "settings_context \<Rightarrow> settings_context option" where
  "on_ocean_texture_index_updated c =
     (if sc_selected_ocean_texture_index c \<noteq> sc_loaded_ocean_texture_index c then
        map_option (\<lambda>(i, c'). c'\<lparr>sc_loaded_ocean_texture_index := i\<rparr>)
          (load_texture_index ProgramOceanTexture (sc_ocean_texture_frames c)
             (sc_selected_ocean_texture_index c) c)
      else Some c)"

definition on_land_render_parameters_updated :: "settings_context \<Rightarrow> settings_context" where
  "on_land_render_parameters_updated c =
     set_shader [ProgramLandFlat] ParamLandFlatColor (vec3_list (to_vec3f (sc_flat_land_color c))) c"

definition on_land_texture_index_updated :: "settings_context \<Rightarrow> settings_context option" where
  "on_land_texture_index_updated c =
     (if sc_selected_land_texture_index c \<noteq> sc_loaded_land_texture_index c then
        map_option (\<lambda>(i, c'). c'\<lparr>sc_loaded_land_texture_index := i\<rparr>)
          (load_texture_index ProgramLandTexture (sc_land_texture_frames c)
             (sc_selected_land_texture_index c) c)
      else Some c)"

definition on_water_contrast_updated :: "settings_context \<Rightarrow> settings_context" where
  "on_water_contrast_updated c = update_ships (ship_set_water_contrast (sc_water_contrast c)) c"

definition on_water_level_of_detail_updated :: "settings_context \<Rightarrow> settings_context" where
  "on_water_level_of_detail_updated c =
     update_ships (ship_set_water_level_threshold (sc_water_level_of_detail c)) c"

definition on_ship_render_mode_updated :: "settings_context \<Rightarrow> settings_context" where
  "on_ship_render_mode_updated c =
     update_ships (ship_set_field (\<lambda>s. s\<lparr>sh_ship_render_mode := sc_ship_render_mode c\<rparr>)) c"

definition on_debug_ship_render_mode_updated :: "settings_context \<Rightarrow> settings_context" where
  "on_debug_ship_render_mode_updated c =
     update_ships (ship_set_field (\<lambda>s. s\<lparr>sh_debug_ship_render_mode := sc_debug_ship_render_mode c\<rparr>)) c"

definition on_vector_field_render_mode_updated :: "settings_context \<Rightarrow> settings_context" where
  "on_vector_field_render_mode_updated c =
     update_ships (ship_set_field (\<lambda>s. s\<lparr>sh_vector_field_render_mode := sc_vector_field_render_mode c\<rparr>)) c"

definition on_show_stressed_springs_updated :: "settings_context \<Rightarrow> settings_context" where
  "on_show_stressed_springs_updated c =
     update_ships (ship_set_field (\<lambda>s. s\<lparr>sh_show_stressed_springs := sc_show_stressed_springs c\<rparr>)) c"

definition on_draw_heat_overlay_updated :: "settings_context \<Rightarrow> settings_context" where
  "on_draw_heat_overlay_updated c =
     update_ships (ship_set_field (\<lambda>s. s\<lparr>sh_draw_heat_overlay := sc_draw_heat_overlay c\<rparr>)) c"

definition on_heat_overlay_transparency_updated :: "settings_context \<Rightarrow> settings_context" where
  "on_heat_overlay_transparency_updated c =
     update_ships (ship_set_field (\<lambda>s. s\<lparr>sh_heat_overlay_transparency := sc_heat_overlay_transparency c\<rparr>)) c"

definition on_ship_flame_render_mode_updated :: "settings_context \<Rightarrow> settings_context" where
  "on_ship_flame_render_mode_updated c =
     update_ships (ship_set_field (\<lambda>s. s\<lparr>sh_ship_flame_render_mode := sc_ship_flame_render_mode c\<rparr>)) c"

definition on_ship_flame_size_adjustment_updated :: "settings_context \<Rightarrow> settings_context" where
  "on_ship_flame_size_adjustment_updated c =
     update_ships (ship_set_field (\<lambda>s. s\<lparr>sh_ship_flame_size_adjustment := sc_ship_flame_size_adjustment c\<rparr>)) c"

section \<open>The setters\<close>

text \<open>\<^verbatim>\<open>SetZoom\<close>, \<^verbatim>\<open>SetCameraWorldPosition\<close>, \<^verbatim>\<open>SetPixelOffset\<close> and
  \<^verbatim>\<open>ResetPixelOffset\<close>: the view model's own update \<open>f\<close>, then
  \<^verbatim>\<open>OnViewModelUpdated\<close>; \<^verbatim>\<open>SetCanvasSize\<close> also tells the text context.\<close>

definition update_view_model :: "(view_model \<Rightarrow> view_model) \<Rightarrow> settings_context \<Rightarrow> settings_context" where
  "update_view_model f c = on_view_model_updated (c\<lparr>sc_view_model := f (sc_view_model c)\<rparr>)"

definition render_context_set_canvas_size :: "(view_model \<Rightarrow> view_model) \<Rightarrow> settings_context \<Rightarrow> settings_context" where
  "render_context_set_canvas_size f c =
     (let vm = f (sc_view_model c) in
      on_view_model_updated
        (c\<lparr>sc_view_model := vm, sc_text_canvas_size := (vm_canvas_width vm, vm_canvas_height vm)\<rparr>))"

definition set_flat_sky_color :: "rgb_color \<Rightarrow> settings_context \<Rightarrow> settings_context" where
  "set_flat_sky_color v c = c\<lparr>sc_flat_sky_color := v\<rparr>"

text \<open>\<^verbatim>\<open>SetAmbientLightIntensity\<close> calls \<^verbatim>\<open>OnAmbientLightIntensityUpdated\<close>,
  which \<^verbatim>\<open>RenderContext.cpp\<close> does not define; the handler it defines for the ambient
  light is \<^verbatim>\<open>OnEffectiveAmbientLightIntensityUpdated\<close>, which the model runs.\<close>

definition set_ambient_light_intensity :: "real \<Rightarrow> settings_context \<Rightarrow> settings_context" where
  "set_ambient_light_intensity v c =
     on_effective_ambient_light_intensity_updated (c\<lparr>sc_ambient_light_intensity := v\<rparr>)"

definition set_ocean_transparency :: "real \<Rightarrow> settings_context \<Rightarrow> settings_context" where
  "set_ocean_transparency v c = on_ocean_transparency_updated (c\<lparr>sc_ocean_transparency := v\<rparr>)"

definition set_ocean_darkening_rate :: "real \<Rightarrow> settings_context \<Rightarrow> settings_context" where
  "set_ocean_darkening_rate v c = on_ocean_darkening_rate_updated (c\<lparr>sc_ocean_darkening_rate := v\<rparr>)"

definition set_show_ship_through_ocean :: "bool \<Rightarrow> settings_context \<Rightarrow> settings_context" where
  "set_show_ship_through_ocean v c = c\<lparr>sc_show_ship_through_ocean := v\<rparr>"

definition set_ocean_render_mode :: "ocean_render_mode \<Rightarrow> settings_context \<Rightarrow> settings_context" where
  "set_ocean_render_mode v c = on_ocean_render_parameters_updated (c\<lparr>sc_ocean_render_mode := v\<rparr>)"

definition set_texture_ocean_texture_index :: "nat \<Rightarrow> settings_context \<Rightarrow> settings_context option" where
  "set_texture_ocean_texture_index v c =
     on_ocean_texture_index_updated (c\<lparr>sc_selected_ocean_texture_index := v\<rparr>)"

definition set_depth_ocean_color_start :: "rgb_color \<Rightarrow> settings_context \<Rightarrow> settings_context" where
  "set_depth_ocean_color_start v c = on_ocean_render_parameters_updated (c\<lparr>sc_depth_ocean_color_start := v\<rparr>)"

definition set_depth_ocean_color_end :: "rgb_color \<Rightarrow> settings_context \<Rightarrow> settings_context" where
  "set_depth_ocean_color_end v c = on_ocean_render_parameters_updated (c\<lparr>sc_depth_ocean_color_end := v\<rparr>)"

definition set_flat_ocean_color :: "rgb_color \<Rightarrow> settings_context \<Rightarrow> settings_context" where
  "set_flat_ocean_color v c = on_ocean_render_parameters_updated (c\<lparr>sc_flat_ocean_color := v\<rparr>)"

definition set_land_render_mode :: "land_render_mode \<Rightarrow> settings_context \<Rightarrow> settings_context" where
  "set_land_render_mode v c = on_land_render_parameters_updated (c\<lparr>sc_land_render_mode := v\<rparr>)"

definition set_texture_land_texture_index :: "nat \<Rightarrow> settings_context \<Rightarrow> settings_context option" where
  "set_texture_land_texture_index v c =
     on_land_texture_index_updated (c\<lparr>sc_selected_land_texture_index := v\<rparr>)"

definition set_flat_land_color :: "rgb_color \<Rightarrow> settings_context \<Rightarrow> settings_context" where
  "set_flat_land_color v c = on_land_render_parameters_updated (c\<lparr>sc_flat_land_color := v\<rparr>)"

definition set_water_contrast :: "real \<Rightarrow> settings_context \<Rightarrow> settings_context" where
  "set_water_contrast v c = on_water_contrast_updated (c\<lparr>sc_water_contrast := v\<rparr>)"

definition set_water_level_of_detail :: "real \<Rightarrow> settings_context \<Rightarrow> settings_context" where
  "set_water_level_of_detail v c = on_water_level_of_detail_updated (c\<lparr>sc_water_level_of_detail := v\<rparr>)"

definition set_ship_render_mode :: "ship_render_mode \<Rightarrow> settings_context \<Rightarrow> settings_context" where
  "set_ship_render_mode v c = on_ship_render_mode_updated (c\<lparr>sc_ship_render_mode := v\<rparr>)"

definition set_debug_ship_render_mode :: "debug_ship_render_mode \<Rightarrow> settings_context \<Rightarrow> settings_context" where
  "set_debug_ship_render_mode v c = on_debug_ship_render_mode_updated (c\<lparr>sc_debug_ship_render_mode := v\<rparr>)"

definition set_vector_field_render_mode :: "vector_field_render_mode \<Rightarrow> settings_context \<Rightarrow> settings_context" where
  "set_vector_field_render_mode v c =
     on_vector_field_render_mode_updated (c\<lparr>sc_vector_field_render_mode := v\<rparr>)"

definition set_vector_field_length_multiplier :: "real \<Rightarrow> settings_context \<Rightarrow> settings_context" where
  "set_vector_field_length_multiplier v c = c\<lparr>sc_vector_field_length_multiplier := v\<rparr>"

definition set_show_stressed_springs :: "bool \<Rightarrow> settings_context \<Rightarrow> settings_context" where
  "set_show_stressed_springs v c = on_show_stressed_springs_updated (c\<lparr>sc_show_stressed_springs := v\<rparr>)"

definition set_draw_heat_overlay :: "bool \<Rightarrow> settings_context \<Rightarrow> settings_context" where
  "set_draw_heat_overlay v c = on_draw_heat_overlay_updated (c\<lparr>sc_draw_heat_overlay := v\<rparr>)"

definition set_heat_overlay_transparency :: "real \<Rightarrow> settings_context \<Rightarrow> settings_context" where
  "set_heat_overlay_transparency v c =
     on_heat_overlay_transparency_updated (c\<lparr>sc_heat_overlay_transparency := v\<rparr>)"

definition set_ship_flame_render_mode :: "ship_flame_render_mode \<Rightarrow> settings_context \<Rightarrow> settings_context" where
  "set_ship_flame_render_mode v c = on_ship_flame_render_mode_updated (c\<lparr>sc_ship_flame_render_mode := v\<rparr>)"

definition set_ship_flame_size_adjustment :: "real \<Rightarrow> settings_context \<Rightarrow> settings_context" where
  "set_ship_flame_size_adjustment v c =
     on_ship_flame_size_adjustment_updated (c\<lparr>sc_ship_flame_size_adjustment := v\<rparr>)"

text \<open>The setters as one interface: the calls the game controller and the settings
  dialog make on the render context.\<close>

datatype render_setting =
    UpdateViewModel "view_model \<Rightarrow> view_model"
  | SetCanvasSize "view_model \<Rightarrow> view_model"
  | SetFlatSkyColor rgb_color
  | SetAmbientLightIntensity real
  | SetOceanTransparency real
  | SetOceanDarkeningRate real
  | SetShowShipThroughOcean bool
  | SetOceanRenderMode ocean_render_mode
  | SetTextureOceanTextureIndex nat
  | SetDepthOceanColorStart rgb_color
  | SetDepthOceanColorEnd rgb_color
  | SetFlatOceanColor rgb_color
  | SetLandRenderMode land_render_mode
  | SetTextureLandTextureIndex nat
  | SetFlatLandColor rgb_color
  | SetWaterContrast real
  | SetWaterLevelOfDetail real
  | SetShipRenderMode ship_render_mode
  | SetDebugShipRenderMode debug_ship_render_mode
  | SetVectorFieldRenderMode vector_field_render_mode
  | SetVectorFieldLengthMultiplier real
  | SetShowStressedSprings bool
  | SetDrawHeatOverlay bool
  | SetHeatOverlayTransparency real
  | SetShipFlameRenderMode ship_flame_render_mode
  | SetShipFlameSizeAdjustment real

fun apply_render_setting :: "render_setting \<Rightarrow> settings_context \<Rightarrow> settings_context option" where
  "apply_render_setting (UpdateViewModel f) c = Some (update_view_model f c)"
| "apply_render_setting (SetCanvasSize f) c = Some (render_context_set_canvas_size f c)"
| "apply_render_setting (SetFlatSkyColor v) c = Some (set_flat_sky_color v c)"
| "apply_render_setting (SetAmbientLightIntensity v) c = Some (set_ambient_light_intensity v c)"
| "apply_render_setting (SetOceanTransparency v) c = Some (set_ocean_transparency v c)"
| "apply_render_setting (SetOceanDarkeningRate v) c = Some (set_ocean_darkening_rate v c)"
| "apply_render_setting (SetShowShipThroughOcean v) c = Some (set_show_ship_through_ocean v c)"
| "apply_render_setting (SetOceanRenderMode v) c = Some (set_ocean_render_mode v c)"
| "apply_render_setting (SetTextureOceanTextureIndex v) c = set_texture_ocean_texture_index v c"
| "apply_render_setting (SetDepthOceanColorStart v) c = Some (set_depth_ocean_color_start v c)"
| "apply_render_setting (SetDepthOceanColorEnd v) c = Some (set_depth_ocean_color_end v c)"
| "apply_render_setting (SetFlatOceanColor v) c = Some (set_flat_ocean_color v c)"
| "apply_render_setting (SetLandRenderMode v) c = Some (set_land_render_mode v c)"
| "apply_render_setting (SetTextureLandTextureIndex v) c = set_texture_land_texture_index v c"
| "apply_render_setting (SetFlatLandColor v) c = Some (set_flat_land_color v c)"
| "apply_render_setting (SetWaterContrast v) c = Some (set_water_contrast v c)"
| "apply_render_setting (SetWaterLevelOfDetail v) c = Some (set_water_level_of_detail v c)"
| "apply_render_setting (SetShipRenderMode v) c = Some (set_ship_render_mode v c)"
| "apply_render_setting (SetDebugShipRenderMode v) c = Some (set_debug_ship_render_mode v c)"
| "apply_render_setting (SetVectorFieldRenderMode v) c = Some (set_vector_field_render_mode v c)"
| "apply_render_setting (SetVectorFieldLengthMultiplier v) c = Some (set_vector_field_length_multiplier v c)"
| "apply_render_setting (SetShowStressedSprings v) c = Some (set_show_stressed_springs v c)"
| "apply_render_setting (SetDrawHeatOverlay v) c = Some (set_draw_heat_overlay v c)"
| "apply_render_setting (SetHeatOverlayTransparency v) c = Some (set_heat_overlay_transparency v c)"
| "apply_render_setting (SetShipFlameRenderMode v) c = Some (set_ship_flame_render_mode v c)"
| "apply_render_setting (SetShipFlameSizeAdjustment v) c = Some (set_ship_flame_size_adjustment v c)"

primrec apply_render_settings :: "render_setting list \<Rightarrow> settings_context \<Rightarrow> settings_context option" where
  "apply_render_settings [] c = Some c"
| "apply_render_settings (r # rs) c = Option.bind (apply_render_setting r c) (apply_render_settings rs)"

section \<open>Adding a ship and creating the context\<close>

text \<open>The settings part of \<^verbatim>\<open>AddShip\<close>: tell every ship the new ship count, then
  create the new ship's context with the render context's current parameters.\<close>

definition add_ship_settings :: "nat \<Rightarrow> settings_context \<Rightarrow> settings_context option" where
  "add_ship_settings ship_id c =
     (if ship_id \<noteq> length (sc_ships c) then None
      else
        (let n = Suc (length (sc_ships c));
             c1 = update_ships (ship_set_ship_count n) c
         in case ship_settings_create ship_id n (sc_effective_ambient_light_intensity c)
                   (calculate_water_color c) (sc_water_contrast c) (sc_water_level_of_detail c)
                   (sc_ship_render_mode c) (sc_debug_ship_render_mode c) (sc_vector_field_render_mode c)
                   (sc_show_stressed_springs c) (sc_draw_heat_overlay c)
                   (sc_heat_overlay_transparency c) (sc_ship_flame_render_mode c)
                   (sc_ship_flame_size_adjustment c) (sc_shader c1) of
              (s, sm) \<Rightarrow> Some (c1\<lparr>sc_ships := sc_ships c1 @ [s], sc_shader := sm\<rparr>)))"

text \<open>The settings part of the \<^verbatim>\<open>RenderContext\<close> constructor: the initial values
  of its member initialisers, then the handlers it runs, in its order.  The ocean and
  land texture indices start at \<^verbatim>\<open>numeric_limits<size_t>::max()\<close>, so that the
  first handler loads a texture.\<close>

definition size_t_max :: nat where
  "size_t_max = 2 ^ 64 - 1"

definition settings_context_initial ::
  "view_model \<Rightarrow> frame_metadata list \<Rightarrow> frame_metadata list \<Rightarrow> nat \<times> nat \<Rightarrow> real \<Rightarrow> real
   \<Rightarrow> settings_context" where
  "settings_context_initial vm ocean_frames land_frames border_size max_w max_h =
     \<lparr>sc_view_model = vm, sc_flat_sky_color = (135, 206, 250), sc_ambient_light_intensity = 1,
      sc_storm_ambient_darkening = 1, sc_rain_density = 0, sc_effective_ambient_light_intensity = 1,
      sc_ocean_transparency = 0.8125, sc_ocean_darkening_rate = 0.356993,
      sc_show_ship_through_ocean = False, sc_ocean_render_mode = OceanRenderTexture,
      sc_ocean_texture_frames = ocean_frames, sc_selected_ocean_texture_index = 0,
      sc_loaded_ocean_texture_index = size_t_max, sc_depth_ocean_color_start = (74, 132, 159),
      sc_depth_ocean_color_end = (0, 0, 0), sc_flat_ocean_color = (0, 61, 153),
      sc_land_render_mode = LandRenderTexture, sc_land_texture_frames = land_frames,
      sc_selected_land_texture_index = 3, sc_loaded_land_texture_index = size_t_max,
      sc_flat_land_color = (114, 70, 5), sc_water_contrast = 0.71875,
      sc_water_level_of_detail = 0.6875, sc_ship_render_mode = ShipRenderTexture,
      sc_debug_ship_render_mode = DebugShipRenderNone, sc_vector_field_render_mode = VectorFieldNone,
      sc_vector_field_length_multiplier = 1, sc_show_stressed_springs = False,
      sc_draw_heat_overlay = False, sc_heat_overlay_transparency = 0.1875,
      sc_ship_flame_render_mode = ShipFlameDraw, sc_ship_flame_size_adjustment = 1,
      sc_ships = [], sc_shader = Map.empty, sc_texture_loads = [],
      sc_text_canvas_size = (vm_canvas_width vm, vm_canvas_height vm),
      sc_text_effective_ambient_light_intensity = 1, sc_world_border_texture_size = border_size,
      sc_max_world_width = max_w, sc_max_world_height = max_h,
      sc_world_border_vertex_buffer = [], sc_is_world_border_visible = False\<rparr>"

definition settings_context_create ::
  "view_model \<Rightarrow> frame_metadata list \<Rightarrow> frame_metadata list \<Rightarrow> nat \<times> nat \<Rightarrow> real \<Rightarrow> real
   \<Rightarrow> settings_context option" where
  "settings_context_create vm ocean_frames land_frames border_size max_w max_h =
     (let c1 = on_ocean_render_parameters_updated
                 (on_ocean_darkening_rate_updated
                   (on_ocean_transparency_updated
                     (on_rain_density_updated
                       (on_effective_ambient_light_intensity_updated
                         (on_view_model_updated
                           (settings_context_initial vm ocean_frames land_frames border_size max_w max_h))))))
      in Option.bind (on_ocean_texture_index_updated c1) (\<lambda>c2.
         Option.bind (on_land_texture_index_updated (on_land_render_parameters_updated c2)) (\<lambda>c3.
         Some (on_ship_flame_size_adjustment_updated
                (on_ship_flame_render_mode_updated
                  (on_heat_overlay_transparency_updated
                    (on_draw_heat_overlay_updated
                      (on_show_stressed_springs_updated
                        (on_vector_field_render_mode_updated
                          (on_debug_ship_render_mode_updated
                            (on_ship_render_mode_updated
                              (on_water_level_of_detail_updated
                                (on_water_contrast_updated c3)))))))))))))"

section \<open>The agreement of the ships with the render context\<close>

text \<open>What ship \<open>i\<close> must hold, apart from its count of matrix updates: its id,
  the number of ships, and every parameter the render context forwards.\<close>

definition expected_ship :: "settings_context \<Rightarrow> nat \<Rightarrow> ship_settings" where
  "expected_ship c i =
     \<lparr>sh_ship_id = i, sh_ship_count = length (sc_ships c),
      sh_ambient_light_intensity = sc_effective_ambient_light_intensity c,
      sh_water_color = calculate_water_color c, sh_water_contrast = sc_water_contrast c,
      sh_water_level_of_detail = sc_water_level_of_detail c, sh_ship_render_mode = sc_ship_render_mode c,
      sh_debug_ship_render_mode = sc_debug_ship_render_mode c,
      sh_vector_field_render_mode = sc_vector_field_render_mode c,
      sh_show_stressed_springs = sc_show_stressed_springs c, sh_draw_heat_overlay = sc_draw_heat_overlay c,
      sh_heat_overlay_transparency = sc_heat_overlay_transparency c,
      sh_ship_flame_render_mode = sc_ship_flame_render_mode c,
      sh_ship_flame_size_adjustment = sc_ship_flame_size_adjustment c, sh_ortho_matrix_updates = 0\<rparr>"

definition ships_agree :: "settings_context \<Rightarrow> bool" where
  "ships_agree c \<longleftrightarrow>
     (\<forall>i < length (sc_ships c). (sc_ships c ! i)\<lparr>sh_ortho_matrix_updates := 0\<rparr> = expected_ship c i)"


section \<open>Reachable settings\<close>

text \<open>The contexts the program can reach: the constructor's result, then any
  sequence of setter calls and of ships added.\<close>

inductive settings_reachable :: "settings_context \<Rightarrow> bool" where
  create: "settings_context_create vm ocean_frames land_frames border_size max_w max_h = Some c
    \<Longrightarrow> settings_reachable c"
| setting: "settings_reachable c \<Longrightarrow> apply_render_setting r c = Some c' \<Longrightarrow> settings_reachable c'"
| add_ship: "settings_reachable c \<Longrightarrow> add_ship_settings ship_id c = Some c' \<Longrightarrow> settings_reachable c'"

section \<open>Example contexts\<close>

definition example_view_model :: view_model where
  "example_view_model =
     \<lparr>vm_global_ortho_matrix = [1, 0, 0, 1], vm_canvas_width = 1000, vm_canvas_height = 800,
      vm_visible_world_top_left = (-520, 40), vm_visible_world_bottom_right = (-420, -40)\<rparr>"

definition example_texture_frames :: "frame_metadata list" where
  "example_texture_frames =
     [\<lparr>fm_anchor_world_x = 0, fm_anchor_world_y = 0, fm_world_width = 32, fm_world_height = 32,
       fm_texture_bottom_left = (0, 0), fm_texture_top_right = (1, 1)\<rparr>,
      \<lparr>fm_anchor_world_x = 0, fm_anchor_world_y = 0, fm_world_width = 64, fm_world_height = 16,
       fm_texture_bottom_left = (0, 0), fm_texture_top_right = (1, 1)\<rparr>]"

definition example_settings_context :: settings_context where
  "example_settings_context =
     settings_context_initial example_view_model example_texture_frames example_texture_frames (64, 64) 1000 800"

definition example_one_ship_context :: settings_context where
  "example_one_ship_context =
     the (Option.bind (settings_context_create example_view_model example_texture_frames example_texture_frames
            (64, 64) 1000 800) (add_ship_settings 0))"

section \<open>The agreement of the ships: lemmas\<close>
lemmas handler_defs = on_view_model_updated_def on_effective_ambient_light_intensity_updated_def
  on_rain_density_updated_def on_ocean_transparency_updated_def on_ocean_darkening_rate_updated_def
  on_ocean_render_parameters_updated_def on_land_render_parameters_updated_def
  on_water_contrast_updated_def on_water_level_of_detail_updated_def on_ship_render_mode_updated_def
  on_debug_ship_render_mode_updated_def on_vector_field_render_mode_updated_def
  on_show_stressed_springs_updated_def on_draw_heat_overlay_updated_def
  on_heat_overlay_transparency_updated_def on_ship_flame_render_mode_updated_def
  on_ship_flame_size_adjustment_updated_def



lemma for_each_ship_ships:
  assumes "\<And>s sm. fst (f s sm) = g s"
  shows "fst (for_each_ship f ss sm) = map g ss"
proof (induction ss arbitrary: sm)
  case Nil
  then show ?case by simp
next
  case (Cons s ss)
  obtain s' sm' where f: "f s sm = (s', sm')" by fastforce
  obtain ss' sm'' where r: "for_each_ship f ss sm' = (ss', sm'')" by fastforce
  have "s' = g s" using assms [of s sm] f by simp
  moreover have "ss' = map g ss" using Cons.IH [of sm'] r by simp
  ultimately show ?case using f r by simp
qed

lemma update_ships_ships:
  assumes "\<And>s sm. fst (f s sm) = g s"
  shows "update_ships f c = c\<lparr>sc_ships := map g (sc_ships c), sc_shader := snd (for_each_ship f (sc_ships c) (sc_shader c))\<rparr>"
  using for_each_ship_ships [of f g "sc_ships c" "sc_shader c", OF assms]
  by (cases "for_each_ship f (sc_ships c) (sc_shader c)") (simp add: update_ships_def)

lemma ship_setter_fst [simp]:
  "fst (ship_set_field h s sm) = h s"
  "fst (ship_set_effective_ambient_light_intensity v s sm) = s\<lparr>sh_ambient_light_intensity := v\<rparr>"
  "fst (ship_set_water_contrast v s sm) = s\<lparr>sh_water_contrast := v\<rparr>"
  "fst (ship_set_water_level_threshold v s sm) = s\<lparr>sh_water_level_of_detail := v\<rparr>"
  "fst (ship_on_view_model_updated s sm) = s\<lparr>sh_ortho_matrix_updates := Suc (sh_ortho_matrix_updates s)\<rparr>"
  "fst (ship_set_ship_count n s sm) = s\<lparr>sh_ship_count := n, sh_ortho_matrix_updates := Suc (sh_ortho_matrix_updates s)\<rparr>"
  by (simp_all add: ship_set_field_def ship_set_effective_ambient_light_intensity_def
      ship_set_water_contrast_def ship_set_water_level_threshold_def ship_on_view_model_updated_def
      ship_set_ship_count_def Let_def)

lemmas update_ships_simps [simp] =
  update_ships_ships [of "ship_set_field h" h for h]
  update_ships_ships [of "ship_set_effective_ambient_light_intensity v" "\<lambda>s. s\<lparr>sh_ambient_light_intensity := v\<rparr>" for v]
  update_ships_ships [of "ship_set_water_contrast v" "\<lambda>s. s\<lparr>sh_water_contrast := v\<rparr>" for v]
  update_ships_ships [of "ship_set_water_level_threshold v" "\<lambda>s. s\<lparr>sh_water_level_of_detail := v\<rparr>" for v]
  update_ships_ships [of ship_on_view_model_updated "\<lambda>s. s\<lparr>sh_ortho_matrix_updates := Suc (sh_ortho_matrix_updates s)\<rparr>"]
  update_ships_ships [of "ship_set_ship_count n" "\<lambda>s. s\<lparr>sh_ship_count := n, sh_ortho_matrix_updates := Suc (sh_ortho_matrix_updates s)\<rparr>" for n]

lemma ships_agree_map:
  assumes "ships_agree c" "sc_ships c' = map g (sc_ships c)"
    and "\<And>s. (g s)\<lparr>sh_ortho_matrix_updates := 0\<rparr> = h (s\<lparr>sh_ortho_matrix_updates := 0\<rparr>)"
    and "\<And>i. i < length (sc_ships c) \<Longrightarrow> expected_ship c' i = h (expected_ship c i)"
  shows "ships_agree c'"
  using assms unfolding ships_agree_def by simp

lemma update_world_border_keeps:
  "sc_ships (update_world_border c) = sc_ships c"
  "expected_ship (update_world_border c) i = expected_ship c i"
  by (simp_all add: update_world_border_def Let_def expected_ship_def calculate_water_color_def)

lemma ships_agree_sameI:
  assumes "ships_agree c" "sc_ships c' = sc_ships c" "\<And>i. expected_ship c' i = expected_ship c i"
  shows "ships_agree c'"
  using assms unfolding ships_agree_def by simp

lemma load_texture_index_Some:
  assumes "load_texture_index p frames sel c = Some (i, c')"
  shows "sc_ships c' = sc_ships c" "expected_ship c' j = expected_ship c j" "i < length frames" "i \<le> sel"
  using assms
  by (auto simp: load_texture_index_def Let_def set_shader_def expected_ship_def calculate_water_color_def
      split: if_splits)

lemma set_ship_render_mode_ships_agree: "ships_agree c \<Longrightarrow> ships_agree (set_ship_render_mode v c)"
  by (rule ships_agree_map [of c _ "\<lambda>s. s\<lparr>sh_ship_render_mode := v\<rparr>" "\<lambda>s. s\<lparr>sh_ship_render_mode := v\<rparr>"])
     (simp_all add: set_ship_render_mode_def on_ship_render_mode_updated_def expected_ship_def calculate_water_color_def)

lemma set_debug_ship_render_mode_ships_agree: "ships_agree c \<Longrightarrow> ships_agree (set_debug_ship_render_mode v c)"
  by (rule ships_agree_map [of c _ "\<lambda>s. s\<lparr>sh_debug_ship_render_mode := v\<rparr>" "\<lambda>s. s\<lparr>sh_debug_ship_render_mode := v\<rparr>"])
     (simp_all add: set_debug_ship_render_mode_def on_debug_ship_render_mode_updated_def expected_ship_def calculate_water_color_def)

lemma set_vector_field_render_mode_ships_agree: "ships_agree c \<Longrightarrow> ships_agree (set_vector_field_render_mode v c)"
  by (rule ships_agree_map [of c _ "\<lambda>s. s\<lparr>sh_vector_field_render_mode := v\<rparr>" "\<lambda>s. s\<lparr>sh_vector_field_render_mode := v\<rparr>"])
     (simp_all add: set_vector_field_render_mode_def on_vector_field_render_mode_updated_def expected_ship_def calculate_water_color_def)

lemma set_show_stressed_springs_ships_agree: "ships_agree c \<Longrightarrow> ships_agree (set_show_stressed_springs v c)"
  by (rule ships_agree_map [of c _ "\<lambda>s. s\<lparr>sh_show_stressed_springs := v\<rparr>" "\<lambda>s. s\<lparr>sh_show_stressed_springs := v\<rparr>"])
     (simp_all add: set_show_stressed_springs_def on_show_stressed_springs_updated_def expected_ship_def calculate_water_color_def)

lemma set_draw_heat_overlay_ships_agree: "ships_agree c \<Longrightarrow> ships_agree (set_draw_heat_overlay v c)"
  by (rule ships_agree_map [of c _ "\<lambda>s. s\<lparr>sh_draw_heat_overlay := v\<rparr>" "\<lambda>s. s\<lparr>sh_draw_heat_overlay := v\<rparr>"])
     (simp_all add: set_draw_heat_overlay_def on_draw_heat_overlay_updated_def expected_ship_def calculate_water_color_def)

lemma set_heat_overlay_transparency_ships_agree: "ships_agree c \<Longrightarrow> ships_agree (set_heat_overlay_transparency v c)"
  by (rule ships_agree_map [of c _ "\<lambda>s. s\<lparr>sh_heat_overlay_transparency := v\<rparr>" "\<lambda>s. s\<lparr>sh_heat_overlay_transparency := v\<rparr>"])
     (simp_all add: set_heat_overlay_transparency_def on_heat_overlay_transparency_updated_def expected_ship_def calculate_water_color_def)

lemma set_ship_flame_render_mode_ships_agree: "ships_agree c \<Longrightarrow> ships_agree (set_ship_flame_render_mode v c)"
  by (rule ships_agree_map [of c _ "\<lambda>s. s\<lparr>sh_ship_flame_render_mode := v\<rparr>" "\<lambda>s. s\<lparr>sh_ship_flame_render_mode := v\<rparr>"])
     (simp_all add: set_ship_flame_render_mode_def on_ship_flame_render_mode_updated_def expected_ship_def calculate_water_color_def)

lemma set_ship_flame_size_adjustment_ships_agree: "ships_agree c \<Longrightarrow> ships_agree (set_ship_flame_size_adjustment v c)"
  by (rule ships_agree_map [of c _ "\<lambda>s. s\<lparr>sh_ship_flame_size_adjustment := v\<rparr>" "\<lambda>s. s\<lparr>sh_ship_flame_size_adjustment := v\<rparr>"])
     (simp_all add: set_ship_flame_size_adjustment_def on_ship_flame_size_adjustment_updated_def expected_ship_def calculate_water_color_def)

lemma set_water_contrast_ships_agree: "ships_agree c \<Longrightarrow> ships_agree (set_water_contrast v c)"
  by (rule ships_agree_map [of c _ "\<lambda>s. s\<lparr>sh_water_contrast := v\<rparr>" "\<lambda>s. s\<lparr>sh_water_contrast := v\<rparr>"])
     (simp_all add: set_water_contrast_def on_water_contrast_updated_def expected_ship_def calculate_water_color_def)

lemma set_water_level_of_detail_ships_agree: "ships_agree c \<Longrightarrow> ships_agree (set_water_level_of_detail v c)"
  by (rule ships_agree_map [of c _ "\<lambda>s. s\<lparr>sh_water_level_of_detail := v\<rparr>" "\<lambda>s. s\<lparr>sh_water_level_of_detail := v\<rparr>"])
     (simp_all add: set_water_level_of_detail_def on_water_level_of_detail_updated_def expected_ship_def calculate_water_color_def)

lemma set_ambient_light_intensity_ships_agree:
  "ships_agree c \<Longrightarrow> ships_agree (set_ambient_light_intensity v c)"
  by (rule ships_agree_map [of c _ "\<lambda>s. s\<lparr>sh_ambient_light_intensity := v * sc_storm_ambient_darkening c\<rparr>"
        "\<lambda>s. s\<lparr>sh_ambient_light_intensity := v * sc_storm_ambient_darkening c\<rparr>"])
     (simp_all add: set_ambient_light_intensity_def on_effective_ambient_light_intensity_updated_def
       Let_def set_shader_def expected_ship_def calculate_water_color_def)

lemma on_ocean_render_parameters_updated_ships_agree:
  assumes "ships_agree c'" "sc_ships c' = sc_ships c"
    and "\<And>i. expected_ship c i = (expected_ship c' i)\<lparr>sh_water_color := calculate_water_color c\<rparr>"
  shows "ships_agree (on_ocean_render_parameters_updated c)"
  by (rule ships_agree_map [of c' _ "\<lambda>s. s\<lparr>sh_water_color := calculate_water_color c\<rparr>"
        "\<lambda>s. s\<lparr>sh_water_color := calculate_water_color c\<rparr>"])
     (use assms in \<open>simp_all add: on_ocean_render_parameters_updated_def set_shader_def
        expected_ship_def calculate_water_color_def\<close>)

lemma set_ocean_render_mode_ships_agree: "ships_agree c \<Longrightarrow> ships_agree (set_ocean_render_mode v c)"
  unfolding set_ocean_render_mode_def
  by (rule on_ocean_render_parameters_updated_ships_agree) (simp_all add: expected_ship_def calculate_water_color_def)

lemma set_depth_ocean_color_start_ships_agree: "ships_agree c \<Longrightarrow> ships_agree (set_depth_ocean_color_start v c)"
  unfolding set_depth_ocean_color_start_def
  by (rule on_ocean_render_parameters_updated_ships_agree) (simp_all add: expected_ship_def calculate_water_color_def)

lemma set_depth_ocean_color_end_ships_agree: "ships_agree c \<Longrightarrow> ships_agree (set_depth_ocean_color_end v c)"
  unfolding set_depth_ocean_color_end_def
  by (rule on_ocean_render_parameters_updated_ships_agree) (simp_all add: expected_ship_def calculate_water_color_def)

lemma set_flat_ocean_color_ships_agree: "ships_agree c \<Longrightarrow> ships_agree (set_flat_ocean_color v c)"
  unfolding set_flat_ocean_color_def
  by (rule on_ocean_render_parameters_updated_ships_agree) (simp_all add: expected_ship_def calculate_water_color_def)

lemma set_flat_sky_color_ships_agree: "ships_agree c \<Longrightarrow> ships_agree (set_flat_sky_color v c)"
  by (rule ships_agree_sameI) (simp_all add: set_flat_sky_color_def expected_ship_def calculate_water_color_def)

lemma set_ocean_transparency_ships_agree: "ships_agree c \<Longrightarrow> ships_agree (set_ocean_transparency v c)"
  by (rule ships_agree_sameI) (simp_all add: set_ocean_transparency_def on_ocean_transparency_updated_def set_shader_def expected_ship_def calculate_water_color_def)

lemma set_ocean_darkening_rate_ships_agree: "ships_agree c \<Longrightarrow> ships_agree (set_ocean_darkening_rate v c)"
  by (rule ships_agree_sameI) (simp_all add: set_ocean_darkening_rate_def on_ocean_darkening_rate_updated_def set_shader_def expected_ship_def calculate_water_color_def)

lemma set_show_ship_through_ocean_ships_agree: "ships_agree c \<Longrightarrow> ships_agree (set_show_ship_through_ocean v c)"
  by (rule ships_agree_sameI) (simp_all add: set_show_ship_through_ocean_def expected_ship_def calculate_water_color_def)

lemma set_land_render_mode_ships_agree: "ships_agree c \<Longrightarrow> ships_agree (set_land_render_mode v c)"
  by (rule ships_agree_sameI) (simp_all add: set_land_render_mode_def on_land_render_parameters_updated_def set_shader_def expected_ship_def calculate_water_color_def)

lemma set_flat_land_color_ships_agree: "ships_agree c \<Longrightarrow> ships_agree (set_flat_land_color v c)"
  by (rule ships_agree_sameI) (simp_all add: set_flat_land_color_def on_land_render_parameters_updated_def set_shader_def expected_ship_def calculate_water_color_def)

lemma set_vector_field_length_multiplier_ships_agree: "ships_agree c \<Longrightarrow> ships_agree (set_vector_field_length_multiplier v c)"
  by (rule ships_agree_sameI) (simp_all add: set_vector_field_length_multiplier_def expected_ship_def calculate_water_color_def)

lemma update_world_border_ships_agree [simp]:
  "ships_agree (update_world_border c) = ships_agree c"
  by (simp add: ships_agree_def update_world_border_keeps)

lemma on_view_model_updated_ships_agree:
  "ships_agree c \<Longrightarrow> ships_agree (on_view_model_updated c)"
  unfolding on_view_model_updated_def Let_def update_world_border_ships_agree
  by (rule ships_agree_map [of c _ "\<lambda>s. s\<lparr>sh_ortho_matrix_updates := Suc (sh_ortho_matrix_updates s)\<rparr>" id])
     (simp_all add: set_shader_def expected_ship_def calculate_water_color_def)

lemma load_texture_index_ships_agree:
  assumes "ships_agree c" "load_texture_index p frames sel c = Some (i, c')"
  shows "ships_agree (c'\<lparr>sc_loaded_ocean_texture_index := i\<rparr>)"
    "ships_agree (c'\<lparr>sc_loaded_land_texture_index := i\<rparr>)"
proof -
  have "expected_ship (c'\<lparr>sc_loaded_ocean_texture_index := i\<rparr>) j = expected_ship c' j"
    "expected_ship (c'\<lparr>sc_loaded_land_texture_index := i\<rparr>) j = expected_ship c' j" for j
    by (simp_all add: expected_ship_def calculate_water_color_def)
  then show "ships_agree (c'\<lparr>sc_loaded_ocean_texture_index := i\<rparr>)"
    "ships_agree (c'\<lparr>sc_loaded_land_texture_index := i\<rparr>)"
    by (auto intro!: ships_agree_sameI [OF assms(1)] simp: load_texture_index_Some(1,2) [OF assms(2)])
qed

lemma on_texture_index_updated_ships_agree:
  assumes "ships_agree c"
  shows "on_ocean_texture_index_updated c = Some c' \<Longrightarrow> ships_agree c'"
    "on_land_texture_index_updated c = Some c' \<Longrightarrow> ships_agree c'"
  using assms load_texture_index_ships_agree
  by (auto simp: on_ocean_texture_index_updated_def on_land_texture_index_updated_def split: if_splits)

lemma on_texture_index_updated_ships:
  "on_ocean_texture_index_updated c = Some c' \<Longrightarrow> sc_ships c' = sc_ships c"
  "on_land_texture_index_updated c = Some c' \<Longrightarrow> sc_ships c' = sc_ships c"
  by (auto simp: on_ocean_texture_index_updated_def on_land_texture_index_updated_def
      dest: load_texture_index_Some(1) split: if_splits)



lemma ship_settings_create_fst [simp]:
  "fst (ship_settings_create ship_id n amb wc contrast lod srm dsrm vfrm stressed heat ht flame fs sm) =
     \<lparr>sh_ship_id = ship_id, sh_ship_count = n, sh_ambient_light_intensity = amb,
      sh_water_color = wc, sh_water_contrast = contrast, sh_water_level_of_detail = lod,
      sh_ship_render_mode = srm, sh_debug_ship_render_mode = dsrm, sh_vector_field_render_mode = vfrm,
      sh_show_stressed_springs = stressed, sh_draw_heat_overlay = heat,
      sh_heat_overlay_transparency = ht, sh_ship_flame_render_mode = flame,
      sh_ship_flame_size_adjustment = fs, sh_ortho_matrix_updates = 1\<rparr>"
  by (simp add: ship_settings_create_def Let_def)

lemma add_ship_settings_Some:
  assumes "add_ship_settings ship_id c = Some c'"
  shows "ship_id = length (sc_ships c)"
    "sc_ships c' = map (\<lambda>s. s\<lparr>sh_ship_count := Suc ship_id, sh_ortho_matrix_updates := Suc (sh_ortho_matrix_updates s)\<rparr>) (sc_ships c)
       @ [fst (ship_settings_create ship_id (Suc ship_id) (sc_effective_ambient_light_intensity c)
                (calculate_water_color c) (sc_water_contrast c) (sc_water_level_of_detail c)
                (sc_ship_render_mode c) (sc_debug_ship_render_mode c) (sc_vector_field_render_mode c)
                (sc_show_stressed_springs c) (sc_draw_heat_overlay c)
                (sc_heat_overlay_transparency c) (sc_ship_flame_render_mode c)
                (sc_ship_flame_size_adjustment c) (sc_shader (update_ships (ship_set_ship_count (Suc ship_id)) c)))]"
    "\<And>i. expected_ship c' i = (expected_ship c i)\<lparr>sh_ship_count := Suc ship_id\<rparr>"
  using assms
  by (auto simp: add_ship_settings_def expected_ship_def calculate_water_color_def Let_def case_prod_beta
      split: if_splits)

lemma add_ship_settings_ships_agree:
  assumes "ships_agree c" "add_ship_settings ship_id c = Some c'"
  shows "ships_agree c'"
  unfolding ships_agree_def
proof (intro allI impI)
  fix i assume i: "i < length (sc_ships c')"
  note a = add_ship_settings_Some [OF assms(2)]
  show "(sc_ships c' ! i)\<lparr>sh_ortho_matrix_updates := 0\<rparr> = expected_ship c' i"
  proof (cases "i < length (sc_ships c)")
    case True
    have "(sc_ships c ! i)\<lparr>sh_ortho_matrix_updates := 0\<rparr> = expected_ship c i"
      using True assms(1) by (simp add: ships_agree_def)
    moreover have "(sc_ships c ! i)\<lparr>sh_ship_count := Suc ship_id, sh_ortho_matrix_updates := 0\<rparr>
        = ((sc_ships c ! i)\<lparr>sh_ortho_matrix_updates := 0\<rparr>)\<lparr>sh_ship_count := Suc ship_id\<rparr>"
      by (cases "sc_ships c ! i") simp
    ultimately show ?thesis using True by (simp add: a(2,3) nth_append)
  next
    case False
    then have "i = length (sc_ships c)" using i by (simp add: a(2))
    then show ?thesis by (simp add: a(1,2,3) nth_append, simp add: expected_ship_def)
  qed
qed


lemma view_model_update_ships_agree [simp]:
  "ships_agree (c\<lparr>sc_view_model := vm\<rparr>) = ships_agree c"
  "ships_agree (c\<lparr>sc_view_model := vm, sc_text_canvas_size := ts\<rparr>) = ships_agree c"
  by (simp_all add: ships_agree_def expected_ship_def calculate_water_color_def)

lemma selected_index_ships_agree [simp]:
  "ships_agree (c\<lparr>sc_selected_ocean_texture_index := v\<rparr>) = ships_agree c"
  "ships_agree (c\<lparr>sc_selected_land_texture_index := v\<rparr>) = ships_agree c"
  by (simp_all add: ships_agree_def expected_ship_def calculate_water_color_def)

lemmas setter_ships_agree = set_ship_render_mode_ships_agree set_debug_ship_render_mode_ships_agree
  set_vector_field_render_mode_ships_agree set_show_stressed_springs_ships_agree
  set_draw_heat_overlay_ships_agree set_heat_overlay_transparency_ships_agree
  set_ship_flame_render_mode_ships_agree set_ship_flame_size_adjustment_ships_agree
  set_water_contrast_ships_agree set_water_level_of_detail_ships_agree
  set_ambient_light_intensity_ships_agree set_ocean_render_mode_ships_agree
  set_depth_ocean_color_start_ships_agree set_depth_ocean_color_end_ships_agree
  set_flat_ocean_color_ships_agree set_flat_sky_color_ships_agree set_ocean_transparency_ships_agree
  set_ocean_darkening_rate_ships_agree set_show_ship_through_ocean_ships_agree
  set_land_render_mode_ships_agree set_flat_land_color_ships_agree
  set_vector_field_length_multiplier_ships_agree

lemma apply_render_setting_ships_agree:
  assumes "ships_agree c" "apply_render_setting r c = Some c'"
  shows "ships_agree c'"
proof (cases r)
  case (UpdateViewModel f)
  then show ?thesis
    using assms on_view_model_updated_ships_agree [of "c\<lparr>sc_view_model := f (sc_view_model c)\<rparr>"]
    by (simp add: update_view_model_def)
next
  case (SetCanvasSize f)
  then show ?thesis
  proof -
    let ?vm = "f (sc_view_model c)"
    have "ships_agree (c\<lparr>sc_view_model := ?vm, sc_text_canvas_size := (vm_canvas_width ?vm, vm_canvas_height ?vm)\<rparr>)"
      using assms(1) by (simp add: ships_agree_def expected_ship_def calculate_water_color_def)
    then show ?thesis
      using SetCanvasSize assms(2) on_view_model_updated_ships_agree by (auto simp: render_context_set_canvas_size_def Let_def)
  qed
next
  case (SetTextureOceanTextureIndex v)
  then show ?thesis
    using assms on_texture_index_updated_ships_agree(1) [of "c\<lparr>sc_selected_ocean_texture_index := v\<rparr>"]
    by (simp add: set_texture_ocean_texture_index_def)
next
  case (SetTextureLandTextureIndex v)
  then show ?thesis
    using assms on_texture_index_updated_ships_agree(2) [of "c\<lparr>sc_selected_land_texture_index := v\<rparr>"]
    by (simp add: set_texture_land_texture_index_def)
qed (use assms in \<open>auto intro: setter_ships_agree\<close>)

section \<open>Colours, textures, world border\<close>


lemma unat_byte_le: "unat (x :: 8 word) \<le> 255"
proof -
  have "unat x < 2 ^ 8" using unsigned_less [of x] by simp
  then show ?thesis by simp
qed

lemma to_vec3f_unit:
  assumes "to_vec3f c = (r, g, b)"
  shows "0 \<le> r \<and> r \<le> 1 \<and> 0 \<le> g \<and> g \<le> 1 \<and> 0 \<le> b \<and> b \<le> 1"
proof -
  have u: "0 \<le> real (unat x) / 255 \<and> real (unat x) / 255 \<le> 1" for x :: "8 word"
  proof -
    have "real (unat x) \<le> 255" using of_nat_le_iff [of "unat x" 255] unat_byte_le [of x] by simp
    then show ?thesis by (simp del: of_nat_unat)
  qed
  obtain x y z where c: "c = (x, y, z)" by (metis prod_cases3)
  have rgb: "r = real (unat x) / 255" "g = real (unat y) / 255" "b = real (unat z) / 255"
    using assms by (simp_all add: c to_vec3f_def del: of_nat_unat)
  show ?thesis unfolding rgb using u [of x] u [of y] u [of z] by blast
qed

text \<open>C24: CalculateWaterColor always gives a colour whose four components lie in [0, 1], in each of the three ocean render modes: the bytes of rgbColor over 255, their averages, or the fixed texture-mode colour.\<close>

theorem water_color_unit:
  "case calculate_water_color c of (r, g, b, a) \<Rightarrow>
     0 \<le> r \<and> r \<le> 1 \<and> 0 \<le> g \<and> g \<le> 1 \<and> 0 \<le> b \<and> b \<le> 1 \<and> 0 \<le> a \<and> a \<le> 1"
proof -
  obtain r1 g1 b1 where 1: "to_vec3f (sc_depth_ocean_color_start c) = (r1, g1, b1)" by (metis prod_cases3)
  obtain r2 g2 b2 where 2: "to_vec3f (sc_depth_ocean_color_end c) = (r2, g2, b2)" by (metis prod_cases3)
  obtain r3 g3 b3 where 3: "to_vec3f (sc_flat_ocean_color c) = (r3, g3, b3)" by (metis prod_cases3)
  show ?thesis
    using to_vec3f_unit [OF 1] to_vec3f_unit [OF 2] to_vec3f_unit [OF 3]
    by (cases "sc_ocean_render_mode c") (simp_all add: calculate_water_color_def water_color_def to_vec4f_def 1 2 3)
qed

lemma size_t_of_int_pred:
  "0 < n \<Longrightarrow> size_t_of_int (int n - 1) = (n - 1) mod 2 ^ 64"
  by (simp add: size_t_of_int_def nat_mod_distrib nat_diff_distrib)

lemma size_t_of_int_minus_one: "size_t_of_int (int 0 - 1) = 2 ^ 64 - 1"
  by (simp add: size_t_of_int_def)

lemma load_texture_index_None:
  "load_texture_index p frames sel c = None \<longleftrightarrow> frames = []"
proof (cases frames)
  case Nil
  then show ?thesis by (simp add: load_texture_index_def size_t_of_int_minus_one)
next
  case (Cons f fs)
  have "min sel ((length frames - 1) mod 2 ^ 64) < length frames"
    using Cons by (simp add: min_le_iff_disj le_less_trans [OF mod_less_eq_dividend])
  then show ?thesis
    using Cons size_t_of_int_pred [of "length frames"] by (simp add: load_texture_index_def Let_def)
qed

text \<open>OnOceanTextureIndexUpdated fails exactly when a new index is selected and there are no ocean texture frames: the size_t expression size() - 1 then wraps to the largest value, the clamp keeps the selected index and the frame read is out of range.\<close>

theorem ocean_texture_index_error:
  "on_ocean_texture_index_updated c = None \<longleftrightarrow>
     sc_selected_ocean_texture_index c \<noteq> sc_loaded_ocean_texture_index c \<and> sc_ocean_texture_frames c = []"
  by (simp add: on_ocean_texture_index_updated_def load_texture_index_None)



lemma load_texture_index_eq:
  assumes "frames \<noteq> []" "length frames \<le> 2 ^ 64"
  shows "load_texture_index p frames sel c =
    Some (min sel (length frames - 1),
          set_shader [p] ParamTextureScaling
            [1 / fm_world_width (frames ! min sel (length frames - 1)),
             1 / fm_world_height (frames ! min sel (length frames - 1))]
            (c\<lparr>sc_texture_loads := sc_texture_loads c @ [(p, min sel (length frames - 1))]\<rparr>))"
proof -
  have "min sel (length frames - 1) < length frames" using assms(1) by (cases frames) (auto simp: min_def)
  moreover have "(length frames - 1) mod 2 ^ 64 = length frames - 1" using assms by simp
  ultimately show ?thesis
    using assms size_t_of_int_pred [of "length frames"] by (simp add: load_texture_index_def Let_def)
qed

lemma ocean_texture_index_loads:
  assumes "sc_ocean_texture_frames c \<noteq> []" "length (sc_ocean_texture_frames c) \<le> 2 ^ 64"
    and "sc_selected_ocean_texture_index c \<noteq> sc_loaded_ocean_texture_index c"
  shows "\<exists>c'. on_ocean_texture_index_updated c = Some c' \<and>
    sc_loaded_ocean_texture_index c' = min (sc_selected_ocean_texture_index c) (length (sc_ocean_texture_frames c) - 1) \<and>
    sc_texture_loads c' = sc_texture_loads c @ [(ProgramOceanTexture, sc_loaded_ocean_texture_index c')] \<and>
    sc_selected_ocean_texture_index c' = sc_selected_ocean_texture_index c \<and>
    sc_ocean_texture_frames c' = sc_ocean_texture_frames c"
  using assms by (simp add: on_ocean_texture_index_updated_def load_texture_index_eq set_shader_def)

text \<open>C25: When the selected ocean texture index is inside the frames, OnOceanTextureIndexUpdated loads exactly that frame, and running the handler again changes nothing: no second texture load.\<close>

theorem ocean_texture_index_settles:
  assumes "sc_selected_ocean_texture_index c < length (sc_ocean_texture_frames c)"
    and "length (sc_ocean_texture_frames c) \<le> 2 ^ 64"
    and "on_ocean_texture_index_updated c = Some c'"
  shows "sc_loaded_ocean_texture_index c' = sc_selected_ocean_texture_index c \<and>
    on_ocean_texture_index_updated c' = Some c'"
proof (cases "sc_selected_ocean_texture_index c = sc_loaded_ocean_texture_index c")
  case True
  then show ?thesis using assms(3) by (simp add: on_ocean_texture_index_updated_def)
next
  case False
  have ne: "sc_ocean_texture_frames c \<noteq> []" using assms(1) by auto
  show ?thesis
    using ocean_texture_index_loads [OF ne assms(2) False] assms(1,3)
    by (auto simp: on_ocean_texture_index_updated_def)
qed

lemma ocean_texture_index_reloads:
  assumes "length (sc_ocean_texture_frames c) \<le> sc_selected_ocean_texture_index c"
    and "sc_ocean_texture_frames c \<noteq> []" "length (sc_ocean_texture_frames c) \<le> 2 ^ 64"
    and "on_ocean_texture_index_updated c = Some c'"
    and "sc_selected_ocean_texture_index c \<noteq> sc_loaded_ocean_texture_index c"
  shows "\<exists>c''. on_ocean_texture_index_updated c' = Some c'' \<and>
    sc_texture_loads c'' = sc_texture_loads c' @ [(ProgramOceanTexture, length (sc_ocean_texture_frames c) - 1)]"
proof -
  obtain c1 where c1: "on_ocean_texture_index_updated c = Some c1"
    "sc_loaded_ocean_texture_index c1 = length (sc_ocean_texture_frames c) - 1"
    "sc_selected_ocean_texture_index c1 = sc_selected_ocean_texture_index c"
    "sc_ocean_texture_frames c1 = sc_ocean_texture_frames c"
    using ocean_texture_index_loads [OF assms(2,3,5)] assms(1) by auto
  have "c' = c1" using c1(1) assms(4) by simp
  moreover have "sc_loaded_ocean_texture_index c1 < sc_selected_ocean_texture_index c1"
  proof -
    have "0 < length (sc_ocean_texture_frames c)" using assms(2) by simp
    then show ?thesis using c1(2,3) assms(1) by linarith
  qed
  ultimately show ?thesis
    using ocean_texture_index_loads [of c1] c1(2,3,4) assms(1,2,3) by (auto simp: min_def)
qed



lemma make_quad_length [simp]: "length (make_quad x1 y1 tx1 ty1 x2 y2 tx2 ty2 b) = length b + 6"
  by (simp add: make_quad_def)

lemma make_quad_set [simp]:
  "set (make_quad x1 y1 tx1 ty1 x2 y2 tx2 ty2 b) =
     set b \<union> {(x1, y1, tx1, ty1), (x1, y2, tx1, ty2), (x2, y1, tx2, ty1), (x2, y2, tx2, ty2)}"
  by (auto simp: make_quad_def)

text \<open>C23: When the world border strip is no wider than the world, UpdateWorldBorder draws at most the four sides, six vertices each, and every vertex it uploads lies inside the world rectangle of half-widths HalfMaxWorldWidth and HalfMaxWorldHeight.\<close>

theorem update_world_border_bounds:
  fixes c :: settings_context
  defines "ww \<equiv> pixel_width_to_world_width (sc_view_model c) (real (fst (sc_world_border_texture_size c)))"
    and "wh \<equiv> pixel_height_to_world_height (sc_view_model c) (real (snd (sc_world_border_texture_size c)))"
    and "b \<equiv> sc_world_border_vertex_buffer (update_world_border c)"
  assumes "0 \<le> ww" "ww \<le> 2 * sc_max_world_width c" "0 \<le> wh" "wh \<le> 2 * sc_max_world_height c"
  shows "length b \<le> 24 \<and> 6 dvd length b \<and>
    (\<forall>(x, y, tx, ty) \<in> set b. - (sc_max_world_width c / 2) \<le> x \<and> x \<le> sc_max_world_width c / 2 \<and>
                             - (sc_max_world_height c / 2) \<le> y \<and> y \<le> sc_max_world_height c / 2)"
  using assms(4-7) unfolding b_def ww_def wh_def
  by (auto simp: update_world_border_def Let_def)



lemma handlers_keep_textures [simp]:
  "\<And>c. sc_ocean_texture_frames (h c) = sc_ocean_texture_frames c \<and> sc_land_texture_frames (h c) = sc_land_texture_frames c \<and>
     sc_selected_ocean_texture_index (h c) = sc_selected_ocean_texture_index c \<and>
     sc_loaded_ocean_texture_index (h c) = sc_loaded_ocean_texture_index c \<and>
     sc_selected_land_texture_index (h c) = sc_selected_land_texture_index c \<and>
     sc_loaded_land_texture_index (h c) = sc_loaded_land_texture_index c \<and>
     sc_texture_loads (h c) = sc_texture_loads c \<and> length (sc_ships (h c)) = length (sc_ships c) \<and>
     (sc_ships (h c) = []) = (sc_ships c = [])"
  if "h \<in> {on_view_model_updated, on_effective_ambient_light_intensity_updated, on_rain_density_updated,
           on_ocean_transparency_updated, on_ocean_darkening_rate_updated,
           on_ocean_render_parameters_updated, on_land_render_parameters_updated,
           on_water_contrast_updated, on_water_level_of_detail_updated, on_ship_render_mode_updated,
           on_debug_ship_render_mode_updated, on_vector_field_render_mode_updated,
           on_show_stressed_springs_updated, on_draw_heat_overlay_updated,
           on_heat_overlay_transparency_updated, on_ship_flame_render_mode_updated,
           on_ship_flame_size_adjustment_updated}" for h
  using that by (auto simp: handler_defs Let_def set_shader_def update_world_border_def)

lemma land_texture_index_loads:
  assumes "sc_land_texture_frames c \<noteq> []" "length (sc_land_texture_frames c) \<le> 2 ^ 64"
    and "sc_selected_land_texture_index c \<noteq> sc_loaded_land_texture_index c"
  shows "\<exists>c'. on_land_texture_index_updated c = Some c' \<and>
    sc_loaded_land_texture_index c' = min (sc_selected_land_texture_index c) (length (sc_land_texture_frames c) - 1) \<and>
    sc_texture_loads c' = sc_texture_loads c @ [(ProgramLandTexture, sc_loaded_land_texture_index c')] \<and>
    sc_loaded_ocean_texture_index c' = sc_loaded_ocean_texture_index c \<and> sc_ships c' = sc_ships c"
  using assms by (simp add: on_land_texture_index_updated_def load_texture_index_eq set_shader_def)

lemma land_texture_index_error:
  "on_land_texture_index_updated c = None \<longleftrightarrow>
     sc_selected_land_texture_index c \<noteq> sc_loaded_land_texture_index c \<and> sc_land_texture_frames c = []"
  by (simp add: on_land_texture_index_updated_def load_texture_index_None)

text \<open>With non-empty ocean and land texture lists, the settings part of the RenderContext constructor succeeds with no ships, loads ocean texture 0 and land texture min(3, size - 1), in that order.\<close>

theorem settings_context_create_loads:
  assumes "ocean_frames \<noteq> []" "land_frames \<noteq> []"
    and "length ocean_frames \<le> 2 ^ 64" "length land_frames \<le> 2 ^ 64"
  shows "\<exists>c. settings_context_create vm ocean_frames land_frames border_size max_w max_h = Some c \<and>
    sc_ships c = [] \<and> sc_loaded_ocean_texture_index c = 0 \<and>
    sc_loaded_land_texture_index c = min 3 (length land_frames - 1) \<and>
    sc_texture_loads c = [(ProgramOceanTexture, 0), (ProgramLandTexture, min 3 (length land_frames - 1))]"
proof -
  let ?c0 = "settings_context_initial vm ocean_frames land_frames border_size max_w max_h"
  let ?c1 = "on_ocean_render_parameters_updated (on_ocean_darkening_rate_updated
       (on_ocean_transparency_updated (on_rain_density_updated
         (on_effective_ambient_light_intensity_updated (on_view_model_updated ?c0)))))"
  have size: "size_t_max \<noteq> 0" "size_t_max \<noteq> 3" by (simp_all add: size_t_max_def)
  obtain c2 where c2: "on_ocean_texture_index_updated ?c1 = Some c2" "sc_loaded_ocean_texture_index c2 = 0"
    "sc_texture_loads c2 = [(ProgramOceanTexture, 0)]" "sc_land_texture_frames c2 = land_frames"
    "sc_selected_land_texture_index c2 = 3" "sc_loaded_land_texture_index c2 = size_t_max"
    "sc_ships c2 = []"
    using ocean_texture_index_loads [of ?c1] assms size
    by (auto simp: settings_context_initial_def on_ocean_texture_index_updated_def load_texture_index_eq set_shader_def)
  obtain c3 where c3: "on_land_texture_index_updated (on_land_render_parameters_updated c2) = Some c3"
    "sc_loaded_land_texture_index c3 = min 3 (length land_frames - 1)"
    "sc_texture_loads c3 = [(ProgramOceanTexture, 0), (ProgramLandTexture, min 3 (length land_frames - 1))]"
    "sc_loaded_ocean_texture_index c3 = 0" "sc_ships c3 = []"
    using land_texture_index_loads [of "on_land_render_parameters_updated c2"] assms c2(2-7) size
    by auto
  show ?thesis
    using c2(1) c3 by (simp add: settings_context_create_def)
qed

lemma settings_context_create_ships:
  "settings_context_create vm ocean_frames land_frames border_size max_w max_h = Some c \<Longrightarrow> sc_ships c = []"
  by (auto simp: settings_context_create_def settings_context_initial_def bind_eq_Some_conv
      dest!: on_texture_index_updated_ships)

text \<open>C22: In every render context the program can reach (the constructor, then any sequence of setter calls and of AddShip), every ship render context holds its own id, the current number of ships and exactly the parameters the render context last forwarded: effective ambient light, water colour, water contrast and level of detail, render modes, stressed springs, heat overlay and flame settings.\<close>

theorem settings_reachable_ships_agree:
  assumes "settings_reachable c"
  shows "ships_agree c"
  using assms
proof (induction rule: settings_reachable.induct)
  case (create vm ocean_frames land_frames border_size max_w max_h c)
  then show ?case by (simp add: ships_agree_def settings_context_create_ships)
next
  case (setting c r c')
  show ?case using apply_render_setting_ships_agree [OF setting.IH setting.hyps(2)] .
next
  case (add_ship c ship_id c')
  show ?case using add_ship_settings_ships_agree [OF add_ship.IH add_ship.hyps(2)] .
qed



section \<open>Witnesses\<close>

theorem settings_reachable_ships_agree_witness:
  "settings_reachable example_one_ship_context \<and> length (sc_ships example_one_ship_context) = 1 \<and>
   ships_agree example_one_ship_context"
proof -
  obtain c where c: "settings_context_create example_view_model example_texture_frames example_texture_frames
      (64, 64) 1000 800 = Some c" "sc_ships c = []"
    using settings_context_create_loads [of example_texture_frames example_texture_frames example_view_model
        "(64, 64)" 1000 800]
    by (auto simp: example_texture_frames_def)
  obtain c' where a: "add_ship_settings 0 c = Some c'"
    using c(2) by (simp add: add_ship_settings_def Let_def case_prod_beta)
  have e: "example_one_ship_context = c'" using c(1) a by (simp add: example_one_ship_context_def)
  have r: "settings_reachable c'"
    using settings_reachable.add_ship [OF settings_reachable.create [OF c(1)] a] .
  have "length (sc_ships c') = 1" using add_ship_settings_Some(2) [OF a] c(2) by simp
  then show ?thesis using r settings_reachable_ships_agree [OF r] e by simp
qed

theorem update_world_border_bounds_witness:
  "0 \<le> pixel_width_to_world_width example_view_model 64 \<and>
   pixel_width_to_world_width example_view_model 64 \<le> 2 * 1000 \<and>
   0 \<le> pixel_height_to_world_height example_view_model 64 \<and>
   pixel_height_to_world_height example_view_model 64 \<le> 2 * 800 \<and>
   length (sc_world_border_vertex_buffer (update_world_border example_settings_context)) \<le> 24 \<and>
   list_all (\<lambda>(x, y, tx, ty). - 500 \<le> x \<and> x \<le> 500 \<and> - 400 \<le> y \<and> y \<le> 400)
     (sc_world_border_vertex_buffer (update_world_border example_settings_context)) \<and>
   sc_is_world_border_visible (update_world_border example_settings_context)"
proof -
  have pw: "pixel_width_to_world_width example_view_model 64 = 32 / 5"
    "pixel_height_to_world_height example_view_model 64 = 32 / 5"
    by (simp_all add: pixel_width_to_world_width_def pixel_height_to_world_height_def example_view_model_def)
  have f: "sc_view_model example_settings_context = example_view_model"
    "sc_world_border_texture_size example_settings_context = (64, 64)"
    "sc_max_world_width example_settings_context = 1000" "sc_max_world_height example_settings_context = 800"
    by (simp_all add: example_settings_context_def settings_context_initial_def)
  have v: "sc_is_world_border_visible (update_world_border example_settings_context)"
  proof -
    have "vm_visible_world_top_left example_view_model = (-520, 40)" by (simp add: example_view_model_def)
    then show ?thesis by (simp add: update_world_border_def Let_def f pw make_quad_def)
  qed
  show ?thesis
    using update_world_border_bounds [of example_settings_context] v by (simp add: f pw list_all_iff)
qed

theorem ocean_texture_index_settles_witness:
  "sc_selected_ocean_texture_index example_settings_context < length (sc_ocean_texture_frames example_settings_context) \<and>
   length (sc_ocean_texture_frames example_settings_context) \<le> 2 ^ 64 \<and>
   on_ocean_texture_index_updated example_settings_context =
     Some (the (on_ocean_texture_index_updated example_settings_context)) \<and>
   sc_loaded_ocean_texture_index (the (on_ocean_texture_index_updated example_settings_context)) = 0 \<and>
   on_ocean_texture_index_updated (the (on_ocean_texture_index_updated example_settings_context)) =
     Some (the (on_ocean_texture_index_updated example_settings_context))"
proof -
  have f: "sc_selected_ocean_texture_index example_settings_context = 0"
    "sc_loaded_ocean_texture_index example_settings_context = size_t_max"
    "sc_ocean_texture_frames example_settings_context = example_texture_frames"
    by (simp_all add: example_settings_context_def settings_context_initial_def)
  obtain c' where c': "on_ocean_texture_index_updated example_settings_context = Some c'"
    using ocean_texture_index_loads [of example_settings_context] f
    by (auto simp: example_texture_frames_def size_t_max_def)
  show ?thesis
    using ocean_texture_index_settles [of example_settings_context c'] c' f
    by (simp add: example_texture_frames_def)
qed

theorem settings_context_create_loads_witness:
  "\<exists>c. settings_context_create example_view_model example_texture_frames example_texture_frames (64, 64) 1000 800 = Some c \<and>
    sc_ships c = [] \<and> sc_loaded_ocean_texture_index c = 0 \<and> sc_loaded_land_texture_index c = 1 \<and>
    sc_texture_loads c = [(ProgramOceanTexture, 0), (ProgramLandTexture, 1)]"
  using settings_context_create_loads [of example_texture_frames example_texture_frames example_view_model
      "(64, 64)" 1000 800]
  by (simp add: example_texture_frames_def)

end
