(* ===== verification/TextLayer.thy ===== *)
theory TextLayer
  imports Prelude "HOL-Library.Signed_Division"
begin

text \<open>
  \<^verbatim>\<open>src/Game/TextLayer.cpp\<close>: the three status text lines (frame rate and game time;
  update-to-render ratio, zoom and camera; render statistics) and the ephemeral text
  lines, which fade in, stay for their lifetime, fade out and disappear.  The
  \<^verbatim>\<open>TextRenderContext\<close> the layer draws with (outside \<^verbatim>\<open>src/\<close>) is an explicit
  store from handles to rendered lines, with the next fresh handle;
  \<^verbatim>\<open>NoneRenderedTextHandle\<close> is \<open>None\<close>.  Number formatting of \<^verbatim>\<open>std::ostringstream\<close>
  is a parameter.  Times are seconds as reals.
\<close>

section \<open>The text render context\<close>

datatype text_position_type = TextTopLeft | TextTopRight

datatype font_type = FontStatusText | FontGameText

record rendered_line =
  rl_text :: string
  rl_position :: text_position_type
  rl_offset :: vec2
  rl_alpha :: real
  rl_font :: font_type

record text_render_context =
  trc_lines :: "nat \<rightharpoonup> rendered_line"
  trc_next_handle :: nat
  trc_status_line_height :: real
  trc_game_line_height :: real

definition trc_add_text_line ::
  "string \<Rightarrow> text_position_type \<Rightarrow> vec2 \<Rightarrow> real \<Rightarrow> font_type \<Rightarrow> text_render_context
   \<Rightarrow> nat \<times> text_render_context" where
  "trc_add_text_line text pos offset alpha font trc =
     (let h = trc_next_handle trc in
      (h, trc\<lparr>trc_lines := (trc_lines trc)(h \<mapsto> \<lparr>rl_text = text, rl_position = pos, rl_offset = offset,
                                                 rl_alpha = alpha, rl_font = font\<rparr>),
             trc_next_handle := Suc h\<rparr>))"

definition trc_update_text_line_alpha :: "nat \<Rightarrow> vec2 \<Rightarrow> real \<Rightarrow> text_render_context \<Rightarrow> text_render_context" where
  "trc_update_text_line_alpha h offset alpha trc =
     trc\<lparr>trc_lines := (case trc_lines trc h of
                         None \<Rightarrow> trc_lines trc
                       | Some l \<Rightarrow> (trc_lines trc)(h \<mapsto> l\<lparr>rl_offset := offset, rl_alpha := alpha\<rparr>))\<rparr>"

definition trc_update_text_line_text :: "nat \<Rightarrow> string \<Rightarrow> vec2 \<Rightarrow> text_render_context \<Rightarrow> text_render_context" where
  "trc_update_text_line_text h text offset trc =
     trc\<lparr>trc_lines := (case trc_lines trc h of
                         None \<Rightarrow> trc_lines trc
                       | Some l \<Rightarrow> (trc_lines trc)(h \<mapsto> l\<lparr>rl_text := text, rl_offset := offset\<rparr>))\<rparr>"

definition trc_clear_text_line :: "nat \<Rightarrow> text_render_context \<Rightarrow> text_render_context" where
  "trc_clear_text_line h trc = trc\<lparr>trc_lines := (trc_lines trc)(h := None)\<rparr>"

definition trc_line_screen_height :: "font_type \<Rightarrow> text_render_context \<Rightarrow> real" where
  "trc_line_screen_height font trc =
     (case font of FontStatusText \<Rightarrow> trc_status_line_height trc | FontGameText \<Rightarrow> trc_game_line_height trc)"

text \<open>\<^verbatim>\<open>GameWallClock::Progress\<close>: the fraction of a duration elapsed since a start.\<close>

definition progress :: "real \<Rightarrow> real \<Rightarrow> real \<Rightarrow> real" where
  "progress now start duration = (now - start) / duration"

section \<open>The text layer\<close>

record status_text_line =
  stl_handle :: "nat option"
  stl_text :: string
  stl_is_text_dirty :: bool

datatype ephemeral_state = EphInitial | EphFadingIn | EphDisplaying | EphFadingOut | EphDisappearing

record ephemeral_text_line =
  etl_handle :: nat
  etl_lifetime :: real
  etl_state :: ephemeral_state
  etl_current_state_start :: real

record text_layer =
  tl_trc :: text_render_context
  tl_is_status_text_enabled :: bool
  tl_is_extended_status_text_enabled :: bool
  tl_status_text_lines :: "status_text_line list"
  tl_are_status_text_line_positions_dirty :: bool
  tl_ephemeral_text_lines :: "ephemeral_text_line list"

definition empty_status_text_line :: status_text_line where
  "empty_status_text_line = \<lparr>stl_handle = None, stl_text = [], stl_is_text_dirty = False\<rparr>"

definition text_layer_create :: "text_render_context \<Rightarrow> bool \<Rightarrow> bool \<Rightarrow> text_layer" where
  "text_layer_create trc status extended =
     \<lparr>tl_trc = trc, tl_is_status_text_enabled = status, tl_is_extended_status_text_enabled = extended,
      tl_status_text_lines = replicate 3 empty_status_text_line,
      tl_are_status_text_line_positions_dirty = False, tl_ephemeral_text_lines = []\<rparr>"

definition set_status_text_enabled_tl :: "bool \<Rightarrow> text_layer \<Rightarrow> text_layer" where
  "set_status_text_enabled_tl b lay =
     lay\<lparr>tl_is_status_text_enabled := b, tl_are_status_text_line_positions_dirty := True\<rparr>"

definition set_extended_status_text_enabled_tl :: "bool \<Rightarrow> text_layer \<Rightarrow> text_layer" where
  "set_extended_status_text_enabled_tl b lay =
     lay\<lparr>tl_is_extended_status_text_enabled := b, tl_are_status_text_line_positions_dirty := True\<rparr>"

section \<open>Status texts\<close>

text \<open>The formatting the text uses: \<^verbatim>\<open>std::fixed << std::setprecision(2)\<close> for floats,
  \<^verbatim>\<open>std::setw(2)\<close> with fill \<^verbatim>\<open>'0'\<close> for the minutes and seconds, and plain
  integers for the render statistics.\<close>

record text_format =
  fmt_fixed2 :: "real \<Rightarrow> string"
  fmt_width2 :: "int \<Rightarrow> string"
  fmt_count :: "nat \<Rightarrow> string"

record render_statistics =
  last_rendered_ship_points :: nat
  last_rendered_ship_ropes :: nat
  last_rendered_ship_springs :: nat
  last_rendered_ship_triangles :: nat
  last_rendered_ship_planes :: nat
  last_rendered_ship_generic_textures :: nat
  last_rendered_ship_flames :: nat

text \<open>\<^verbatim>\<open>roundf\<close>: to the nearest integer, halves away from zero.\<close>

definition roundf :: "real \<Rightarrow> int" where
  "roundf x = (if 0 \<le> x then \<lfloor>x + 1 / 2\<rfloor> else - \<lfloor>- x + 1 / 2\<rfloor>)"

text \<open>The game time as minutes and seconds, with C++'s truncating integer division.\<close>

definition game_time_minutes_seconds :: "real \<Rightarrow> int \<times> int" where
  "game_time_minutes_seconds elapsed =
     (let s = roundf elapsed; m = s sdiv 60 in (m, s - m * 60))"

definition status_line_0 :: "text_format \<Rightarrow> real \<Rightarrow> real \<Rightarrow> real \<Rightarrow> bool \<Rightarrow> string" where
  "status_line_0 fmt immediate_fps average_fps elapsed is_paused =
     (case game_time_minutes_seconds elapsed of (m, s) \<Rightarrow>
        ''FPS:'' @ fmt_fixed2 fmt average_fps @ '' ('' @ fmt_fixed2 fmt immediate_fps @ '')''
        @ '' '' @ fmt_width2 fmt m @ '':'' @ fmt_width2 fmt s
        @ (if is_paused then '' (PAUSED)'' else []))"

definition status_line_1 :: "text_format \<Rightarrow> real \<Rightarrow> vec2 \<Rightarrow> real \<Rightarrow> real \<Rightarrow> string" where
  "status_line_1 fmt zoom camera total_ratio last_ratio =
     ''U/R:'' @ fmt_fixed2 fmt (100 * total_ratio) @ ''% ('' @ fmt_fixed2 fmt (100 * last_ratio) @ ''%)''
     @ '' ZOOM:'' @ fmt_fixed2 fmt zoom
     @ '' CAM:'' @ fmt_fixed2 fmt (fst camera) @ '', '' @ fmt_fixed2 fmt (snd camera)"

definition status_line_2 :: "text_format \<Rightarrow> render_statistics \<Rightarrow> string" where
  "status_line_2 fmt rs =
     ''PNT:'' @ fmt_count fmt (last_rendered_ship_points rs)
     @ '' RPS:'' @ fmt_count fmt (last_rendered_ship_ropes rs)
     @ '' SPR:'' @ fmt_count fmt (last_rendered_ship_springs rs)
     @ '' TRI:'' @ fmt_count fmt (last_rendered_ship_triangles rs)
     @ '' PLN:'' @ fmt_count fmt (last_rendered_ship_planes rs)
     @ '' GENTEX:'' @ fmt_count fmt (last_rendered_ship_generic_textures rs)
     @ '' FLM:'' @ fmt_count fmt (last_rendered_ship_flames rs)"

definition set_line_text :: "nat \<Rightarrow> string \<Rightarrow> text_layer \<Rightarrow> text_layer" where
  "set_line_text i text lay =
     lay\<lparr>tl_status_text_lines := (tl_status_text_lines lay)[i :=
          (tl_status_text_lines lay ! i)\<lparr>stl_text := text, stl_is_text_dirty := True\<rparr>]\<rparr>"

definition set_status_texts ::
  "text_format \<Rightarrow> real \<Rightarrow> real \<Rightarrow> real \<Rightarrow> bool \<Rightarrow> real \<Rightarrow> vec2 \<Rightarrow> real \<Rightarrow> real \<Rightarrow> render_statistics
   \<Rightarrow> text_layer \<Rightarrow> text_layer" where
  "set_status_texts fmt immediate_fps average_fps elapsed is_paused zoom camera total_ratio last_ratio rs lay =
     (let lay1 = (if tl_is_status_text_enabled lay
                 then set_line_text 0 (status_line_0 fmt immediate_fps average_fps elapsed is_paused) lay
                 else lay)
      in if tl_is_extended_status_text_enabled lay1
         then set_line_text 2 (status_line_2 fmt rs)
                (set_line_text 1 (status_line_1 fmt zoom camera total_ratio last_ratio) lay1)
         else lay1)"

section \<open>Ephemeral text lines\<close>

text \<open>\<^verbatim>\<open>AddEphemeralTextLine\<close>: a new rendered line at the top right, transparent for
  now, and a new ephemeral line in state \<^verbatim>\<open>Initial\<close>.\<close>

definition add_ephemeral_text_line :: "string \<Rightarrow> real \<Rightarrow> text_layer \<Rightarrow> text_layer" where
  "add_ephemeral_text_line text lifetime lay =
     (case trc_add_text_line text TextTopRight (0, 0) 0 FontGameText (tl_trc lay) of
        (h, trc) \<Rightarrow> lay\<lparr>tl_trc := trc, tl_ephemeral_text_lines := tl_ephemeral_text_lines lay @
           [\<lparr>etl_handle = h, etl_lifetime = lifetime, etl_state = EphInitial, etl_current_state_start = 0\<rparr>]\<rparr>)"

text \<open>The trimming loop of \<^verbatim>\<open>Update\<close>: while there are more than eight lines, clear
  the first one's rendered line and pop it.\<close>

fun trim_ephemeral_lines :: "ephemeral_text_line list \<Rightarrow> text_render_context
                             \<Rightarrow> ephemeral_text_line list \<times> text_render_context" where
  "trim_ephemeral_lines [] trc = ([], trc)"
| "trim_ephemeral_lines (l # ls) trc =
     (if 8 < length (l # ls) then trim_ephemeral_lines ls (trc_clear_text_line (etl_handle l) trc)
      else (l # ls, trc))"

text \<open>One line of the state machine of \<^verbatim>\<open>Update\<close>, at the cumulative vertical
  offset \<open>y\<close>: the line (or \<open>None\<close> when it is erased), the next offset and the text
  render context.  \<^verbatim>\<open>Initial\<close> falls through to \<^verbatim>\<open>FadingIn\<close>.\<close>

definition fading_duration :: real where
  "fading_duration = 0.5"

definition ephemeral_line_step ::
  "real \<Rightarrow> real \<Rightarrow> ephemeral_text_line \<Rightarrow> real \<Rightarrow> text_render_context
   \<Rightarrow> ephemeral_text_line option \<times> real \<times> text_render_context" where
  "ephemeral_line_step lh now l0 y trc =
     (let l = (if etl_state l0 = EphInitial
               then l0\<lparr>etl_state := EphFadingIn, etl_current_state_start := now\<rparr> else l0)
      in case etl_state l of
           EphFadingIn \<Rightarrow>
             (let p = progress now (etl_current_state_start l) fading_duration
              in (Some (if 1 \<le> p then l\<lparr>etl_state := EphDisplaying, etl_current_state_start := now\<rparr> else l),
                  y + lh, trc_update_text_line_alpha (etl_handle l) (0, y) (min 1 p) trc))
         | EphDisplaying \<Rightarrow>
             (let p = progress now (etl_current_state_start l) (etl_lifetime l)
              in (Some (if 1 \<le> p then l\<lparr>etl_state := EphFadingOut, etl_current_state_start := now\<rparr> else l),
                  y + lh, trc_update_text_line_alpha (etl_handle l) (0, y) 1 trc))
         | EphFadingOut \<Rightarrow>
             (let p = progress now (etl_current_state_start l) fading_duration
              in (Some (if 1 \<le> p then l\<lparr>etl_state := EphDisappearing, etl_current_state_start := now\<rparr> else l),
                  y + lh, trc_update_text_line_alpha (etl_handle l) (0, y) (1 - min 1 p) trc))
         | EphDisappearing \<Rightarrow>
             (let p = progress now (etl_current_state_start l) fading_duration
              in (if 1 \<le> p then None else Some l, y + lh * (1 - min 1 p), trc))
         | EphInitial \<Rightarrow> (Some l, y, trc))"

primrec update_ephemeral_lines ::
  "real \<Rightarrow> real \<Rightarrow> ephemeral_text_line list \<Rightarrow> real \<Rightarrow> text_render_context
   \<Rightarrow> ephemeral_text_line list \<times> text_render_context" where
  "update_ephemeral_lines lh now [] y trc = ([], trc)"
| "update_ephemeral_lines lh now (l # ls) y trc =
     (case ephemeral_line_step lh now l y trc of
        (ol, y', trc') \<Rightarrow>
          (case update_ephemeral_lines lh now ls y' trc' of
             (ls', trc'') \<Rightarrow> ((case ol of None \<Rightarrow> ls' | Some l' \<Rightarrow> l' # ls'), trc'')))"

section \<open>Update\<close>

text \<open>\<^verbatim>\<open>UpdateStatusTextLine\<close>: an enabled line takes the next ordinal and is
  created, or updated when its text or the positions are dirty; a disabled line that
  is shown is cleared and emptied.\<close>

definition update_status_text_line ::
  "status_text_line \<Rightarrow> bool \<Rightarrow> bool \<Rightarrow> nat \<Rightarrow> text_render_context
   \<Rightarrow> status_text_line \<times> nat \<times> text_render_context" where
  "update_status_text_line line is_enabled positions_dirty ordinal trc =
     (if is_enabled then
        (let offset = (0, real ordinal * trc_line_screen_height FontStatusText trc) in
         case stl_handle line of
           None \<Rightarrow>
             (case trc_add_text_line (stl_text line) TextTopLeft offset 1 FontStatusText trc of
                (h, trc') \<Rightarrow> (line\<lparr>stl_handle := Some h, stl_is_text_dirty := False\<rparr>, Suc ordinal, trc'))
         | Some h \<Rightarrow>
             (if stl_is_text_dirty line \<or> positions_dirty
              then (line\<lparr>stl_is_text_dirty := False\<rparr>, Suc ordinal,
                    trc_update_text_line_text h (stl_text line) offset trc)
              else (line, Suc ordinal, trc)))
      else
        (case stl_handle line of
           None \<Rightarrow> (line, ordinal, trc)
         | Some h \<Rightarrow> (line\<lparr>stl_handle := None, stl_text := [], stl_is_text_dirty := False\<rparr>, ordinal,
                      trc_clear_text_line h trc)))"

definition update_status_text_lines :: "text_layer \<Rightarrow> text_layer" where
  "update_status_text_lines lay =
     (let ls = tl_status_text_lines lay; d = tl_are_status_text_line_positions_dirty lay
      in case update_status_text_line (ls ! 0) (tl_is_status_text_enabled lay) d 0 (tl_trc lay) of
           (l0, o0, t0) \<Rightarrow>
             (case update_status_text_line (ls ! 1) (tl_is_extended_status_text_enabled lay) d o0 t0 of
                (l1, o1, t1) \<Rightarrow>
                  (case update_status_text_line (ls ! 2) (tl_is_extended_status_text_enabled lay) d o1 t1 of
                     (l2, o2, t2) \<Rightarrow>
                       lay\<lparr>tl_status_text_lines := [l0, l1, l2], tl_trc := t2,
                          tl_are_status_text_line_positions_dirty := False\<rparr>)))"

definition text_layer_update :: "real \<Rightarrow> text_layer \<Rightarrow> text_layer" where
  "text_layer_update now lay =
     (let lay1 = update_status_text_lines lay in
      case trim_ephemeral_lines (tl_ephemeral_text_lines lay1) (tl_trc lay1) of
        (ls, trc) \<Rightarrow>
          (case update_ephemeral_lines (trc_line_screen_height FontGameText trc) now ls 0 trc of
             (ls', trc') \<Rightarrow> lay1\<lparr>tl_ephemeral_text_lines := ls', tl_trc := trc'\<rparr>))"

text \<open>The game loop calls \<^verbatim>\<open>Update\<close> once per frame: a run of updates at the
  given times.\<close>

primrec text_layer_run :: "real list \<Rightarrow> text_layer \<Rightarrow> text_layer" where
  "text_layer_run [] lay = lay"
| "text_layer_run (t # ts) lay = text_layer_run ts (text_layer_update t lay)"

definition example_text_render_context :: text_render_context where
  "example_text_render_context =
     \<lparr>trc_lines = Map.empty, trc_next_handle = 0, trc_status_line_height = 12, trc_game_line_height = 20\<rparr>"

definition example_text_layer :: text_layer where
  "example_text_layer = add_ephemeral_text_line ''Saved'' 2 (text_layer_create example_text_render_context True False)"

section \<open>Lemmas\<close>


text \<open>C28: The trimming loop of TextLayer::Update (while more than 8 lines, clear the first rendered line and pop it) equals dropping all but the last 8 lines and clearing exactly the rendered lines of the dropped ones, in order.\<close>

theorem trim_ephemeral_lines_eq:
  "trim_ephemeral_lines ls trc =
     (drop (length ls - 8) ls, fold trc_clear_text_line (map etl_handle (take (length ls - 8) ls)) trc)"
proof (induction ls arbitrary: trc)
  case Nil
  then show ?case by simp
next
  case (Cons l ls)
  show ?case
  proof (cases "8 < length (l # ls)")
    case True
    then have "length (l # ls) - 8 = Suc (length ls - 8)" by simp
    then show ?thesis using True Cons.IH by simp
  next
    case False
    then show ?thesis by simp
  qed
qed

lemma trim_ephemeral_lines_length: "length (fst (trim_ephemeral_lines ls trc)) \<le> 8"
  by (simp add: trim_ephemeral_lines_eq)

lemma update_ephemeral_lines_length:
  "length (fst (update_ephemeral_lines lh now ls y trc)) \<le> length ls"
proof (induction ls arbitrary: y trc)
  case Nil
  then show ?case by simp
next
  case (Cons l ls)
  obtain ol y' trc' where s: "ephemeral_line_step lh now l y trc = (ol, y', trc')" by (metis prod_cases3)
  obtain ls' trc'' where r: "update_ephemeral_lines lh now ls y' trc' = (ls', trc'')" by fastforce
  have "length ls' \<le> length ls" using Cons.IH [of y' trc'] r by simp
  then show ?case using s r by (cases ol) simp_all
qed

lemma update_status_text_line_handle:
  "stl_handle (fst (update_status_text_line line en d ordinal trc)) \<noteq> None \<longleftrightarrow> en"
  by (auto simp: update_status_text_line_def Let_def split: option.splits prod.splits)

text \<open>C29: After TextLayer::Update the first status line is shown exactly when the status text is enabled, the other two exactly when the extended status text is enabled, and at most 8 ephemeral lines remain.\<close>

theorem text_layer_update_shows:
  assumes "length (tl_status_text_lines lay) = 3"
  shows "length (tl_status_text_lines (text_layer_update now lay)) = 3 \<and>
    (stl_handle (tl_status_text_lines (text_layer_update now lay) ! 0) \<noteq> None \<longleftrightarrow> tl_is_status_text_enabled lay) \<and>
    (stl_handle (tl_status_text_lines (text_layer_update now lay) ! 1) \<noteq> None \<longleftrightarrow> tl_is_extended_status_text_enabled lay) \<and>
    (stl_handle (tl_status_text_lines (text_layer_update now lay) ! 2) \<noteq> None \<longleftrightarrow> tl_is_extended_status_text_enabled lay) \<and>
    length (tl_ephemeral_text_lines (text_layer_update now lay)) \<le> 8"
proof -
  obtain l0 o0 t0 where 0: "update_status_text_line (tl_status_text_lines lay ! 0) (tl_is_status_text_enabled lay)
      (tl_are_status_text_line_positions_dirty lay) 0 (tl_trc lay) = (l0, o0, t0)" by (metis prod_cases3)
  obtain l1 o1 t1 where 1: "update_status_text_line (tl_status_text_lines lay ! 1) (tl_is_extended_status_text_enabled lay)
      (tl_are_status_text_line_positions_dirty lay) o0 t0 = (l1, o1, t1)" by (metis prod_cases3)
  obtain l2 o2 t2 where 2: "update_status_text_line (tl_status_text_lines lay ! 2) (tl_is_extended_status_text_enabled lay)
      (tl_are_status_text_line_positions_dirty lay) o1 t1 = (l2, o2, t2)" by (metis prod_cases3)
  have s: "update_status_text_lines lay = lay\<lparr>tl_status_text_lines := [l0, l1, l2], tl_trc := t2,
      tl_are_status_text_line_positions_dirty := False\<rparr>"
    using 0 1 2 by (simp add: update_status_text_lines_def Let_def)
  have h: "stl_handle l0 \<noteq> None \<longleftrightarrow> tl_is_status_text_enabled lay"
    "stl_handle l1 \<noteq> None \<longleftrightarrow> tl_is_extended_status_text_enabled lay"
    "stl_handle l2 \<noteq> None \<longleftrightarrow> tl_is_extended_status_text_enabled lay"
    using update_status_text_line_handle 0 1 2 by (metis fst_conv)+
  obtain ls trc where t: "trim_ephemeral_lines (tl_ephemeral_text_lines lay) t2 = (ls, trc)" by fastforce
  have "length ls \<le> 8" using trim_ephemeral_lines_length [of "tl_ephemeral_text_lines lay" t2] t by simp
  then show ?thesis
    using h t s update_ephemeral_lines_length [of "trc_line_screen_height FontGameText trc" now ls 0 trc]
    by (auto simp: text_layer_update_def split: prod.split)
qed



lemma progress_ge_1: "0 < d \<Longrightarrow> start + d \<le> now \<Longrightarrow> 1 \<le> progress now start d"
  by (simp add: progress_def)

lemma fading_duration_pos [simp]: "0 < fading_duration"
  by (simp add: fading_duration_def)

lemma text_layer_update_single:
  assumes "tl_ephemeral_text_lines lay = [l]"
  shows "\<exists>lh trc. tl_ephemeral_text_lines (text_layer_update now lay) =
    (case fst (ephemeral_line_step lh now l 0 trc) of None \<Rightarrow> [] | Some l' \<Rightarrow> [l'])"
proof -
  obtain ls trc where t: "trim_ephemeral_lines [l] (tl_trc (update_status_text_lines lay)) = (ls, trc)" by fastforce
  then have "ls = [l]" by simp
  moreover have "tl_ephemeral_text_lines (update_status_text_lines lay) = [l]"
    using assms by (simp add: update_status_text_lines_def Let_def split: prod.split)
  ultimately show ?thesis using t
    by (intro exI [of _ "trc_line_screen_height FontGameText trc"] exI [of _ trc])
       (auto simp: text_layer_update_def split: prod.split option.split)
qed

lemma text_layer_update_single_step:
  assumes "tl_ephemeral_text_lines lay = [l]"
  shows "(\<And>lh y trc. fst (ephemeral_line_step lh now l y trc) = Some l') \<Longrightarrow>
      tl_ephemeral_text_lines (text_layer_update now lay) = [l']"
    "(\<And>lh y trc. fst (ephemeral_line_step lh now l y trc) = None) \<Longrightarrow>
      tl_ephemeral_text_lines (text_layer_update now lay) = []"
  using text_layer_update_single [OF assms, of now] by auto

text \<open>C27: A newly added ephemeral text line, alone in the layer, goes through FadingIn, Displaying, FadingOut and Disappearing and is erased after five updates, when each update comes at least the current state's duration (half a second, or the line's lifetime while displaying) after the previous one.\<close>

theorem ephemeral_text_line_disappears:
  assumes "tl_ephemeral_text_lines lay = [l]" "etl_state l = EphInitial" "0 < etl_lifetime l"
    and "t0 + fading_duration \<le> t1" "t1 + etl_lifetime l \<le> t2"
    and "t2 + fading_duration \<le> t3" "t3 + fading_duration \<le> t4"
  shows "tl_ephemeral_text_lines (text_layer_run [t0, t1, t2, t3, t4] lay) = []"
proof -
  let ?l1 = "l\<lparr>etl_state := EphFadingIn, etl_current_state_start := t0\<rparr>"
  let ?l2 = "?l1\<lparr>etl_state := EphDisplaying, etl_current_state_start := t1\<rparr>"
  let ?l3 = "?l2\<lparr>etl_state := EphFadingOut, etl_current_state_start := t2\<rparr>"
  let ?l4 = "?l3\<lparr>etl_state := EphDisappearing, etl_current_state_start := t3\<rparr>"
  have 1: "tl_ephemeral_text_lines (text_layer_update t0 lay) = [?l1]"
    by (rule text_layer_update_single_step(1) [OF assms(1)]) (simp add: ephemeral_line_step_def progress_def assms(2))
  have 2: "tl_ephemeral_text_lines (text_layer_update t1 (text_layer_update t0 lay)) = [?l2]"
    by (rule text_layer_update_single_step(1) [OF 1]) (simp add: ephemeral_line_step_def Let_def progress_ge_1 assms(4))
  have 3: "tl_ephemeral_text_lines (text_layer_update t2 (text_layer_update t1 (text_layer_update t0 lay))) = [?l3]"
    by (rule text_layer_update_single_step(1) [OF 2]) (simp add: ephemeral_line_step_def Let_def progress_ge_1 assms(3,5))
  have 4: "tl_ephemeral_text_lines (text_layer_update t3 (text_layer_update t2 (text_layer_update t1
      (text_layer_update t0 lay)))) = [?l4]"
    by (rule text_layer_update_single_step(1) [OF 3]) (simp add: ephemeral_line_step_def Let_def progress_ge_1 assms(6))
  show ?thesis
    by (simp, rule text_layer_update_single_step(2) [OF 4]) (simp add: ephemeral_line_step_def Let_def progress_ge_1 assms(7))
qed






lemma roundf_nonneg: "0 \<le> x \<Longrightarrow> 0 \<le> roundf x"
  by (simp add: roundf_def)

lemma sdiv_nonneg_int: "0 \<le> (a :: int) \<Longrightarrow> a sdiv 60 = a div 60"
  by (simp add: signed_divide_int_def sgn_if)

lemma game_time_minutes_seconds_bounds:
  assumes "0 \<le> elapsed" "game_time_minutes_seconds elapsed = (m, s)"
  shows "0 \<le> s \<and> s < 60 \<and> 60 * m + s = roundf elapsed"
proof -
  have r: "0 \<le> roundf elapsed" by (rule roundf_nonneg [OF assms(1)])
  have m: "m = roundf elapsed div 60" and s: "s = roundf elapsed mod 60"
    using assms(2) sdiv_nonneg_int [OF r] by (auto simp: game_time_minutes_seconds_def Let_def minus_div_mult_eq_mod)
  have "roundf elapsed div 60 * 60 + roundf elapsed mod 60 = roundf elapsed" by (rule div_mult_mod_eq)
  then show ?thesis using m s by simp
qed

lemma status_line_0_paused:
  "status_line_0 fmt i a e True = status_line_0 fmt i a e False @ '' (PAUSED)''"
  by (simp add: status_line_0_def split: prod.split)



section \<open>Witnesses\<close>

theorem text_layer_update_shows_witness:
  "length (tl_status_text_lines example_text_layer) = 3 \<and>
   stl_handle (tl_status_text_lines (text_layer_update 0 example_text_layer) ! 0) \<noteq> None \<and>
   stl_handle (tl_status_text_lines (text_layer_update 0 example_text_layer) ! 1) = None \<and>
   length (tl_ephemeral_text_lines (text_layer_update 0 example_text_layer)) \<le> 8"
proof -
  have f: "length (tl_status_text_lines example_text_layer) = 3"
    "tl_is_status_text_enabled example_text_layer" "\<not> tl_is_extended_status_text_enabled example_text_layer"
    by (simp_all add: example_text_layer_def add_ephemeral_text_line_def text_layer_create_def split: prod.split)
  show ?thesis using text_layer_update_shows [OF f(1), of 0] f by simp
qed

theorem ephemeral_text_line_disappears_witness:
  "tl_ephemeral_text_lines example_text_layer =
     [\<lparr>etl_handle = 0, etl_lifetime = 2, etl_state = EphInitial, etl_current_state_start = 0\<rparr>] \<and>
   0 + fading_duration \<le> 1 / 2 \<and> 1 / 2 + 2 \<le> (5 / 2 :: real) \<and> 5 / 2 + fading_duration \<le> 3 \<and>
   3 + fading_duration \<le> 7 / 2 \<and>
   tl_ephemeral_text_lines (text_layer_run [0, 1 / 2, 5 / 2, 3, 7 / 2] example_text_layer) = []"
proof -
  have e: "tl_ephemeral_text_lines example_text_layer =
     [\<lparr>etl_handle = 0, etl_lifetime = 2, etl_state = EphInitial, etl_current_state_start = 0\<rparr>]"
    by (simp add: example_text_layer_def add_ephemeral_text_line_def text_layer_create_def
        trc_add_text_line_def example_text_render_context_def)
  show ?thesis
    using ephemeral_text_line_disappears [OF e, of 0 "1 / 2" "5 / 2" 3 "7 / 2"] e
    by (simp add: fading_duration_def)
qed

end
