(* ===== verification/OceanFloor.thy ===== *)
theory OceanFloor
  imports Prelude
begin

text \<open>
  \<^verbatim>\<open>src/GameLib/OceanFloor.cpp\<close>: the sea floor as \<^verbatim>\<open>SamplesCount + 1\<close> height
  samples, a sum of three sines shifted down by the sea depth, recomputed by
  \<^verbatim>\<open>Update\<close> only when the game parameters' sea depth changed.  The constants of
  \<^verbatim>\<open>Physics.h\<close> (outside \<^verbatim>\<open>src/\<close>) are the record \<open>floor_constants\<close>.  The
  constructor leaves the samples uninitialised: the model takes their contents as an
  argument.
\<close>

record floor_constants =
  fc_samples_count :: nat
  fc_dx :: real
  fc_frequency1 :: real
  fc_frequency2 :: real
  fc_frequency3 :: real

record ocean_floor =
  of_samples :: "real list"
  of_current_sea_depth :: real

text \<open>\<^verbatim>\<open>std::numeric_limits<float>::lowest()\<close>.\<close>

definition float_lowest :: real where
  "float_lowest = - (2 ^ 128 - 2 ^ 104)"

definition ocean_floor_create :: "floor_constants \<Rightarrow> real list \<Rightarrow> ocean_floor" where
  "ocean_floor_create K garbage =
     \<lparr>of_samples = take (Suc (fc_samples_count K)) (garbage @ replicate (Suc (fc_samples_count K)) 0),
      of_current_sea_depth = float_lowest\<rparr>"

definition floor_sample :: "floor_constants \<Rightarrow> real \<Rightarrow> real \<Rightarrow> real" where
  "floor_sample K sea_depth x =
     (let c1 = sin (x * fc_frequency1 K) * 10;
          c2 = sin (x * fc_frequency2 K) * 6;
          c3 = sin (x * fc_frequency3 K) * 45
      in (c1 + c2 - c3) - sea_depth)"

text \<open>The loop of \<^verbatim>\<open>Update\<close>: \<open>n\<close> samples from position \<open>x\<close>, advancing
  \<open>x\<close> by \<^verbatim>\<open>Dx\<close> after each sample.\<close>

primrec fill_samples :: "floor_constants \<Rightarrow> real \<Rightarrow> nat \<Rightarrow> real \<Rightarrow> real list" where
  "fill_samples K sea_depth 0 x = []"
| "fill_samples K sea_depth (Suc n) x = floor_sample K sea_depth x # fill_samples K sea_depth n (x + fc_dx K)"

definition ocean_floor_update :: "floor_constants \<Rightarrow> real \<Rightarrow> ocean_floor \<Rightarrow> ocean_floor" where
  "ocean_floor_update K sea_depth f =
     (if sea_depth \<noteq> of_current_sea_depth f
      then f\<lparr>of_samples := fill_samples K sea_depth (Suc (fc_samples_count K)) 0,
             of_current_sea_depth := sea_depth\<rparr>
      else f)"


section \<open>Lemmas\<close>



lemma ocean_floor_update_idempotent:
  "ocean_floor_update K d (ocean_floor_update K d f) = ocean_floor_update K d f"
  by (simp add: ocean_floor_update_def)

lemma ocean_floor_lowest_depth_not_filled:
  "ocean_floor_update K float_lowest (ocean_floor_create K garbage) = ocean_floor_create K garbage"
  by (simp add: ocean_floor_update_def ocean_floor_create_def)


end
