(* ===== verification/ResourceLoader.thy ===== *)
theory ResourceLoader
  imports Prelude "HOL-Library.Word" "HOL-Library.List_Lexorder" "HOL-Library.Char_ord"
begin

text \<open>
  The resource loader of \<^verbatim>\<open>src/GameLib/ResourceLoader.cpp\<close>: the paths of the game's
  data files, the listings of the sound and font directories, the image loading through
  DevIL and the loading of a ship definition.  \<^verbatim>\<open>std::filesystem::path\<close> is the record
  \<open>fs_path\<close> (an absolute flag and the list of components); the file system and DevIL are
  interfaces: a directory listing is a list argument, and the DevIL calls are the record
  \<open>il_env\<close> of functions, with the count of generated and not yet deleted DevIL images as
  the explicit state \<open>il_state\<close>.  A \<^verbatim>\<open>GameException\<close> is the \<open>Inl\<close> of its message.
\<close>

section \<open>Paths\<close>

record fs_path =
  fp_absolute :: bool
  fp_components :: "string list"

text \<open>Construction of a path from a string: the separators split the components, and
  empty components (from a leading or a doubled separator) are dropped.\<close>

fun split_path :: "string \<Rightarrow> string \<Rightarrow> string list" where
  "split_path acc [] = (if acc = [] then [] else [rev acc])"
| "split_path acc (c # cs) =
     (if c = CHR ''/''
      then (if acc = [] then split_path [] cs else rev acc # split_path [] cs)
      else split_path (c # acc) cs)"

definition path_of_string :: "string \<Rightarrow> fs_path" where
  "path_of_string s = \<lparr>fp_absolute = (s \<noteq> [] \<and> hd s = CHR ''/''), fp_components = split_path [] s\<rparr>"

text \<open>\<^verbatim>\<open>path::string()\<close>: the components joined by the separator.\<close>

fun join_components :: "string list \<Rightarrow> string" where
  "join_components [] = []"
| "join_components [c] = c"
| "join_components (c # cs) = c @ ''/'' @ join_components cs"

definition path_string :: "fs_path \<Rightarrow> string" where
  "path_string p = (if fp_absolute p then ''/'' else []) @ join_components (fp_components p)"

text \<open>\<^verbatim>\<open>operator/\<close>: an absolute right operand replaces the left one.\<close>

definition path_div :: "fs_path \<Rightarrow> fs_path \<Rightarrow> fs_path" where
  "path_div p q = (if fp_absolute q then q else p\<lparr>fp_components := fp_components p @ fp_components q\<rparr>)"

definition path_div_str :: "fs_path \<Rightarrow> string \<Rightarrow> fs_path" where
  "path_div_str p s = path_div p (path_of_string s)"

text \<open>\<^verbatim>\<open>std::filesystem::absolute\<close>, against the current directory \<open>cwd\<close>.\<close>

definition path_absolute :: "fs_path \<Rightarrow> fs_path \<Rightarrow> fs_path" where
  "path_absolute cwd p = path_div cwd p"


definition path_filename :: "fs_path \<Rightarrow> string" where
  "path_filename p = (if fp_components p = [] then [] else last (fp_components p))"

definition last_dot :: "string \<Rightarrow> nat option" where
  "last_dot f = (let ds = filter (\<lambda>i. f ! i = CHR ''.'') [0..<length f] in
                 if ds = [] then None else Some (last ds))"

text \<open>The position where the extension of a file name starts: none for \<^verbatim>\<open>.\<close>,
  \<^verbatim>\<open>..\<close>, a name without a dot, and a name whose only dot is the leading one.\<close>

definition extension_start :: "string \<Rightarrow> nat option" where
  "extension_start f =
     (if f = ''.'' \<or> f = ''..'' then None
      else (case last_dot f of None \<Rightarrow> None | Some i \<Rightarrow> if i = 0 then None else Some i))"

definition path_extension :: "fs_path \<Rightarrow> string" where
  "path_extension p =
     (case extension_start (path_filename p) of None \<Rightarrow> [] | Some i \<Rightarrow> drop i (path_filename p))"

definition path_stem :: "fs_path \<Rightarrow> string" where
  "path_stem p =
     (case extension_start (path_filename p) of None \<Rightarrow> path_filename p
      | Some i \<Rightarrow> take i (path_filename p))"

definition data_path :: "string list \<Rightarrow> fs_path" where
  "data_path cs = \<lparr>fp_absolute = False, fp_components = ''Data'' # cs\<rparr>"

section \<open>The paths of the data files\<close>

definition get_default_ship_definition_file_path :: "(fs_path \<Rightarrow> bool) \<Rightarrow> fs_path" where
  "get_default_ship_definition_file_path exists =
     (let p = path_div_str (path_of_string ''Ships'') ''default_ship.shp'' in
      if \<not> exists p then path_div_str (path_of_string ''Ships'') ''default_ship.png'' else p)"

definition get_music_filepath :: "fs_path \<Rightarrow> string \<Rightarrow> fs_path" where
  "get_music_filepath cwd music_name =
     path_absolute cwd (path_div_str (data_path [''Music'']) (music_name @ ''.flac''))"

definition get_sound_filepath :: "fs_path \<Rightarrow> string \<Rightarrow> fs_path" where
  "get_sound_filepath cwd sound_name =
     path_absolute cwd (path_div_str (data_path [''Sounds'']) (sound_name @ ''.flac''))"

definition get_cursor_filepath :: "fs_path \<Rightarrow> string \<Rightarrow> fs_path" where
  "get_cursor_filepath cwd cursor_name =
     path_absolute cwd (path_div_str (data_path [''Resources'']) (cursor_name @ ''.png''))"

definition get_icon_filepath :: "fs_path \<Rightarrow> string \<Rightarrow> fs_path" where
  "get_icon_filepath cwd icon_name =
     path_absolute cwd (path_div_str (data_path [''Resources'']) (icon_name @ ''.png''))"

definition get_art_filepath :: "fs_path \<Rightarrow> string \<Rightarrow> fs_path" where
  "get_art_filepath cwd art_name =
     path_absolute cwd (path_div_str (data_path [''Resources'']) (art_name @ ''.png''))"

definition get_ocean_floor_bump_map_filepath :: "fs_path \<Rightarrow> fs_path" where
  "get_ocean_floor_bump_map_filepath cwd =
     path_absolute cwd (data_path [''Misc'', ''ocean_floor_bumpmap.png''])"

definition get_help_filepath :: "fs_path \<Rightarrow> fs_path" where
  "get_help_filepath cwd = path_absolute cwd (data_path [''Help'', ''index.html''])"

definition get_shaders_root_path :: "fs_path \<Rightarrow> fs_path" where
  "get_shaders_root_path cwd = path_absolute cwd (data_path [''Shaders''])"

text \<open>\<^verbatim>\<open>LoadTextureDatabase\<close> and \<^verbatim>\<open>LoadMaterialDatabase\<close> hand a directory or two
  parsed JSON files to \<^verbatim>\<open>TextureDatabase::Load\<close> and \<^verbatim>\<open>MaterialDatabase::Create\<close>,
  declared outside \<^verbatim>\<open>src/\<close>, which are arguments here.\<close>

definition load_texture_database :: "(fs_path \<Rightarrow> 'p \<Rightarrow> 't) \<Rightarrow> 'p \<Rightarrow> 't" where
  "load_texture_database texture_database_load progress_callback =
     texture_database_load (data_path [''Textures'']) progress_callback"

definition load_material_database_from ::
  "(string \<Rightarrow> 'j) \<Rightarrow> ('j \<Rightarrow> 'j \<Rightarrow> 'd) \<Rightarrow> fs_path \<Rightarrow> 'd" where
  "load_material_database_from parse_json_file material_database_create materials_directory =
     (let structural_materials_filepath = path_div_str materials_directory ''materials_structural.json'';
          structural_materials_root = parse_json_file (path_string structural_materials_filepath);
          electrical_materials_filepath = path_div_str materials_directory ''materials_electrical.json'';
          electrical_materials_root = parse_json_file (path_string electrical_materials_filepath)
      in material_database_create structural_materials_root electrical_materials_root)"

definition load_material_database :: "(string \<Rightarrow> 'j) \<Rightarrow> ('j \<Rightarrow> 'j \<Rightarrow> 'd) \<Rightarrow> 'd" where
  "load_material_database parse_json_file material_database_create =
     load_material_database_from parse_json_file material_database_create (path_of_string ''Data'')"

section \<open>Directory listings\<close>

text \<open>A directory entry of \<^verbatim>\<open>std::filesystem::directory_iterator\<close>: its path and whether
  it is a regular file.  The listing is in the iterator's (unspecified) order.\<close>

type_synonym dir_entry = "fs_path \<times> bool"

definition get_sound_names :: "dir_entry list \<Rightarrow> string list" where
  "get_sound_names entries =
     map (\<lambda>(p, _). path_stem p) (filter (\<lambda>(p, reg). reg \<and> path_extension p = ''.flac'') entries)"

text \<open>\<^verbatim>\<open>LoadFonts\<close>: the \<^verbatim>\<open>.bff\<close> regular files of \<^verbatim>\<open>Data/Fonts\<close>, sorted by path,
  each loaded by \<^verbatim>\<open>Font::Load\<close> (the argument \<open>load\<close>) and followed by a progress call
  with the fraction of fonts loaded so far.\<close>

definition font_filepaths :: "dir_entry list \<Rightarrow> fs_path list" where
  "font_filepaths entries =
     sort_key fp_components (map fst (filter (\<lambda>(p, reg). reg \<and> path_extension p = ''.bff'') entries))"

definition load_fonts :: "(fs_path \<Rightarrow> 'f) \<Rightarrow> dir_entry list \<Rightarrow> 'f list \<times> (real \<times> string) list" where
  "load_fonts load entries =
     (let filepaths = font_filepaths entries; n = length filepaths in
      (map load filepaths,
       map (\<lambda>k. (real (Suc k) / real n, ''Loading fonts...'')) [0..<n]))"

section \<open>Images through DevIL\<close>

text \<open>The DevIL constants the loader passes (\<^verbatim>\<open>il.h\<close>).\<close>

definition IL_RGB :: int where "IL_RGB = 6407"
definition IL_RGBA :: int where "IL_RGBA = 6408"
definition IL_UNSIGNED_BYTE :: int where "IL_UNSIGNED_BYTE = 5121"
definition IL_ORIGIN_LOWER_LEFT :: int where "IL_ORIGIN_LOWER_LEFT = 1537"
definition IL_ORIGIN_UPPER_LEFT :: int where "IL_ORIGIN_UPPER_LEFT = 1538"

text \<open>The image bound in DevIL, as its integer properties and its bytes.\<close>

record il_image =
  il_format :: int
  il_type :: int
  il_origin :: int
  il_width :: int
  il_height :: int
  il_depth :: int
  il_bpp :: int
  il_data :: "8 word list"

text \<open>The DevIL calls: \<^verbatim>\<open>ilLoadImage\<close>, \<^verbatim>\<open>ilConvertImage\<close>, \<^verbatim>\<open>iluScale\<close> (each
  \<open>None\<close> on failure), \<^verbatim>\<open>iluFlipImage\<close>, \<^verbatim>\<open>ilSave\<close>, and the message
  \<^verbatim>\<open>iluErrorString(ilGetError())\<close> of the last failure.\<close>

record il_env =
  il_load_image :: "string \<Rightarrow> il_image option"
  il_convert_image :: "int \<Rightarrow> int \<Rightarrow> il_image \<Rightarrow> il_image option"
  il_scale :: "int \<Rightarrow> int \<Rightarrow> int \<Rightarrow> il_image \<Rightarrow> il_image option"
  il_flip_image :: "il_image \<Rightarrow> il_image"
  il_save :: "string \<Rightarrow> il_image \<Rightarrow> bool"
  il_error_string :: string

text \<open>The DevIL state: the number of images generated by \<^verbatim>\<open>ilGenImages\<close> and not yet
  released by \<^verbatim>\<open>ilDeleteImage\<close>, and the files written by \<^verbatim>\<open>ilSave\<close>.\<close>

record il_state =
  il_live_images :: nat
  il_saved :: "(string \<times> il_image) list"

definition il_gen_image :: "il_state \<Rightarrow> il_state" where
  "il_gen_image st = st\<lparr>il_live_images := Suc (il_live_images st)\<rparr>"

definition il_delete_image :: "il_state \<Rightarrow> il_state" where
  "il_delete_image st = st\<lparr>il_live_images := il_live_images st - 1\<rparr>"

record image_data =
  id_width :: int
  id_height :: int
  id_data :: "8 word list"

type_synonym 'a il_result = "(string + 'a) \<times> il_state"

text \<open>The double quote of the messages.\<close>

definition dq :: string where
  "dq = [CHR 0x22]"

text \<open>The constructor initialises DevIL (\<^verbatim>\<open>ilInit\<close>, \<^verbatim>\<open>iluInit\<close>): no image
  generated and no file written.\<close>

definition resource_loader_create :: il_state where
  "resource_loader_create = \<lparr>il_live_images = 0, il_saved = []\<rparr>"

definition get_image_size :: "il_env \<Rightarrow> fs_path \<Rightarrow> il_state \<Rightarrow> (int \<times> int) il_result" where
  "get_image_size env filepath st =
     (let st1 = il_gen_image st; filepath_str = path_string filepath in
      case il_load_image env filepath_str of
        None \<Rightarrow> (Inl (''Could not load image '' @ dq @ filepath_str @ dq @ '': '' @ il_error_string env), st1)
      | Some img \<Rightarrow> (Inr (il_width img, il_height img), il_delete_image st1))"

text \<open>The conversion step of \<^verbatim>\<open>LoadImage\<close>: convert unless the image already has the
  target format and unsigned bytes.\<close>

definition il_convert_step :: "il_env \<Rightarrow> int \<Rightarrow> il_image \<Rightarrow> il_image option" where
  "il_convert_step env target_format img =
     (if target_format \<noteq> il_format img \<or> IL_UNSIGNED_BYTE \<noteq> il_type img
      then il_convert_image env target_format IL_UNSIGNED_BYTE img
      else Some img)"

definition il_flip_step :: "il_env \<Rightarrow> int \<Rightarrow> il_image \<Rightarrow> il_image" where
  "il_flip_step env target_origin img =
     (if target_origin \<noteq> il_origin img then il_flip_image env img else img)"

text \<open>The tail of \<^verbatim>\<open>LoadImage\<close> once the image is converted and flipped: the optional
  nearest-neighbour scaling by \<open>resize\<close>, then the copy of \<open>width * height * bpp\<close>
  bytes, the deletion of the DevIL image and the result.\<close>

definition il_resize_and_copy :: "il_env \<Rightarrow> int \<Rightarrow> il_image \<Rightarrow> il_state \<Rightarrow> image_data il_result" where
  "il_resize_and_copy env resize img st =
     (let width = il_width img; height = il_height img; depth = il_depth img; bpp = il_bpp img;
          scaled = (if resize \<noteq> 1 then il_scale env (width * resize) (height * resize) depth img else Some img)
      in case scaled of
           None \<Rightarrow> (Inl (''Could not resize image: '' @ il_error_string env), st)
         | Some img' \<Rightarrow>
             (let w = (if resize \<noteq> 1 then width * resize else width);
                  h = (if resize \<noteq> 1 then height * resize else height)
              in (Inr \<lparr>id_width = w, id_height = h, id_data = take (nat (w * h * bpp)) (il_data img')\<rparr>,
                  il_delete_image st)))"

definition load_image :: "il_env \<Rightarrow> fs_path \<Rightarrow> int \<Rightarrow> int \<Rightarrow> int \<Rightarrow> il_state \<Rightarrow> image_data il_result" where
  "load_image env filepath target_format target_origin resize st =
     (let st1 = il_gen_image st; filepath_str = path_string filepath in
      case il_load_image env filepath_str of
        None \<Rightarrow> (Inl (''Could not load image '' @ dq @ filepath_str @ dq @ '': '' @ il_error_string env), st1)
      | Some img \<Rightarrow>
          (case il_convert_step env target_format img of
             None \<Rightarrow> (Inl (''Could not convert image '' @ dq @ filepath_str @ dq @ '': '' @ il_error_string env), st1)
           | Some img' \<Rightarrow> il_resize_and_copy env resize (il_flip_step env target_origin img') st1))"

definition load_image_rgba_upper_left :: "il_env \<Rightarrow> fs_path \<Rightarrow> il_state \<Rightarrow> image_data il_result" where
  "load_image_rgba_upper_left env filepath = load_image env filepath IL_RGBA IL_ORIGIN_UPPER_LEFT 1"

definition load_image_rgba_lower_left :: "il_env \<Rightarrow> fs_path \<Rightarrow> il_state \<Rightarrow> image_data il_result" where
  "load_image_rgba_lower_left env filepath = load_image env filepath IL_RGBA IL_ORIGIN_LOWER_LEFT 1"

definition load_image_rgb_upper_left :: "il_env \<Rightarrow> fs_path \<Rightarrow> il_state \<Rightarrow> image_data il_result" where
  "load_image_rgb_upper_left env filepath = load_image env filepath IL_RGB IL_ORIGIN_UPPER_LEFT 1"

definition load_image_rgb_lower_left :: "il_env \<Rightarrow> fs_path \<Rightarrow> il_state \<Rightarrow> image_data il_result" where
  "load_image_rgb_lower_left env filepath = load_image env filepath IL_RGB IL_ORIGIN_LOWER_LEFT 1"

text \<open>\<^verbatim>\<open>SaveImage\<close>: an RGBA image of depth 1 and 4 bytes per pixel written as PNG;
  the result of \<^verbatim>\<open>ilSave\<close> is not checked.\<close>

definition save_image :: "il_env \<Rightarrow> fs_path \<Rightarrow> image_data \<Rightarrow> il_state \<Rightarrow> il_state" where
  "save_image env filepath imgd st =
     (let st1 = il_gen_image st;
          img = \<lparr>il_format = IL_RGBA, il_type = IL_UNSIGNED_BYTE, il_origin = IL_ORIGIN_LOWER_LEFT,
                 il_width = id_width imgd, il_height = id_height imgd, il_depth = 1, il_bpp = 4,
                 il_data = id_data imgd\<rparr>;
          st2 = (if il_save env (path_string filepath) img
                 then st1\<lparr>il_saved := il_saved st1 @ [(path_string filepath, img)]\<rparr> else st1)
      in il_delete_image st2)"

section \<open>Ship definitions\<close>

text \<open>The parts of \<^verbatim>\<open>ShipDefinitionFile\<close> (declared outside \<^verbatim>\<open>src/\<close>) the loader
  reads, and the metadata \<^verbatim>\<open>ShipMetadata\<close>: name, optional author and offset.\<close>

record ship_metadata_info =
  smi_ship_name :: string
  smi_author :: "string option"
  smi_offset :: vec2

record ship_definition_file =
  sdf_structural_layer_image_file_path :: fs_path
  sdf_ropes_layer_image_file_path :: "fs_path option"
  sdf_electrical_layer_image_file_path :: "fs_path option"
  sdf_texture_layer_image_file_path :: "fs_path option"
  sdf_metadata :: ship_metadata_info

datatype texture_origin_type = TextureOriginTexture | TextureOriginStructuralImage


text \<open>The JSON parser \<^verbatim>\<open>Utils::ParseJSONFile\<close>, \<^verbatim>\<open>ShipDefinitionFile::Create\<close> and
  \<^verbatim>\<open>ShipDefinitionFile::IsShipDefinitionFile\<close>, declared outside \<^verbatim>\<open>src/\<close>, over the
  type \<open>'o\<close> of JSON objects; their exceptions are \<open>Inl\<close> messages.\<close>

datatype 'o json_root = JsonObject 'o | JsonOther

record 'o sdf_env =
  is_ship_definition_file :: "fs_path \<Rightarrow> bool"
  parse_json_file :: "string \<Rightarrow> string + 'o json_root"
  sdf_create :: "'o \<Rightarrow> string + ship_definition_file"

text \<open>Exception propagation through the DevIL state.\<close>

definition il_bind :: "'a il_result \<Rightarrow> ('a \<Rightarrow> il_state \<Rightarrow> 'b il_result) \<Rightarrow> 'b il_result" where
  "il_bind r f = (case r of (Inl e, st) \<Rightarrow> (Inl e, st) | (Inr a, st) \<Rightarrow> f a st)"

text \<open>The upscaling of a texture taken from the structural image: ideally by 8, halved
  while the largest dimension times the factor exceeds 4096 and the factor exceeds 1.\<close>

function texture_resize :: "int \<Rightarrow> int \<Rightarrow> int" where
  "texture_resize max_dimension resize =
     (if max_dimension * resize > 4096 \<and> resize > 1
      then texture_resize max_dimension (resize div 2) else resize)"
  by pat_completeness auto
termination by (relation "measure (\<lambda>(m, r). nat r)") auto

definition load_optional_layer ::
  "il_env \<Rightarrow> fs_path \<Rightarrow> fs_path option \<Rightarrow> il_state \<Rightarrow> image_data option il_result" where
  "load_optional_layer env base_path layer st =
     (case layer of
        None \<Rightarrow> (Inr None, st)
      | Some p \<Rightarrow> il_bind (load_image env (path_div base_path p) IL_RGB IL_ORIGIN_UPPER_LEFT 1 st)
                   (\<lambda>img st'. (Inr (Some img), st')))"




definition load_texture_image ::
  "il_env \<Rightarrow> texture_origin_type \<Rightarrow> fs_path \<Rightarrow> image_data \<Rightarrow> il_state \<Rightarrow> image_data il_result" where
  "load_texture_image env origin texture structural_image st =
     (case origin of
        TextureOriginTexture \<Rightarrow> load_image env texture IL_RGBA IL_ORIGIN_LOWER_LEFT 1 st
      | TextureOriginStructuralImage \<Rightarrow>
          load_image env texture IL_RGBA IL_ORIGIN_LOWER_LEFT
            (texture_resize (max (id_width structural_image) (id_height structural_image)) 8) st)"


text \<open>The effect of a loader call on the DevIL state that the lemmas below track: no
  file written, the live images unchanged on success and at most one more on failure.\<close>

definition il_accounted :: "il_state \<Rightarrow> 'a il_result \<Rightarrow> bool" where
  "il_accounted st r =
     (il_saved (snd r) = il_saved st \<and>
      (case fst r of
         Inr _ \<Rightarrow> il_live_images (snd r) = il_live_images st
       | Inl _ \<Rightarrow> il_live_images (snd r) \<in> {il_live_images st, Suc (il_live_images st)}))"

text \<open>A sound file of the data directory.\<close>

definition example_sound_path :: fs_path where
  "example_sound_path = \<lparr>fp_absolute = False, fp_components = [''Data'', ''Sounds'', ''wave.flac'']\<rparr>"

section \<open>Lemmas\<close>


lemma il_bind_Inl [simp]: "il_bind (Inl e, st) f = (Inl e, st)"
  by (simp add: il_bind_def)

lemma il_bind_Inr [simp]: "il_bind (Inr a, st) f = f a st"
  by (simp add: il_bind_def)

lemma texture_resize_8:
  "texture_resize m 8 =
     (if 4096 < m * 8 then (if 4096 < m * 4 then (if 4096 < m * 2 then 1 else 2) else 4) else 8)"
  by (simp add: texture_resize.simps)

text \<open>C31: LoadShipDefinition upscales a texture taken from the structural image by the factor of its halving loop started at 8: the factor is 1, 2, 4 or 8, the upscaled largest dimension stays within 4096 unless the factor is already 1, and the factor is the largest such power of two.\<close>

theorem texture_resize_bounds:
  "texture_resize m 8 \<in> {1, 2, 4, 8} \<and>
   (m * texture_resize m 8 \<le> 4096 \<or> texture_resize m 8 = 1) \<and>
   (texture_resize m 8 = 8 \<or> 4096 < m * (2 * texture_resize m 8))"
  by (simp add: texture_resize_8)

lemma load_image_state:
  "il_live_images (snd (load_image env p fmt org r st)) =
     (case fst (load_image env p fmt org r st) of
        Inl _ \<Rightarrow> Suc (il_live_images st) | Inr _ \<Rightarrow> il_live_images st) \<and>
   il_saved (snd (load_image env p fmt org r st)) = il_saved st"
  by (auto simp: load_image_def Let_def il_resize_and_copy_def il_gen_image_def il_delete_image_def
           split: option.split)

text \<open>C32: ResourceLoader::LoadImage fails exactly when it leaves one more live DevIL image than before: its three GameException paths (load, convert, resize) skip ilDeleteImage, and a successful load deletes the image it generated.\<close>

theorem load_image_leaks_on_error:
  "(\<exists>e. fst (load_image env p fmt org r st) = Inl e) \<longleftrightarrow>
   il_live_images (snd (load_image env p fmt org r st)) = Suc (il_live_images st)"
  using load_image_state [of env p fmt org r st]
  by (cases "fst (load_image env p fmt org r st)") auto

lemma il_accounted_bind:
  assumes "il_accounted st r"
    and "\<And>a st'. r = (Inr a, st') \<Longrightarrow> il_accounted st' (f a st')"
  shows "il_accounted st (il_bind r f)"
  using assms by (cases r; case_tac a) (auto simp: il_accounted_def split: sum.splits)

lemma il_accounted_return [simp]: "il_accounted st (Inr a, st)"
  by (simp add: il_accounted_def)

lemma il_accounted_error [simp]: "il_accounted st (Inl e, st)"
  by (simp add: il_accounted_def)

lemma il_accounted_load_image [simp]: "il_accounted st (load_image env p fmt org r st)"
  using load_image_state [of env p fmt org r st]
  by (auto simp: il_accounted_def split: sum.split)

lemma il_accounted_load_optional_layer [simp]:
  "il_accounted st (load_optional_layer env b l st)"
  by (auto simp: load_optional_layer_def split: option.split intro!: il_accounted_bind)


lemma il_accounted_load_texture_image [simp]:
  "il_accounted st (load_texture_image env origin t simg st)"
  by (simp add: load_texture_image_def split: texture_origin_type.split)


lemma split_path_append:
  "CHR ''/'' \<notin> set c \<Longrightarrow> split_path acc (c @ rest) = split_path (rev c @ acc) rest"
  by (induction c arbitrary: acc) auto

lemma split_path_component:
  "c \<noteq> [] \<Longrightarrow> CHR ''/'' \<notin> set c \<Longrightarrow> split_path [] c = [c]"
  using split_path_append [of c "[]" "[]"] by simp

lemma split_path_join:
  "list_all (\<lambda>c. c \<noteq> [] \<and> CHR ''/'' \<notin> set c) cs \<Longrightarrow> split_path [] (join_components cs) = cs"
proof (induction cs rule: join_components.induct)
  case (3 c d cs)
  then show ?case
    using split_path_append [of c "[]" "''/'' @ join_components (d # cs)"] by simp
qed (simp_all add: split_path_component)

lemma join_components_hd:
  "list_all (\<lambda>c. c \<noteq> [] \<and> CHR ''/'' \<notin> set c) cs \<Longrightarrow> cs \<noteq> [] \<Longrightarrow>
   join_components cs \<noteq> [] \<and> hd (join_components cs) \<noteq> CHR ''/''"
  by (induction cs rule: join_components.induct) (auto simp: hd_append dest: hd_in_set)

text \<open>Printing a path whose components are non-empty and free of separators and parsing it back gives the same path.\<close>

theorem path_string_roundtrip:
  assumes "list_all (\<lambda>c. c \<noteq> [] \<and> CHR ''/'' \<notin> set c) (fp_components p)"
  shows "path_of_string (path_string p) = p"
proof (cases p)
  case (fields a cs)
  show ?thesis
  proof (cases a)
    case True
    then show ?thesis using assms fields split_path_join [of cs]
      by (simp add: path_of_string_def path_string_def)
  next
    case False
    then show ?thesis using assms fields split_path_join [of cs] join_components_hd [of cs]
      by (cases "cs = []") (auto simp: path_of_string_def path_string_def)
  qed
qed

lemma path_stem_extension:
  "path_stem p @ path_extension p = path_filename p"
  by (simp add: path_stem_def path_extension_def split: option.split)

text \<open>A regular file Data/Sounds/<name>.flac of the sounds directory listing gives the sound name <name> in GetSoundNames, and GetSoundFilepath of that name is the absolute path of the listed file.\<close>

theorem get_sound_filepath_of_name:
  assumes "(p, True) \<in> set entries"
    and "p = \<lparr>fp_absolute = False, fp_components = [''Data'', ''Sounds'', f]\<rparr>"
    and "CHR ''/'' \<notin> set f"
    and "path_extension p = ''.flac''"
  shows "path_stem p \<in> set (get_sound_names entries) \<and>
         get_sound_filepath cwd (path_stem p) = path_absolute cwd p"
proof -
  have fn: "path_filename p = f" using assms(2) by (simp add: path_filename_def)
  then have sf: "path_stem p @ ''.flac'' = f" using path_stem_extension [of p] assms(4) by simp
  have "f \<noteq> []" using sf by auto
  then have "path_of_string (path_stem p @ ''.flac'') = \<lparr>fp_absolute = False, fp_components = [f]\<rparr>"
    using sf assms(3) split_path_component [of f]
    by (cases f) (auto simp: path_of_string_def)
  then have "get_sound_filepath cwd (path_stem p) = path_absolute cwd p"
    using assms(2) by (simp add: get_sound_filepath_def path_div_str_def path_div_def data_path_def)
  moreover have "path_stem p \<in> set (get_sound_names entries)"
    using assms(1,4) by (force simp: get_sound_names_def)
  ultimately show ?thesis by simp
qed

lemma example_sound_path_extension: "path_extension example_sound_path = ''.flac''"
  by code_simp

theorem get_sound_filepath_of_name_witness:
  "(example_sound_path, True) \<in> set [(example_sound_path, True)] \<and>
   CHR ''/'' \<notin> set ''wave.flac'' \<and> path_extension example_sound_path = ''.flac'' \<and>
   path_stem example_sound_path \<in> set (get_sound_names [(example_sound_path, True)]) \<and>
   get_sound_filepath \<lparr>fp_absolute = True, fp_components = [''game'']\<rparr> (path_stem example_sound_path) =
     path_absolute \<lparr>fp_absolute = True, fp_components = [''game'']\<rparr> example_sound_path"
proof -
  have p: "example_sound_path = \<lparr>fp_absolute = False, fp_components = [''Data'', ''Sounds'', ''wave.flac'']\<rparr>"
    by (rule example_sound_path_def)
  have slash: "CHR ''/'' \<notin> set ''wave.flac''" by simp
  have m: "(example_sound_path, True) \<in> set [(example_sound_path, True)]" by simp
  show ?thesis
    using get_sound_filepath_of_name [OF m p slash example_sound_path_extension] m slash
          example_sound_path_extension
    by blast
qed

theorem path_string_roundtrip_witness:
  "list_all (\<lambda>c. c \<noteq> [] \<and> CHR ''/'' \<notin> set c) [''Data'', ''Help'', ''index.html''] \<and>
   path_of_string (path_string \<lparr>fp_absolute = True, fp_components = [''Data'', ''Help'', ''index.html'']\<rparr>) =
     \<lparr>fp_absolute = True, fp_components = [''Data'', ''Help'', ''index.html'']\<rparr>"
  using path_string_roundtrip [of "\<lparr>fp_absolute = True, fp_components = [''Data'', ''Help'', ''index.html'']\<rparr>"]
  by simp

end
