(* ===== verification/ShipBuilder.thy ===== *)
theory ShipBuilder
  imports PointStore "HOL-Library.Word"
begin

text \<open>
  The building helpers of \<^verbatim>\<open>src/Game/ShipBuilder.h\<close>: the intermediate records a ship
  is built from (\<^verbatim>\<open>PointInfo\<close>, \<^verbatim>\<open>RopeSegment\<close>, \<^verbatim>\<open>SpringInfo\<close>,
  \<^verbatim>\<open>TriangleInfo\<close>), the undirected edge key \<^verbatim>\<open>Edge\<close> with its hasher, the test
  \<^verbatim>\<open>IsConnectedToNonRopePoints\<close> over the particle store of \<open>PointStore\<close>, the texture
  coordinates of a structural pixel, and the initial per-vertex and per-element data of
  the vertex-cache optimiser.  The building steps themselves (\<^verbatim>\<open>ShipBuilder.cpp\<close>) are
  outside \<^verbatim>\<open>src/\<close>.
\<close>

section \<open>Point, rope, spring and triangle infos\<close>

text \<open>\<^verbatim>\<open>ElectricalMtl\<close> is a nullable pointer and the electrical instance index has a
  "none" sentinel; both are options here.\<close>

record point_info =
  pi_position :: vec2
  pi_texture_coordinates :: vec2
  pi_render_color :: vec4
  pi_structural_mtl :: structural_material
  pi_is_rope :: bool
  pi_is_leaking :: bool
  pi_electrical_mtl :: "electrical_material option"
  pi_electrical_element_instance_index :: "nat option"
  pi_connected_springs1 :: "element_index list"

definition point_info_create ::
  "vec2 \<Rightarrow> vec2 \<Rightarrow> vec4 \<Rightarrow> structural_material \<Rightarrow> bool \<Rightarrow> point_info" where
  "point_info_create position texture_coordinates render_color structural_mtl is_rope =
     \<lparr>pi_position = position, pi_texture_coordinates = texture_coordinates,
      pi_render_color = render_color, pi_structural_mtl = structural_mtl, pi_is_rope = is_rope,
      pi_is_leaking = (if is_rope then True else False), pi_electrical_mtl = None,
      pi_electrical_element_instance_index = None, pi_connected_springs1 = []\<rparr>"

definition contains_connected_spring :: "point_info \<Rightarrow> element_index \<Rightarrow> bool" where
  "contains_connected_spring pinfo spring_index1 = (spring_index1 \<in> set (pi_connected_springs1 pinfo))"

text \<open>\<^verbatim>\<open>AddConnectedSpring\<close> asserts that the spring is not yet there; a failed
  assertion is \<open>None\<close>.\<close>

definition add_connected_spring :: "point_info \<Rightarrow> element_index \<Rightarrow> point_info option" where
  "add_connected_spring pinfo spring_index1 =
     (if contains_connected_spring pinfo spring_index1 then None
      else Some (pinfo\<lparr>pi_connected_springs1 := pi_connected_springs1 pinfo @ [spring_index1]\<rparr>))"

text \<open>\<^verbatim>\<open>MaterialDatabase::ColorKey\<close> is the RGB colour of a rope pixel.\<close>

type_synonym color_key = "8 word \<times> 8 word \<times> 8 word"

record rope_segment =
  rs_point_a_index1 :: element_index
  rs_point_b_index1 :: element_index
  rs_rope_color_key :: color_key

definition rope_segment_create :: rope_segment where
  "rope_segment_create =
     \<lparr>rs_point_a_index1 = none_element_index, rs_point_b_index1 = none_element_index,
      rs_rope_color_key = (0, 0, 0)\<rparr>"

text \<open>\<^verbatim>\<open>SetEndpoint\<close>: the first free endpoint takes the point; the first endpoint also
  takes the colour key, and the second asserts that the key is the same (a failed
  assertion is \<open>None\<close>).  With both endpoints taken it returns false.\<close>

definition set_endpoint ::
  "element_index \<Rightarrow> color_key \<Rightarrow> rope_segment \<Rightarrow> (bool \<times> rope_segment) option" where
  "set_endpoint point_index1 rope_color_key seg =
     (if none_element_index = rs_point_a_index1 seg
      then Some (True, seg\<lparr>rs_point_a_index1 := point_index1, rs_rope_color_key := rope_color_key\<rparr>)
      else if none_element_index = rs_point_b_index1 seg
      then (if rs_rope_color_key seg = rope_color_key
            then Some (True, seg\<lparr>rs_point_b_index1 := point_index1\<rparr>) else None)
      else Some (False, seg))"

text \<open>A sequence of \<^verbatim>\<open>SetEndpoint\<close> calls on one segment, collecting the results.\<close>

fun set_endpoints ::
  "(element_index \<times> color_key) list \<Rightarrow> rope_segment \<Rightarrow> (bool list \<times> rope_segment) option" where
  "set_endpoints [] seg = Some ([], seg)"
| "set_endpoints ((i, k) # rest) seg =
     (case set_endpoint i k seg of
        None \<Rightarrow> None
      | Some (ok, seg') \<Rightarrow>
          (case set_endpoints rest seg' of None \<Rightarrow> None | Some (oks, seg'') \<Rightarrow> Some (ok # oks, seg'')))"

text \<open>\<^verbatim>\<open>FixedSizeVector<ElementIndex, N>\<close> as a list of at most \<open>N\<close> elements.\<close>

record spring_info =
  spi_point_a_index1 :: element_index
  spi_point_a_angle :: "32 word"
  spi_point_b_index1 :: element_index
  spi_point_b_angle :: "32 word"
  spi_super_triangles2 :: "element_index list"

definition spring_info_create ::
  "element_index \<Rightarrow> 32 word \<Rightarrow> element_index \<Rightarrow> 32 word \<Rightarrow> spring_info" where
  "spring_info_create point_a_index1 point_a_angle point_b_index1 point_b_angle =
     \<lparr>spi_point_a_index1 = point_a_index1, spi_point_a_angle = point_a_angle,
      spi_point_b_index1 = point_b_index1, spi_point_b_angle = point_b_angle,
      spi_super_triangles2 = []\<rparr>"

record triangle_info =
  ti_point_indices1 :: "element_index \<times> element_index \<times> element_index"
  ti_sub_springs2 :: "element_index list"

definition triangle_info_create ::
  "element_index \<times> element_index \<times> element_index \<Rightarrow> triangle_info" where
  "triangle_info_create point_indices1 = \<lparr>ti_point_indices1 = point_indices1, ti_sub_springs2 = []\<rparr>"

section \<open>Edges\<close>

text \<open>An \<^verbatim>\<open>Edge\<close> stores its endpoints in increasing order; equality compares both.
  The hasher multiplies a 32-bit \<^verbatim>\<open>ElementIndex\<close> by the \<^verbatim>\<open>int\<close> 23, which the
  usual arithmetic conversions do in 32-bit unsigned arithmetic, and then widens the sum
  to \<^verbatim>\<open>size_t\<close>.\<close>

record edge =
  endpoint1_index :: "32 word"
  endpoint2_index :: "32 word"

definition edge_create :: "32 word \<Rightarrow> 32 word \<Rightarrow> edge" where
  "edge_create endpoint1 endpoint2 =
     \<lparr>endpoint1_index = min endpoint1 endpoint2, endpoint2_index = max endpoint1 endpoint2\<rparr>"

definition edge_eq :: "edge \<Rightarrow> edge \<Rightarrow> bool" where
  "edge_eq e other =
     (endpoint1_index e = endpoint1_index other \<and> endpoint2_index e = endpoint2_index other)"

definition edge_hash :: "edge \<Rightarrow> 64 word" where
  "edge_hash e = ucast (endpoint1_index e * 23 + endpoint2_index e)"

section \<open>Building queries\<close>

text \<open>\<^verbatim>\<open>IsConnectedToNonRopePoints\<close>: whether some spring of the point (in the store's
  connected springs) has an endpoint, mapped through the point remap, that is not a rope
  point.\<close>

definition is_connected_to_non_rope_points ::
  "element_index \<Rightarrow> points \<Rightarrow> element_index list \<Rightarrow> spring_info list \<Rightarrow> bool" where
  "is_connected_to_non_rope_points point_index pts point_index_remap spring_infos =
     list_ex (\<lambda>cs. \<not> is_rope_buf pts ! (point_index_remap ! spi_point_a_index1 (spring_infos ! spring_index cs))
                 \<or> \<not> is_rope_buf pts ! (point_index_remap ! spi_point_b_index1 (spring_infos ! spring_index cs)))
       (connected_springs_buf pts ! point_index)"

text \<open>\<^verbatim>\<open>MakeTextureCoordinates\<close>: the centre of pixel \<open>(x, y)\<close> of an image of the
  given width and height, in texture space.\<close>

definition make_texture_coordinates :: "real \<Rightarrow> real \<Rightarrow> int \<times> int \<Rightarrow> vec2" where
  "make_texture_coordinates x y image_size =
     (let texture_dx = 0.5 / real_of_int (fst image_size);
          texture_dy = 0.5 / real_of_int (snd image_size)
      in (texture_dx + x / real_of_int (fst image_size), texture_dy + y / real_of_int (snd image_size)))"

section \<open>Vertex-cache optimisation data\<close>

definition vertex_cache_size :: nat where
  "vertex_cache_size = 32"

record vertex_data =
  vd_cache_position :: "32 word"
  vd_current_score :: real
  vd_remaining_element_indices :: "nat list"

definition vertex_data_create :: vertex_data where
  "vertex_data_create = \<lparr>vd_cache_position = - 1, vd_current_score = 0, vd_remaining_element_indices = []\<rparr>"

record element_data =
  ed_has_been_drawn :: bool
  ed_current_score :: real
  ed_vertex_indices :: "nat list"

definition element_data_create :: element_data where
  "element_data_create = \<lparr>ed_has_been_drawn = False, ed_current_score = 0, ed_vertex_indices = []\<rparr>"

section \<open>Lemmas\<close>


lemma set_endpoint_first:
  "rs_point_a_index1 seg = none_element_index \<Longrightarrow>
   set_endpoint i k seg = Some (True, seg\<lparr>rs_point_a_index1 := i, rs_rope_color_key := k\<rparr>)"
  by (simp add: set_endpoint_def)

text \<open>On a new rope segment, the first two SetEndpoint calls with point indices other than NoneElementIndex and one colour key succeed and fill endpoints A and B with that key; every later call returns false and leaves the segment unchanged.\<close>

theorem set_endpoints_two:
  assumes "a \<noteq> none_element_index" and "b \<noteq> none_element_index"
  shows "set_endpoints ((a, k) # (b, k) # rest) rope_segment_create =
           Some (True # True # replicate (length rest) False,
                 \<lparr>rs_point_a_index1 = a, rs_point_b_index1 = b, rs_rope_color_key = k\<rparr>)"
proof -
  have "set_endpoints rest \<lparr>rs_point_a_index1 = a, rs_point_b_index1 = b, rs_rope_color_key = k\<rparr> =
          Some (replicate (length rest) False, \<lparr>rs_point_a_index1 = a, rs_point_b_index1 = b, rs_rope_color_key = k\<rparr>)"
    using assms by (induction rest) (auto simp: set_endpoint_def)
  then show ?thesis using assms by (simp add: set_endpoint_def rope_segment_create_def)
qed

theorem set_endpoints_two_witness:
  "(3::nat) \<noteq> none_element_index \<and> (5::nat) \<noteq> none_element_index \<and>
   set_endpoints [(3, (1, 2, 3)), (5, (1, 2, 3)), (7, (1, 2, 3))] rope_segment_create =
     Some ([True, True, False], \<lparr>rs_point_a_index1 = 3, rs_point_b_index1 = 5, rs_rope_color_key = (1, 2, 3)\<rparr>)"
  using set_endpoints_two [of 3 5 "(1, 2, 3)" "[(7, (1, 2, 3))]"] by (simp add: none_element_index_def)

lemma edge_create_sym: "edge_create a b = edge_create b a"
  by (simp add: edge_create_def min.commute max.commute)

text \<open>Two edges are equal exactly when they join the same two points, in either order.\<close>

theorem edge_eq_iff_same_endpoints:
  "edge_eq (edge_create a b) (edge_create c d) \<longleftrightarrow> {a, b} = {c, d}"
  by (auto simp: edge_eq_def edge_create_def min_def max_def doubleton_eq_iff)

text \<open>C35: For a pixel (x, y) inside a W x H structural image, MakeTextureCoordinates gives a point strictly inside the unit square that scales back by the image size into the same pixel: it is the texel centre.\<close>

theorem make_texture_coordinates_texel:
  assumes "0 \<le> x" and "x < w" and "0 \<le> y" and "y < h"
  shows "let (u, v) = make_texture_coordinates (real_of_int x) (real_of_int y) (w, h) in
           0 < u \<and> u < 1 \<and> 0 < v \<and> v < 1 \<and> \<lfloor>u * real_of_int w\<rfloor> = x \<and> \<lfloor>v * real_of_int h\<rfloor> = y"
proof -
  have c: "0 < (0.5 + real_of_int z) / real_of_int n \<and> (0.5 + real_of_int z) / real_of_int n < 1 \<and>
           \<lfloor>(0.5 / real_of_int n + real_of_int z / real_of_int n) * real_of_int n\<rfloor> = z"
    if "0 \<le> z" "z < n" for z n :: int
  proof -
    have n: "0 < real_of_int n" using that by simp
    have "(0.5 / real_of_int n + real_of_int z / real_of_int n) * real_of_int n = real_of_int z + 0.5"
      using n by (simp add: field_simps)
    moreover have "\<lfloor>real_of_int z + 0.5\<rfloor> = z" by linarith
    moreover have "(0.5 + real_of_int z) / real_of_int n < 1"
      using n that by (simp add: divide_less_eq)
    ultimately show ?thesis using n that by simp
  qed
  have "0.5 / real_of_int w + real_of_int x / real_of_int w = (0.5 + real_of_int x) / real_of_int w"
       "0.5 / real_of_int h + real_of_int y / real_of_int h = (0.5 + real_of_int y) / real_of_int h"
    by (simp_all add: add_divide_distrib)
  then show ?thesis using c [of x w] c [of y h] assms
    by (simp add: make_texture_coordinates_def Let_def)
qed

theorem make_texture_coordinates_texel_witness:
  "0 \<le> (1::int) \<and> (1::int) < 2 \<and> 0 \<le> (3::int) \<and> (3::int) < 4 \<and>
   (let (u, v) = make_texture_coordinates 1 3 (2, 4) in
      0 < u \<and> u < 1 \<and> 0 < v \<and> v < 1 \<and> \<lfloor>u * 2\<rfloor> = 1 \<and> \<lfloor>v * 4\<rfloor> = 3)"
  using make_texture_coordinates_texel [of 1 2 3 4] by simp

end
