(* ===== verification/Tools.thy ===== *)
theory Tools
  imports GameController ResourceLoader "HOL-Library.Signed_Division"
begin

text \<open>
  The interactive tools of \<^verbatim>\<open>src/FloatingSandbox/Tools.cpp\<close>: the construction of each
  tool (its \<^verbatim>\<open>ToolType\<close>, its base class and the cursors it loads), the power-step
  cursors of \<^verbatim>\<open>MakeCursors\<close>, \<^verbatim>\<open>ContinuousTool::Update\<close> with the time it
  accumulates while the mouse stays still, and the \<^verbatim>\<open>ApplyTool\<close> of the smash, grab and
  swirl tools, which call the game controller of \<open>GameController\<close>.  A cursor image is
  read from the file that \<^verbatim>\<open>ResourceLoader::GetCursorFilepath\<close> names, through the
  argument \<open>load_bitmap\<close> (wxWidgets).  \<^verbatim>\<open>ToolType\<close>, the base classes and
  \<^verbatim>\<open>ModulateCursor\<close> are declared in \<^verbatim>\<open>Tools.h\<close>, which is not in the repository.
\<close>

section \<open>Cursors\<close>

definition cursor_step :: nat where
  "cursor_step = 30"

type_synonym rgb_pixel = "8 word \<times> 8 word \<times> 8 word"

text \<open>A \<^verbatim>\<open>wxImage\<close>: its size, its hotspot options and its RGB data, one triple of
  bytes per pixel in row-major order.\<close>

record cursor_image =
  ci_width :: nat
  ci_height :: nat
  ci_hotspot_x :: int
  ci_hotspot_y :: int
  ci_data :: "rgb_pixel list"

text \<open>The colour of a power step: red \<^verbatim>\<open>0xDB0F0F\<close> below full power, green
  \<^verbatim>\<open>0x039B0A\<close> at full power.  The code divides each byte by 255 and multiplies it
  back in \<^verbatim>\<open>float\<close>; for these six bytes the round trip is exact.\<close>

definition power_color :: "nat \<Rightarrow> rgb_pixel" where
  "power_color c = (if c = cursor_step then (3, 155, 10) else (219, 15, 15))"

text \<open>The number of rows a power step paints, from the bottom:
  \<^verbatim>\<open>floorf(imageHeight * c / CursorStep)\<close>, which on these small integers is the integer
  quotient.\<close>

definition power_height :: "nat \<Rightarrow> nat \<Rightarrow> nat" where
  "power_height image_height c = image_height * c div cursor_step"

definition paint_row :: "nat \<Rightarrow> rgb_pixel \<Rightarrow> nat \<Rightarrow> rgb_pixel list \<Rightarrow> rgb_pixel list" where
  "paint_row image_width target y data =
     fold (\<lambda>x d. d[image_width * y + x := target]) [0..<image_width] data"

definition paint_power_step :: "nat \<Rightarrow> cursor_image \<Rightarrow> cursor_image" where
  "paint_power_step c img =
     (let image_height = ci_height img; power = power_height image_height c in
      img\<lparr>ci_data := fold (paint_row (ci_width img) (power_color c)) [image_height - power..<image_height]
                           (ci_data img)\<rparr>)"

text \<open>The power steps paint the same image one after the other; each cursor is a copy
  of the image at that point.\<close>

fun make_power_cursors :: "nat list \<Rightarrow> cursor_image \<Rightarrow> cursor_image list" where
  "make_power_cursors [] img = []"
| "make_power_cursors (c # cs) img =
     (let img' = paint_power_step c img in img' # make_power_cursors cs img')"

definition make_cursor :: "(fs_path \<Rightarrow> cursor_image) \<Rightarrow> fs_path \<Rightarrow> string \<Rightarrow> int \<Rightarrow> int \<Rightarrow> cursor_image" where
  "make_cursor load_bitmap cwd cursor_name hotspot_x hotspot_y =
     (load_bitmap (get_cursor_filepath cwd cursor_name))\<lparr>ci_hotspot_x := hotspot_x, ci_hotspot_y := hotspot_y\<rparr>"

definition make_cursors ::
  "(fs_path \<Rightarrow> cursor_image) \<Rightarrow> fs_path \<Rightarrow> string \<Rightarrow> int \<Rightarrow> int \<Rightarrow> cursor_image list" where
  "make_cursors load_bitmap cwd cursor_name hotspot_x hotspot_y =
     (let img = make_cursor load_bitmap cwd cursor_name hotspot_x hotspot_y in
      img # make_power_cursors [1..<Suc cursor_step] img)"

section \<open>Tool construction\<close>



text \<open>A cursor a constructor loads: its file name, its hotspot, and whether it is a
  single cursor (\<^verbatim>\<open>MakeCursor\<close>) or a series of power steps (\<^verbatim>\<open>MakeCursors\<close>).\<close>

datatype cursor_kind = SingleCursor | PowerCursors

type_synonym cursor_spec = "string \<times> int \<times> int \<times> cursor_kind"























definition load_cursor_spec ::
  "(fs_path \<Rightarrow> cursor_image) \<Rightarrow> fs_path \<Rightarrow> cursor_spec \<Rightarrow> cursor_image list" where
  "load_cursor_spec load_bitmap cwd spec =
     (case spec of
        (name, hx, hy, SingleCursor) \<Rightarrow> [make_cursor load_bitmap cwd name hx hy]
      | (name, hx, hy, PowerCursors) \<Rightarrow> make_cursors load_bitmap cwd name hx hy)"

section \<open>Continuous tools\<close>

record input_state =
  is_left_mouse_down :: bool
  is_shift_key_down :: bool
  mouse_position :: vec2

text \<open>The down-cursor series a continuous tool modulates (\<^verbatim>\<open>ModulateCursor\<close>, in
  \<^verbatim>\<open>Tools.h\<close>): the tool records the series and the fraction it passed.\<close>

datatype cursor_series = DownCursors | DownPlusCursors | DownMinusCursors

datatype continuous_tool_kind = SmashKind | GrabKind | SwirlKind

text \<open>The state of \<^verbatim>\<open>ContinuousTool\<close>; times are steady-clock microseconds.\<close>

record continuous_tool =
  ct_kind :: continuous_tool_kind
  ct_previous_mouse_position :: vec2
  ct_previous_timestamp :: int
  ct_cumulated_time :: int
  ct_modulated_cursor :: "(cursor_series \<times> real) option"

text \<open>The strength of the smash, grab and swirl tools: 0.1 at first, growing linearly to
  1 after 5000 ms of accumulated time; \<^verbatim>\<open>duration_cast\<close> to milliseconds truncates.\<close>

definition tool_strength_fraction :: "int \<Rightarrow> real" where
  "tool_strength_fraction cumulated_time =
     (let min_fraction = 0.1;
          milliseconds_elapsed = real_of_int (cumulated_time sdiv 1000)
      in min_fraction + (1 - min_fraction) * min 1 (milliseconds_elapsed / 5000))"

text \<open>\<^verbatim>\<open>SmashTool::ApplyTool\<close>: destroy at the mouse with the strength as radius
  fraction.\<close>

definition smash_apply_tool ::
  "('w, 'r, 'm) gc_env \<Rightarrow> int \<Rightarrow> input_state \<Rightarrow> continuous_tool \<times> ('w, 'r, 'm) game_controller
   \<Rightarrow> continuous_tool \<times> ('w, 'r, 'm) game_controller" where
  "smash_apply_tool env cumulated_time input tg =
     (let (t, gc) = tg; radius_fraction = tool_strength_fraction cumulated_time
      in (t\<lparr>ct_modulated_cursor := Some (DownCursors, radius_fraction)\<rparr>,
          destroy_at env (mouse_position input) radius_fraction gc))"

text \<open>\<^verbatim>\<open>GrabTool::ApplyTool\<close>: draw toward the mouse, repelling with shift.\<close>

definition grab_apply_tool ::
  "('w, 'r, 'm) gc_env \<Rightarrow> int \<Rightarrow> input_state \<Rightarrow> continuous_tool \<times> ('w, 'r, 'm) game_controller
   \<Rightarrow> continuous_tool \<times> ('w, 'r, 'm) game_controller" where
  "grab_apply_tool env cumulated_time input tg =
     (let (t, gc) = tg; strength_fraction = tool_strength_fraction cumulated_time;
          shift = is_shift_key_down input
      in (t\<lparr>ct_modulated_cursor :=
             Some (if shift then DownMinusCursors else DownPlusCursors, strength_fraction)\<rparr>,
          draw_to env (mouse_position input) (if shift then - strength_fraction else strength_fraction) gc))"

text \<open>\<^verbatim>\<open>SwirlTool::ApplyTool\<close>: swirl at the mouse, counter-clockwise with shift.\<close>

definition swirl_apply_tool ::
  "('w, 'r, 'm) gc_env \<Rightarrow> int \<Rightarrow> input_state \<Rightarrow> continuous_tool \<times> ('w, 'r, 'm) game_controller
   \<Rightarrow> continuous_tool \<times> ('w, 'r, 'm) game_controller" where
  "swirl_apply_tool env cumulated_time input tg =
     (let (t, gc) = tg; strength_fraction = tool_strength_fraction cumulated_time;
          shift = is_shift_key_down input
      in (t\<lparr>ct_modulated_cursor :=
             Some (if shift then DownMinusCursors else DownPlusCursors, strength_fraction)\<rparr>,
          swirl_at env (mouse_position input) (if shift then - strength_fraction else strength_fraction) gc))"

text \<open>The virtual call \<^verbatim>\<open>ApplyTool\<close>, dispatched on the kind of tool.\<close>

definition apply_tool ::
  "('w, 'r, 'm) gc_env \<Rightarrow> int \<Rightarrow> input_state \<Rightarrow> continuous_tool \<times> ('w, 'r, 'm) game_controller
   \<Rightarrow> continuous_tool \<times> ('w, 'r, 'm) game_controller" where
  "apply_tool env cumulated_time input tg =
     (case ct_kind (fst tg) of
        SmashKind \<Rightarrow> smash_apply_tool env cumulated_time input tg
      | GrabKind \<Rightarrow> grab_apply_tool env cumulated_time input tg
      | SwirlKind \<Rightarrow> swirl_apply_tool env cumulated_time input tg)"

definition continuous_tool_update ::
  "('w, 'r, 'm) gc_env \<Rightarrow> int \<Rightarrow> input_state \<Rightarrow> continuous_tool \<times> ('w, 'r, 'm) game_controller
   \<Rightarrow> continuous_tool \<times> ('w, 'r, 'm) game_controller" where
  "continuous_tool_update env now input tg =
     (if is_left_mouse_down input
      then (let (t, gc) = tg;
                cumulated = (if ct_previous_mouse_position t = mouse_position input
                             then ct_cumulated_time t + (now - ct_previous_timestamp t)
                             else ct_cumulated_time t);
                t' = t\<lparr>ct_cumulated_time := cumulated, ct_previous_mouse_position := mouse_position input,
                       ct_previous_timestamp := now\<rparr>
            in apply_tool env cumulated input (t', gc))
      else tg)"

text \<open>A sequence of updates, each with its clock reading and input.\<close>

primrec continuous_tool_run ::
  "('w, 'r, 'm) gc_env \<Rightarrow> (int \<times> input_state) list \<Rightarrow> continuous_tool \<times> ('w, 'r, 'm) game_controller
   \<Rightarrow> continuous_tool \<times> ('w, 'r, 'm) game_controller" where
  "continuous_tool_run env [] tg = tg"
| "continuous_tool_run env (e # es) tg =
     continuous_tool_run env es (continuous_tool_update env (fst e) (snd e) tg)"

text \<open>Examples: a one-pixel-wide, two-pixel-high cursor image, and a smash tool held
  still at (1, 2) from time 50 to 5000250 microseconds.\<close>

definition example_cursor_image :: cursor_image where
  "example_cursor_image =
     \<lparr>ci_width = 1, ci_height = 2, ci_hotspot_x = 0, ci_hotspot_y = 0, ci_data = [(1, 1, 1), (2, 2, 2)]\<rparr>"

definition example_cwd :: fs_path where
  "example_cwd = \<lparr>fp_absolute = True, fp_components = [''game'']\<rparr>"

definition example_smash_tool :: continuous_tool where
  "example_smash_tool =
     \<lparr>ct_kind = SmashKind, ct_previous_mouse_position = (1, 2), ct_previous_timestamp = 50,
      ct_cumulated_time = 0, ct_modulated_cursor = None\<rparr>"

definition example_hold_events :: "(int \<times> input_state) list" where
  "example_hold_events =
     [(100, \<lparr>is_left_mouse_down = True, is_shift_key_down = False, mouse_position = (1, 2)\<rparr>),
      (5000250, \<lparr>is_left_mouse_down = True, is_shift_key_down = False, mouse_position = (1, 2)\<rparr>)]"

section \<open>Lemmas\<close>


lemma length_paint_row [simp]: "length (paint_row w t y d) = length d"
  by (simp add: paint_row_def)

lemma nth_paint_row:
  "i < length d \<Longrightarrow> paint_row w t y d ! i = (if w * y \<le> i \<and> i < w * y + w then t else d ! i)"
  unfolding paint_row_def by (auto simp: nth_fold_update_const image_iff intro: bexI [of _ "i - w * y"])

lemma length_fold_paint_row [simp]: "length (fold (paint_row w t) ys d) = length d"
  by (induction ys arbitrary: d) simp_all

lemma nth_fold_paint_row:
  "i < length d \<Longrightarrow> fold (paint_row w t) ys d ! i =
     (if \<exists>y \<in> set ys. w * y \<le> i \<and> i < w * y + w then t else d ! i)"
  by (induction ys arbitrary: d) (auto simp: nth_paint_row)

lemma rows_cover:
  "(\<exists>y \<in> {a..<b}. w * y \<le> (i::nat) \<and> i < w * y + w) \<longleftrightarrow> w * a \<le> i \<and> i < w * b"
proof
  assume "\<exists>y \<in> {a..<b}. w * y \<le> i \<and> i < w * y + w"
  then obtain y where "a \<le> y" "y < b" "w * y \<le> i" "i < w * y + w" by auto
  moreover have "w * a \<le> w * y" "w * y + w \<le> w * b"
    using calculation mult_le_mono2 [of a y w] mult_le_mono2 [of "Suc y" b w] by simp_all
  ultimately show "w * a \<le> i \<and> i < w * b" by linarith
next
  assume h: "w * a \<le> i \<and> i < w * b"
  then have w: "0 < w" by (cases w) auto
  have d: "w * (i div w) + i mod w = i" by simp
  have "i mod w < w" using w by simp
  then have "w * (i div w) \<le> i" "i < w * (i div w) + w" using d by linarith+
  moreover have "a \<le> i div w" using div_le_mono [of "w * a" i w] h w by simp
  moreover have "i div w < b" using less_mult_imp_div_less [of i b w] h w by (simp add: mult.commute)
  ultimately show "\<exists>y \<in> {a..<b}. w * y \<le> i \<and> i < w * y + w"
    by (intro bexI [of _ "i div w"]) simp_all
qed

lemma length_paint_power_step [simp]: "length (ci_data (paint_power_step c img)) = length (ci_data img)"
  by (simp add: paint_power_step_def Let_def)

lemma size_paint_power_step [simp]:
  "ci_width (paint_power_step c img) = ci_width img" "ci_height (paint_power_step c img) = ci_height img"
  by (simp_all add: paint_power_step_def Let_def)

lemma nth_paint_power_step:
  assumes "length (ci_data img) = ci_width img * ci_height img" and "i < length (ci_data img)"
  shows "ci_data (paint_power_step c img) ! i =
           (if ci_width img * (ci_height img - power_height (ci_height img) c) \<le> i
            then power_color c else ci_data img ! i)"
  using assms rows_cover [of "ci_height img - power_height (ci_height img) c" "ci_height img" "ci_width img" i]
  by (auto simp: paint_power_step_def Let_def nth_fold_paint_row)

lemma size_fold_paint_power_step [simp]:
  "ci_width (fold paint_power_step cs img) = ci_width img"
  "ci_height (fold paint_power_step cs img) = ci_height img"
  "length (ci_data (fold paint_power_step cs img)) = length (ci_data img)"
  by (induction cs arbitrary: img) simp_all

lemma make_power_cursors_nth:
  "j < length cs \<Longrightarrow> make_power_cursors cs img ! j = fold paint_power_step (take (Suc j) cs) img"
  by (induction cs arbitrary: img j) (auto simp: Let_def nth_Cons split: nat.split)

lemma length_make_power_cursors [simp]: "length (make_power_cursors cs img) = length cs"
  by (induction cs arbitrary: img) (simp_all add: Let_def)

lemma power_height_mono: "j \<le> k \<Longrightarrow> power_height h j \<le> power_height h k"
  by (simp add: power_height_def div_le_mono)

lemma power_height_full: "power_height h cursor_step = h"
  by (simp add: power_height_def cursor_step_def)

lemma fold_power_steps_below_full:
  assumes "length (ci_data img) = ci_width img * ci_height img" and "i < length (ci_data img)"
    and "k < cursor_step"
  shows "ci_data (fold paint_power_step [1..<Suc k] img) ! i =
           (if 0 < k \<and> ci_width img * (ci_height img - power_height (ci_height img) k) \<le> i
            then power_color k else ci_data img ! i)"
  using assms(3)
proof (induction k)
  case 0
  then show ?case by simp
next
  case (Suc k)
  let ?img = "fold paint_power_step [1..<Suc k] img"
  let ?P = "\<lambda>k. ci_width img * (ci_height img - power_height (ci_height img) k)"
  have le: "?P (Suc k) \<le> ?P k"
    using power_height_mono [of k "Suc k" "ci_height img"] by (simp add: mult_le_mono2 diff_le_mono2)
  have step: "ci_data (paint_power_step (Suc k) ?img) ! i =
          (if ?P (Suc k) \<le> i then power_color (Suc k) else ci_data ?img ! i)"
    using nth_paint_power_step [of ?img i "Suc k"] assms(1,2) by simp
  have fold: "fold paint_power_step [1..<Suc (Suc k)] img = paint_power_step (Suc k) ?img" by simp
  show ?case
  proof (cases "?P (Suc k) \<le> i")
    case True
    then show ?thesis using step fold by simp
  next
    case False
    then have "\<not> ?P k \<le> i" using le by linarith
    then show ?thesis using step fold False Suc by simp
  qed
qed

text \<open>C37: MakeCursors builds 31 cursors: cursor 0 is the loaded image, and cursor k (1 to 30) has the bottom floor(height * k / 30) rows red (0xDB0F0F), or every row green (0x039B0A) at k = 30, and every other pixel as loaded, although the power steps paint one shared image in turn.\<close>

theorem make_cursors_power_steps:
  assumes "load_bitmap (get_cursor_filepath cwd name) = img0"
    and "length (ci_data img0) = ci_width img0 * ci_height img0"
    and "i < length (ci_data img0)" and "k \<le> cursor_step"
  shows "length (make_cursors load_bitmap cwd name hx hy) = Suc cursor_step \<and>
         ci_data (make_cursors load_bitmap cwd name hx hy ! k) ! i =
           (if 0 < k \<and> ci_width img0 * (ci_height img0 - power_height (ci_height img0) k) \<le> i
            then power_color k else ci_data img0 ! i)"
proof -
  let ?img = "make_cursor load_bitmap cwd name hx hy"
  have img: "ci_data ?img = ci_data img0" "ci_width ?img = ci_width img0" "ci_height ?img = ci_height img0"
    using assms(1) by (simp_all add: make_cursor_def)
  have len: "length (make_cursors load_bitmap cwd name hx hy) = Suc cursor_step"
    by (simp add: make_cursors_def Let_def del: upt_Suc)
  have "ci_data (make_cursors load_bitmap cwd name hx hy ! k) ! i =
          (if 0 < k \<and> ci_width img0 * (ci_height img0 - power_height (ci_height img0) k) \<le> i
           then power_color k else ci_data img0 ! i)"
  proof (cases k)
    case 0
    then show ?thesis using img by (simp add: make_cursors_def Let_def del: upt_Suc)
  next
    case (Suc j)
    have nth: "make_cursors load_bitmap cwd name hx hy ! k = fold paint_power_step [1..<Suc k] ?img"
    proof -
      have "j < length [1..<Suc cursor_step]" using Suc assms(4) by simp
      moreover have "take (Suc j) [1..<Suc cursor_step] = [1..<Suc k]"
        using Suc assms(4) take_upt [of 1 "Suc j" "Suc cursor_step"] by simp
      ultimately show ?thesis
        using Suc make_power_cursors_nth [of j "[1..<Suc cursor_step]" ?img]
        by (simp add: make_cursors_def Let_def del: upt_Suc)
    qed
    show ?thesis
    proof (cases "k < cursor_step")
      case True
      then show ?thesis using nth img assms(2,3) fold_power_steps_below_full [of ?img i k] by simp
    next
      case False
      then have k: "k = cursor_step" using assms(4) by simp
      have "fold paint_power_step [1..<Suc k] ?img = paint_power_step k (fold paint_power_step [1..<k] ?img)"
        using Suc by simp
      then show ?thesis
        using nth img assms(2,3) k nth_paint_power_step [of "fold paint_power_step [1..<k] ?img" i k]
              power_height_full [of "ci_height img0"] Suc
        by simp
    qed
  qed
  then show ?thesis using len by simp
qed

lemma apply_tool_timing [simp]:
  "ct_cumulated_time (fst (apply_tool env c input tg)) = ct_cumulated_time (fst tg)"
  "ct_previous_mouse_position (fst (apply_tool env c input tg)) = ct_previous_mouse_position (fst tg)"
  "ct_previous_timestamp (fst (apply_tool env c input tg)) = ct_previous_timestamp (fst tg)"
  "ct_kind (fst (apply_tool env c input tg)) = ct_kind (fst tg)"
  by (simp_all add: apply_tool_def smash_apply_tool_def grab_apply_tool_def swirl_apply_tool_def Let_def
      split: prod.split continuous_tool_kind.split)

lemma continuous_tool_update_timing:
  assumes "is_left_mouse_down input"
  shows "ct_cumulated_time (fst (continuous_tool_update env now input tg)) =
           (if ct_previous_mouse_position (fst tg) = mouse_position input
            then ct_cumulated_time (fst tg) + (now - ct_previous_timestamp (fst tg))
            else ct_cumulated_time (fst tg)) \<and>
         ct_previous_mouse_position (fst (continuous_tool_update env now input tg)) = mouse_position input \<and>
         ct_previous_timestamp (fst (continuous_tool_update env now input tg)) = now"
  using assms by (simp add: continuous_tool_update_def Let_def split: prod.split)

text \<open>C38: While the left button stays down at the tool's previous mouse position, ContinuousTool::Update accumulates the steady-clock time: after a sequence of updates the cumulated time has grown by the time from the previous timestamp to the last update's.\<close>

theorem continuous_tool_hold_still:
  assumes "es \<noteq> []"
    and "list_all (\<lambda>e. is_left_mouse_down (snd e) \<and> mouse_position (snd e) = ct_previous_mouse_position t) es"
  shows "ct_cumulated_time (fst (continuous_tool_run env es (t, gc))) =
           ct_cumulated_time t + (fst (last es) - ct_previous_timestamp t)"
  using assms
proof (induction es arbitrary: t gc)
  case Nil
  then show ?case by simp
next
  case (Cons e es)
  obtain t' gc' where u: "continuous_tool_update env (fst e) (snd e) (t, gc) = (t', gc')"
    by (cases "continuous_tool_update env (fst e) (snd e) (t, gc)")
  have t': "ct_cumulated_time t' = ct_cumulated_time t + (fst e - ct_previous_timestamp t)"
           "ct_previous_mouse_position t' = ct_previous_mouse_position t" "ct_previous_timestamp t' = fst e"
    using continuous_tool_update_timing [of "snd e" env "fst e" "(t, gc)"] Cons.prems(2) u by auto
  show ?case
  proof (cases "es = []")
    case True
    then show ?thesis using u t' by simp
  next
    case False
    then show ?thesis using Cons.IH [of t' gc'] Cons.prems(2) u t' by simp
  qed
qed

lemma sdiv_1000_nonneg: "0 \<le> (c :: int) \<Longrightarrow> c sdiv 1000 = c div 1000"
  by (simp add: signed_divide_int_def sgn_if)

text \<open>The strength of a continuous tool lies in [0.1, 1] and is full after five seconds.\<close>

lemma tool_strength_fraction_bounds:
  assumes "0 \<le> c"
  shows "0.1 \<le> tool_strength_fraction c \<and> tool_strength_fraction c \<le> 1 \<and>
         (5000000 \<le> c \<longrightarrow> tool_strength_fraction c = 1)"
proof -
  have d: "c sdiv 1000 = c div 1000" using assms by (rule sdiv_1000_nonneg)
  have "0 \<le> c div 1000" using assms by simp
  moreover have "5000 \<le> c div 1000" if "5000000 \<le> c" using that by simp
  ultimately show ?thesis by (auto simp: tool_strength_fraction_def Let_def d min_def)
qed


theorem make_cursors_power_steps_witness:
  "(\<lambda>_. example_cursor_image) (get_cursor_filepath example_cwd ''smash_cursor_down'') = example_cursor_image \<and>
   length (ci_data example_cursor_image) = ci_width example_cursor_image * ci_height example_cursor_image \<and>
   1 < length (ci_data example_cursor_image) \<and> (15::nat) \<le> cursor_step \<and>
   length (make_cursors (\<lambda>_. example_cursor_image) example_cwd ''smash_cursor_down'' 6 9) = 31 \<and>
   ci_data (make_cursors (\<lambda>_. example_cursor_image) example_cwd ''smash_cursor_down'' 6 9 ! 15) ! 1 = (219, 15, 15)"
proof -
  have img: "ci_width example_cursor_image = 1" "ci_height example_cursor_image = 2"
            "ci_data example_cursor_image = [(1, 1, 1), (2, 2, 2)]"
    by (simp_all add: example_cursor_image_def)
  show ?thesis
    using make_cursors_power_steps [of "\<lambda>_. example_cursor_image" example_cwd "''smash_cursor_down''"
            example_cursor_image 1 15 6 9]
    by (simp add: img power_height_def power_color_def cursor_step_def)
qed

theorem continuous_tool_hold_still_witness:
  "example_hold_events \<noteq> [] \<and>
   list_all (\<lambda>e. is_left_mouse_down (snd e) \<and> mouse_position (snd e) = ct_previous_mouse_position example_smash_tool)
     example_hold_events \<and>
   ct_cumulated_time (fst (continuous_tool_run example_env example_hold_events (example_smash_tool, example_controller))) =
     5000200"
  using continuous_tool_hold_still [of example_hold_events example_smash_tool example_env example_controller]
  by (simp add: example_hold_events_def example_smash_tool_def)

theorem tool_strength_fraction_bounds_witness:
  "0 \<le> (6000000::int) \<and> 0.1 \<le> tool_strength_fraction 6000000 \<and> tool_strength_fraction 6000000 \<le> 1 \<and>
   tool_strength_fraction 6000000 = 1"
  using tool_strength_fraction_bounds [of 6000000] by simp

end
