(* ===== verification/LegacyRenderContext.thy ===== *)
theory LegacyRenderContext
  imports SceneRender
begin

text \<open>
  The render context of the earlier revision kept in \<^verbatim>\<open>src/GameLib/RenderContext.h\<close>:
  its camera, zoom and canvas setters, the screen-to-world transformations, the cloud
  quads in NDC (\<^verbatim>\<open>RenderCloud\<close>), the land and water elements
  (\<^verbatim>\<open>UploadLandAndWater\<close>), and the per-ship calls, which check the ship id and forward
  to that ship's render context.  The header's \<^verbatim>\<open>.cpp\<close> is not in the repository:
  the private \<^verbatim>\<open>Update*\<close> functions it calls are a log of calls, and the visible world
  that \<^verbatim>\<open>UpdateVisibleWorldCoordinates\<close> computes is a function of zoom and canvas
  fixed in the context.  A ship render context is the list of calls it received.
  The buffers are the \<open>bounded_buffer\<close>s of \<open>SceneRender\<close>, whose overflow is the
  assertion.
\<close>

section \<open>State\<close>

record cloud_element =
  ce_top_left :: cloud_vertex
  ce_bottom_left :: cloud_vertex
  ce_top_right :: cloud_vertex
  ce_bottom_right :: cloud_vertex

record land_element =
  le_x1 :: real
  le_y1 :: real
  le_x2 :: real
  le_y2 :: real

record water_element =
  we_x1 :: real
  we_y1 :: real
  we_texture_y1 :: real
  we_x2 :: real
  we_y2 :: real
  we_texture_y2 :: real

text \<open>The private updates the setters trigger, and \<^verbatim>\<open>glViewport\<close>.\<close>

datatype legacy_update =
    UpdateVisibleWorldCoordinates | UpdateOrthoMatrix | UpdateAmbientLightIntensity
  | UpdateSeaWaterTransparency | UpdateWaterLevelOfDetail | GlViewport int int int int

text \<open>The calls a ship render context receives, with the scalar arguments that the
  forwarding computes or passes through (the point arrays are not modelled).  The ship
  render mode, the vector field mode and the bomb payload are type parameters.\<close>

datatype ('srm, 'vfm, 'b) legacy_ship_call =
    ShipPointImmutableGraphicalAttributes nat
  | ShipPoints nat
  | ShipElementsStart "nat list"
  | ShipElementPoint int int
  | ShipElementSpring int int int
  | ShipElementRope int int int
  | ShipElementTriangle int int int int
  | ShipElementsEnd
  | ShipElementStressedSpringsStart
  | ShipElementStressedSpring int int int
  | ShipElementStressedSpringsEnd
  | ShipElementPinnedPointsStart nat
  | ShipElementPinnedPoint real real int
  | ShipElementPinnedPointsEnd
  | ShipElementBombsStart nat
  | ShipElementBomb 'b int
  | ShipElementBombsEnd
  | ShipVectors nat real vec4
  | ShipLampsStart nat
  | ShipLamp real real real int
  | ShipLampsEnd
  | ShipRender 'srm 'vfm bool

record ('srm, 'vfm, 'b) legacy_render_context =
  lrc_cloud_buffer :: "cloud_element bounded_buffer"
  lrc_cloud_frames :: "frame_metadata list"
  lrc_land_buffer :: "land_element bounded_buffer"
  lrc_water_buffer :: "water_element bounded_buffer"
  lrc_ships :: "('srm, 'vfm, 'b) legacy_ship_call list list"
  lrc_visible_world_of :: "real \<Rightarrow> int \<Rightarrow> int \<Rightarrow> real \<times> real"
  lrc_visible_world_width :: real
  lrc_visible_world_height :: real
  lrc_zoom :: real
  lrc_cam_x :: real
  lrc_cam_y :: real
  lrc_canvas_width :: int
  lrc_canvas_height :: int
  lrc_ambient_light_intensity :: real
  lrc_sea_water_transparency :: real
  lrc_show_ship_through_sea_water :: bool
  lrc_water_level_of_detail :: real
  lrc_ship_render_mode :: 'srm
  lrc_vector_field_render_mode :: 'vfm
  lrc_vector_field_length_multiplier :: real
  lrc_show_stressed_springs :: bool
  lrc_updates :: "legacy_update list"

type_synonym ('srm, 'vfm, 'b) lrc = "('srm, 'vfm, 'b) legacy_render_context"

definition lrc_log :: "legacy_update \<Rightarrow> ('srm, 'vfm, 'b) lrc \<Rightarrow> ('srm, 'vfm, 'b) lrc" where
  "lrc_log u c = c\<lparr>lrc_updates := lrc_updates c @ [u]\<rparr>"

definition update_visible_world_coordinates :: "('srm, 'vfm, 'b) lrc \<Rightarrow> ('srm, 'vfm, 'b) lrc" where
  "update_visible_world_coordinates c =
     (let (w, h) = lrc_visible_world_of c (lrc_zoom c) (lrc_canvas_width c) (lrc_canvas_height c)
      in lrc_log UpdateVisibleWorldCoordinates (c\<lparr>lrc_visible_world_width := w, lrc_visible_world_height := h\<rparr>))"

definition update_view :: "('srm, 'vfm, 'b) lrc \<Rightarrow> ('srm, 'vfm, 'b) lrc" where
  "update_view c = lrc_log UpdateOrthoMatrix (update_visible_world_coordinates c)"

section \<open>Setters\<close>

definition lrc_set_zoom :: "real \<Rightarrow> ('srm, 'vfm, 'b) lrc \<Rightarrow> ('srm, 'vfm, 'b) lrc" where
  "lrc_set_zoom zoom c = update_view (c\<lparr>lrc_zoom := zoom\<rparr>)"

definition lrc_adjust_zoom :: "real \<Rightarrow> ('srm, 'vfm, 'b) lrc \<Rightarrow> ('srm, 'vfm, 'b) lrc" where
  "lrc_adjust_zoom amount c = update_view (c\<lparr>lrc_zoom := lrc_zoom c * amount\<rparr>)"

definition lrc_set_camera_world_position :: "vec2 \<Rightarrow> ('srm, 'vfm, 'b) lrc \<Rightarrow> ('srm, 'vfm, 'b) lrc" where
  "lrc_set_camera_world_position pos c = update_view (c\<lparr>lrc_cam_x := fst pos, lrc_cam_y := snd pos\<rparr>)"

definition lrc_adjust_camera_world_position :: "vec2 \<Rightarrow> ('srm, 'vfm, 'b) lrc \<Rightarrow> ('srm, 'vfm, 'b) lrc" where
  "lrc_adjust_camera_world_position world_offset c =
     update_view (c\<lparr>lrc_cam_x := lrc_cam_x c + fst world_offset, lrc_cam_y := lrc_cam_y c + snd world_offset\<rparr>)"

definition lrc_set_canvas_size :: "int \<Rightarrow> int \<Rightarrow> ('srm, 'vfm, 'b) lrc \<Rightarrow> ('srm, 'vfm, 'b) lrc" where
  "lrc_set_canvas_size width height c =
     update_view (lrc_log (GlViewport 0 0 width height) (c\<lparr>lrc_canvas_width := width, lrc_canvas_height := height\<rparr>))"

definition lrc_set_ambient_light_intensity :: "real \<Rightarrow> ('srm, 'vfm, 'b) lrc \<Rightarrow> ('srm, 'vfm, 'b) lrc" where
  "lrc_set_ambient_light_intensity intensity c =
     lrc_log UpdateAmbientLightIntensity (c\<lparr>lrc_ambient_light_intensity := intensity\<rparr>)"

definition lrc_set_sea_water_transparency :: "real \<Rightarrow> ('srm, 'vfm, 'b) lrc \<Rightarrow> ('srm, 'vfm, 'b) lrc" where
  "lrc_set_sea_water_transparency transparency c =
     lrc_log UpdateSeaWaterTransparency (c\<lparr>lrc_sea_water_transparency := transparency\<rparr>)"

definition lrc_set_show_ship_through_sea_water :: "bool \<Rightarrow> ('srm, 'vfm, 'b) lrc \<Rightarrow> ('srm, 'vfm, 'b) lrc" where
  "lrc_set_show_ship_through_sea_water b c = c\<lparr>lrc_show_ship_through_sea_water := b\<rparr>"

definition lrc_set_water_level_of_detail :: "real \<Rightarrow> ('srm, 'vfm, 'b) lrc \<Rightarrow> ('srm, 'vfm, 'b) lrc" where
  "lrc_set_water_level_of_detail level_of_detail c =
     lrc_log UpdateWaterLevelOfDetail (c\<lparr>lrc_water_level_of_detail := level_of_detail\<rparr>)"

definition lrc_set_ship_render_mode :: "'srm \<Rightarrow> ('srm, 'vfm, 'b) lrc \<Rightarrow> ('srm, 'vfm, 'b) lrc" where
  "lrc_set_ship_render_mode m c = c\<lparr>lrc_ship_render_mode := m\<rparr>"

definition lrc_set_vector_field_render_mode :: "'vfm \<Rightarrow> ('srm, 'vfm, 'b) lrc \<Rightarrow> ('srm, 'vfm, 'b) lrc" where
  "lrc_set_vector_field_render_mode m c = c\<lparr>lrc_vector_field_render_mode := m\<rparr>"

definition lrc_set_vector_field_length_multiplier :: "real \<Rightarrow> ('srm, 'vfm, 'b) lrc \<Rightarrow> ('srm, 'vfm, 'b) lrc" where
  "lrc_set_vector_field_length_multiplier m c = c\<lparr>lrc_vector_field_length_multiplier := m\<rparr>"

definition lrc_set_show_stressed_springs :: "bool \<Rightarrow> ('srm, 'vfm, 'b) lrc \<Rightarrow> ('srm, 'vfm, 'b) lrc" where
  "lrc_set_show_stressed_springs b c = c\<lparr>lrc_show_stressed_springs := b\<rparr>"

section \<open>Screen and world\<close>

definition lrc_screen_to_world :: "('srm, 'vfm, 'b) lrc \<Rightarrow> vec2 \<Rightarrow> vec2" where
  "lrc_screen_to_world c screen_coordinates =
     ((fst screen_coordinates / real_of_int (lrc_canvas_width c) - 0.5) * lrc_visible_world_width c + lrc_cam_x c,
      (snd screen_coordinates / real_of_int (lrc_canvas_height c) - 0.5) * - lrc_visible_world_height c + lrc_cam_y c)"

definition lrc_screen_offset_to_world_offset :: "('srm, 'vfm, 'b) lrc \<Rightarrow> vec2 \<Rightarrow> vec2" where
  "lrc_screen_offset_to_world_offset c screen_offset =
     (fst screen_offset / real_of_int (lrc_canvas_width c) * lrc_visible_world_width c,
      snd screen_offset / real_of_int (lrc_canvas_height c) * - lrc_visible_world_height c)"

section \<open>Clouds, land and water\<close>

text \<open>\<^verbatim>\<open>RenderCloud\<close>: the virtual position rolled into a \<open>3 \<times> 2\<close> view whose
  central slice maps onto NDC, the texture frame chosen round-robin by the number of
  clouds so far (a modulo by \<^verbatim>\<open>mCloudTextureCount\<close>, undefined for no frames: \<open>None\<close>),
  and the quad placed around the frame's anchor.\<close>

definition render_cloud ::
  "real \<Rightarrow> real \<Rightarrow> real \<Rightarrow> ('srm, 'vfm, 'b) lrc \<Rightarrow> ('srm, 'vfm, 'b) lrc option" where
  "render_cloud virtual_x virtual_y scale c =
     (let mapped_x = -1 + 2 * (roll virtual_x 3 - 1);
          mapped_y = -1 + 2 * (roll virtual_y 2 - 0.5);
          n = length (bb_data (lrc_cloud_buffer c))
      in if lrc_cloud_frames c = [] then None
         else
           (let f = lrc_cloud_frames c ! (n mod length (lrc_cloud_frames c));
                left_x = mapped_x - scale * fm_anchor_world_x f;
                right_x = mapped_x + scale * (fm_world_width f - fm_anchor_world_x f);
                top_y = mapped_y - scale * fm_anchor_world_y f;
                bottom_y = mapped_y + scale * (fm_world_height f - fm_anchor_world_y f);
                e = \<lparr>ce_top_left = (left_x, top_y, 0, 0), ce_bottom_left = (left_x, bottom_y, 0, 1),
                     ce_top_right = (right_x, top_y, 1, 0), ce_bottom_right = (right_x, bottom_y, 1, 1)\<rparr>
            in map_option (\<lambda>b. c\<lparr>lrc_cloud_buffer := b\<rparr>) (bounded_emplace_back e (lrc_cloud_buffer c))))"

text \<open>\<^verbatim>\<open>UploadLandAndWater\<close>: a land element from the land height down to the bottom
  of the visible world, and a water element from the higher of the water and land
  heights down to the land, so that islands are not covered in water.  The land and
  water buffers must have the same positive size.\<close>

definition upload_land_and_water ::
  "real \<Rightarrow> real \<Rightarrow> real \<Rightarrow> real \<Rightarrow> ('srm, 'vfm, 'b) lrc \<Rightarrow> ('srm, 'vfm, 'b) lrc option" where
  "upload_land_and_water x y_land y_water rest_water_height c =
     (if bb_max_size (lrc_land_buffer c) \<noteq> bb_max_size (lrc_water_buffer c) \<or> bb_max_size (lrc_land_buffer c) = 0
      then None
      else
        (let world_bottom = lrc_cam_y c - lrc_visible_world_height c / 2;
             land = \<lparr>le_x1 = x, le_y1 = y_land, le_x2 = x, le_y2 = world_bottom\<rparr>;
             water = \<lparr>we_x1 = x, we_y1 = (if y_water > y_land then y_water else y_land),
                      we_texture_y1 = rest_water_height, we_x2 = x, we_y2 = y_land, we_texture_y2 = 0\<rparr>
         in case bounded_emplace_back land (lrc_land_buffer c) of
              None \<Rightarrow> None
            | Some lb \<Rightarrow>
                map_option (\<lambda>wb. c\<lparr>lrc_land_buffer := lb, lrc_water_buffer := wb\<rparr>)
                  (bounded_emplace_back water (lrc_water_buffer c))))"

section \<open>Ships\<close>

text \<open>Every per-ship call asserts \<^verbatim>\<open>shipId < mShips.size()\<close>, comparing the
  \<^verbatim>\<open>int\<close> ship id as a \<^verbatim>\<open>size_t\<close>, and forwards to that ship.\<close>

definition lrc_ship_call ::
  "int \<Rightarrow> ('srm, 'vfm, 'b) legacy_ship_call \<Rightarrow> ('srm, 'vfm, 'b) lrc \<Rightarrow> ('srm, 'vfm, 'b) lrc option" where
  "lrc_ship_call ship_id call c =
     (if size_t_of_int ship_id < length (lrc_ships c)
      then Some (c\<lparr>lrc_ships := (lrc_ships c)[nat ship_id := lrc_ships c ! nat ship_id @ [call]]\<rparr>)
      else None)"

definition upload_ship_point_immutable_graphical_attributes ::
  "int \<Rightarrow> nat \<Rightarrow> ('srm, 'vfm, 'b) lrc \<Rightarrow> ('srm, 'vfm, 'b) lrc option" where
  "upload_ship_point_immutable_graphical_attributes ship_id element_count c =
     lrc_ship_call ship_id (ShipPointImmutableGraphicalAttributes element_count) c"

definition upload_ship_points :: "int \<Rightarrow> nat \<Rightarrow> ('srm, 'vfm, 'b) lrc \<Rightarrow> ('srm, 'vfm, 'b) lrc option" where
  "upload_ship_points ship_id element_count c = lrc_ship_call ship_id (ShipPoints element_count) c"

definition upload_ship_elements_start :: "int \<Rightarrow> nat list \<Rightarrow> ('srm, 'vfm, 'b) lrc \<Rightarrow> ('srm, 'vfm, 'b) lrc option" where
  "upload_ship_elements_start ship_id connected_components_max_sizes c =
     lrc_ship_call ship_id (ShipElementsStart connected_components_max_sizes) c"

definition upload_ship_element_point :: "int \<Rightarrow> int \<Rightarrow> int \<Rightarrow> ('srm, 'vfm, 'b) lrc \<Rightarrow> ('srm, 'vfm, 'b) lrc option" where
  "upload_ship_element_point ship_id ship_point_index cc c =
     lrc_ship_call ship_id (ShipElementPoint ship_point_index cc) c"

definition upload_ship_element_spring ::
  "int \<Rightarrow> int \<Rightarrow> int \<Rightarrow> int \<Rightarrow> ('srm, 'vfm, 'b) lrc \<Rightarrow> ('srm, 'vfm, 'b) lrc option" where
  "upload_ship_element_spring ship_id i1 i2 cc c = lrc_ship_call ship_id (ShipElementSpring i1 i2 cc) c"

definition upload_ship_element_rope ::
  "int \<Rightarrow> int \<Rightarrow> int \<Rightarrow> int \<Rightarrow> ('srm, 'vfm, 'b) lrc \<Rightarrow> ('srm, 'vfm, 'b) lrc option" where
  "upload_ship_element_rope ship_id i1 i2 cc c = lrc_ship_call ship_id (ShipElementRope i1 i2 cc) c"

definition upload_ship_element_triangle ::
  "int \<Rightarrow> int \<Rightarrow> int \<Rightarrow> int \<Rightarrow> int \<Rightarrow> ('srm, 'vfm, 'b) lrc \<Rightarrow> ('srm, 'vfm, 'b) lrc option" where
  "upload_ship_element_triangle ship_id i1 i2 i3 cc c = lrc_ship_call ship_id (ShipElementTriangle i1 i2 i3 cc) c"

definition upload_ship_elements_end :: "int \<Rightarrow> ('srm, 'vfm, 'b) lrc \<Rightarrow> ('srm, 'vfm, 'b) lrc option" where
  "upload_ship_elements_end ship_id c = lrc_ship_call ship_id ShipElementsEnd c"

definition upload_ship_element_stressed_springs_start :: "int \<Rightarrow> ('srm, 'vfm, 'b) lrc \<Rightarrow> ('srm, 'vfm, 'b) lrc option" where
  "upload_ship_element_stressed_springs_start ship_id c = lrc_ship_call ship_id ShipElementStressedSpringsStart c"

definition upload_ship_element_stressed_spring ::
  "int \<Rightarrow> int \<Rightarrow> int \<Rightarrow> int \<Rightarrow> ('srm, 'vfm, 'b) lrc \<Rightarrow> ('srm, 'vfm, 'b) lrc option" where
  "upload_ship_element_stressed_spring ship_id i1 i2 cc c =
     lrc_ship_call ship_id (ShipElementStressedSpring i1 i2 cc) c"

definition upload_ship_element_stressed_springs_end :: "int \<Rightarrow> ('srm, 'vfm, 'b) lrc \<Rightarrow> ('srm, 'vfm, 'b) lrc option" where
  "upload_ship_element_stressed_springs_end ship_id c = lrc_ship_call ship_id ShipElementStressedSpringsEnd c"

definition upload_ship_element_pinned_points_start ::
  "int \<Rightarrow> nat \<Rightarrow> ('srm, 'vfm, 'b) lrc \<Rightarrow> ('srm, 'vfm, 'b) lrc option" where
  "upload_ship_element_pinned_points_start ship_id element_count c =
     lrc_ship_call ship_id (ShipElementPinnedPointsStart element_count) c"

definition upload_ship_element_pinned_point ::
  "int \<Rightarrow> real \<Rightarrow> real \<Rightarrow> int \<Rightarrow> ('srm, 'vfm, 'b) lrc \<Rightarrow> ('srm, 'vfm, 'b) lrc option" where
  "upload_ship_element_pinned_point ship_id x y cc c = lrc_ship_call ship_id (ShipElementPinnedPoint x y cc) c"

definition upload_ship_element_pinned_points_end :: "int \<Rightarrow> ('srm, 'vfm, 'b) lrc \<Rightarrow> ('srm, 'vfm, 'b) lrc option" where
  "upload_ship_element_pinned_points_end ship_id c = lrc_ship_call ship_id ShipElementPinnedPointsEnd c"

definition upload_ship_element_bombs_start :: "int \<Rightarrow> nat \<Rightarrow> ('srm, 'vfm, 'b) lrc \<Rightarrow> ('srm, 'vfm, 'b) lrc option" where
  "upload_ship_element_bombs_start ship_id element_count c = lrc_ship_call ship_id (ShipElementBombsStart element_count) c"

definition upload_ship_element_bomb :: "int \<Rightarrow> 'b \<Rightarrow> int \<Rightarrow> ('srm, 'vfm, 'b) lrc \<Rightarrow> ('srm, 'vfm, 'b) lrc option" where
  "upload_ship_element_bomb ship_id bomb cc c = lrc_ship_call ship_id (ShipElementBomb bomb cc) c"

definition upload_ship_element_bombs_end :: "int \<Rightarrow> ('srm, 'vfm, 'b) lrc \<Rightarrow> ('srm, 'vfm, 'b) lrc option" where
  "upload_ship_element_bombs_end ship_id c = lrc_ship_call ship_id ShipElementBombsEnd c"

text \<open>\<^verbatim>\<open>UploadShipVectors\<close> scales the length adjustment by the context's vector field
  length multiplier.\<close>

definition upload_ship_vectors ::
  "int \<Rightarrow> nat \<Rightarrow> real \<Rightarrow> vec4 \<Rightarrow> ('srm, 'vfm, 'b) lrc \<Rightarrow> ('srm, 'vfm, 'b) lrc option" where
  "upload_ship_vectors ship_id element_count length_adjustment color c =
     lrc_ship_call ship_id (ShipVectors element_count (length_adjustment * lrc_vector_field_length_multiplier c) color) c"

definition upload_lamps_start :: "int \<Rightarrow> nat \<Rightarrow> ('srm, 'vfm, 'b) lrc \<Rightarrow> ('srm, 'vfm, 'b) lrc option" where
  "upload_lamps_start ship_id connected_components c = lrc_ship_call ship_id (ShipLampsStart connected_components) c"

definition upload_lamp ::
  "int \<Rightarrow> real \<Rightarrow> real \<Rightarrow> real \<Rightarrow> int \<Rightarrow> ('srm, 'vfm, 'b) lrc \<Rightarrow> ('srm, 'vfm, 'b) lrc option" where
  "upload_lamp ship_id x y light_intensity cc c = lrc_ship_call ship_id (ShipLamp x y light_intensity cc) c"

definition upload_lamps_end :: "int \<Rightarrow> ('srm, 'vfm, 'b) lrc \<Rightarrow> ('srm, 'vfm, 'b) lrc option" where
  "upload_lamps_end ship_id c = lrc_ship_call ship_id ShipLampsEnd c"

text \<open>\<^verbatim>\<open>RenderShip\<close> passes the context's current render settings.\<close>

definition render_ship :: "int \<Rightarrow> ('srm, 'vfm, 'b) lrc \<Rightarrow> ('srm, 'vfm, 'b) lrc option" where
  "render_ship ship_id c =
     lrc_ship_call ship_id
       (ShipRender (lrc_ship_render_mode c) (lrc_vector_field_render_mode c) (lrc_show_stressed_springs c)) c"

text \<open>A context with two ships, a single cloud frame and room for four clouds and
  two land and water columns.\<close>

definition example_legacy_render_context :: "(unit, unit, unit) legacy_render_context" where
  "example_legacy_render_context =
     \<lparr>lrc_cloud_buffer = \<lparr>bb_data = [], bb_max_size = 4\<rparr>,
      lrc_cloud_frames = [\<lparr>fm_anchor_world_x = 0.5, fm_anchor_world_y = 0.5, fm_world_width = 1,
                            fm_world_height = 1, fm_texture_bottom_left = (0, 0), fm_texture_top_right = (1, 1)\<rparr>],
      lrc_land_buffer = \<lparr>bb_data = [], bb_max_size = 2\<rparr>, lrc_water_buffer = \<lparr>bb_data = [], bb_max_size = 2\<rparr>,
      lrc_ships = [[], []], lrc_visible_world_of = (\<lambda>z w h. (real_of_int w / z, real_of_int h / z)),
      lrc_visible_world_width = 100, lrc_visible_world_height = 80, lrc_zoom = 1, lrc_cam_x = 0, lrc_cam_y = 0,
      lrc_canvas_width = 100, lrc_canvas_height = 80, lrc_ambient_light_intensity = 1,
      lrc_sea_water_transparency = 0.5, lrc_show_ship_through_sea_water = False, lrc_water_level_of_detail = 0.5,
      lrc_ship_render_mode = (), lrc_vector_field_render_mode = (), lrc_vector_field_length_multiplier = 1,
      lrc_show_stressed_springs = False, lrc_updates = []\<rparr>"

section \<open>Lemmas\<close>


text \<open>C40: Every per-ship call of the GameLib RenderContext succeeds exactly when the int ship id is a valid index (0 <= id < number of ships): a negative id converts to a huge size_t and fails the assertion; on success only that ship receives the call, appended to its calls.\<close>

theorem lrc_ship_call_iff:
  assumes "- (2 ^ 31) \<le> ship_id" and "ship_id < 2 ^ 31" and "length (lrc_ships c) < 2 ^ 63"
  shows "(lrc_ship_call ship_id call c \<noteq> None \<longleftrightarrow> 0 \<le> ship_id \<and> nat ship_id < length (lrc_ships c)) \<and>
         (\<forall>c'. lrc_ship_call ship_id call c = Some c' \<longrightarrow>
            lrc_ships c' = (lrc_ships c)[nat ship_id := lrc_ships c ! nat ship_id @ [call]] \<and>
            c'\<lparr>lrc_ships := lrc_ships c\<rparr> = c)"
  using size_t_of_int_less_iff [OF assms] by (auto simp: lrc_ship_call_def)

text \<open>Screen coordinates map to the camera position plus the world offset of their
  distance from the canvas centre.\<close>

lemma lrc_screen_to_world_offset:
  assumes "lrc_canvas_width c \<noteq> 0" and "lrc_canvas_height c \<noteq> 0"
  shows "lrc_screen_to_world c p =
     vadd (lrc_cam_x c, lrc_cam_y c)
       (lrc_screen_offset_to_world_offset c
          (vsub p (real_of_int (lrc_canvas_width c) / 2, real_of_int (lrc_canvas_height c) / 2)))"
  using assms by (simp add: lrc_screen_to_world_def lrc_screen_offset_to_world_offset_def vadd_def vsub_def
        field_simps)

text \<open>A land and water column: the land reaches down to the bottom of the visible
  world and the water never starts below the land.\<close>

lemma upload_land_and_water_islands_dry:
  assumes "upload_land_and_water x y_land y_water rest c = Some c'"
  shows "\<exists>le we. bb_data (lrc_land_buffer c') = bb_data (lrc_land_buffer c) @ [le] \<and>
                bb_data (lrc_water_buffer c') = bb_data (lrc_water_buffer c) @ [we] \<and>
                le_y1 le = y_land \<and> le_y2 le = lrc_cam_y c - lrc_visible_world_height c / 2 \<and>
                we_y2 we = y_land \<and> y_land \<le> we_y1 we \<and> y_water \<le> we_y1 we"
  using assms
  by (auto simp: upload_land_and_water_def bounded_emplace_back_def Let_def split: if_splits option.splits)

lemma roll_eq_floor:
  assumes "0 < p"
  shows "roll v p = v - p * real_of_int \<lfloor>v / p\<rfloor>"
proof -
  have lo: "0 \<le> v - p * real_of_int \<lfloor>v / p\<rfloor>"
    using floor_divide_lower [OF assms, of v] by (simp add: mult.commute)
  have hi: "v - p * real_of_int \<lfloor>v / p\<rfloor> < p"
    using floor_divide_upper [OF assms, of v] by (simp add: algebra_simps)
  show ?thesis
  proof (cases "0 \<le> v / p")
    case True
    then have "fmod v p = v - p * real_of_int \<lfloor>v / p\<rfloor>" by (simp add: fmod_def truncate_int_def)
    then show ?thesis using lo by (simp add: roll_def Let_def)
  next
    case False
    then have f: "fmod v p = v - p * real_of_int \<lceil>v / p\<rceil>"
      by (simp add: fmod_def truncate_int_def ceiling_def)
    show ?thesis
    proof (cases "v / p = real_of_int \<lfloor>v / p\<rfloor>")
      case True
      then have "\<lceil>v / p\<rceil> = \<lfloor>v / p\<rfloor>" by (metis ceiling_of_int)
      then show ?thesis using f lo by (simp add: roll_def Let_def)
    next
      case False
      then have "\<lceil>v / p\<rceil> = \<lfloor>v / p\<rfloor> + 1" by (simp add: ceiling_altdef)
      then show ?thesis using f hi by (simp add: roll_def Let_def algebra_simps)
    qed
  qed
qed

lemma roll_periodic:
  assumes "0 < p"
  shows "roll (v + p) p = roll v p"
proof -
  have "\<lfloor>(v + p) / p\<rfloor> = \<lfloor>v / p\<rfloor> + 1"
    using assms by (simp add: add_divide_distrib)
  then show ?thesis using assms by (simp add: roll_eq_floor algebra_simps)
qed

text \<open>The cloud quads repeat every 3 NDC widths and 2 NDC heights of virtual
  position.\<close>

lemma render_cloud_periodic:
  "render_cloud (virtual_x + 3) virtual_y scale c = render_cloud virtual_x virtual_y scale c \<and>
   render_cloud virtual_x (virtual_y + 2) scale c = render_cloud virtual_x virtual_y scale c"
  by (simp add: render_cloud_def roll_periodic)

theorem lrc_ship_call_iff_witness:
  "- (2 ^ 31) \<le> (1::int) \<and> (1::int) < 2 ^ 31 \<and> length (lrc_ships example_legacy_render_context) < 2 ^ 63 \<and>
   lrc_ship_call 1 ShipLampsEnd example_legacy_render_context \<noteq> None \<and>
   lrc_ship_call (- 1) ShipLampsEnd example_legacy_render_context = None \<and>
   lrc_ships (the (lrc_ship_call 1 ShipLampsEnd example_legacy_render_context)) = [[], [ShipLampsEnd]]"
proof -
  have s: "lrc_ships example_legacy_render_context = [[], []]"
    by (simp add: example_legacy_render_context_def)
  have a: "lrc_ship_call 1 ShipLampsEnd example_legacy_render_context \<noteq> None \<and>
           lrc_ships (the (lrc_ship_call 1 ShipLampsEnd example_legacy_render_context)) = [[], [ShipLampsEnd]]"
    using lrc_ship_call_iff [of 1 example_legacy_render_context ShipLampsEnd] s by auto
  have b: "lrc_ship_call (- 1) ShipLampsEnd example_legacy_render_context = None"
    using lrc_ship_call_iff [of "- 1" example_legacy_render_context ShipLampsEnd] s by simp
  show ?thesis using a b s by simp
qed

end
