(* ===== verification/RenderCore.thy ===== *)
theory RenderCore
  imports Prelude
begin

text \<open>
  The name conversions of \<^verbatim>\<open>src/Game/RenderCore.cpp\<close>: shader file names to
  program types (\<^verbatim>\<open>ShaderFilenameToProgramType\<close>, case-insensitive), program types
  to names (\<^verbatim>\<open>ProgramTypeToStr\<close>), program parameter names both ways and vertex
  attribute names to types (\<^verbatim>\<open>StrToVertexAttributeType\<close>, case-insensitive).  The
  enumerations are declared in \<^verbatim>\<open>RenderCore.h\<close>, outside \<^verbatim>\<open>src/\<close>, and are
  the datatypes below with the constructors the conversions name; their
  \<^verbatim>\<open>default\<close> branches are unreachable.  A \<^verbatim>\<open>GameException\<close> is the \<open>Inl\<close>
  of its message.  This revision of the program types differs from the one
  \<open>SceneRender\<close> models for \<^verbatim>\<open>RenderContext.cpp\<close>.
\<close>

section \<open>Enumerations\<close>

datatype rc_program_type =
    RcProgramClouds | RcProgramCrossOfLight | RcProgramFireExtinguisherSpray | RcProgramHeatBlasterFlameCool
  | RcProgramHeatBlasterFlameHeat | RcProgramLandFlat | RcProgramLandTexture | RcProgramOceanDepth
  | RcProgramOceanFlat | RcProgramOceanTexture | RcProgramShipFlamesBackground1 | RcProgramShipFlamesBackground2
  | RcProgramShipFlamesForeground1 | RcProgramShipFlamesForeground2 | RcProgramShipGenericTextures | RcProgramShipPointsColor
  | RcProgramShipPointsColorWithTemperature | RcProgramShipRopes | RcProgramShipRopesWithTemperature | RcProgramShipSpringsColor
  | RcProgramShipSpringsColorWithTemperature | RcProgramShipSpringsTexture | RcProgramShipSpringsTextureWithTemperature | RcProgramShipStressedSprings
  | RcProgramShipTrianglesColor | RcProgramShipTrianglesColorWithTemperature | RcProgramShipTrianglesDecay | RcProgramShipTrianglesTexture
  | RcProgramShipTrianglesTextureWithTemperature | RcProgramShipVectors | RcProgramStars | RcProgramTextNDC
  | RcProgramWorldBorder

datatype rc_program_parameter_type =
    RcParamAmbientLightIntensity | RcParamFlameSpeed | RcParamFlameWindRotationAngle | RcParamHeatOverlayTransparency
  | RcParamLandFlatColor | RcParamMatteColor | RcParamOceanTransparency | RcParamOceanDarkeningRate
  | RcParamOceanDepthColorStart | RcParamOceanDepthColorEnd | RcParamOceanFlatColor | RcParamOrthoMatrix
  | RcParamStarTransparency | RcParamTextureScaling | RcParamTime | RcParamViewportSize
  | RcParamWaterColor | RcParamWaterContrast | RcParamWaterLevelThreshold | RcParamSharedTexture
  | RcParamCloudTexture | RcParamGenericTexturesAtlasTexture | RcParamLandTexture | RcParamNoiseTexture1
  | RcParamNoiseTexture2 | RcParamOceanTexture | RcParamWorldBorderTexture

datatype vertex_attribute_type =
    VertexAttributeStar | VertexAttributeCloud | VertexAttributeLand | VertexAttributeOcean
  | VertexAttributeCrossOfLight1 | VertexAttributeCrossOfLight2 | VertexAttributeFireExtinguisherSpray | VertexAttributeHeatBlasterFlame
  | VertexAttributeWorldBorder | VertexAttributeShipPointTextureCoordinates | VertexAttributeShipPointColor | VertexAttributeShipPointPosition
  | VertexAttributeShipPointWater | VertexAttributeShipPointLight | VertexAttributeShipPointPlaneId | VertexAttributeShipPointDecay
  | VertexAttributeShipPointTemperature | VertexAttributeGenericTexture1 | VertexAttributeGenericTexture2 | VertexAttributeGenericTexture3
  | VertexAttributeFlame1 | VertexAttributeFlame2 | VertexAttributeVectorArrow | VertexAttributeText1
  | VertexAttributeText2

section \<open>Case conversion\<close>

text \<open>\<^verbatim>\<open>Utils::ToLower\<close> and \<^verbatim>\<open>Utils::CaseInsensitiveEquals\<close> (in
  \<^verbatim>\<open>GameCore/Utils.h\<close>, outside \<^verbatim>\<open>src/\<close>): \<^verbatim>\<open>std::tolower\<close> of the C locale on
  each character.\<close>

definition ascii_to_lower :: "char \<Rightarrow> char" where
  "ascii_to_lower c =
     (if 65 \<le> (of_char c :: nat) \<and> (of_char c :: nat) \<le> 90 then char_of (of_char c + (32 :: nat)) else c)"

definition to_lower :: "string \<Rightarrow> string" where
  "to_lower s = map ascii_to_lower s"

definition case_insensitive_equals :: "string \<Rightarrow> string \<Rightarrow> bool" where
  "case_insensitive_equals s t = (to_lower s = to_lower t)"

section \<open>Conversions\<close>

definition shader_filename_to_program_type :: "string \<Rightarrow> string + rc_program_type" where
  "shader_filename_to_program_type str =
     (let lstr = to_lower str in
      if lstr = ''clouds'' then Inr RcProgramClouds
      else if lstr = ''cross_of_light'' then Inr RcProgramCrossOfLight
      else if lstr = ''fire_extinguisher_spray'' then Inr RcProgramFireExtinguisherSpray
      else if lstr = ''heat_blaster_flame_cool'' then Inr RcProgramHeatBlasterFlameCool
      else if lstr = ''heat_blaster_flame_heat'' then Inr RcProgramHeatBlasterFlameHeat
      else if lstr = ''land_flat'' then Inr RcProgramLandFlat
      else if lstr = ''land_texture'' then Inr RcProgramLandTexture
      else if lstr = ''ocean_depth'' then Inr RcProgramOceanDepth
      else if lstr = ''ocean_flat'' then Inr RcProgramOceanFlat
      else if lstr = ''ocean_texture'' then Inr RcProgramOceanTexture
      else if lstr = ''ship_flames_background_1'' then Inr RcProgramShipFlamesBackground1
      else if lstr = ''ship_flames_background_2'' then Inr RcProgramShipFlamesBackground2
      else if lstr = ''ship_flames_foreground_1'' then Inr RcProgramShipFlamesForeground1
      else if lstr = ''ship_flames_foreground_2'' then Inr RcProgramShipFlamesForeground2
      else if lstr = ''ship_generic_textures'' then Inr RcProgramShipGenericTextures
      else if lstr = ''ship_points_color'' then Inr RcProgramShipPointsColor
      else if lstr = ''ship_points_color_with_temperature'' then Inr RcProgramShipPointsColorWithTemperature
      else if lstr = ''ship_ropes'' then Inr RcProgramShipRopes
      else if lstr = ''ship_ropes_with_temperature'' then Inr RcProgramShipRopesWithTemperature
      else if lstr = ''ship_springs_color'' then Inr RcProgramShipSpringsColor
      else if lstr = ''ship_springs_color_with_temperature'' then Inr RcProgramShipSpringsColorWithTemperature
      else if lstr = ''ship_springs_texture'' then Inr RcProgramShipSpringsTexture
      else if lstr = ''ship_springs_texture_with_temperature'' then Inr RcProgramShipSpringsTextureWithTemperature
      else if lstr = ''ship_stressed_springs'' then Inr RcProgramShipStressedSprings
      else if lstr = ''ship_triangles_color'' then Inr RcProgramShipTrianglesColor
      else if lstr = ''ship_triangles_color_with_temperature'' then Inr RcProgramShipTrianglesColorWithTemperature
      else if lstr = ''ship_triangles_decay'' then Inr RcProgramShipTrianglesDecay
      else if lstr = ''ship_triangles_texture'' then Inr RcProgramShipTrianglesTexture
      else if lstr = ''ship_triangles_texture_with_temperature'' then Inr RcProgramShipTrianglesTextureWithTemperature
      else if lstr = ''ship_vectors'' then Inr RcProgramShipVectors
      else if lstr = ''stars'' then Inr RcProgramStars
      else if lstr = ''text_ndc'' then Inr RcProgramTextNDC
      else if lstr = ''world_border'' then Inr RcProgramWorldBorder
      else Inl (''Unrecognized program '' @ [CHR 0x22] @ str @ [CHR 0x22]))"

fun program_type_to_str :: "rc_program_type \<Rightarrow> string" where
  "program_type_to_str RcProgramClouds = ''Clouds''"
  | "program_type_to_str RcProgramCrossOfLight = ''CrossOfLight''"
  | "program_type_to_str RcProgramFireExtinguisherSpray = ''FireExtinguisherSpray''"
  | "program_type_to_str RcProgramHeatBlasterFlameCool = ''HeatBlasterFlameCool''"
  | "program_type_to_str RcProgramHeatBlasterFlameHeat = ''HeatBlasterFlameHeat''"
  | "program_type_to_str RcProgramLandFlat = ''LandFlat''"
  | "program_type_to_str RcProgramLandTexture = ''LandTexture''"
  | "program_type_to_str RcProgramOceanDepth = ''OceanDepth''"
  | "program_type_to_str RcProgramOceanFlat = ''OceanFlat''"
  | "program_type_to_str RcProgramOceanTexture = ''OceanTexture''"
  | "program_type_to_str RcProgramShipFlamesBackground1 = ''ShipFlamesBackground1''"
  | "program_type_to_str RcProgramShipFlamesBackground2 = ''ShipFlamesBackground2''"
  | "program_type_to_str RcProgramShipFlamesForeground1 = ''ShipFlamesForeground1''"
  | "program_type_to_str RcProgramShipFlamesForeground2 = ''ShipFlamesForeground2''"
  | "program_type_to_str RcProgramShipGenericTextures = ''ShipGenericTextures''"
  | "program_type_to_str RcProgramShipPointsColor = ''ShipPointsColor''"
  | "program_type_to_str RcProgramShipPointsColorWithTemperature = ''ShipPointsColorWithTemperature''"
  | "program_type_to_str RcProgramShipRopes = ''ShipRopes''"
  | "program_type_to_str RcProgramShipRopesWithTemperature = ''ShipRopesWithTemperature''"
  | "program_type_to_str RcProgramShipSpringsColor = ''ShipSpringsColor''"
  | "program_type_to_str RcProgramShipSpringsColorWithTemperature = ''ShipSpringsColorWithTemperature''"
  | "program_type_to_str RcProgramShipSpringsTexture = ''ShipSpringsTexture''"
  | "program_type_to_str RcProgramShipSpringsTextureWithTemperature = ''ShipSpringsTextureWithTemperature''"
  | "program_type_to_str RcProgramShipStressedSprings = ''ShipStressedSprings''"
  | "program_type_to_str RcProgramShipTrianglesColor = ''ShipTrianglesColor''"
  | "program_type_to_str RcProgramShipTrianglesColorWithTemperature = ''ShipTrianglesColorWithTemperature''"
  | "program_type_to_str RcProgramShipTrianglesDecay = ''ShipTrianglesDecay''"
  | "program_type_to_str RcProgramShipTrianglesTexture = ''ShipTrianglesTexture''"
  | "program_type_to_str RcProgramShipTrianglesTextureWithTemperature = ''ShipTrianglesTextureWithTemperature''"
  | "program_type_to_str RcProgramShipVectors = ''ShipVectors''"
  | "program_type_to_str RcProgramStars = ''Stars''"
  | "program_type_to_str RcProgramTextNDC = ''TextNDC''"
  | "program_type_to_str RcProgramWorldBorder = ''WorldBorder''"

definition str_to_program_parameter_type :: "string \<Rightarrow> string + rc_program_parameter_type" where
  "str_to_program_parameter_type str =
     (if str = ''AmbientLightIntensity'' then Inr RcParamAmbientLightIntensity
      else if str = ''FlameSpeed'' then Inr RcParamFlameSpeed
      else if str = ''FlameWindRotationAngle'' then Inr RcParamFlameWindRotationAngle
      else if str = ''HeatOverlayTransparency'' then Inr RcParamHeatOverlayTransparency
      else if str = ''LandFlatColor'' then Inr RcParamLandFlatColor
      else if str = ''MatteColor'' then Inr RcParamMatteColor
      else if str = ''OceanTransparency'' then Inr RcParamOceanTransparency
      else if str = ''OceanDarkeningRate'' then Inr RcParamOceanDarkeningRate
      else if str = ''OceanDepthColorStart'' then Inr RcParamOceanDepthColorStart
      else if str = ''OceanDepthColorEnd'' then Inr RcParamOceanDepthColorEnd
      else if str = ''OceanFlatColor'' then Inr RcParamOceanFlatColor
      else if str = ''OrthoMatrix'' then Inr RcParamOrthoMatrix
      else if str = ''StarTransparency'' then Inr RcParamStarTransparency
      else if str = ''TextureScaling'' then Inr RcParamTextureScaling
      else if str = ''Time'' then Inr RcParamTime
      else if str = ''ViewportSize'' then Inr RcParamViewportSize
      else if str = ''WaterColor'' then Inr RcParamWaterColor
      else if str = ''WaterContrast'' then Inr RcParamWaterContrast
      else if str = ''WaterLevelThreshold'' then Inr RcParamWaterLevelThreshold
      else if str = ''SharedTexture'' then Inr RcParamSharedTexture
      else if str = ''CloudTexture'' then Inr RcParamCloudTexture
      else if str = ''GenericTexturesAtlasTexture'' then Inr RcParamGenericTexturesAtlasTexture
      else if str = ''LandTexture'' then Inr RcParamLandTexture
      else if str = ''NoiseTexture1'' then Inr RcParamNoiseTexture1
      else if str = ''NoiseTexture2'' then Inr RcParamNoiseTexture2
      else if str = ''OceanTexture'' then Inr RcParamOceanTexture
      else if str = ''WorldBorderTexture'' then Inr RcParamWorldBorderTexture
      else Inl (''Unrecognized program parameter '' @ [CHR 0x22] @ str @ [CHR 0x22]))"

fun program_parameter_type_to_str :: "rc_program_parameter_type \<Rightarrow> string" where
  "program_parameter_type_to_str RcParamAmbientLightIntensity = ''AmbientLightIntensity''"
  | "program_parameter_type_to_str RcParamFlameSpeed = ''FlameSpeed''"
  | "program_parameter_type_to_str RcParamFlameWindRotationAngle = ''FlameWindRotationAngle''"
  | "program_parameter_type_to_str RcParamHeatOverlayTransparency = ''HeatOverlayTransparency''"
  | "program_parameter_type_to_str RcParamLandFlatColor = ''LandFlatColor''"
  | "program_parameter_type_to_str RcParamMatteColor = ''MatteColor''"
  | "program_parameter_type_to_str RcParamOceanTransparency = ''OceanTransparency''"
  | "program_parameter_type_to_str RcParamOceanDarkeningRate = ''OceanDarkeningRate''"
  | "program_parameter_type_to_str RcParamOceanDepthColorStart = ''OceanDepthColorStart''"
  | "program_parameter_type_to_str RcParamOceanDepthColorEnd = ''OceanDepthColorEnd''"
  | "program_parameter_type_to_str RcParamOceanFlatColor = ''OceanFlatColor''"
  | "program_parameter_type_to_str RcParamOrthoMatrix = ''OrthoMatrix''"
  | "program_parameter_type_to_str RcParamStarTransparency = ''StarTransparency''"
  | "program_parameter_type_to_str RcParamTextureScaling = ''TextureScaling''"
  | "program_parameter_type_to_str RcParamTime = ''Time''"
  | "program_parameter_type_to_str RcParamViewportSize = ''ViewportSize''"
  | "program_parameter_type_to_str RcParamWaterColor = ''WaterColor''"
  | "program_parameter_type_to_str RcParamWaterContrast = ''WaterContrast''"
  | "program_parameter_type_to_str RcParamWaterLevelThreshold = ''WaterLevelThreshold''"
  | "program_parameter_type_to_str RcParamSharedTexture = ''SharedTexture''"
  | "program_parameter_type_to_str RcParamCloudTexture = ''CloudTexture''"
  | "program_parameter_type_to_str RcParamGenericTexturesAtlasTexture = ''GenericTexturesAtlasTexture''"
  | "program_parameter_type_to_str RcParamLandTexture = ''LandTexture''"
  | "program_parameter_type_to_str RcParamNoiseTexture1 = ''NoiseTexture1''"
  | "program_parameter_type_to_str RcParamNoiseTexture2 = ''NoiseTexture2''"
  | "program_parameter_type_to_str RcParamOceanTexture = ''OceanTexture''"
  | "program_parameter_type_to_str RcParamWorldBorderTexture = ''WorldBorderTexture''"

definition str_to_vertex_attribute_type :: "string \<Rightarrow> string + vertex_attribute_type" where
  "str_to_vertex_attribute_type str =
     (if case_insensitive_equals str ''Star'' then Inr VertexAttributeStar
      else if case_insensitive_equals str ''Cloud'' then Inr VertexAttributeCloud
      else if case_insensitive_equals str ''Land'' then Inr VertexAttributeLand
      else if case_insensitive_equals str ''Ocean'' then Inr VertexAttributeOcean
      else if case_insensitive_equals str ''CrossOfLight1'' then Inr VertexAttributeCrossOfLight1
      else if case_insensitive_equals str ''CrossOfLight2'' then Inr VertexAttributeCrossOfLight2
      else if case_insensitive_equals str ''FireExtinguisherSpray'' then Inr VertexAttributeFireExtinguisherSpray
      else if case_insensitive_equals str ''HeatBlasterFlame'' then Inr VertexAttributeHeatBlasterFlame
      else if case_insensitive_equals str ''WorldBorder'' then Inr VertexAttributeWorldBorder
      else if case_insensitive_equals str ''ShipPointTextureCoordinates'' then Inr VertexAttributeShipPointTextureCoordinates
      else if case_insensitive_equals str ''ShipPointColor'' then Inr VertexAttributeShipPointColor
      else if case_insensitive_equals str ''ShipPointPosition'' then Inr VertexAttributeShipPointPosition
      else if case_insensitive_equals str ''ShipPointWater'' then Inr VertexAttributeShipPointWater
      else if case_insensitive_equals str ''ShipPointLight'' then Inr VertexAttributeShipPointLight
      else if case_insensitive_equals str ''ShipPointPlaneId'' then Inr VertexAttributeShipPointPlaneId
      else if case_insensitive_equals str ''ShipPointDecay'' then Inr VertexAttributeShipPointDecay
      else if case_insensitive_equals str ''ShipPointTemperature'' then Inr VertexAttributeShipPointTemperature
      else if case_insensitive_equals str ''GenericTexture1'' then Inr VertexAttributeGenericTexture1
      else if case_insensitive_equals str ''GenericTexture2'' then Inr VertexAttributeGenericTexture2
      else if case_insensitive_equals str ''GenericTexture3'' then Inr VertexAttributeGenericTexture3
      else if case_insensitive_equals str ''Flame1'' then Inr VertexAttributeFlame1
      else if case_insensitive_equals str ''Flame2'' then Inr VertexAttributeFlame2
      else if case_insensitive_equals str ''VectorArrow'' then Inr VertexAttributeVectorArrow
      else if case_insensitive_equals str ''Text1'' then Inr VertexAttributeText1
      else if case_insensitive_equals str ''Text2'' then Inr VertexAttributeText2
      else Inl (''Unrecognized vertex attribute '' @ [CHR 0x22] @ str @ [CHR 0x22]))"

section \<open>Properties\<close>

text \<open>A first-match chain of tests whose branches return \<open>Inr\<close> returns the same
  \<open>Inr\<close> whatever its final \<open>else\<close> raises.\<close>

lemma if_Inr_chain_step:
  "(if c then Inr a else x) = Inr p \<Longrightarrow> (x = Inr p \<Longrightarrow> y = Inr p) \<Longrightarrow>
   (if c then Inr a else y) = Inr p"
  by (cases c) simp_all

lemma if_Inl_chain_step: "(if c then Inr a else x) = Inl e \<Longrightarrow> x = Inl e"
  by (cases c) simp_all

text \<open>Program parameter names round-trip: \<^verbatim>\<open>StrToProgramParameterType\<close> inverts
  \<^verbatim>\<open>ProgramParameterTypeToStr\<close>, so the two tables agree entry by entry.\<close>

lemma str_to_program_parameter_type_roundtrip:
  "str_to_program_parameter_type (program_parameter_type_to_str p) = Inr p"
  by (cases p) (simp_all add: str_to_program_parameter_type_def)

lemma program_parameter_type_to_str_inj: "inj program_parameter_type_to_str"
  by (rule inj_on_inverseI[where g = "\<lambda>s. projr (str_to_program_parameter_type s)"])
     (simp add: str_to_program_parameter_type_roundtrip)

text \<open>Shader file names and vertex attribute names are recognised regardless of case.\<close>

lemma shader_filename_to_program_type_case:
  assumes "to_lower s = to_lower t" and "shader_filename_to_program_type s = Inr p"
  shows "shader_filename_to_program_type t = Inr p"
  using assms(2) unfolding shader_filename_to_program_type_def Let_def assms(1)
  by - ((rule if_Inr_chain_step, assumption)+, simp)

lemma str_to_vertex_attribute_type_case:
  assumes "to_lower s = to_lower t" and "str_to_vertex_attribute_type s = Inr v"
  shows "str_to_vertex_attribute_type t = Inr v"
  using assms(2) unfolding str_to_vertex_attribute_type_def case_insensitive_equals_def assms(1)
  by - ((rule if_Inr_chain_step, assumption)+, simp)

text \<open>An unrecognised name raises the exception quoting it.\<close>

lemma shader_filename_to_program_type_error:
  "shader_filename_to_program_type s = Inl e \<Longrightarrow> e = ''Unrecognized program '' @ [CHR 0x22] @ s @ [CHR 0x22]"
  unfolding shader_filename_to_program_type_def Let_def
  by - ((drule if_Inl_chain_step)+, simp)

text \<open>The program types \<^verbatim>\<open>RenderContext.cpp\<close> activates include \<^verbatim>\<open>Rain\<close>,
  \<^verbatim>\<open>Lightning\<close> and \<^verbatim>\<open>ShipFlamesBackground3\<close>, which this revision of the
  conversion does not recognise: their shader files raise.\<close>

lemma shader_filename_rain_unrecognized:
  "shader_filename_to_program_type ''rain'' = Inl (''Unrecognized program '' @ [CHR 0x22] @ ''rain'' @ [CHR 0x22])"
  by code_simp

end
