(* ===== verification/ShipPreviewWindow.thy ===== *)
theory ShipPreviewWindow
  imports ResourceLoader RenderCore "HOL-Library.Signed_Division" "HOL-Library.Sublist"
begin

text \<open>
  The ship preview window of \<^verbatim>\<open>src/FloatingSandbox/ShipPreviewWindow.cpp\<close>: a panel
  of info tiles, one per ship file of a directory, filled by a preview thread.  The
  panel (the UI thread) and the thread share two channels: a single-slot request
  \<^verbatim>\<open>mPanelToThreadMessage\<close> (\<open>spw_panel_to_thread\<close>, a later request overwrites an
  earlier one) and the reply queue \<^verbatim>\<open>mThreadToPanelMessageQueue\<close> (\<open>spw_queue\<close>), which
  the panel drains ten messages at a time on its poll timer.  Each handler of the
  window is a function on the record \<open>ship_preview_window\<close>; the thread is the state
  machine \<open>preview_thread_step\<close>; their interleaving is the step relation
  \<open>preview_step\<close>.  An \<^verbatim>\<open>assert\<close> that fails and a \<^verbatim>\<open>GameException\<close> are the \<open>Inl\<close>
  values of \<open>spw_error\<close>.  The declarations of \<^verbatim>\<open>ShipPreviewWindow.h\<close> (the info tile,
  the messages, the layout constants), \<^verbatim>\<open>ShipPreview\<close> and the wxWidgets rectangle
  are outside \<^verbatim>\<open>src/\<close> and modelled from their use here; the layout constants are the
  argument \<open>lay\<close>.  Rendering (\<^verbatim>\<open>Render\<close>, \<^verbatim>\<open>OnPaint\<close>, the text-size caches it
  fills) and the bitmaps' pixels are not modelled.
\<close>

section \<open>Data\<close>

text \<open>\<^verbatim>\<open>wxRect\<close>: left, top, width, height.\<close>

record wx_rect =
  rect_x :: int
  rect_y :: int
  rect_w :: int
  rect_h :: int

definition rect_contains_point :: "wx_rect \<Rightarrow> int \<times> int \<Rightarrow> bool" where
  "rect_contains_point r p =
     (rect_x r \<le> fst p \<and> rect_y r \<le> snd p \<and> fst p < rect_x r + rect_w r \<and> snd p < rect_y r + rect_h r)"

definition rect_contains_rect :: "wx_rect \<Rightarrow> wx_rect \<Rightarrow> bool" where
  "rect_contains_rect r s =
     (rect_contains_point r (rect_x s, rect_y s) \<and>
      rect_contains_point r (rect_x s + rect_w s - 1, rect_y s + rect_h s - 1))"

text \<open>The metadata a preview carries (\<^verbatim>\<open>ShipMetadata\<close> as this window reads it) and the
  preview itself (\<^verbatim>\<open>ShipPreview\<close>: metadata and the original width of the ship).\<close>

record preview_metadata =
  pm_ship_name :: string
  pm_author :: "string option"
  pm_year_built :: "string option"

record ship_preview =
  sp_metadata :: preview_metadata
  sp_original_width :: int

datatype panel_to_thread_message = MsgSetDirectory fs_path | MsgExit

datatype thread_to_panel_message =
    DirScanCompleted "fs_path list"
  | DirScanError string
  | PreviewReady nat ship_preview
  | PreviewError nat string
  | PreviewCompleted fs_path

datatype tile_bitmap = WaitBitmap | ErrorBitmap | PreviewBitmap ship_preview

record info_tile =
  it_bitmap :: tile_bitmap
  it_original_description1 :: string
  it_original_description2 :: string
  it_ship_filepath :: fs_path
  it_metadata :: "preview_metadata option"
  it_search_strings :: "string list"
  it_col :: int
  it_row :: int
  it_rect_virtual :: wx_rect

definition info_tile_create :: "tile_bitmap \<Rightarrow> string \<Rightarrow> string \<Rightarrow> fs_path \<Rightarrow> info_tile" where
  "info_tile_create b d1 d2 p =
     \<lparr>it_bitmap = b, it_original_description1 = d1, it_original_description2 = d2,
      it_ship_filepath = p, it_metadata = None, it_search_strings = [],
      it_col = 0, it_row = 0, it_rect_virtual = \<lparr>rect_x = 0, rect_y = 0, rect_w = 0, rect_h = 0\<rparr>\<rparr>"

text \<open>The events the window fires, and the wxWidgets calls whose effect is visible
  outside it, in the order they happen.\<close>

datatype spw_event =
    EvRefresh
  | EvSetVirtualSize int int
  | EvShipFileSelected nat "preview_metadata option" fs_path
  | EvShipFileChosen fs_path

datatype spw_error = SpwAssertion string | SpwGameException string

text \<open>The constants of \<^verbatim>\<open>ShipPreviewWindow.h\<close>.\<close>

record preview_layout =
  pl_info_tile_width :: int
  pl_horizontal_margin_min :: int
  pl_row_height :: int
  pl_panel_width_min :: int

record ship_preview_window =
  spw_client_size :: "int \<times> int"
  spw_virtual_height :: int
  spw_cols :: int
  spw_rows :: int
  spw_column_width :: int
  spw_expanded_horizontal_margin :: int
  spw_timer_running :: bool
  spw_info_tiles :: "info_tile list"
  spw_selected :: "nat option"
  spw_completed_dir :: "fs_path option"
  spw_panel_to_thread :: "panel_to_thread_message option"
  spw_queue :: "thread_to_panel_message list"
  spw_scroll_y :: int
  spw_events :: "spw_event list"

text \<open>\<^verbatim>\<open>SetScrollRate(0, 20)\<close>: the vertical scroll unit, in pixels.\<close>

definition spw_scroll_rate_y :: int where
  "spw_scroll_rate_y = 20"

definition ship_preview_window_create :: ship_preview_window where
  "ship_preview_window_create =
     \<lparr>spw_client_size = (0, 0), spw_virtual_height = 0, spw_cols = 0, spw_rows = 0,
      spw_column_width = 0, spw_expanded_horizontal_margin = 0, spw_timer_running = False,
      spw_info_tiles = [], spw_selected = None, spw_completed_dir = None,
      spw_panel_to_thread = None, spw_queue = [], spw_scroll_y = 0, spw_events = []\<rparr>"

section \<open>Formatting\<close>

text \<open>\<^verbatim>\<open>std::to_string\<close> of an \<^verbatim>\<open>int\<close>, and \<^verbatim>\<open>round\<close> (halves away from zero).\<close>

fun nat_digits :: "nat \<Rightarrow> string" where
  "nat_digits n =
     (if n < 10 then [''0123456789'' ! n] else nat_digits (n div 10) @ [''0123456789'' ! (n mod 10)])"

definition int_to_string :: "int \<Rightarrow> string" where
  "int_to_string i = (if i < 0 then ''-'' @ nat_digits (nat (- i)) else nat_digits (nat i))"

definition c_round :: "real \<Rightarrow> int" where
  "c_round x = (if 0 \<le> x then \<lfloor>x + 1 / 2\<rfloor> else - \<lfloor>- x + 1 / 2\<rfloor>)"

section \<open>Panel operations\<close>

text \<open>\<^verbatim>\<open>RecalculateGeometry\<close>: the columns that fit the client width, the margin that
  spreads them, the rows the previews need, and every tile's rectangle.\<close>

definition place_tile :: "preview_layout \<Rightarrow> int \<Rightarrow> int \<Rightarrow> nat \<Rightarrow> info_tile \<Rightarrow> info_tile" where
  "place_tile lay cols cw i t =
     (let col = int i smod cols; row = int i sdiv cols in
      t\<lparr>it_col := col, it_row := row,
        it_rect_virtual := \<lparr>rect_x = col * cw, rect_y = row * pl_row_height lay,
                            rect_w = cw, rect_h = pl_row_height lay\<rparr>\<rparr>)"

definition spw_recalculate_geometry ::
  "preview_layout \<Rightarrow> int \<times> int \<Rightarrow> int \<Rightarrow> ship_preview_window \<Rightarrow> spw_error + ship_preview_window" where
  "spw_recalculate_geometry lay cs n w =
     (let cols = truncate_int (real_of_int (fst cs) /
                   real_of_int (pl_info_tile_width lay + pl_horizontal_margin_min lay)) in
      if cols < 1 then Inl (SpwAssertion ''mCols >= 1'') else
      let margin = (fst cs - cols * pl_info_tile_width lay) sdiv cols in
      if margin < pl_horizontal_margin_min lay
      then Inl (SpwAssertion ''mExpandedHorizontalMargin >= HorizontalMarginMin'') else
      let cw = pl_info_tile_width lay + margin;
          rows = n sdiv cols + (if n smod cols \<noteq> 0 then 1 else 0);
          vh = rows * pl_row_height lay in
      Inr (w\<lparr>spw_client_size := cs, spw_cols := cols, spw_expanded_horizontal_margin := margin,
             spw_column_width := cw, spw_rows := rows, spw_virtual_height := vh,
             spw_events := spw_events w @ [EvSetVirtualSize (fst cs) vh],
             spw_info_tiles := map (\<lambda>(i, t). place_tile lay cols cw i t)
                                 (zip [0..<length (spw_info_tiles w)] (spw_info_tiles w))\<rparr>))"

definition spw_on_resized ::
  "preview_layout \<Rightarrow> int \<times> int \<Rightarrow> ship_preview_window \<Rightarrow> spw_error + ship_preview_window" where
  "spw_on_resized lay cs w =
     (case spw_recalculate_geometry lay cs (int (length (spw_info_tiles w))) w of
        Inl e \<Rightarrow> Inl e
      | Inr w' \<Rightarrow> Inr (w'\<lparr>spw_events := spw_events w' @ [EvRefresh]\<rparr>))"

text \<open>\<^verbatim>\<open>Select\<close> fires the selection event only when the selection changes;
  \<^verbatim>\<open>Choose\<close> always fires.\<close>

definition spw_select :: "nat \<Rightarrow> ship_preview_window \<Rightarrow> spw_error + ship_preview_window" where
  "spw_select i w =
     (if length (spw_info_tiles w) \<le> i then Inl (SpwAssertion ''infoTileIndex < mInfoTiles.size()'')
      else
        (let dirty = (spw_selected w \<noteq> Some i); w' = w\<lparr>spw_selected := Some i\<rparr>;
             t = spw_info_tiles w ! i in
         if dirty
         then Inr (w'\<lparr>spw_events := spw_events w @
                     [EvRefresh, EvShipFileSelected i (it_metadata t) (it_ship_filepath t)]\<rparr>)
         else Inr w'))"

definition spw_choose :: "nat \<Rightarrow> ship_preview_window \<Rightarrow> spw_error + ship_preview_window" where
  "spw_choose i w =
     (if length (spw_info_tiles w) \<le> i then Inl (SpwAssertion ''infoTileIndex < mInfoTiles.size()'')
      else Inr (w\<lparr>spw_events := spw_events w @ [EvShipFileChosen (it_ship_filepath (spw_info_tiles w ! i))]\<rparr>))"

definition spw_choose_selected_if_any :: "ship_preview_window \<Rightarrow> spw_error + ship_preview_window" where
  "spw_choose_selected_if_any w =
     (case spw_selected w of None \<Rightarrow> Inr w | Some i \<Rightarrow> spw_choose i w)"

text \<open>\<^verbatim>\<open>GetVisibleRectVirtual\<close> and \<^verbatim>\<open>MapMousePositionToInfoTile\<close>: the client area
  and a mouse position moved by the vertical scroll (\<^verbatim>\<open>CalcUnscrolledPosition\<close>); the
  tile index is the \<^verbatim>\<open>size_t\<close> of the column plus the row times the columns.\<close>

definition spw_visible_rect_virtual :: "ship_preview_window \<Rightarrow> wx_rect" where
  "spw_visible_rect_virtual w =
     \<lparr>rect_x = 0, rect_y = spw_scroll_y w * spw_scroll_rate_y,
      rect_w = fst (spw_client_size w), rect_h = snd (spw_client_size w)\<rparr>"

definition map_mouse_position_to_info_tile ::
  "preview_layout \<Rightarrow> ship_preview_window \<Rightarrow> int \<times> int \<Rightarrow> spw_error + nat" where
  "map_mouse_position_to_info_tile lay w p =
     (if spw_column_width w \<le> 0 then Inl (SpwAssertion ''mColumnWidth > 0'')
      else
        (let vx = fst p; vy = snd p + spw_scroll_y w * spw_scroll_rate_y;
             c = vx sdiv spw_column_width w; r = vy sdiv pl_row_height lay in
         Inr (size_t_of_int (c + r * spw_cols w))))"

definition spw_on_mouse_single_click ::
  "preview_layout \<Rightarrow> int \<times> int \<Rightarrow> ship_preview_window \<Rightarrow> spw_error + ship_preview_window" where
  "spw_on_mouse_single_click lay p w =
     (case map_mouse_position_to_info_tile lay w p of
        Inl e \<Rightarrow> Inl e
      | Inr i \<Rightarrow> if i < length (spw_info_tiles w) then spw_select i w else Inr w)"

definition spw_on_mouse_double_click ::
  "preview_layout \<Rightarrow> int \<times> int \<Rightarrow> ship_preview_window \<Rightarrow> spw_error + ship_preview_window" where
  "spw_on_mouse_double_click lay p w =
     (case map_mouse_position_to_info_tile lay w p of
        Inl e \<Rightarrow> Inl e
      | Inr i \<Rightarrow> if i < length (spw_info_tiles w) then spw_choose i w else Inr w)"

text \<open>\<^verbatim>\<open>Search\<close>: the first tile, in circular order from the one after the
  selection, one of whose search strings contains the lower-cased name; the window
  scrolls to it when it is not fully visible, and selects it.\<close>

definition tile_matches :: "string \<Rightarrow> info_tile \<Rightarrow> bool" where
  "tile_matches lname t = list_ex (\<lambda>str. sublist lname str) (it_search_strings t)"

definition search_order :: "ship_preview_window \<Rightarrow> nat list" where
  "search_order w =
     (let n = length (spw_info_tiles w);
          off = (case spw_selected w of Some k \<Rightarrow> k + 1 | None \<Rightarrow> 0) in
      map (\<lambda>i. (off + i) mod n) [0..<n])"

definition spw_search :: "string \<Rightarrow> ship_preview_window \<Rightarrow> spw_error + bool \<times> ship_preview_window" where
  "spw_search name w =
     (if name = [] then Inl (SpwAssertion ''!shipName.empty()'')
      else
        (let lname = to_lower name;
             found = find (\<lambda>s. tile_matches lname (spw_info_tiles w ! s)) (search_order w) in
         case found of
           None \<Rightarrow> Inr (False, w)
         | Some s \<Rightarrow>
             (let r = it_rect_virtual (spw_info_tiles w ! s);
                  w1 = (if \<not> rect_contains_rect (spw_visible_rect_virtual w) r \<and> spw_scroll_rate_y \<noteq> 0
                        then w\<lparr>spw_scroll_y := rect_y r sdiv spw_scroll_rate_y\<rparr> else w) in
              case spw_select s w1 of Inl e \<Rightarrow> Inl e | Inr w2 \<Rightarrow> Inr (True, w2))))"

text \<open>\<^verbatim>\<open>SetDirectory\<close>: a directory other than the completed one clears the tiles
  and the selection and posts the request, overwriting any request not yet taken.\<close>

definition spw_set_directory :: "fs_path \<Rightarrow> ship_preview_window \<Rightarrow> ship_preview_window" where
  "spw_set_directory d w =
     (if Some d \<noteq> spw_completed_dir w
      then w\<lparr>spw_completed_dir := None, spw_info_tiles := [], spw_selected := None,
             spw_panel_to_thread := Some (MsgSetDirectory d)\<rparr>
      else w)"

section \<open>Processing the replies\<close>

definition preview_description1 :: "preview_metadata \<Rightarrow> string" where
  "preview_description1 md =
     pm_ship_name md @ (case pm_year_built md of None \<Rightarrow> [] | Some y \<Rightarrow> '' ('' @ y @ '')'')"

definition preview_description2 :: "ship_preview \<Rightarrow> string" where
  "preview_description2 p =
     (let metres = sp_original_width p; feet = c_round (3.28 * real_of_int metres) in
      int_to_string metres @ ''m/'' @ int_to_string feet @ ''ft'' @
      (case pm_author (sp_metadata p) of None \<Rightarrow> [] | Some a \<Rightarrow> '' - by '' @ a))"

definition preview_ready_tile :: "ship_preview \<Rightarrow> info_tile \<Rightarrow> info_tile" where
  "preview_ready_tile p t =
     t\<lparr>it_bitmap := PreviewBitmap p,
       it_original_description1 := preview_description1 (sp_metadata p),
       it_original_description2 := preview_description2 p,
       it_metadata := Some (sp_metadata p),
       it_search_strings := it_search_strings t @
         (case pm_author (sp_metadata p) of None \<Rightarrow> [] | Some a \<Rightarrow> [to_lower a])\<rparr>"

definition add_filename_search_strings :: "fs_path list \<Rightarrow> info_tile list \<Rightarrow> info_tile list" where
  "add_filename_search_strings ps ts =
     fold (\<lambda>s ts. ts[s := (ts ! s)\<lparr>it_search_strings :=
                    it_search_strings (ts ! s) @ [to_lower (path_filename (ps ! s))]\<rparr>])
          [0..<length ps] ts"

text \<open>One message of \<^verbatim>\<open>OnPollQueueTimer\<close>'s switch: the new window and whether it
  asks for a refresh.\<close>

definition spw_process_message ::
  "preview_layout \<Rightarrow> thread_to_panel_message \<Rightarrow> ship_preview_window \<Rightarrow>
   spw_error + ship_preview_window \<times> bool" where
  "spw_process_message lay m w =
     (case m of
        DirScanCompleted ps \<Rightarrow>
          if spw_info_tiles w \<noteq> [] then Inl (SpwAssertion ''mInfoTiles.empty()'')
          else
            (let ts = add_filename_search_strings ps
                        (spw_info_tiles w @ map (info_tile_create WaitBitmap [] []) ps) in
             case spw_recalculate_geometry lay (spw_client_size w) (int (length ts))
                    (w\<lparr>spw_info_tiles := ts\<rparr>) of
               Inl e \<Rightarrow> Inl e
             | Inr w' \<Rightarrow> Inr (w', True))
      | DirScanError msg \<Rightarrow> Inl (SpwGameException msg)
      | PreviewReady i p \<Rightarrow>
          if length (spw_info_tiles w) \<le> i
          then Inl (SpwAssertion ''message->GetShipIndex() < mInfoTiles.size()'')
          else Inr (w\<lparr>spw_info_tiles := (spw_info_tiles w)[i := preview_ready_tile p (spw_info_tiles w ! i)]\<rparr>, True)
      | PreviewError i msg \<Rightarrow>
          if length (spw_info_tiles w) \<le> i
          then Inl (SpwAssertion ''message->GetShipIndex() < mInfoTiles.size()'')
          else Inr (w\<lparr>spw_info_tiles := (spw_info_tiles w)[i := (spw_info_tiles w ! i)\<lparr>it_bitmap := ErrorBitmap,
                                                 it_original_description1 := msg\<rparr>]\<rparr>, True)
      | PreviewCompleted d \<Rightarrow> Inr (w\<lparr>spw_completed_dir := Some d\<rparr>, False))"

text \<open>At most \<open>k\<close> messages are taken from the front of the queue; an empty queue
  ends the loop.\<close>

fun spw_poll_loop ::
  "preview_layout \<Rightarrow> nat \<Rightarrow> ship_preview_window \<times> bool \<Rightarrow> spw_error + ship_preview_window \<times> bool" where
  "spw_poll_loop lay 0 wr = Inr wr"
| "spw_poll_loop lay (Suc k) (w, r) =
     (case spw_queue w of
        [] \<Rightarrow> Inr (w, r)
      | m # q \<Rightarrow>
          (case spw_process_message lay m (w\<lparr>spw_queue := q\<rparr>) of
             Inl e \<Rightarrow> Inl e
           | Inr (w', r') \<Rightarrow> spw_poll_loop lay k (w', r \<or> r')))"

definition spw_on_poll_queue_timer ::
  "preview_layout \<Rightarrow> ship_preview_window \<Rightarrow> spw_error + ship_preview_window" where
  "spw_on_poll_queue_timer lay w =
     (case spw_poll_loop lay 10 (w, False) of
        Inl e \<Rightarrow> Inl e
      | Inr (w', r) \<Rightarrow> Inr (if r then w'\<lparr>spw_events := spw_events w' @ [EvRefresh]\<rparr> else w'))"

section \<open>The preview thread\<close>

text \<open>The thread: not started (or joined), waiting for a request, or scanning a
  directory whose sorted ship files are \<open>ps\<close>, at file \<open>i\<close>.\<close>

datatype preview_thread_state =
    ThreadNone
  | ThreadWaiting
  | ThreadScanning fs_path "fs_path list" nat
  | ThreadExited

text \<open>What the thread reads of the file system: the directory listing with the
  regular-file flags, \<^verbatim>\<open>ShipDefinitionFile::IsShipDefinitionFile\<close> and
  \<^verbatim>\<open>ShipPreview::Load\<close>, whose exception is the \<open>Inl\<close> message.\<close>

record preview_env =
  pe_listing :: "fs_path \<Rightarrow> dir_entry list"
  pe_is_ship_definition_file :: "fs_path \<Rightarrow> bool"
  pe_load_preview :: "fs_path \<Rightarrow> string + ship_preview"

definition scan_ship_filepaths :: "preview_env \<Rightarrow> fs_path \<Rightarrow> fs_path list" where
  "scan_ship_filepaths env d =
     sort_key path_filename
       (map fst (filter (\<lambda>(p, reg). reg \<and> (path_extension p = ''.png'' \<or> pe_is_ship_definition_file env p))
                   (pe_listing env d)))"

definition queue_thread_to_panel_message ::
  "thread_to_panel_message \<Rightarrow> ship_preview_window \<Rightarrow> ship_preview_window" where
  "queue_thread_to_panel_message m w = w\<lparr>spw_queue := spw_queue w @ [m]\<rparr>"

text \<open>One step of \<^verbatim>\<open>RunPreviewThread\<close> and \<^verbatim>\<open>ScanDirectory\<close>; \<open>None\<close> when the
  thread is blocked on the condition variable or has ended.  A waiting thread takes
  the request (leaving the slot empty); a scan lists the directory and posts it, then
  checks the slot before each file and returns to the loop when a request is
  pending, and posts the completion after the last file.\<close>

definition preview_thread_step ::
  "preview_env \<Rightarrow> preview_thread_state \<times> ship_preview_window \<Rightarrow>
   (preview_thread_state \<times> ship_preview_window) option" where
  "preview_thread_step env tw =
     (case tw of
        (ThreadWaiting, w) \<Rightarrow>
          (case spw_panel_to_thread w of
             None \<Rightarrow> None
           | Some MsgExit \<Rightarrow> Some (ThreadExited, w\<lparr>spw_panel_to_thread := None\<rparr>)
           | Some (MsgSetDirectory d) \<Rightarrow>
               (let ps = scan_ship_filepaths env d in
                Some (ThreadScanning d ps 0,
                      queue_thread_to_panel_message (DirScanCompleted ps) (w\<lparr>spw_panel_to_thread := None\<rparr>))))
      | (ThreadScanning d ps i, w) \<Rightarrow>
          if i < length ps then
            (if spw_panel_to_thread w \<noteq> None then Some (ThreadWaiting, w)
             else Some (ThreadScanning d ps (Suc i),
                        queue_thread_to_panel_message
                          (case pe_load_preview env (ps ! i) of
                             Inl e \<Rightarrow> PreviewError i e
                           | Inr p \<Rightarrow> PreviewReady i p) w))
          else Some (ThreadWaiting, queue_thread_to_panel_message (PreviewCompleted d) w)
      | _ \<Rightarrow> None)"

section \<open>Opening, closing and the interleaving\<close>

record preview_system =
  ps_window :: ship_preview_window
  ps_thread :: preview_thread_state
  ps_closing :: bool

datatype panel_event =
    PanelOpen
  | PanelClose
  | PanelSetDirectory fs_path
  | PanelSearch string
  | PanelChooseSelected
  | PanelResize "int \<times> int"
  | PanelSingleClick "int \<times> int"
  | PanelDoubleClick "int \<times> int"
  | PanelPollTimer

text \<open>\<^verbatim>\<open>OnOpen\<close> starts the thread and the poll timer; \<^verbatim>\<open>OnClose\<close> stops the timer
  and posts \<^verbatim>\<open>Exit\<close>, then blocks in \<^verbatim>\<open>join\<close> (\<open>ps_closing\<close>) until the thread
  has ended, and then clears the queue and the selection (\<open>spw_on_close_joined\<close>).\<close>

definition spw_on_open :: "preview_system \<Rightarrow> spw_error + preview_system" where
  "spw_on_open s =
     (let w = ps_window s in
      if spw_selected w \<noteq> None then Inl (SpwAssertion ''!mSelectedInfoTileIndex'')
      else if spw_queue w \<noteq> [] then Inl (SpwAssertion ''mThreadToPanelMessageQueue.empty()'')
      else if ps_thread s \<noteq> ThreadNone then Inl (SpwAssertion ''!mPreviewThread.joinable()'')
      else Inr (s\<lparr>ps_window := w\<lparr>spw_queue := [], spw_timer_running := True\<rparr>,
                  ps_thread := ThreadWaiting\<rparr>))"

definition spw_on_close :: "preview_system \<Rightarrow> spw_error + preview_system" where
  "spw_on_close s =
     (if ps_thread s = ThreadNone then Inl (SpwAssertion ''mPreviewThread.joinable()'')
      else Inr (s\<lparr>ps_window := (ps_window s)\<lparr>spw_timer_running := False,
                                             spw_panel_to_thread := Some MsgExit\<rparr>,
                  ps_closing := True\<rparr>))"

definition spw_on_close_joined :: "preview_system \<Rightarrow> preview_system" where
  "spw_on_close_joined s =
     s\<lparr>ps_window := (ps_window s)\<lparr>spw_queue := [], spw_selected := None\<rparr>,
       ps_thread := ThreadNone, ps_closing := False\<rparr>"

definition on_window :: "(ship_preview_window \<Rightarrow> spw_error + ship_preview_window) \<Rightarrow>
                         preview_system \<Rightarrow> spw_error + preview_system" where
  "on_window f s = (case f (ps_window s) of Inl e \<Rightarrow> Inl e | Inr w \<Rightarrow> Inr (s\<lparr>ps_window := w\<rparr>))"

definition spw_handle :: "preview_layout \<Rightarrow> panel_event \<Rightarrow> preview_system \<Rightarrow> spw_error + preview_system" where
  "spw_handle lay ev s =
     (case ev of
        PanelOpen \<Rightarrow> spw_on_open s
      | PanelClose \<Rightarrow> spw_on_close s
      | PanelSetDirectory d \<Rightarrow> Inr (s\<lparr>ps_window := spw_set_directory d (ps_window s)\<rparr>)
      | PanelSearch name \<Rightarrow> on_window (\<lambda>w. case spw_search name w of Inl e \<Rightarrow> Inl e | Inr (_, w') \<Rightarrow> Inr w') s
      | PanelChooseSelected \<Rightarrow> on_window spw_choose_selected_if_any s
      | PanelResize cs \<Rightarrow> on_window (spw_on_resized lay cs) s
      | PanelSingleClick p \<Rightarrow> on_window (spw_on_mouse_single_click lay p) s
      | PanelDoubleClick p \<Rightarrow> on_window (spw_on_mouse_double_click lay p) s
      | PanelPollTimer \<Rightarrow> if spw_timer_running (ps_window s) then on_window (spw_on_poll_queue_timer lay) s else Inr s)"

text \<open>The events wxWidgets can deliver: the window's minimum size
  (\<^verbatim>\<open>SetMinSize(PanelWidthMin + 20)\<close>, the 20 pixels being the scroll bar) keeps the
  client width at least \<^verbatim>\<open>PanelWidthMin\<close>.\<close>

definition panel_event_possible :: "preview_layout \<Rightarrow> panel_event \<Rightarrow> bool" where
  "panel_event_possible lay ev =
     (case ev of PanelResize cs \<Rightarrow> pl_panel_width_min lay \<le> fst cs \<and> 0 \<le> snd cs | _ \<Rightarrow> True)"

text \<open>The interleaving: the panel handles an event the user or the timer may send
  (\<open>allowed\<close>) unless it is blocked in \<open>join\<close>, the thread takes a step, or the
  panel's \<open>join\<close> returns.\<close>

inductive preview_step ::
  "preview_env \<Rightarrow> preview_layout \<Rightarrow> (preview_system \<Rightarrow> panel_event \<Rightarrow> bool) \<Rightarrow>
   preview_system \<Rightarrow> preview_system \<Rightarrow> bool" where
  panel: "\<not> ps_closing s \<Longrightarrow> allowed s ev \<Longrightarrow> panel_event_possible lay ev \<Longrightarrow>
          spw_handle lay ev s = Inr s' \<Longrightarrow> preview_step env lay allowed s s'"
| thread: "preview_thread_step env (ps_thread s, ps_window s) = Some (t', w') \<Longrightarrow>
           preview_step env lay allowed s (s\<lparr>ps_thread := t', ps_window := w'\<rparr>)"
| joined: "ps_closing s \<Longrightarrow> ps_thread s = ThreadExited \<Longrightarrow>
           preview_step env lay allowed s (spw_on_close_joined s)"

section \<open>Invariant, schedules and examples\<close>

text \<open>A reply queue the panel can drain without failing an assertion, from \<open>n\<close> tiles: a
  directory listing arrives only when there are no tiles, a preview only for an existing
  tile; \<open>msgs_count\<close> is the number of tiles once the queue is drained.\<close>

fun msgs_ok :: "nat \<Rightarrow> thread_to_panel_message list \<Rightarrow> bool" where
  "msgs_ok n [] = True"
| "msgs_ok n (DirScanCompleted ps # q) = (n = 0 \<and> msgs_ok (length ps) q)"
| "msgs_ok n (DirScanError e # q) = False"
| "msgs_ok n (PreviewReady i p # q) = (i < n \<and> msgs_ok n q)"
| "msgs_ok n (PreviewError i e # q) = (i < n \<and> msgs_ok n q)"
| "msgs_ok n (PreviewCompleted d # q) = msgs_ok n q"

definition msg_tiles :: "nat \<Rightarrow> thread_to_panel_message \<Rightarrow> nat" where
  "msg_tiles n m = (case m of DirScanCompleted ps \<Rightarrow> length ps | _ \<Rightarrow> n)"

definition msgs_count :: "nat \<Rightarrow> thread_to_panel_message list \<Rightarrow> nat" where
  "msgs_count n q = fold (\<lambda>m n. msg_tiles n m) q n"

text \<open>The layout constants fit one tile in the panel's minimum width.\<close>

definition layout_ok :: "preview_layout \<Rightarrow> bool" where
  "layout_ok lay =
     (0 < pl_info_tile_width lay \<and> 0 \<le> pl_horizontal_margin_min lay \<and> 0 < pl_row_height lay \<and>
      pl_info_tile_width lay + pl_horizontal_margin_min lay \<le> pl_panel_width_min lay)"

text \<open>What an operation leaves of the channels and of the tiles.\<close>

definition spw_same_channels :: "ship_preview_window \<Rightarrow> ship_preview_window \<Rightarrow> bool" where
  "spw_same_channels w w' =
     (spw_queue w' = spw_queue w \<and> spw_panel_to_thread w' = spw_panel_to_thread w \<and>
      spw_selected w' = spw_selected w \<and> spw_timer_running w' = spw_timer_running w \<and>
      length (spw_info_tiles w') = length (spw_info_tiles w))"

definition spw_window_ok :: "preview_layout \<Rightarrow> ship_preview_window \<Rightarrow> bool" where
  "spw_window_ok lay w =
     (pl_panel_width_min lay \<le> fst (spw_client_size w) \<and>
      msgs_ok (length (spw_info_tiles w)) (spw_queue w) \<and>
      (\<forall>k. spw_selected w = Some k \<longrightarrow> k < length (spw_info_tiles w)))"

definition is_directory_request :: "panel_to_thread_message option \<Rightarrow> bool" where
  "is_directory_request m = (case m of Some (MsgSetDirectory _) \<Rightarrow> True | _ \<Rightarrow> False)"

definition is_scanning :: "preview_thread_state \<Rightarrow> bool" where
  "is_scanning t = (case t of ThreadScanning _ _ _ \<Rightarrow> True | _ \<Rightarrow> False)"

text \<open>A directory change made while the queue is empty and the thread is not scanning.\<close>

definition set_directory_quiescent :: "preview_system \<Rightarrow> bool" where
  "set_directory_quiescent s = (spw_queue (ps_window s) = [] \<and> \<not> is_scanning (ps_thread s))"

text \<open>The invariant of the window and its thread: a well-formed queue; a pending directory
  request meets a drained panel; a scanning thread posts previews for the tiles its
  listing creates.\<close>

definition preview_inv :: "preview_layout \<Rightarrow> preview_system \<Rightarrow> bool" where
  "preview_inv lay s =
     (let w = ps_window s; c = msgs_count (length (spw_info_tiles w)) (spw_queue w);
          req = is_directory_request (spw_panel_to_thread w) in
      layout_ok lay \<and> spw_window_ok lay w \<and> (req \<longrightarrow> c = 0 \<and> \<not> ps_closing s) \<and>
      (case ps_thread s of
         ThreadScanning d ps i \<Rightarrow> i \<le> length ps \<and> c = length ps \<and> \<not> req
       | _ \<Rightarrow> True))"

definition spw_keeps_channels :: "ship_preview_window \<Rightarrow> ship_preview_window \<Rightarrow> bool" where
  "spw_keeps_channels w w' =
     (spw_queue w' = spw_queue w \<and> spw_panel_to_thread w' = spw_panel_to_thread w \<and>
      spw_info_tiles w' = spw_info_tiles w \<and> spw_client_size w' = spw_client_size w \<and>
      spw_timer_running w' = spw_timer_running w)"

text \<open>The window as constructed, with no thread.\<close>

definition preview_system_create :: preview_system where
  "preview_system_create = \<lparr>ps_window = ship_preview_window_create, ps_thread = ThreadNone, ps_closing = False\<rparr>"

text \<open>An explicit schedule of the interleaving: a panel event, a thread step, or the
  return of \<open>join\<close>; \<open>run_preview\<close> executes it.\<close>

datatype preview_action = ActPanel panel_event | ActThread | ActJoined

fun run_preview ::
  "preview_env \<Rightarrow> preview_layout \<Rightarrow> (preview_system \<Rightarrow> panel_event \<Rightarrow> bool) \<Rightarrow>
   preview_action list \<Rightarrow> preview_system \<Rightarrow> preview_system option" where
  "run_preview env lay allowed [] s = Some s"
| "run_preview env lay allowed (ActPanel ev # as) s =
     (if ps_closing s \<or> \<not> allowed s ev \<or> \<not> panel_event_possible lay ev then None
      else (case spw_handle lay ev s of Inl _ \<Rightarrow> None | Inr s' \<Rightarrow> run_preview env lay allowed as s'))"
| "run_preview env lay allowed (ActThread # as) s =
     (case preview_thread_step env (ps_thread s, ps_window s) of
        None \<Rightarrow> None
      | Some (t', w') \<Rightarrow> run_preview env lay allowed as (s\<lparr>ps_thread := t', ps_window := w'\<rparr>))"
| "run_preview env lay allowed (ActJoined # as) s =
     (if ps_closing s \<and> ps_thread s = ThreadExited
      then run_preview env lay allowed as (spw_on_close_joined s) else None)"

text \<open>Example layout, directories and file system (every directory holds one
  \<^verbatim>\<open>ship.png\<close>) used by the concrete runs.\<close>

definition example_preview_layout :: preview_layout where
  "example_preview_layout =
     \<lparr>pl_info_tile_width = 150, pl_horizontal_margin_min = 5, pl_row_height = 200, pl_panel_width_min = 155\<rparr>"

definition example_dir :: "string \<Rightarrow> fs_path" where
  "example_dir n = \<lparr>fp_absolute = True, fp_components = [n]\<rparr>"

definition example_preview_env :: preview_env where
  "example_preview_env =
     \<lparr>pe_listing = (\<lambda>d. [(path_div_str d ''ship.png'', True)]),
      pe_is_ship_definition_file = (\<lambda>_. False),
      pe_load_preview = (\<lambda>_. Inr \<lparr>sp_metadata = \<lparr>pm_ship_name = ''S'', pm_author = None, pm_year_built = None\<rparr>,
                                   sp_original_width = 10\<rparr>)\<rparr>"

definition quiescent_directory_changes :: "preview_system \<Rightarrow> panel_event \<Rightarrow> bool" where
  "quiescent_directory_changes s ev =
     (case ev of PanelSetDirectory _ \<Rightarrow> set_directory_quiescent s | _ \<Rightarrow> True)"

definition example_resized_system :: preview_system where
  "example_resized_system =
     preview_system_create\<lparr>ps_window := ship_preview_window_create\<lparr>
       spw_client_size := (300, 400), spw_cols := 1, spw_column_width := 300,
       spw_expanded_horizontal_margin := 150, spw_events := [EvSetVirtualSize 300 0, EvRefresh]\<rparr>\<rparr>"

definition example_four_tiles :: ship_preview_window where
  "example_four_tiles =
     ship_preview_window_create\<lparr>spw_info_tiles := replicate 4 (info_tile_create WaitBitmap [] [] (example_dir ''s''))\<rparr>"

section \<open>Properties\<close>

lemma msgs_count_Cons [simp]: "msgs_count n (m # q) = msgs_count (msg_tiles n m) q"
  by (simp add: msgs_count_def)

lemma msgs_count_append_one [simp]: "msgs_count n (q @ [m]) = msg_tiles (msgs_count n q) m"
  by (simp add: msgs_count_def)

lemma msgs_ok_append_one:
  "msgs_ok n (q @ [m]) \<longleftrightarrow> msgs_ok n q \<and> msgs_ok (msgs_count n q) [m]"
  by (induction n q rule: msgs_ok.induct) (simp_all add: msgs_count_def msg_tiles_def)

lemma geometry_cols:
  assumes "layout_ok lay" and "pl_panel_width_min lay \<le> x"
  defines "k \<equiv> pl_info_tile_width lay + pl_horizontal_margin_min lay"
  shows "1 \<le> truncate_int (real_of_int x / real_of_int k)"
    and "truncate_int (real_of_int x / real_of_int k) * k \<le> x"
proof -
  have k: "0 < k" "k \<le> x" using assms by (auto simp: layout_ok_def k_def)
  then have q: "1 \<le> real_of_int x / real_of_int k" by simp
  then have t: "truncate_int (real_of_int x / real_of_int k) = \<lfloor>real_of_int x / real_of_int k\<rfloor>"
    by (simp add: truncate_int_def)
  show "1 \<le> truncate_int (real_of_int x / real_of_int k)" using q unfolding t by linarith
  have "real_of_int \<lfloor>real_of_int x / real_of_int k\<rfloor> * real_of_int k \<le> real_of_int x"
    using k by (simp add: pos_le_divide_eq [symmetric])
  then show "truncate_int (real_of_int x / real_of_int k) * k \<le> x" unfolding t by (metis of_int_le_iff of_int_mult)
qed

lemma sdiv_smod_nonneg:
  fixes a b :: int
  assumes "0 \<le> a" and "0 < b"
  shows "a sdiv b = a div b" and "a smod b = a mod b"
  using assms by (simp_all add: signed_divide_int_def signed_modulo_int_def sgn_if)

lemma spw_recalculate_geometry_Inr:
  assumes "layout_ok lay" and "pl_panel_width_min lay \<le> fst cs"
  shows "\<exists>w'. spw_recalculate_geometry lay cs n w = Inr w' \<and> spw_same_channels w w' \<and>
             spw_client_size w' = cs \<and> spw_scroll_y w' = spw_scroll_y w \<and>
             1 \<le> spw_cols w' \<and> pl_info_tile_width lay \<le> spw_column_width w' \<and>
             spw_cols w' * spw_column_width w' \<le> fst cs \<and>
             spw_info_tiles w' = map (\<lambda>(i, t). place_tile lay (spw_cols w') (spw_column_width w') i t)
                                 (zip [0..<length (spw_info_tiles w)] (spw_info_tiles w))"
proof -
  define x where "x = fst cs"
  define k where "k = pl_info_tile_width lay + pl_horizontal_margin_min lay"
  define cols where "cols = truncate_int (real_of_int x / real_of_int k)"
  define margin where "margin = (x - cols * pl_info_tile_width lay) div cols"
  have c1: "1 \<le> cols" and ck: "cols * k \<le> x"
    using geometry_cols [OF assms] by (simp_all add: cols_def x_def k_def)
  have h: "0 \<le> pl_horizontal_margin_min lay" using assms(1) by (simp add: layout_ok_def)
  have a: "cols * pl_horizontal_margin_min lay \<le> x - cols * pl_info_tile_width lay"
    using ck by (simp add: k_def algebra_simps)
  moreover have "0 \<le> cols * pl_horizontal_margin_min lay" using h c1 by simp
  ultimately have nn: "0 \<le> x - cols * pl_info_tile_width lay" by linarith
  have m: "pl_horizontal_margin_min lay \<le> margin"
    unfolding margin_def using a c1 by (simp add: zdiv_mono1 [of "cols * pl_horizontal_margin_min lay", of _ cols, simplified])
  have sd: "(x - cols * pl_info_tile_width lay) sdiv cols = margin"
    using nn c1 by (simp add: sdiv_smod_nonneg margin_def)
  have cm: "cols * margin \<le> x - cols * pl_info_tile_width lay"
    using minus_mod_eq_mult_div [of "x - cols * pl_info_tile_width lay" cols]
          pos_mod_sign [of cols "x - cols * pl_info_tile_width lay"] c1
    unfolding margin_def by linarith
  have ce: "truncate_int (real_of_int (fst cs) /
              real_of_int (pl_info_tile_width lay + pl_horizontal_margin_min lay)) = cols"
    by (simp add: cols_def x_def k_def)
  show ?thesis
    unfolding spw_recalculate_geometry_def Let_def ce sd [unfolded x_def]
    using c1 m cm h by (simp add: spw_same_channels_def x_def algebra_simps)
qed

lemma length_fold_update_at [simp]:
  "length (fold (\<lambda>s ts. ts[s := f s ts]) is ts) = length ts"
  by (induction "is" arbitrary: ts) simp_all

lemma length_add_filename_search_strings [simp]:
  "length (add_filename_search_strings ps ts) = length ts"
  by (simp add: add_filename_search_strings_def)

lemma spw_process_message_Inr:
  assumes "layout_ok lay" and "pl_panel_width_min lay \<le> fst (spw_client_size w)"
    and "msgs_ok (length (spw_info_tiles w)) (m # q)"
    and "\<forall>k. spw_selected w = Some k \<longrightarrow> k < length (spw_info_tiles w)"
  shows "\<exists>w' r. spw_process_message lay m w = Inr (w', r) \<and>
            length (spw_info_tiles w') = msg_tiles (length (spw_info_tiles w)) m \<and>
            spw_queue w' = spw_queue w \<and> spw_panel_to_thread w' = spw_panel_to_thread w \<and>
            spw_selected w' = spw_selected w \<and> spw_timer_running w' = spw_timer_running w \<and>
            spw_client_size w' = spw_client_size w"
proof (cases m)
  case (DirScanCompleted ps)
  let ?ts = "add_filename_search_strings ps (spw_info_tiles w @ map (info_tile_create WaitBitmap [] []) ps)"
  have e: "spw_info_tiles w = []" using assms(3) DirScanCompleted by simp
  obtain w' where r: "spw_recalculate_geometry lay (spw_client_size w) (int (length ?ts))
                        (w\<lparr>spw_info_tiles := ?ts\<rparr>) = Inr w'"
    and f: "spw_same_channels (w\<lparr>spw_info_tiles := ?ts\<rparr>) w'" and c: "spw_client_size w' = spw_client_size w"
    using spw_recalculate_geometry_Inr [OF assms(1), of "spw_client_size w"] assms(2) by fastforce
  show ?thesis using r f c e by (auto simp: DirScanCompleted spw_process_message_def spw_same_channels_def msg_tiles_def)
next
  case (DirScanError e)
  then show ?thesis using assms(3) by simp
next
  case (PreviewReady i p)
  then show ?thesis using assms(3) by (auto simp: spw_process_message_def msg_tiles_def)
next
  case (PreviewError i e)
  then show ?thesis using assms(3) by (auto simp: spw_process_message_def msg_tiles_def)
next
  case (PreviewCompleted d)
  then show ?thesis by (auto simp: spw_process_message_def msg_tiles_def)
qed

lemma msgs_ok_Cons_tail: "msgs_ok n (m # q) \<Longrightarrow> msgs_ok (msg_tiles n m) q"
  by (cases m) (simp_all add: msg_tiles_def)

lemma msgs_ok_Cons_selected:
  "msgs_ok n (m # q) \<Longrightarrow> k < n \<Longrightarrow> k < msg_tiles n m"
  by (cases m) (simp_all add: msg_tiles_def)

text \<open>The poll loop never fails on a well-formed queue, and keeps the number of
  tiles the queue ends with.\<close>

lemma spw_poll_loop_Inr:
  assumes "layout_ok lay" and "spw_window_ok lay w"
  shows "\<exists>w' r'. spw_poll_loop lay k (w, r) = Inr (w', r') \<and> spw_window_ok lay w' \<and>
            msgs_count (length (spw_info_tiles w')) (spw_queue w') =
              msgs_count (length (spw_info_tiles w)) (spw_queue w) \<and>
            spw_panel_to_thread w' = spw_panel_to_thread w \<and> spw_timer_running w' = spw_timer_running w \<and>
            (\<exists>d. spw_queue w = d @ spw_queue w')"
  using assms(2)
proof (induction k arbitrary: w r)
  case 0
  then show ?case by simp
next
  case (Suc k)
  show ?case
  proof (cases "spw_queue w")
    case Nil
    then show ?thesis using Suc.prems by simp
  next
    case (Cons m q)
    have ok: "msgs_ok (length (spw_info_tiles w)) (m # q)"
      using Suc.prems Cons by (simp add: spw_window_ok_def)
    obtain w1 r1 where p: "spw_process_message lay m (w\<lparr>spw_queue := q\<rparr>) = Inr (w1, r1)"
      and l: "length (spw_info_tiles w1) = msg_tiles (length (spw_info_tiles w)) m"
      and f: "spw_queue w1 = q" "spw_panel_to_thread w1 = spw_panel_to_thread w"
             "spw_selected w1 = spw_selected w" "spw_timer_running w1 = spw_timer_running w"
             "spw_client_size w1 = spw_client_size w"
      using spw_process_message_Inr [OF assms(1), of "w\<lparr>spw_queue := q\<rparr>" m q] Suc.prems ok
      by (fastforce simp: spw_window_ok_def)
    have w1: "spw_window_ok lay w1"
      using Suc.prems ok l f msgs_ok_Cons_tail [OF ok] msgs_ok_Cons_selected [OF ok]
      by (simp add: spw_window_ok_def)
    obtain w' r' where "spw_poll_loop lay k (w1, r \<or> r1) = Inr (w', r')" and "spw_window_ok lay w'"
      and "msgs_count (length (spw_info_tiles w')) (spw_queue w') =
           msgs_count (length (spw_info_tiles w1)) (spw_queue w1)"
      and "spw_panel_to_thread w' = spw_panel_to_thread w1" "spw_timer_running w' = spw_timer_running w1"
      and "\<exists>d. spw_queue w1 = d @ spw_queue w'"
      using Suc.IH [OF w1] by blast
    then show ?thesis using p l f Cons by (auto simp: msgs_count_def)
  qed
qed

lemma spw_select_Inr:
  "spw_select i w = Inr w' \<Longrightarrow>
   spw_keeps_channels w w' \<and> i < length (spw_info_tiles w) \<and> spw_selected w' = Some i"
  by (auto simp: spw_select_def spw_keeps_channels_def Let_def split: if_splits)

lemma spw_choose_Inr:
  "spw_choose i w = Inr w' \<Longrightarrow> spw_keeps_channels w w' \<and> spw_selected w' = spw_selected w"
  by (auto simp: spw_choose_def spw_keeps_channels_def split: if_splits)

lemma spw_choose_selected_if_any_Inr:
  "spw_choose_selected_if_any w = Inr w' \<Longrightarrow> spw_keeps_channels w w' \<and> spw_selected w' = spw_selected w"
  by (auto simp: spw_choose_selected_if_any_def spw_keeps_channels_def dest: spw_choose_Inr split: option.splits)

lemma spw_search_Inr:
  "spw_search name w = Inr (b, w') \<Longrightarrow>
   spw_keeps_channels w w' \<and>
   (spw_selected w' = spw_selected w \<or> (\<exists>i. spw_selected w' = Some i \<and> i < length (spw_info_tiles w)))"
  by (auto simp: spw_search_def Let_def spw_keeps_channels_def
           split: if_splits option.splits sum.splits dest!: spw_select_Inr)

lemma preview_inv_window_update:
  assumes "preview_inv lay s" and "spw_window_ok lay w'"
    and "spw_panel_to_thread w' = spw_panel_to_thread (ps_window s)"
    and "msgs_count (length (spw_info_tiles w')) (spw_queue w') =
         msgs_count (length (spw_info_tiles (ps_window s))) (spw_queue (ps_window s))"
  shows "preview_inv lay (s\<lparr>ps_window := w'\<rparr>)"
  using assms by (simp add: preview_inv_def Let_def split: preview_thread_state.splits)

lemma preview_inv_keeps_channels:
  assumes "preview_inv lay s" and "spw_keeps_channels (ps_window s) w'"
    and "spw_selected w' = spw_selected (ps_window s) \<or>
         (\<exists>i. spw_selected w' = Some i \<and> i < length (spw_info_tiles (ps_window s)))"
  shows "preview_inv lay (s\<lparr>ps_window := w'\<rparr>)"
proof (rule preview_inv_window_update [OF assms(1)])
  show "spw_window_ok lay w'" using assms
    by (auto simp: preview_inv_def spw_window_ok_def spw_keeps_channels_def Let_def)
qed (use assms(2) in \<open>simp_all add: spw_keeps_channels_def\<close>)

lemma spw_click_Inr:
  assumes "spw_on_mouse_single_click lay p w = Inr w' \<or> spw_on_mouse_double_click lay p w = Inr w'"
  shows "spw_keeps_channels w w' \<and>
         (spw_selected w' = spw_selected w \<or> (\<exists>i. spw_selected w' = Some i \<and> i < length (spw_info_tiles w)))"
  using assms
  by (auto simp: spw_on_mouse_single_click_def spw_on_mouse_double_click_def spw_keeps_channels_def
           split: sum.splits if_splits dest!: spw_select_Inr spw_choose_Inr)

lemma spw_on_resized_Inr:
  assumes "layout_ok lay" and "pl_panel_width_min lay \<le> fst cs" and "spw_on_resized lay cs w = Inr w'"
  shows "spw_same_channels w w' \<and> spw_client_size w' = cs"
  using spw_recalculate_geometry_Inr [OF assms(1,2), of "int (length (spw_info_tiles w))" w] assms(3)
  by (auto simp: spw_on_resized_def spw_same_channels_def)

lemma spw_on_poll_queue_timer_Inr:
  assumes "layout_ok lay" and "spw_window_ok lay w"
  shows "\<exists>w'. spw_on_poll_queue_timer lay w = Inr w' \<and> spw_window_ok lay w' \<and>
            msgs_count (length (spw_info_tiles w')) (spw_queue w') =
              msgs_count (length (spw_info_tiles w)) (spw_queue w) \<and>
            spw_panel_to_thread w' = spw_panel_to_thread w"
proof -
  obtain w' r' where "spw_poll_loop lay 10 (w, False) = Inr (w', r')" and "spw_window_ok lay w'"
    and "msgs_count (length (spw_info_tiles w')) (spw_queue w') =
         msgs_count (length (spw_info_tiles w)) (spw_queue w)"
    and "spw_panel_to_thread w' = spw_panel_to_thread w"
    using spw_poll_loop_Inr [OF assms] by blast
  then show ?thesis by (auto simp: spw_on_poll_queue_timer_def spw_window_ok_def)
qed

lemma on_window_Inr:
  "on_window f s = Inr s' \<Longrightarrow> \<exists>w'. f (ps_window s) = Inr w' \<and> s' = s\<lparr>ps_window := w'\<rparr>"
  by (auto simp: on_window_def split: sum.splits)

lemma preview_inv_panel:
  assumes inv: "preview_inv lay s" and poss: "panel_event_possible lay ev" and nc: "\<not> ps_closing s"
    and quiet: "\<And>d. ev = PanelSetDirectory d \<Longrightarrow> set_directory_quiescent s"
    and h: "spw_handle lay ev s = Inr s'"
  shows "preview_inv lay s'"
proof (cases ev)
  case PanelOpen
  then show ?thesis using inv h
    by (auto simp: spw_handle_def spw_on_open_def preview_inv_def spw_window_ok_def Let_def
             split: if_splits)
next
  case PanelClose
  then show ?thesis using inv h
    by (auto simp: spw_handle_def spw_on_close_def preview_inv_def spw_window_ok_def Let_def
                   is_directory_request_def split: if_splits preview_thread_state.splits)
next
  case (PanelSetDirectory d)
  have "spw_queue (ps_window s) = []" and "\<not> is_scanning (ps_thread s)"
    using quiet [OF PanelSetDirectory] by (simp_all add: set_directory_quiescent_def)
  moreover have "s' = s\<lparr>ps_window := spw_set_directory d (ps_window s)\<rparr>"
    using h PanelSetDirectory by (simp add: spw_handle_def)
  ultimately show ?thesis using inv nc
    by (cases "ps_thread s")
       (auto simp: spw_set_directory_def preview_inv_def spw_window_ok_def Let_def
                   is_directory_request_def msgs_count_def is_scanning_def)
next
  case (PanelSearch name)
  then show ?thesis using inv h
    by (auto simp: spw_handle_def intro!: preview_inv_keeps_channels
             split: sum.splits dest!: on_window_Inr spw_search_Inr)
next
  case PanelChooseSelected
  then show ?thesis using inv h
    by (auto simp: spw_handle_def intro!: preview_inv_keeps_channels
             dest!: on_window_Inr spw_choose_selected_if_any_Inr)
next
  case (PanelResize cs)
  obtain w' where w': "spw_on_resized lay cs (ps_window s) = Inr w'" and s': "s' = s\<lparr>ps_window := w'\<rparr>"
    using h PanelResize by (auto simp: spw_handle_def dest!: on_window_Inr)
  have "layout_ok lay" using inv by (simp add: preview_inv_def Let_def)
  then have f: "spw_same_channels (ps_window s) w'" "spw_client_size w' = cs"
    using spw_on_resized_Inr [OF _ _ w'] poss PanelResize by (simp_all add: panel_event_possible_def)
  show ?thesis unfolding s'
    using inv f poss PanelResize
    by (intro preview_inv_window_update)
       (auto simp: spw_same_channels_def preview_inv_def spw_window_ok_def Let_def panel_event_possible_def)
next
  case (PanelSingleClick p)
  then show ?thesis using inv h
    by (auto simp: spw_handle_def intro!: preview_inv_keeps_channels dest!: on_window_Inr spw_click_Inr [OF disjI1])
next
  case (PanelDoubleClick p)
  then show ?thesis using inv h
    by (auto simp: spw_handle_def intro!: preview_inv_keeps_channels dest!: on_window_Inr spw_click_Inr [OF disjI2])
next
  case PanelPollTimer
  have l: "layout_ok lay" and ok: "spw_window_ok lay (ps_window s)" using inv by (simp_all add: preview_inv_def Let_def)
  show ?thesis
  proof (cases "spw_timer_running (ps_window s)")
    case True
    obtain w' where "spw_on_poll_queue_timer lay (ps_window s) = Inr w'" and "spw_window_ok lay w'"
      and "msgs_count (length (spw_info_tiles w')) (spw_queue w') =
           msgs_count (length (spw_info_tiles (ps_window s))) (spw_queue (ps_window s))"
      and "spw_panel_to_thread w' = spw_panel_to_thread (ps_window s)"
      using spw_on_poll_queue_timer_Inr [OF l ok] by blast
    then show ?thesis using h True PanelPollTimer preview_inv_window_update [OF inv]
      by (auto simp: spw_handle_def on_window_def)
  next
    case False
    then show ?thesis using h inv PanelPollTimer by (simp add: spw_handle_def)
  qed
qed

lemma preview_inv_thread:
  assumes inv: "preview_inv lay s"
    and st: "preview_thread_step env (ps_thread s, ps_window s) = Some (t', w')"
  shows "preview_inv lay (s\<lparr>ps_thread := t', ps_window := w'\<rparr>)"
  using inv st
  by (auto simp: preview_thread_step_def preview_inv_def spw_window_ok_def Let_def
                 queue_thread_to_panel_message_def msgs_ok_append_one msg_tiles_def is_directory_request_def
           split: preview_thread_state.splits option.splits panel_to_thread_message.splits if_splits sum.splits)

lemma preview_inv_joined:
  assumes "preview_inv lay s" and "ps_closing s"
  shows "preview_inv lay (spw_on_close_joined s)"
  using assms by (auto simp: spw_on_close_joined_def preview_inv_def spw_window_ok_def Let_def msgs_count_def)

lemmas example_preview_run_simps =
  preview_system_create_def ship_preview_window_create_def example_preview_layout_def
  spw_handle_def spw_on_resized_def spw_recalculate_geometry_def truncate_int_def Let_def
  panel_event_possible_def spw_on_open_def on_window_def spw_set_directory_def example_dir_def
  preview_thread_step_def queue_thread_to_panel_message_def scan_ship_filepaths_def example_preview_env_def
  path_div_str_def path_div_def path_of_string_def path_extension_def path_filename_def
  extension_start_def last_dot_def spw_on_poll_queue_timer_def spw_process_message_def
  add_filename_search_strings_def sdiv_smod_nonneg numeral_eq_Suc
  quiescent_directory_changes_def set_directory_quiescent_def is_scanning_def

lemma run_preview_steps:
  "run_preview env lay allowed as s = Some s' \<Longrightarrow> (preview_step env lay allowed)\<^sup>*\<^sup>* s s'"
proof (induction env lay allowed as s rule: run_preview.induct)
  case (2 env lay allowed ev as s)
  then show ?case
    by (auto split: if_splits sum.splits intro: converse_rtranclp_into_rtranclp preview_step.panel)
next
  case (3 env lay allowed as s)
  then show ?case
    by (auto split: option.splits intro: converse_rtranclp_into_rtranclp preview_step.thread)
next
  case (4 env lay allowed as s)
  then show ?case
    by (auto split: if_splits intro: converse_rtranclp_into_rtranclp preview_step.joined)
qed simp



lemma preview_inv_step:
  assumes "preview_step env lay allowed s s'" and "preview_inv lay s"
    and "\<forall>s d. allowed s (PanelSetDirectory d) \<longrightarrow> set_directory_quiescent s"
  shows "preview_inv lay s'"
  using assms
  by (induction rule: preview_step.induct) (auto intro: preview_inv_panel preview_inv_thread preview_inv_joined)

lemma preview_inv_reachable:
  assumes "(preview_step env lay allowed)\<^sup>*\<^sup>* s s'" and "preview_inv lay s"
    and "\<forall>s d. allowed s (PanelSetDirectory d) \<longrightarrow> set_directory_quiescent s"
  shows "preview_inv lay s'"
  using assms by (induction rule: rtranclp_induct) (auto intro: preview_inv_step)

lemma preview_inv_resized:
  assumes "layout_ok lay" and "panel_event_possible lay (PanelResize cs)"
    and "spw_handle lay (PanelResize cs) preview_system_create = Inr s"
  shows "preview_inv lay s"
proof -
  obtain w' where r: "spw_on_resized lay cs ship_preview_window_create = Inr w'"
    and s: "s = preview_system_create\<lparr>ps_window := w'\<rparr>"
    using assms(3) by (auto simp: spw_handle_def preview_system_create_def dest!: on_window_Inr)
  have "spw_same_channels ship_preview_window_create w'" and "spw_client_size w' = cs"
    using spw_on_resized_Inr [OF assms(1) _ r] assms(2) by (simp_all add: panel_event_possible_def)
  then show ?thesis using assms(1,2) unfolding s
    by (simp add: preview_inv_def spw_window_ok_def preview_system_create_def spw_same_channels_def
                  ship_preview_window_create_def panel_event_possible_def is_directory_request_def msgs_count_def)
qed

text \<open>C34: From the window constructed and resized to a width its minimum size allows, in every interleaving of panel events and preview-thread steps in which the directory is changed only while the reply queue is empty and the thread is not scanning, OnPollQueueTimer neither fails an assertion nor raises: the queue holds a directory listing only when the panel has no tiles, and previews only for existing tiles.\<close>

theorem preview_poll_never_fails:
  assumes "layout_ok lay" and "panel_event_possible lay (PanelResize cs)"
    and "spw_handle lay (PanelResize cs) preview_system_create = Inr s0"
    and "\<forall>s d. allowed s (PanelSetDirectory d) \<longrightarrow> set_directory_quiescent s"
    and "(preview_step env lay allowed)\<^sup>*\<^sup>* s0 s"
  shows "\<exists>s'. spw_handle lay PanelPollTimer s = Inr s'"
proof -
  have "preview_inv lay s"
    using preview_inv_reachable [OF assms(5) preview_inv_resized [OF assms(1-3)] assms(4)] .
  then have "spw_window_ok lay (ps_window s)" by (simp add: preview_inv_def Let_def)
  then show ?thesis
    using spw_on_poll_queue_timer_Inr [OF assms(1)] by (fastforce simp: spw_handle_def on_window_def)
qed

theorem preview_poll_never_fails_witness:
  "\<exists>s s'. run_preview example_preview_env example_preview_layout quiescent_directory_changes
             [ActPanel PanelOpen, ActPanel (PanelSetDirectory (example_dir ''a'')),
              ActThread, ActThread, ActThread] example_resized_system = Some s \<and>
           spw_handle example_preview_layout PanelPollTimer s = Inr s'"
proof -
  have l: "layout_ok example_preview_layout" by (simp add: layout_ok_def example_preview_layout_def)
  have p: "panel_event_possible example_preview_layout (PanelResize (300, 400))"
    by (simp add: panel_event_possible_def example_preview_layout_def)
  have r: "spw_handle example_preview_layout (PanelResize (300, 400)) preview_system_create = Inr example_resized_system"
    by (simp add: example_preview_run_simps example_resized_system_def)
  have q: "\<forall>s d. quiescent_directory_changes s (PanelSetDirectory d) \<longrightarrow> set_directory_quiescent s"
    by (simp add: quiescent_directory_changes_def)
  obtain s where run: "run_preview example_preview_env example_preview_layout quiescent_directory_changes
             [ActPanel PanelOpen, ActPanel (PanelSetDirectory (example_dir ''a'')),
              ActThread, ActThread, ActThread] example_resized_system = Some s"
    by (simp add: example_preview_run_simps example_resized_system_def)
  show ?thesis
    using run preview_poll_never_fails [OF l p r q run_preview_steps [OF run]] by blast
qed

lemma int_div_between:
  fixes x b k :: int
  assumes "0 < b" and "k * b \<le> x" and "x < k * b + b"
  shows "x div b = k"
proof -
  have "x div b = ((x - k * b) + k * b) div b" by simp
  also have "\<dots> = k + (x - k * b) div b" using div_mult_self1 [of b "x - k * b" k] assms(1) by simp
  also have "(x - k * b) div b = 0" using assms by (intro div_pos_pos_trivial) simp_all
  finally show ?thesis by simp
qed

lemma map_mouse_position_to_info_tile_inverts_geometry:
  assumes "layout_ok lay" and "pl_panel_width_min lay \<le> fst cs"
    and "spw_recalculate_geometry lay cs n w = Inr w'"
    and "i < length (spw_info_tiles w')" and "length (spw_info_tiles w') < 2 ^ 64"
    and "rect_contains_point (it_rect_virtual (spw_info_tiles w' ! i))
           (fst p, snd p + spw_scroll_y w' * spw_scroll_rate_y)"
  shows "map_mouse_position_to_info_tile lay w' p = Inr i"
proof -
  obtain w'' where r: "spw_recalculate_geometry lay cs n w = Inr w''" and f: "spw_same_channels w w''"
    and c1: "1 \<le> spw_cols w''" and cw: "pl_info_tile_width lay \<le> spw_column_width w''"
    and ts: "spw_info_tiles w'' = map (\<lambda>(i, t). place_tile lay (spw_cols w'') (spw_column_width w'') i t)
                                 (zip [0..<length (spw_info_tiles w)] (spw_info_tiles w))"
    using spw_recalculate_geometry_Inr [OF assms(1,2)] by blast
  have w'': "w'' = w'" using r assms(3) by simp
  define cols where "cols = spw_cols w'"
  define cwd where "cwd = spw_column_width w'"
  define rh where "rh = pl_row_height lay"
  have pos: "0 < cols" "0 < cwd" "0 < rh"
    using c1 cw assms(1) by (simp_all add: w'' cols_def cwd_def rh_def layout_ok_def)
  have il: "i < length (spw_info_tiles w)" using assms(4) ts by (simp add: w'')
  have t: "it_rect_virtual (spw_info_tiles w' ! i) =
           \<lparr>rect_x = (int i mod cols) * cwd, rect_y = (int i div cols) * rh, rect_w = cwd, rect_h = rh\<rparr>"
    using ts il pos by (simp add: w'' place_tile_def Let_def sdiv_smod_nonneg cols_def cwd_def rh_def)
  define vy where "vy = snd p + spw_scroll_y w' * spw_scroll_rate_y"
  have x: "fst p div cwd = int i mod cols"
    using assms(6) pos by (intro int_div_between) (simp_all add: t rect_contains_point_def algebra_simps)
  have y: "vy div rh = int i div cols"
    using assms(6) pos by (intro int_div_between) (simp_all add: t rect_contains_point_def vy_def algebra_simps)
  have "0 \<le> int i mod cols * cwd" and "0 \<le> int i div cols * rh"
    using pos by (simp_all add: pos_imp_zdiv_nonneg_iff)
  then have nn: "0 \<le> fst p" "0 \<le> vy"
    using assms(6) by (simp_all add: t rect_contains_point_def vy_def)
  have "int i mod cols + int i div cols * cols = int i" by simp
  moreover have "size_t_of_int (int i) = i"
    using assms(4,5) by (simp add: size_t_of_int_def)
  ultimately show ?thesis
    using pos nn x y
    by (simp add: map_mouse_position_to_info_tile_def Let_def sdiv_smod_nonneg cols_def cwd_def rh_def vy_def)
qed

lemma search_order_rotate:
  "search_order w = rotate ((case spw_selected w of Some k \<Rightarrow> k + 1 | None \<Rightarrow> 0) mod length (spw_info_tiles w))
                            [0..<length (spw_info_tiles w)]"
proof (rule nth_equalityI)
  fix i assume "i < length (search_order w)"
  then have i: "i < length (spw_info_tiles w)" by (simp add: search_order_def Let_def)
  then have "0 < length (spw_info_tiles w)" by linarith
  then show "search_order w ! i = rotate ((case spw_selected w of Some k \<Rightarrow> k + 1 | None \<Rightarrow> 0) mod length (spw_info_tiles w))
                            [0..<length (spw_info_tiles w)] ! i"
    using i by (simp add: search_order_def Let_def nth_rotate mod_add_right_eq add.commute)
qed (simp add: search_order_def Let_def)

lemma set_search_order [simp]: "set (search_order w) = {..<length (spw_info_tiles w)}"
  by (simp add: search_order_rotate atLeast0LessThan)

lemma length_search_order [simp]: "length (search_order w) = length (spw_info_tiles w)"
  by (simp add: search_order_def Let_def)

lemma spw_search_circular_first:
  assumes "spw_search name w = Inr (b, w')"
  shows "b \<longleftrightarrow> (\<exists>i<length (spw_info_tiles w). tile_matches (to_lower name) (spw_info_tiles w ! i))"
    and "b \<Longrightarrow> \<exists>k<length (spw_info_tiles w).
             spw_selected w' = Some (search_order w ! k) \<and>
             tile_matches (to_lower name) (spw_info_tiles w ! (search_order w ! k)) \<and>
             (\<forall>j<k. \<not> tile_matches (to_lower name) (spw_info_tiles w ! (search_order w ! j)))"
    and "\<not> b \<Longrightarrow> w' = w"
  using assms
  by (auto simp: spw_search_def Let_def find_Some_iff find_None_iff
           split: if_splits option.splits sum.splits dest!: spw_select_Inr)

lemma right_margin_click_selects_next_row:
  "\<exists>w'. spw_recalculate_geometry example_preview_layout (470, 400) 4 example_four_tiles = Inr w' \<and>
        map_mouse_position_to_info_tile example_preview_layout w' (469, 10) = Inr 3 \<and>
        rect_y (it_rect_virtual (spw_info_tiles w' ! 3)) = 200"
  by (simp add: example_four_tiles_def ship_preview_window_create_def example_preview_layout_def
        spw_recalculate_geometry_def truncate_int_def Let_def sdiv_smod_nonneg place_tile_def
        map_mouse_position_to_info_tile_def spw_scroll_rate_y_def size_t_of_int_def numeral_eq_Suc)

lemma preview_description2_example:
  "preview_description2 \<lparr>sp_metadata = \<lparr>pm_ship_name = ''S'', pm_author = Some ''Bob'', pm_year_built = None\<rparr>,
                         sp_original_width = 10\<rparr> = ''10m/33ft - by Bob''"
  by (simp add: preview_description2_def int_to_string_def c_round_def)

end
