(* ===== verification/Spec2Isabelle.thy ===== *)
theory Spec2Isabelle
  imports EphemeralPool Combustion Ocean GameController SceneRender ShipRender RenderSettings TextLayer OceanFloor ResourceLoader ShipBuilder Tools LegacyRenderContext RenderCore ShipPreviewWindow
begin

text \<open>
  \<^bold>\<open>Floating Sandbox: the particle store, combustion, the ocean surface, the game
  controller, the render contexts, the text layer, the ocean floor, the resource loader,
  the ship builder's helpers and the tools.\<close>

  Floating Sandbox simulates ships as particles (points) joined by springs, floating on a
  two-dimensional ocean.  A ship's points live in the structure-of-arrays store
  \<^verbatim>\<open>Points\<close> (\<^verbatim>\<open>src/Game/Points.cpp\<close>).  Its first
  \<^verbatim>\<open>mShipPointCount\<close> slots are the ship's points.  The slots after them, up to
  \<^verbatim>\<open>mAllPointCount\<close>, are a pool of ephemeral particles (air bubbles, debris,
  sparkles).  Each simulation step the ship updates the store's combustion twice: a
  high-frequency pass over the burning points and a low-frequency, strided pass that
  ignites and consumes points.  It also advances the ephemeral particles.
  \<^verbatim>\<open>GameController\<close> drives the step, and the render context draws the result.

  \<^bold>\<open>Theories.\<close>
  \<^item> \<open>Prelude\<close>: the model's type names, the vector operations of
    \<^verbatim>\<open>Vectors.h\<close> on pairs of reals, the collections \<open>buffer_simps\<close> and
    \<open>state_machine_simps\<close>, and generic list lemmas.
  \<^item> \<open>PointStore\<close>: the record \<open>points\<close> (every buffer of the class, plus the
    search start of the pool, \<^verbatim>\<open>mBurningPoints\<close> and the events the store sends
    to \<^verbatim>\<open>IGameEventHandler\<close>), the well-formedness \<open>points_wf\<close> (all per-point
    buffers have the populated size), and the operations \<^verbatim>\<open>Add\<close>
    (\<open>add_point\<close>), \<^verbatim>\<open>Detach\<close>, \<^verbatim>\<open>OnOrphaned\<close>,
    \<^verbatim>\<open>UpdateForGameParameters\<close>, \<^verbatim>\<open>AugmentMaterialMass\<close> and
    \<^verbatim>\<open>UpdateMasses\<close>.  The lemmas show that \<open>add_point\<close> and
    \<open>update_masses\<close> keep \<open>points_wf\<close>, what the new point holds, the mass
    after an augmentation, and the bounds of re-randomised intaken water.
  \<^item> \<open>EphemeralPool\<close>: \<^verbatim>\<open>FindFreeEphemeralParticle\<close> as the
    \<^theory_text>\<open>partial_function (option)\<close> \<open>find_free_scan\<close>, the three
    \<^verbatim>\<open>CreateEphemeralParticle*\<close>, \<^verbatim>\<open>DestroyEphemeralParticle\<close> and
    \<^verbatim>\<open>UpdateEphemeralParticles\<close>.  The scan is proved equal to a fold
    (\<open>scan_list\<close>) over the explicit wrap-around order \<open>rotation\<close>.  From that
    follow termination under the pool invariant \<open>pool_inv\<close>, the first free slot,
    stealing the oldest particle, the error result without \<open>force\<close>, preservation of
    \<open>pool_inv\<close>, and the wrap-around of \<^verbatim>\<open>NoneElementIndex + 1\<close> when every
    start time lies in the future.
  \<^item> \<open>Combustion\<close>: the flame state machine \<open>flame_step\<close> and its run
    \<open>flame_run\<close>.  The high-frequency pass \<open>update_combustion_high_frequency\<close> is
    modelled on the vector's storage (\<open>combustion_hf_loop\<close>, \<open>erase_in_storage\<close>)
    and compared with the reference \<open>combustion_hf_reference\<close>, which processes each
    burning point once.  The low-frequency pass \<open>update_combustion_low_frequency\<close>
    comes with its strided loop \<open>stride_indices\<close> and ignition (\<open>ignite_point\<close>,
    \<open>std::lower_bound\<close> as \<open>lower_bound\<close>, proved equal to \<open>insort_plane\<close>).
    The invariant \<open>combustion_inv\<close> of \<^verbatim>\<open>mBurningPoints\<close> says the list is
    distinct, sorted by plane id, and holds exactly the ship points that are not
    \<open>NotBurning\<close>.  The low-frequency pass keeps it and keeps the combustion cap.
    The high-frequency pass agrees with the reference when nothing finishes.  On a
    concrete store it skips a point, a code bug.
  \<^item> \<open>Ocean\<close>: \<^verbatim>\<open>src/Game/OceanSurface.cpp\<close>.  The record \<open>ocean_surface\<close>
    holds the shallow-water height and velocity buffers (current and next), the render
    samples, the external wave (\<^verbatim>\<open>SWEWaveStateMachine\<close> as \<open>swe_wave\<close>) and the
    wind's running average.  \<open>ocean_update\<close> is \<^verbatim>\<open>Update\<close>: the external wave
    (\<open>apply_external_wave\<close>), the step \<open>swe_step\<close> (advection, height and velocity
    updates, reflective boundary, buffer swap), and the render samples
    (\<open>generate_samples\<close>).  \<open>ocean_adjust_to\<close> and \<open>ocean_upload\<close> are
    \<^verbatim>\<open>AdjustTo\<close> and \<^verbatim>\<open>Upload\<close>.  The lemmas show that \<open>ocean_wf\<close> is kept and the
    boundary mirrors its neighbours, that the ocean at rest is a fixed point, the bounds
    of the wave's height and of the back-trace, the end of a released wave, the error of
    a release without a wave, and the cell a wave is written to (a code bug).
  \<^item> \<open>GameController\<close>: \<^verbatim>\<open>src/Game/GameController.cpp\<close>.  The record
    \<open>game_controller\<close> holds the controller's fields, the two clocks as sequences of
    readings and the log of calls to the render context, the dispatcher and the status
    text.  The world, the view model, the smoothers, the state machines and the ship
    loader are the interface \<open>gc_env\<close>, over type variables for the world, the render
    context and the state machines.  Every method is a definition: ship loading with
    its exceptions as \<open>Inl\<close>, \<open>run_game_iteration\<close>, \<open>low_frequency_update\<close>,
    \<open>internal_update\<close>, \<open>internal_render\<close>, \<open>smooth_to_target\<close>, the tools and the
    camera and zoom controls.  The lemmas show that a paused iteration leaves the
    simulation alone (unlike the spec's pause), that one smoothing step moves toward the
    target without overshooting it, that a coordinate already on its target leaves it and
    never comes back (a code bug when the camera's x and y read different clock values),
    and that \<^verbatim>\<open>ReloadLastShip\<close> after a load reproduces the loaded world.
  \<^item> \<open>SceneRender\<close>: the scene buffers of \<^verbatim>\<open>src/Game/RenderContext.h\<close> and
    \<^verbatim>\<open>.cpp\<close> in the record \<open>scene_render_context\<close>.  \<^verbatim>\<open>BoundedVector\<close> and
    the mapped GPU buffers are \<open>bounded_buffer\<close>, whose \<open>bounded_emplace_back\<close> is
    \<open>None\<close> past the reserved size (the assertion).  Every
    \<^verbatim>\<open>Upload*Start\<close>, \<^verbatim>\<open>Upload*\<close> and \<^verbatim>\<open>Upload*End\<close> of stars, clouds,
    land and ocean is a definition, with \<^verbatim>\<open>RenderStart\<close>, \<^verbatim>\<open>Reset\<close>,
    \<^verbatim>\<open>ValidateShip\<close>, \<^verbatim>\<open>AddShip\<close>, the crosses of light, the heat blaster
    flame and the fire extinguisher spray.  \<open>ocean_surface_upload\<close> composes
    \<^verbatim>\<open>OceanSurface::Upload\<close> with these calls; the refinement lemma
    \<open>ocean_surface_upload_fills_buffer\<close> shows that the render context receives exactly
    the ocean's vertices and that the buffer never overflows, with the \<^verbatim>\<open>size_t\<close>
    count written out.  \<open>upload_stars_overflow\<close> is the error path of the star buffer.
  \<^item> \<open>ShipRender\<close>: the \<^verbatim>\<open>Upload*\<close> functions of \<^verbatim>\<open>Points.cpp\<close> produce
    lists of \<open>ship_render_call\<close>s, the calls a ship makes on the render context.
    \<open>render_ship_call\<close> checks the ship id as the per-ship functions of
    \<^verbatim>\<open>RenderContext.h\<close> do, and \<open>ship_render_step\<close> applies a call to the
    buffers of \<^verbatim>\<open>ShipRenderContext.cpp\<close> (record \<open>ship_render_context\<close>).  The
    lemmas show that \<^verbatim>\<open>UploadAttributes\<close> refines the abstract dirty-range upload
    \<open>dirty_merge\<close> and that its calls stay in range.  They also show that flames arrive
    in plane-id order and that the ephemeral element buffer holds exactly the debris.
  \<^item> \<open>RenderSettings\<close>: the settings of the render context (record
    \<open>settings_context\<close>), every setter of \<^verbatim>\<open>RenderContext.h\<close> with its
    \<^verbatim>\<open>On*Updated\<close> handler, \<^verbatim>\<open>UpdateWorldBorder\<close>, \<^verbatim>\<open>CalculateWaterColor\<close>,
    the settings part of the constructor and of \<^verbatim>\<open>AddShip\<close>, and the parameter
    handlers of \<^verbatim>\<open>ShipRenderContext.cpp\<close>.  The shader manager, which the render
    context and all ships share, is an explicit store \<open>shader_state\<close>.  The setters
    form the interface \<open>render_setting\<close> with the step \<open>apply_render_setting\<close>.
    The reachable contexts are the inductive \<open>settings_reachable\<close>.  Rule induction
    shows the invariant \<open>ships_agree\<close>: every ship holds the parameters the render
    context last forwarded.  Further lemmas bound the world border and the water colour
    (\<^typ>\<open>8 word\<close> colour bytes), give the \<^verbatim>\<open>size_t\<close> error of an empty
    texture list, and show that the texture handlers settle and what the constructor
    loads.
  \<^item> \<open>TextLayer\<close>: \<^verbatim>\<open>src/Game/TextLayer.cpp\<close>.  The record \<open>text_layer\<close>
    holds the three status lines, the ephemeral lines and the \<^verbatim>\<open>TextRenderContext\<close>,
    modelled as an explicit store of rendered lines (\<open>text_render_context\<close>).  The
    ephemeral lines follow the state machine \<open>ephemeral_line_step\<close>, and
    \<open>text_layer_run\<close> is a sequence of frames.  The lemmas show that the trimming loop
    equals a \<open>drop\<close>, which status lines \<^verbatim>\<open>Update\<close> shows, that a new line
    disappears after five updates, and the game-time split with C++'s truncating
    division (\<open>sdiv\<close>).  They also show that an erased line's rendered text is never
    cleared (a code bug).  In this revision \<^verbatim>\<open>GameController\<close> uses \<^verbatim>\<open>StatusText\<close>
    rather than \<^verbatim>\<open>TextLayer\<close>, so the two theories do not meet.
  \<^item> \<open>OceanFloor\<close>: \<^verbatim>\<open>src/GameLib/OceanFloor.cpp\<close>.  \<^verbatim>\<open>Update\<close>'s sample
    loop \<open>fill_samples\<close> is proved equal to sampling the floor function at multiples
    of \<^verbatim>\<open>Dx\<close>, and the samples are bounded.  \<^verbatim>\<open>Update\<close> is idempotent.  A sea
    depth equal to the initial \<^verbatim>\<open>lowest()\<close> would leave the floor unfilled.
  \<^item> \<open>ResourceLoader\<close>: \<^verbatim>\<open>src/GameLib/ResourceLoader.cpp\<close>.  Paths are the
    record \<open>fs_path\<close> with the parts of \<^verbatim>\<open>std::filesystem::path\<close> the loader uses
    (\<open>path_div\<close>, \<open>path_stem\<close>, \<open>path_extension\<close>, \<open>path_absolute\<close>
    against an explicit current directory).  Directory listings are list arguments.
    DevIL is the interface \<open>il_env\<close>; its state \<open>il_state\<close> counts the images
    generated and not deleted and records the files saved.  Every method is a definition:
    the path getters, \<^verbatim>\<open>GetSoundNames\<close>, \<^verbatim>\<open>LoadFonts\<close>,
    \<^verbatim>\<open>GetImageSize\<close>, \<^verbatim>\<open>LoadImage\<close> (\<open>load_image\<close>),
    \<^verbatim>\<open>SaveImage\<close> and \<^verbatim>\<open>LoadShipDefinition\<close>, whose exceptions are
    \<open>Inl\<close> messages propagated by \<open>il_bind\<close>.  The halving loop of the texture
    factor is the \<^theory_text>\<open>function\<close> \<open>texture_resize\<close> with a measure.  The
    lemmas bound that factor, show that a failed \<^verbatim>\<open>LoadImage\<close> leaks exactly one
    DevIL image (a code bug) and a ship load at most one, and that printing and parsing
    a path, and listing and naming a sound file, are round trips.
  \<^item> \<open>ShipBuilder\<close>: the code of \<^verbatim>\<open>src/Game/ShipBuilder.h\<close> (the
    intermediate point, rope, spring and triangle infos, \<^verbatim>\<open>Edge\<close> with its 32-bit
    hash, \<^verbatim>\<open>IsConnectedToNonRopePoints\<close> over \<open>PointStore\<close>,
    \<^verbatim>\<open>MakeTextureCoordinates\<close> and the vertex-cache data).  The lemmas show that
    a rope segment takes exactly two endpoints, that edges are unordered pairs, and that
    texture coordinates are texel centres that map back to their pixel.
  \<^item> \<open>Tools\<close>: \<^verbatim>\<open>src/FloatingSandbox/Tools.cpp\<close>.  Each constructor is a
    \<open>tool_descriptor\<close> (type, base class, cursors); \<^verbatim>\<open>MakeCursors\<close> paints the
    power steps of one shared image (\<open>make_power_cursors\<close>);
    \<^verbatim>\<open>ContinuousTool::Update\<close> (\<open>continuous_tool_update\<close>) accumulates the
    time the mouse stays still and calls the smash, grab or swirl \<^verbatim>\<open>ApplyTool\<close>,
    which call \<open>destroy_at\<close>, \<open>draw_to\<close> and \<open>swirl_at\<close> of
    \<open>GameController\<close> on cursor files named by \<open>get_cursor_filepath\<close> of
    \<open>ResourceLoader\<close>.  The lemmas give every pixel of every power-step cursor, the
    accumulated time of a held tool, the strength bounds, and the swirl tool's
    \<^verbatim>\<open>ToolType::Grab\<close> (a code bug).
  \<^item> \<open>LegacyRenderContext\<close>: the earlier render context kept in
    \<^verbatim>\<open>src/GameLib/RenderContext.h\<close>, whose \<^verbatim>\<open>.cpp\<close> is not in the repository.
    Its inline setters log the private updates they trigger, \<^verbatim>\<open>RenderCloud\<close> and
    \<^verbatim>\<open>UploadLandAndWater\<close> fill the \<open>bounded_buffer\<close>s of \<open>SceneRender\<close>,
    and every per-ship call goes through \<open>lrc_ship_call\<close>, the \<^verbatim>\<open>int\<close>-to-
    \<^verbatim>\<open>size_t\<close> assertion on the ship id.  The lemmas show which ship ids succeed
    (negative ones wrap and fail), that screen coordinates map to the camera plus an
    offset, that water never covers land, and that clouds repeat with the \<open>3 \<times> 2\<close>
    virtual view (\<open>roll\<close> as a floor-based remainder).
  \<^item> \<open>RenderCore\<close>: the name conversions of \<^verbatim>\<open>src/Game/RenderCore.cpp\<close>
    (\<^verbatim>\<open>ShaderFilenameToProgramType\<close>, \<^verbatim>\<open>ProgramTypeToStr\<close>,
    \<^verbatim>\<open>StrToProgramParameterType\<close>, \<^verbatim>\<open>ProgramParameterTypeToStr\<close>,
    \<^verbatim>\<open>StrToVertexAttributeType\<close>) as if-chains over the enumerations of
    \<^verbatim>\<open>RenderCore.h\<close>, with \<^verbatim>\<open>Utils::ToLower\<close> as \<open>to_lower\<close>.  The lemmas show
    that parameter names round-trip, that shader file and vertex attribute names are
    recognised in any case, the message of an unknown name, and that the
    \<^verbatim>\<open>rain\<close> shader that \<^verbatim>\<open>RenderContext.cpp\<close> uses is not recognised by this
    revision.
  \<^item> \<open>ShipPreviewWindow\<close>: \<^verbatim>\<open>src/FloatingSandbox/ShipPreviewWindow.cpp\<close>.  The
    record \<open>ship_preview_window\<close> holds the window's members; every handler
    (\<^verbatim>\<open>OnOpen\<close>, \<^verbatim>\<open>OnClose\<close>, \<^verbatim>\<open>SetDirectory\<close>, \<^verbatim>\<open>Search\<close>, the mouse and
    resize handlers, \<^verbatim>\<open>OnPollQueueTimer\<close> with its ten-message loop, \<^verbatim>\<open>Select\<close>,
    \<^verbatim>\<open>Choose\<close>, \<^verbatim>\<open>RecalculateGeometry\<close>) is a function returning \<open>spw_error + _\<close>,
    the preview thread (\<^verbatim>\<open>RunPreviewThread\<close>, \<^verbatim>\<open>ScanDirectory\<close>) is the state
    machine \<open>preview_thread_step\<close>, and the two threads interleave through the
    inductive relation \<open>preview_step\<close>, in which \<^verbatim>\<open>OnClose\<close> blocks in \<open>join\<close> until
    the thread has ended.  The invariant \<open>preview_inv\<close> (a well-formed reply queue)
    holds in every run whose directory changes happen while the panel is idle, so
    the poll never fails an assertion there; the executable schedule \<open>run_preview\<close>
    exhibits a run that changes directory during a scan and makes the poll fail
    \<^verbatim>\<open>assert(mInfoTiles.empty())\<close> (a code bug).  Further lemmas: a click inside a
    tile's rectangle maps back to that tile, a click in the right margin selects a
    tile of the next row, and \<^verbatim>\<open>Search\<close> selects the first matching tile in circular
    order after the selection.

  \<^bold>\<open>Correspondence.\<close>
  Single-precision floats are reals: rounding is not modelled, except where the model
  shows it exact (the cursor colour bytes, the power heights).  Clock readings are
  arguments: a sequence of readings in the game controller, the simulation time in the
  ocean.  Indices are natural
  numbers, and \<^verbatim>\<open>NoneElementIndex\<close> is \<open>2^32 - 1\<close> with its 32-bit successor
  written out where the code computes it.  Random draws (\<^verbatim>\<open>GameRandomEngine\<close>),
  the ocean surface height, the sine table, \<^verbatim>\<open>IsUnderwater\<close> and the handlers
  the ship installs (detach, destroy, \<^verbatim>\<open>Springs::UpdateForMass\<close>) are arguments
  of the operations.  Calls to the game event handler append to \<open>events\<close>.
  \<^verbatim>\<open>std::nth_element\<close> is taken as a stable sort by decreasing key, one of the
  orders it may produce.

  \<^bold>\<open>Loops that may not end.\<close>
  The scan of \<^verbatim>\<open>FindFreeEphemeralParticle\<close> stops only when it returns to its start.
  The strided loop of \<^verbatim>\<open>UpdateCombustionLowFrequency\<close> does not stop when the stride
  is 0.  Both are \<^theory_text>\<open>partial_function (option)\<close>, where \<open>None\<close> is "does not
  return".  The theorems prove that they return (\<open>find_free_ephemeral_particle_returns\<close>,
  \<open>stride_indices_returns_iff\<close>) and that the second never does for stride 0 inside
  the range.  No fuel is used.

  \<^bold>\<open>Not modelled.\<close>
  The rest of the repository is not modelled:
  \<^item> \<^verbatim>\<open>Points::Query\<close>, which only logs;
  \<^item> \<^verbatim>\<open>GameController::Create\<close> and \<^verbatim>\<open>TakeScreenshot\<close>, which only build or
    call the collaborators;
  \<^item> the building steps of the ship builder, declared in
    \<^verbatim>\<open>ShipBuilder.h\<close> but implemented in \<^verbatim>\<open>ShipBuilder.cpp\<close>, outside
    \<^verbatim>\<open>src/\<close>; the \<^verbatim>\<open>.cpp\<close> of \<^verbatim>\<open>GameLib/RenderContext.h\<close>; the JSON parser, \<^verbatim>\<open>ShipDefinitionFile\<close>, the texture and
    material databases and \<^verbatim>\<open>Font::Load\<close>, which the resource loader calls and
    which are arguments;
  \<^item> the \<^verbatim>\<open>Render*\<close> functions of the render contexts, the lightning and rain
    uploads and the texture atlas loading, which issue OpenGL state and draw
    calls only, and the shader compilation of \<^verbatim>\<open>ShaderManager\<close>, outside
    \<^verbatim>\<open>src/\<close>;
  \<^item> the wxWidgets panels and dialogs (preferences, switchboard, electrical
    element controls), which the spec puts out of scope; of the user interface only
    \<^verbatim>\<open>Tools.cpp\<close> and \<^verbatim>\<open>ShipPreviewWindow.cpp\<close> (without its drawing code) are
    modelled, the tools with \<^verbatim>\<open>Tools.h\<close>
    (\<^verbatim>\<open>ToolType\<close>, \<^verbatim>\<open>ModulateCursor\<close>) taken from the constructors' uses.
  Springs, triangles, the mechanical solver, the world, the view model, the shader
  manager and the texture atlases live outside \<^verbatim>\<open>src/\<close>.  Only their interfaces
  appear, as arguments or as the records \<open>view_model\<close> and \<open>shader_state\<close>.
  \<^verbatim>\<open>RenderContext.h\<close> and \<^verbatim>\<open>RenderContext.cpp\<close> come from different
  revisions (cloud buffers, \<^verbatim>\<open>AddShip\<close>'s arguments, the ambient light
  handler).  Where they disagree, the model takes the side the theory's text names.
\<close>

end
